(* ===== verification/CPrelude.thy ===== *)
theory CPrelude
  imports Main "HOL-Library.Word" "HOL-Library.Monad_Syntax"
begin

text \<open>
  Shared vocabulary of the development: the fixed-width integers of the C sources, the byte
  buffers the packet code works on, and the generic lemmas the component theories use.

  The programs are built by their Makefiles with gcc for x86-64 Linux, so a host integer is
  stored with its least significant byte first and \<open>htons\<close> exchanges the two bytes of a
  16-bit value.
  A pointer into a buffer is an offset into a list of bytes; an access outside the buffer is
  undefined in C and is \<open>None\<close> here.
\<close>

unbundle bit_operations_syntax

type_synonym u8 = "8 word"
type_synonym u16 = "16 word"
type_synonym u32 = "32 word"
type_synonym u64 = "64 word"
type_synonym bytes = "8 word list"

named_theorems c_layout \<open>offsets and sizes of the packed structures\<close>
named_theorems buffer_simps \<open>loads and stores on byte buffers\<close>

subsection \<open>Conversions between integer types\<close>

text \<open>The value of a C \<open>int\<close> condition, and of a comparison.\<close>

definition c_bool :: "bool \<Rightarrow> int" where
  "c_bool b = (if b then 1 else 0)"

lemma c_bool_nonzero [simp]: "c_bool b \<noteq> 0 \<longleftrightarrow> b" "c_bool b = 0 \<longleftrightarrow> \<not> b"
  by (simp_all add: c_bool_def)

text \<open>Conversion of an integer to the 32-bit \<open>int\<close>, which gcc does modulo two to the width.\<close>

definition to_int32 :: "int \<Rightarrow> int" where
  "to_int32 n = sint (word_of_int n :: 32 word)"

subsection \<open>Sixteen-bit values and byte order\<close>

definition bswap16 :: "u16 \<Rightarrow> u16" where
  "bswap16 x = push_bit 8 x OR drop_bit 8 x"

abbreviation (input) htons :: "u16 \<Rightarrow> u16" where
  "htons \<equiv> bswap16"

abbreviation (input) ntohs :: "u16 \<Rightarrow> u16" where
  "ntohs \<equiv> bswap16"

text \<open>The two bytes a 16-bit store writes on a little-endian host, and the value a load reads.\<close>

definition le16 :: "u16 \<Rightarrow> bytes" where
  "le16 x = [ucast x, ucast (drop_bit 8 x)]"

definition of_le16 :: "u8 \<Rightarrow> u8 \<Rightarrow> u16" where
  "of_le16 a b = ucast a OR push_bit 8 (ucast b)"

lemma unat_or_disjoint:
  fixes x y :: "'a::len word"
  assumes "x AND y = 0"
  shows "unat (x OR y) = unat x + unat y"
proof -
  have "unat x AND unat y = unat (x AND y)"
    by (simp add: unsigned_and_eq)
  then have "unat x AND unat y = 0"
    using assms by simp
  then have "unat x + unat y = unat x OR unat y"
    by (rule disjunctive_add_eq_or)
  then show ?thesis
    by (simp add: unsigned_or_eq)
qed

lemma unat_not: "unat (NOT x) = 2 ^ LENGTH('a) - 1 - unat x" for x :: "'a::len word"
proof -
  have "unat x + unat (NOT x) = unat (x OR NOT x)"
    by (rule unat_or_disjoint [symmetric]) simp
  also have "\<dots> = 2 ^ LENGTH('a) - 1"
    by (simp add: unsigned_minus_1_eq_mask mask_eq_exp_minus_1)
  finally show ?thesis
    by simp
qed

lemma word_eq_of_natI: "unat w = n \<Longrightarrow> w = of_nat n" for w :: "'a::len word"
  by (metis of_nat_unat ucast_id)

lemma unat_u8_less [simp]: "unat (a :: u8) < 256"
  using unsigned_less [of a, where ?'a = nat] by simp

lemma unat_u16_less [simp]: "unat (a :: u16) < 65536"
  using unsigned_less [of a, where ?'a = nat] by simp

lemma unat_u32_less [simp]: "unat (a :: u32) < 4294967296"
  using unsigned_less [of a, where ?'a = nat] by simp

lemma unat_ucast_up [simp]:
  fixes x :: "'a::len word"
  assumes "LENGTH('a) \<le> LENGTH('b::len)"
  shows "unat (ucast x :: 'b word) = unat x"
proof -
  have "unat x < 2 ^ LENGTH('a)"
    by (rule unsigned_less)
  also have "(2::nat) ^ LENGTH('a) \<le> 2 ^ LENGTH('b)"
    using assms by (rule power_increasing) simp
  finally show ?thesis
    by (simp add: unsigned_ucast_eq take_bit_nat_eq_self_iff)
qed

lemma unat_bswap16: "unat (bswap16 x) = 256 * (unat x mod 256) + unat x div 256"
proof -
  have "push_bit 8 x AND drop_bit 8 x = 0"
    by (rule bit_word_eqI) (auto simp: bit_simps dest: bit_imp_le_length)
  then have "unat (bswap16 x) = unat (push_bit 8 x) + unat (drop_bit 8 x)"
    by (simp add: bswap16_def unat_or_disjoint)
  moreover have "unat (push_bit 8 x) = 256 * (unat x mod 256)"
    using mult_mod_right [of 256 "unat x" 256]
    by (simp only: unsigned_push_bit_eq)
      (simp add: push_bit_eq_mult take_bit_eq_mod mult.commute)
  moreover have "unat (drop_bit 8 x) = unat x div 256"
    by (simp only: unsigned_drop_bit_eq) (simp add: drop_bit_eq_div take_bit_eq_mod)
  ultimately show ?thesis
    by simp
qed

lemma unat_of_le16: "unat (of_le16 a b) = unat a + 256 * unat b"
proof -
  have "(ucast a :: u16) AND push_bit 8 (ucast b) = 0"
    by (rule bit_word_eqI) (auto simp: bit_simps dest: bit_imp_le_length)
  then have "unat (of_le16 a b) = unat a + unat (push_bit 8 (ucast b :: u16))"
    by (simp only: of_le16_def unat_or_disjoint) simp
  moreover have "unat (push_bit 8 (ucast b :: u16)) = 256 * unat b"
    by (simp only: unsigned_push_bit_eq)
      (simp add: push_bit_eq_mult take_bit_eq_mod mult.commute)
  ultimately show ?thesis
    by simp
qed

lemma of_le16_le16: "of_le16 (ucast w) (ucast (drop_bit 8 w)) = w"
proof -
  have eight: "8 + (n - 8) = n" if "8 \<le> n" for n :: nat
    using that by simp
  show ?thesis
    by (rule bit_word_eqI) (auto simp: of_le16_def bit_simps not_less eight)
qed

lemma length_le16 [simp]: "length (le16 x) = 2"
  by (simp add: le16_def)

subsection \<open>Byte buffers\<close>

definition load8 :: "bytes \<Rightarrow> nat \<Rightarrow> u8 option" where
  "load8 m i = (if i < length m then Some (m ! i) else None)"

definition load_bytes :: "bytes \<Rightarrow> nat \<Rightarrow> nat \<Rightarrow> bytes option" where
  "load_bytes m i n = (if i + n \<le> length m then Some (take n (drop i m)) else None)"

definition store_bytes :: "bytes \<Rightarrow> nat \<Rightarrow> bytes \<Rightarrow> bytes option" where
  "store_bytes m i bs =
     (if i + length bs \<le> length m then Some (take i m @ bs @ drop (i + length bs) m) else None)"

abbreviation store16 :: "bytes \<Rightarrow> nat \<Rightarrow> u16 \<Rightarrow> bytes option" where
  "store16 m i x \<equiv> store_bytes m i (le16 x)"

abbreviation store8 :: "bytes \<Rightarrow> nat \<Rightarrow> u8 \<Rightarrow> bytes option" where
  "store8 m i x \<equiv> store_bytes m i [x]"

lemma load8_in_bounds [buffer_simps]: "i < length m \<Longrightarrow> load8 m i = Some (m ! i)"
  by (simp add: load8_def)

lemma load8_eq_None_iff: "load8 m i = None \<longleftrightarrow> length m \<le> i"
  by (simp add: load8_def)

lemma load8_take_drop:
  assumes "take n (drop i m) = x # xs"
  shows "load8 m i = Some x" and "take (n - 1) (drop (Suc i) m) = xs"
proof -
  obtain k where n: "n = Suc k"
    using assms by (cases n) auto
  have i: "i < length m"
    using assms by (cases "i < length m") auto
  with assms n have "x = m ! i" "xs = take k (drop (Suc i) m)"
    by (auto simp: Cons_nth_drop_Suc [symmetric])
  with i n show "load8 m i = Some x" "take (n - 1) (drop (Suc i) m) = xs"
    by (simp_all add: load8_def)
qed

lemma load_bytes_in_bounds [buffer_simps]:
  "i + n \<le> length m \<Longrightarrow> load_bytes m i n = Some (take n (drop i m))"
  by (simp add: load_bytes_def)

lemma store_bytes_in_bounds [buffer_simps]:
  "i + length bs \<le> length m \<Longrightarrow>
    store_bytes m i bs = Some (take i m @ bs @ drop (i + length bs) m)"
  by (simp add: store_bytes_def)

lemma store_bytes_length: "store_bytes m i bs = Some m' \<Longrightarrow> length m' = length m"
  by (auto simp: store_bytes_def split: if_splits)

text \<open>A load that does not meet the stored bytes reads the old buffer, and a load of exactly
  the stored bytes reads them back.\<close>

lemma load_store_same:
  "store_bytes m i bs = Some m' \<Longrightarrow> take (length bs) (drop i m') = bs"
  by (auto simp: store_bytes_def split: if_splits)

lemma load_store_below:
  "store_bytes m i bs = Some m' \<Longrightarrow> j + n \<le> i \<Longrightarrow> take n (drop j m') = take n (drop j m)"
  by (auto simp: store_bytes_def drop_take split: if_splits)

lemma load_store_above:
  "store_bytes m i bs = Some m' \<Longrightarrow> i + length bs \<le> j \<Longrightarrow> drop j m' = drop j m"
  by (auto simp: store_bytes_def split: if_splits)

end
