(* ===== verification/SerialNumber.thy ===== *)
theory SerialNumber
  imports CPrelude
begin

text \<open>
  Serial number arithmetic of SCTP (\<^verbatim>\<open>src/c/tsn/main.c\<close>): the comparisons of 32-bit
  transmission sequence numbers and of 16-bit stream sequence numbers, each in the older
  version that tests the sign bit of the difference and in the newer one that casts the
  difference to a signed type.

  The interface \<open>serial_number\<close> states what every version promises, the sign of the
  wrapped difference; RFC 1982, whose text the source quotes, is proved from it once.
\<close>

unbundle bit_operations_syntax

subsection \<open>The comparisons of the source\<close>

definition TSN_SIGN_BIT :: u32 where
  "TSN_SIGN_BIT = push_bit 31 1"

text \<open>\<open>s - t\<close> and the mask are unsigned; the masked value is returned as an \<open>int\<close>.\<close>

definition TSN_lt :: "u32 \<Rightarrow> u32 \<Rightarrow> int" where
  "TSN_lt s t = sint ((s - t) AND TSN_SIGN_BIT)"

definition TSN_lte :: "u32 \<Rightarrow> u32 \<Rightarrow> int" where
  "TSN_lte s t = c_bool (s = t \<or> (s - t) AND TSN_SIGN_BIT \<noteq> 0)"

definition TSN_lt2 :: "u32 \<Rightarrow> u32 \<Rightarrow> int" where
  "TSN_lt2 s t = c_bool (sint (s - t) < 0)"

definition TSN_lte2 :: "u32 \<Rightarrow> u32 \<Rightarrow> int" where
  "TSN_lte2 s t = c_bool (sint (s - t) \<le> 0)"

text \<open>The 16-bit operands are promoted to \<open>int\<close> before the subtraction, so the difference
  can be negative; \<open>(int16_t)\<close> then keeps its low 16 bits.\<close>

definition SSN_SIGN_BIT :: int where
  "SSN_SIGN_BIT = push_bit 15 1"

definition SSN_lt :: "u16 \<Rightarrow> u16 \<Rightarrow> int" where
  "SSN_lt s t = (uint s - uint t) AND SSN_SIGN_BIT"

definition SSN_lte :: "u16 \<Rightarrow> u16 \<Rightarrow> int" where
  "SSN_lte s t = c_bool (s = t \<or> (uint s - uint t) AND SSN_SIGN_BIT \<noteq> 0)"

definition SSN_lt2 :: "u16 \<Rightarrow> u16 \<Rightarrow> int" where
  "SSN_lt2 s t = c_bool (sint (word_of_int (uint s - uint t) :: u16) < 0)"

definition SSN_lte2 :: "u16 \<Rightarrow> u16 \<Rightarrow> int" where
  "SSN_lte2 s t = c_bool (sint (word_of_int (uint s - uint t) :: u16) \<le> 0)"

text \<open>The assertions of \<open>main\<close>, in order.\<close>

definition tsn_main_asserts :: "bool list" where
  "tsn_main_asserts =
    [TSN_lte 1 1 \<noteq> 0,
     TSN_lt 1 2 \<noteq> 0,
     TSN_lt 1 0xFFFFFF \<noteq> 0,
     TSN_lt 0xFFFFFFFF 1 \<noteq> 0,
     \<not> TSN_lt 0xFFFFFFFF 0xFFFFFFFE \<noteq> 0,
     \<not> TSN_lt 0xFFFFFFFF 0xFFFF0000 \<noteq> 0,
     \<not> TSN_lt 1 0xFFFFFFFF \<noteq> 0,
     TSN_lte2 1 1 \<noteq> 0,
     TSN_lt2 1 2 \<noteq> 0,
     TSN_lt2 1 0xFFFFFF \<noteq> 0,
     TSN_lt2 0xFFFFFFFF 1 \<noteq> 0,
     \<not> TSN_lt2 0xFFFFFFFF 0xFFFFFFFE \<noteq> 0,
     \<not> TSN_lt2 0xFFFFFFFF 0xFFFF0000 \<noteq> 0,
     \<not> TSN_lt2 1 0xFFFFFFFF \<noteq> 0]"

subsection \<open>RFC 1982, section 3.2, as quoted in the source\<close>

definition rfc1982_lt :: "'a::len word \<Rightarrow> 'a word \<Rightarrow> bool" where
  "rfc1982_lt s t \<longleftrightarrow> s \<noteq> t \<and>
     ((uint s < uint t \<and> uint t - uint s < 2 ^ (LENGTH('a) - 1)) \<or>
      (uint s > uint t \<and> uint s - uint t > 2 ^ (LENGTH('a) - 1)))"

definition rfc1982_gt :: "'a::len word \<Rightarrow> 'a word \<Rightarrow> bool" where
  "rfc1982_gt s t \<longleftrightarrow> s \<noteq> t \<and>
     ((uint s < uint t \<and> uint t - uint s > 2 ^ (LENGTH('a) - 1)) \<or>
      (uint s > uint t \<and> uint s - uint t < 2 ^ (LENGTH('a) - 1)))"

text \<open>The pairs for which the RFC leaves the order undefined.\<close>

definition opposite :: "'a::len word \<Rightarrow> 'a word \<Rightarrow> bool" where
  "opposite s t \<longleftrightarrow> \<bar>uint s - uint t\<bar> = 2 ^ (LENGTH('a) - 1)"

subsection \<open>The interface and its consequences\<close>

lemma sint_neg_iff_uint:
  fixes w :: "'a::len word"
  shows "sint w < 0 \<longleftrightarrow> 2 ^ (LENGTH('a) - 1) \<le> uint w"
proof -
  have "sint w < 0 \<longleftrightarrow> bit w (LENGTH('a) - 1)"
    by (simp add: signed_take_bit_negative_iff sint_uint bit_uint_iff)
  also have "\<dots> \<longleftrightarrow> odd (uint w div 2 ^ (LENGTH('a) - 1))"
    by (simp add: bit_iff_odd [symmetric] bit_uint_iff)
  also have "\<dots> \<longleftrightarrow> 2 ^ (LENGTH('a) - 1) \<le> uint w"
  proof -
    have "uint w < 2 ^ LENGTH('a)" by (rule uint_lt2p)
    also have "(2::int) ^ LENGTH('a) = 2 * 2 ^ (LENGTH('a) - 1)"
      by (metis len_gt_0 power_minus_mult mult.commute)
    finally have lt: "uint w < 2 * 2 ^ (LENGTH('a) - 1)" .
    show ?thesis
    proof (cases "uint w < 2 ^ (LENGTH('a) - 1)")
      case True
      then show ?thesis by simp
    next
      case False
      then have "uint w div 2 ^ (LENGTH('a) - 1) = 1"
        using lt by (intro int_div_pos_eq [where r = "uint w - 2 ^ (LENGTH('a) - 1)"]) auto
      then show ?thesis using False by simp
    qed
  qed
  finally show ?thesis .
qed

lemma half_ring_order:
  fixes a b H :: int
  assumes "0 < H" "0 \<le> a" "a < 2 * H" "0 \<le> b" "b < 2 * H"
  shows "H \<le> (if b \<le> a then a - b else a - b + 2 * H) \<longleftrightarrow>
    a \<noteq> b \<and> (a < b \<and> b - a < H \<or> b < a \<and> H < a - b) \<or> \<bar>a - b\<bar> = H"
  using assms by (smt (verit))

lemma half_ring_neg:
  fixes n H :: int
  assumes "0 < H" "0 \<le> n" "n < 2 * H"
  shows "H \<le> (- n) mod (2 * H) \<longleftrightarrow> 0 < n \<and> n \<le> H"
  using assms by (auto simp: zmod_zminus1_eq_if)

locale serial_number =
  fixes lt :: "'a::len word \<Rightarrow> 'a word \<Rightarrow> int"
    and lte :: "'a word \<Rightarrow> 'a word \<Rightarrow> int"
  assumes two_bits: "2 \<le> LENGTH('a)"
    and lt_sign: "lt s t \<noteq> 0 \<longleftrightarrow> sint (s - t) < 0"
    and lte_sign: "lte s t \<noteq> 0 \<longleftrightarrow> sint (s - t) \<le> 0"
begin

lemma lte_iff_lt_or_eq: "lte s t \<noteq> 0 \<longleftrightarrow> lt s t \<noteq> 0 \<or> s = t"
  using signed_word_eqI [of "s - t" 0] by (auto simp: lt_sign lte_sign order_le_less)

lemma lt_irrefl: "lt s s = 0"
  using lt_sign [of s s] by simp

lemma lt_shift: "lt (s + d) (t + d) \<noteq> 0 \<longleftrightarrow> lt s t \<noteq> 0"
  by (simp add: lt_sign)

lemma half_cases:
  obtains H :: int where "2 ^ (LENGTH('a) - 1) = H" "2 ^ LENGTH('a) = 2 * H" "0 < H"
proof
  show "2 ^ (LENGTH('a) - 1) = (2::int) ^ (LENGTH('a) - 1)" by simp
  show "(2::int) ^ LENGTH('a) = 2 * 2 ^ (LENGTH('a) - 1)"
    by (metis len_gt_0 power_minus_mult mult.commute)
  show "(0::int) < 2 ^ (LENGTH('a) - 1)" by simp
qed

lemma lt_iff_distance: "lt s t \<noteq> 0 \<longleftrightarrow> 2 ^ (LENGTH('a) - 1) \<le> uint (s - t)"
  by (simp only: lt_sign sint_neg_iff_uint)

lemma lt_iff_rfc1982: "lt s t \<noteq> 0 \<longleftrightarrow> rfc1982_lt s t \<or> opposite s t"
proof -
  obtain H :: int where H: "2 ^ (LENGTH('a) - 1) = H" "2 ^ LENGTH('a) = 2 * H" "0 < H"
    by (rule half_cases)
  have "uint s < 2 * H" "uint t < 2 * H"
    using uint_lt2p [of s] uint_lt2p [of t] H(2) by simp_all
  then show ?thesis
    unfolding lt_iff_distance rfc1982_lt_def opposite_def uint_sub_if' word_uint_eq_iff H(1,2)
    by (intro half_ring_order H(3) uint_ge_0)
qed

lemma gt_iff_rfc1982: "lt t s \<noteq> 0 \<longleftrightarrow> rfc1982_gt s t \<or> opposite s t"
  unfolding lt_iff_rfc1982 by (auto simp: rfc1982_lt_def rfc1982_gt_def opposite_def)

lemma opposite_both_ways: "lt s t \<noteq> 0 \<and> lt t s \<noteq> 0 \<longleftrightarrow> opposite s t"
  unfolding lt_iff_rfc1982 by (auto simp: rfc1982_lt_def opposite_def)

lemma lt_total: "s \<noteq> t \<Longrightarrow> lt s t \<noteq> 0 \<or> lt t s \<noteq> 0"
  unfolding lt_iff_rfc1982 rfc1982_lt_def opposite_def word_uint_eq_iff by auto

lemma lt_advance_iff:
  assumes "n < 2 ^ LENGTH('a)"
  shows "lt s (s + of_nat n) \<noteq> 0 \<longleftrightarrow> 0 < n \<and> n \<le> 2 ^ (LENGTH('a) - 1)"
proof -
  obtain H :: int where H: "2 ^ (LENGTH('a) - 1) = H" "2 ^ LENGTH('a) = 2 * H" "0 < H"
    by (rule half_cases)
  have "uint (of_nat n :: 'a word) = int n"
    using assms by (simp add: uint_word_of_int_eq unsigned_of_nat take_bit_nat_eq_self_iff
        flip: of_nat_take_bit)
  moreover have "int n < 2 * H"
    using assms H(2) by (metis of_nat_less_iff of_nat_numeral of_nat_power)
  ultimately have "H \<le> uint (- of_nat n :: 'a word) \<longleftrightarrow> 0 < int n \<and> int n \<le> H"
    using half_ring_neg [OF H(3), of "int n"] H(2) by (simp add: uint_word_ariths)
  moreover have "int n \<le> H \<longleftrightarrow> n \<le> 2 ^ (LENGTH('a) - 1)"
    using H(1) by (metis of_nat_le_iff of_nat_numeral of_nat_power)
  ultimately show ?thesis
    unfolding lt_iff_distance H(1) by simp
qed

end

subsection \<open>Every version keeps the interface\<close>

lemma and_top_bit_u32: "x AND TSN_SIGN_BIT \<noteq> 0 \<longleftrightarrow> sint x < 0" for x :: u32
  using bit_iff_and_push_bit_not_eq_0 [of x 31]
  by (simp add: TSN_SIGN_BIT_def signed_take_bit_negative_iff sint_uint bit_uint_iff)

lemma and_bit_15: "n AND SSN_SIGN_BIT \<noteq> 0 \<longleftrightarrow> sint (word_of_int n :: u16) < 0"
  using bit_iff_and_push_bit_not_eq_0 [of n 15]
  by (simp add: SSN_SIGN_BIT_def signed_take_bit_negative_iff sint_uint bit_uint_iff
      bit_word_of_int_iff)

lemma ssn_difference: "word_of_int (uint s - uint t) = s - t"
  by simp

lemmas sign_bit_tests = and_top_bit_u32 and_bit_15 ssn_difference

lemma sint_zero_iff: "sint w = 0 \<longleftrightarrow> w = 0" for w :: "'a::len word"
  using signed_word_eqI [of w 0] by auto

interpretation tsn: serial_number TSN_lt TSN_lte
proof unfold_locales
  fix s t :: u32
  show "TSN_lt s t \<noteq> 0 \<longleftrightarrow> sint (s - t) < 0"
    using and_top_bit_u32 [of "s - t"] by (simp add: TSN_lt_def sint_zero_iff)
  show "TSN_lte s t \<noteq> 0 \<longleftrightarrow> sint (s - t) \<le> 0"
    by (auto simp: TSN_lte_def sign_bit_tests order_le_less sint_zero_iff)
qed simp

interpretation tsn2: serial_number TSN_lt2 TSN_lte2
  by unfold_locales (simp_all add: TSN_lt2_def TSN_lte2_def)

interpretation ssn: serial_number SSN_lt SSN_lte
proof unfold_locales
  fix s t :: u16
  show "SSN_lt s t \<noteq> 0 \<longleftrightarrow> sint (s - t) < 0"
    using and_bit_15 [of "uint s - uint t"] by (simp add: SSN_lt_def)
  show "SSN_lte s t \<noteq> 0 \<longleftrightarrow> sint (s - t) \<le> 0"
    by (auto simp: SSN_lte_def sign_bit_tests order_le_less sint_zero_iff)
qed simp

interpretation ssn2: serial_number SSN_lt2 SSN_lte2
  by unfold_locales (simp_all add: SSN_lt2_def SSN_lte2_def)

subsection \<open>Properties of the program\<close>

text \<open>The 32-bit comparison of the older kernel is the order of RFC 1982, in both
  directions, except that two numbers exactly half the ring apart, which the RFC leaves
  incomparable, are each less than the other.\<close>

theorem TSN_lt_is_rfc1982:
  "(TSN_lt s t \<noteq> 0 \<longleftrightarrow> rfc1982_lt s t \<or> opposite s t) \<and>
   (TSN_lt t s \<noteq> 0 \<longleftrightarrow> rfc1982_gt s t \<or> opposite s t) \<and>
   (TSN_lt s t \<noteq> 0 \<and> TSN_lt t s \<noteq> 0 \<longleftrightarrow> opposite s t)"
  by (intro conjI tsn.lt_iff_rfc1982 tsn.gt_iff_rfc1982 tsn.opposite_both_ways)

text \<open>The same for the 16-bit stream sequence numbers, whose operands C promotes to
  \<open>int\<close> before subtracting.\<close>

theorem SSN_lt_is_rfc1982:
  "(SSN_lt s t \<noteq> 0 \<longleftrightarrow> rfc1982_lt s t \<or> opposite s t) \<and>
   (SSN_lt t s \<noteq> 0 \<longleftrightarrow> rfc1982_gt s t \<or> opposite s t) \<and>
   (SSN_lt s t \<noteq> 0 \<and> SSN_lt t s \<noteq> 0 \<longleftrightarrow> opposite s t)"
  by (intro conjI ssn.lt_iff_rfc1982 ssn.gt_iff_rfc1982 ssn.opposite_both_ways)

text \<open>The older and the newer versions decide the same comparisons, strict and
  non-strict, at both widths.\<close>

theorem serial_versions_agree:
  "(TSN_lt s t \<noteq> 0) = (TSN_lt2 s t \<noteq> 0) \<and> (TSN_lte s t \<noteq> 0) = (TSN_lte2 s t \<noteq> 0) \<and>
   (SSN_lt u v \<noteq> 0) = (SSN_lt2 u v \<noteq> 0) \<and> (SSN_lte u v \<noteq> 0) = (SSN_lte2 u v \<noteq> 0)"
  by (simp only: tsn.lt_sign tsn2.lt_sign tsn.lte_sign tsn2.lte_sign
      ssn.lt_sign ssn2.lt_sign ssn.lte_sign ssn2.lte_sign simp_thms)

text \<open>C14: all eight comparisons, of both kernels and at both widths, are the serial number arithmetic of RFC 1982: each strict
  one is the order of the RFC, except that two numbers exactly half the ring apart, which the RFC leaves incomparable, are each
  less than the other; each other one adds equality; and the newer version decides as the older one.\<close>

theorem comparisons_are_rfc1982:
  "(TSN_lt s t \<noteq> 0 \<longleftrightarrow> rfc1982_lt s t \<or> opposite s t) \<and> (TSN_lt t s \<noteq> 0 \<longleftrightarrow> rfc1982_gt s t \<or> opposite s t) \<and>
   (TSN_lte s t = 0 \<longleftrightarrow> TSN_lt s t = 0 \<and> s \<noteq> t) \<and>
   (TSN_lt2 s t \<noteq> 0 \<longleftrightarrow> TSN_lt s t \<noteq> 0) \<and> (TSN_lte2 s t \<noteq> 0 \<longleftrightarrow> TSN_lte s t \<noteq> 0) \<and>
   (SSN_lt u v \<noteq> 0 \<longleftrightarrow> rfc1982_lt u v \<or> opposite u v) \<and> (SSN_lt v u \<noteq> 0 \<longleftrightarrow> rfc1982_gt u v \<or> opposite u v) \<and>
   (SSN_lte u v = 0 \<longleftrightarrow> SSN_lt u v = 0 \<and> u \<noteq> v) \<and>
   (SSN_lt2 u v \<noteq> 0 \<longleftrightarrow> SSN_lt u v \<noteq> 0) \<and> (SSN_lte2 u v \<noteq> 0 \<longleftrightarrow> SSN_lte u v \<noteq> 0)"
  using TSN_lt_is_rfc1982 [of s t] SSN_lt_is_rfc1982 [of u v] serial_versions_agree [of s t u v]
    tsn.lte_iff_lt_or_eq [of s t] ssn.lte_iff_lt_or_eq [of u v]
  by argo

text \<open>A sequence number precedes every number up to half the ring ahead of it, across the
  wrap-around from 0xFFFFFFFF to 0, and no number further ahead.\<close>

theorem TSN_lt_window:
  assumes "n < 2 ^ 32"
  shows "TSN_lt s (s + of_nat n) \<noteq> 0 \<longleftrightarrow> 0 < n \<and> n \<le> 2 ^ 31"
  using tsn.lt_advance_iff [of n s] assms by simp

theorem TSN_lt_window_witness:
  "TSN_lt 0xFFFFFFFF (0xFFFFFFFF + of_nat 2) \<noteq> 0 \<and> \<not> TSN_lt 5 (5 + of_nat (2 ^ 31 + 1)) \<noteq> 0"
  using TSN_lt_window [of 2 "0xFFFFFFFF"] TSN_lt_window [of "2 ^ 31 + 1" 5] by simp

text \<open>Every assertion of the test program holds.\<close>

theorem tsn_main_asserts_hold: "list_all (\<lambda>b. b) tsn_main_asserts"
  unfolding tsn_main_asserts_def list.pred_inject tsn.lt_sign tsn.lte_sign tsn2.lt_sign tsn2.lte_sign
  by simp

end
