(* ===== verification/Checksum.thy ===== *)
theory Checksum
  imports CPrelude
begin

text \<open>
  The Internet checksum routines of \<^verbatim>\<open>src/c/common/header.h\<close>: \<open>Checksum\<close>, which adds
  big-endian words into a 32-bit accumulator, and \<open>csum\<close>, which adds host-order words into an
  \<open>unsigned long\<close>.  Both end with the same folding loop, whose contract is the interface
  \<open>fold_loop\<close>; their results are related to the one's complement arithmetic of RFC 1071.
\<close>

unbundle bit_operations_syntax

subsection \<open>One step of the folding loop\<close>

lemma unat_and_FFFF:
  fixes c :: "'a::len word"
  shows "unat (c AND 0xFFFF) = unat c mod 65536"
proof -
  have "c AND 0xFFFF = take_bit 16 c"
    by (simp add: take_bit_eq_mask mask_eq_exp_minus_1)
  moreover have "unat (take_bit 16 c) = unat c mod 65536"
    by (simp only: unsigned_take_bit_eq) (simp add: take_bit_eq_mod)
  ultimately show ?thesis
    by simp
qed

lemma unat_and_FF: "unat (c AND 0xFF) = unat c mod 256" for c :: "'a::len word"
proof -
  have "c AND 0xFF = take_bit 8 c"
    by (simp add: take_bit_eq_mask mask_eq_exp_minus_1)
  moreover have "unat (take_bit 8 c) = unat c mod 256"
    by (simp only: unsigned_take_bit_eq) (simp add: take_bit_eq_mod)
  ultimately show ?thesis
    by simp
qed

lemma unat_drop_bit16: "unat (drop_bit 16 c) = unat c div 65536" for c :: "'a::len word"
  by (simp only: unsigned_drop_bit_eq) (simp add: drop_bit_eq_div take_bit_eq_mod)

lemma fold_step_unat:
  fixes c :: "'a::len word"
  assumes "32 \<le> LENGTH('a)"
  shows "unat ((c AND 0xFFFF) + drop_bit 16 c) = unat c mod 65536 + unat c div 65536"
proof -
  have "unat c < 2 ^ LENGTH('a)"
    by (rule unsigned_less)
  also have "(2::nat) ^ LENGTH('a) = 65536 * 2 ^ (LENGTH('a) - 16)"
    using assms power_add [of "2::nat" 16 "LENGTH('a) - 16"] by simp
  finally have "unat c div 65536 < 2 ^ (LENGTH('a) - 16)"
    by (simp add: less_mult_imp_div_less mult.commute)
  moreover have "(65536::nat) \<le> 2 ^ (LENGTH('a) - 16)"
    using assms power_increasing [of 16 "LENGTH('a) - 16" "2::nat"] by simp
  moreover have "unat c mod 65536 < 65536"
    by simp
  ultimately have "unat c mod 65536 + unat c div 65536 < 65536 * 2 ^ (LENGTH('a) - 16)"
    by linarith
  also have "65536 * 2 ^ (LENGTH('a) - 16) = (2::nat) ^ LENGTH('a)"
    using assms power_add [of "2::nat" 16 "LENGTH('a) - 16"] by simp
  finally show ?thesis
    by (simp add: unat_word_ariths unat_drop_bit16 unat_and_FFFF)
qed

lemma drop_bit16_eq_0_iff: "drop_bit 16 c = 0 \<longleftrightarrow> unat c < 65536" for c :: "'a::len word"
  using unat_drop_bit16 [of c] by (metis div_eq_0_iff unat_eq_zero zero_neq_numeral)

lemma fold_step_decreases:
  fixes c :: "'a::len word"
  assumes "32 \<le> LENGTH('a)" "drop_bit 16 c \<noteq> 0"
  shows "unat ((c AND 0xFFFF) + drop_bit 16 c) < unat c"
proof -
  have "0 < unat c div 65536"
    using assms(2) by (simp add: drop_bit16_eq_0_iff)
  moreover have "unat c = 65536 * (unat c div 65536) + unat c mod 65536"
    by simp
  ultimately show ?thesis
    unfolding fold_step_unat [OF assms(1)] by linarith
qed

subsection \<open>The routines\<close>

text \<open>The first loop of \<open>Checksum\<close>: big-endian 16-bit words are added while more than one byte
  is left.  \<open>p\<close> is the memory from the pointer to the end of its object; a read past that end
  is undefined.\<close>

function Checksum_words :: "u32 \<Rightarrow> bytes \<Rightarrow> u32 \<Rightarrow> u32 \<Rightarrow> (u32 \<times> u32 \<times> u32) option" where
  "Checksum_words cksum p num sz =
    (if sz > 1 then do {
       hi \<leftarrow> load8 p (unat num);
       lo \<leftarrow> load8 p (unat (num + 1));
       Checksum_words (cksum + (push_bit 8 (ucast hi) AND 0xff00 OR ucast lo AND 0x00FF))
         p (num + 2) (sz - 2)
     }
     else Some (cksum, num, sz))"
  by pat_completeness auto
termination
  by (relation "measure (\<lambda>(cksum, p, num, sz). unat sz)")
    (auto simp: unat_sub word_le_nat_alt word_less_nat_alt)

declare Checksum_words.simps [simp del]

text \<open>The last loop: \<open>while (cksum >> 16) cksum = (cksum & 0xFFFF) + (cksum >> 16)\<close>.\<close>

function Checksum_fold :: "u32 \<Rightarrow> u32" where
  "Checksum_fold cksum =
    (if drop_bit 16 cksum \<noteq> 0 then Checksum_fold ((cksum AND 0xFFFF) + drop_bit 16 cksum)
     else cksum)"
  by pat_completeness auto
termination
  by (relation "measure unat") (use fold_step_decreases [where ?'a = 32] in auto)

declare Checksum_fold.simps [simp del]

text \<open>The words and, when one byte is left, that byte as the high half of a last word.\<close>

definition Checksum_sum :: "u32 \<Rightarrow> bytes \<Rightarrow> u32 \<Rightarrow> u32 \<Rightarrow> u32 option" where
  "Checksum_sum cksum p num sz = do {
     (cksum, num, sz) \<leftarrow> Checksum_words cksum p num sz;
     if sz > 0
     then do { b \<leftarrow> load8 p (unat num); Some (cksum + (push_bit 8 (ucast b) AND 0xFFFF)) }
     else Some cksum
   }"

definition Checksum :: "u32 \<Rightarrow> bytes option \<Rightarrow> u32 \<Rightarrow> u32 option" where
  "Checksum cksum pBuffer sz =
    (case pBuffer of
       None \<Rightarrow> Some cksum
     | Some p \<Rightarrow>
         if sz = 0 then Some cksum
         else map_option Checksum_fold (Checksum_sum cksum p 0 sz))"

text \<open>\<open>csum\<close> reads the words in host order into an \<open>unsigned long\<close>.\<close>

function csum_words :: "u64 \<Rightarrow> bytes \<Rightarrow> nat \<Rightarrow> int \<Rightarrow> (u64 \<times> nat \<times> int) option" where
  "csum_words s p packet packlen =
    (if packlen > 1 then do {
       a \<leftarrow> load8 p packet;
       b \<leftarrow> load8 p (packet + 1);
       csum_words (s + ucast (of_le16 a b)) p (packet + 2) (packlen - 2)
     }
     else Some (s, packet, packlen))"
  by pat_completeness auto
termination
  by (relation "measure (\<lambda>(s, p, packet, packlen). nat packlen)") auto

declare csum_words.simps [simp del]

function csum_fold :: "u64 \<Rightarrow> u64" where
  "csum_fold s =
    (if drop_bit 16 s \<noteq> 0 then csum_fold ((s AND 0xffff) + drop_bit 16 s) else s)"
  by pat_completeness auto
termination
  by (relation "measure unat") (use fold_step_decreases [where ?'a = 64] in auto)

declare csum_fold.simps [simp del]

definition csum_sum :: "u64 \<Rightarrow> bytes \<Rightarrow> nat \<Rightarrow> int \<Rightarrow> u64 option" where
  "csum_sum s p packet packlen = do {
     (s, packet, packlen) \<leftarrow> csum_words s p packet packlen;
     if packlen > 0
     then do { b \<leftarrow> load8 p packet; Some (s + ucast b) }
     else Some s
   }"

definition csum :: "bytes \<Rightarrow> int \<Rightarrow> u16 option" where
  "csum p packlen = map_option (\<lambda>s. ucast (NOT (csum_fold s))) (csum_sum 0 p 0 packlen)"

subsection \<open>One's complement sums (RFC 1071)\<close>

fun be_words :: "bytes \<Rightarrow> nat list" where
  "be_words (a # b # bs) = (256 * unat a + unat b) # be_words bs"
| "be_words [a] = [256 * unat a]"
| "be_words [] = []"

fun le_words :: "bytes \<Rightarrow> nat list" where
  "le_words (a # b # bs) = (unat a + 256 * unat b) # le_words bs"
| "le_words [a] = [unat a]"
| "le_words [] = []"

definition ones_add :: "nat \<Rightarrow> nat \<Rightarrow> nat" where
  "ones_add a b = (if a + b > 0xFFFF then a + b - 0xFFFF else a + b)"

definition ones_sum :: "nat list \<Rightarrow> nat" where
  "ones_sum ws = foldl ones_add 0 ws"

definition ones_norm :: "nat \<Rightarrow> nat" where
  "ones_norm n = (if n = 0 then 0 else (n - 1) mod 0xFFFF + 1)"

lemma ones_norm_le: "ones_norm n \<le> 0xFFFF"
  by (simp add: ones_norm_def Suc_le_eq)

lemma ones_norm_eq_0_iff [simp]: "ones_norm n = 0 \<longleftrightarrow> n = 0"
  by (simp add: ones_norm_def)

lemma ones_norm_mod: "ones_norm n mod 0xFFFF = n mod 0xFFFF"
  by (cases n) (simp_all add: ones_norm_def mod_Suc_eq)

lemma ones_norm_unique:
  assumes "m \<le> 0xFFFF" "m mod 0xFFFF = n mod 0xFFFF" "m = 0 \<longleftrightarrow> n = 0"
  shows "m = ones_norm n"
proof (cases n)
  case 0
  with assms show ?thesis by simp
next
  case (Suc k)
  then have "m \<noteq> 0" using assms(3) by simp
  moreover have "ones_norm n \<noteq> 0" "ones_norm n \<le> 0xFFFF" "m mod 0xFFFF = ones_norm n mod 0xFFFF"
    using Suc assms(2) by (simp_all add: ones_norm_le ones_norm_mod)
  ultimately show ?thesis
    using assms(1) by (cases "m = 0xFFFF"; cases "ones_norm n = 0xFFFF") auto
qed

lemma ones_norm_small: "n \<le> 0xFFFF \<Longrightarrow> ones_norm n = n"
  by (rule ones_norm_unique [symmetric]) auto

lemma ones_norm_add: "ones_norm (ones_norm m + n) = ones_norm (m + n)"
proof (rule ones_norm_unique [OF ones_norm_le])
  show "ones_norm (ones_norm m + n) mod 65535 = (m + n) mod 65535"
    unfolding ones_norm_mod by (rule mod_add_cong [OF ones_norm_mod refl])
qed simp

lemma ones_add_norm:
  assumes "a \<le> 0xFFFF" "b \<le> 0xFFFF"
  shows "ones_add a b = ones_norm (a + b)"
  using assms by (intro ones_norm_unique) (auto simp: ones_add_def mod_if)

lemma foldl_ones_add:
  "\<forall>w\<in>set ws. w \<le> 0xFFFF \<Longrightarrow> a \<le> 0xFFFF \<Longrightarrow> foldl ones_add a ws = ones_norm (a + sum_list ws)"
proof (induction ws arbitrary: a)
  case Nil
  then show ?case by (simp add: ones_norm_small)
next
  case (Cons w ws)
  then have "foldl ones_add a (w # ws) = ones_norm (ones_norm (a + w) + sum_list ws)"
    by (simp add: ones_add_norm ones_norm_le)
  then show ?case
    by (simp add: ones_norm_add add.assoc)
qed

lemma ones_sum_norm: "\<forall>w\<in>set ws. w \<le> 0xFFFF \<Longrightarrow> ones_sum ws = ones_norm (sum_list ws)"
  by (simp add: ones_sum_def foldl_ones_add)


subsection \<open>The folding loop\<close>

lemma ones_norm_fold_step: "ones_norm (n mod 65536 + n div 65536) = ones_norm n"
proof (rule ones_norm_unique [OF ones_norm_le])
  have "n = n div 65536 * 65535 + (n mod 65536 + n div 65536)"
    by (simp add: algebra_simps)
  then show "ones_norm (n mod 65536 + n div 65536) mod 65535 = n mod 65535"
    by (metis mod_mult_self3 ones_norm_mod)
  show "ones_norm (n mod 65536 + n div 65536) = 0 \<longleftrightarrow> n = 0"
    by auto
qed

text \<open>Both routines end with the same loop, on accumulators of different widths.\<close>

locale fold_loop =
  fixes fold :: "'w::len word \<Rightarrow> 'w word"
  assumes wide: "32 \<le> LENGTH('w)"
    and fold_unfold:
      "fold c = (if drop_bit 16 c \<noteq> 0 then fold ((c AND 0xFFFF) + drop_bit 16 c) else c)"
begin

lemma unat_fold: "unat (fold c) = ones_norm (unat c)"
proof (induction "unat c" arbitrary: c rule: less_induct)
  case less
  let ?d = "(c AND 0xFFFF) + drop_bit 16 c"
  show ?case
  proof (cases "drop_bit 16 c = 0")
    case True
    then have "fold c = c" "unat c \<le> 0xFFFF"
      by (simp_all add: fold_unfold [of c] drop_bit16_eq_0_iff)
    then show ?thesis
      by (simp add: ones_norm_small)
  next
    case False
    then have "unat (fold ?d) = ones_norm (unat ?d)"
      using wide by (intro less fold_step_decreases)
    also have "\<dots> = ones_norm (unat c)"
      by (simp only: fold_step_unat [OF wide] ones_norm_fold_step)
    finally show ?thesis
      using False fold_unfold [of c] by simp
  qed
qed

lemma fold_fits: "unat (fold c) \<le> 0xFFFF"
  by (simp add: unat_fold ones_norm_le)

lemma fold_idem: "fold (fold c) = fold c"
  using fold_fits [of c] by (simp add: unat_fold ones_norm_small word_unat_eq_iff)

end

interpretation ck: fold_loop Checksum_fold
  by unfold_locales (simp, rule Checksum_fold.simps)

interpretation cs: fold_loop csum_fold
  by unfold_locales (simp, rule csum_fold.simps)

subsection \<open>Sums of words\<close>

lemma be_words_append:
  "even (length xs) \<Longrightarrow> be_words (xs @ ys) = be_words xs @ be_words ys"
  by (induction xs rule: be_words.induct) auto

lemma le_words_append:
  "even (length xs) \<Longrightarrow> le_words (xs @ ys) = le_words xs @ le_words ys"
  by (induction xs rule: le_words.induct) auto

lemma two_bytes_le_FFFF:
  fixes a b :: u8
  shows "256 * unat a + unat b \<le> 0xFFFF" "256 * unat a \<le> 0xFFFF" "unat a + 256 * unat b \<le> 0xFFFF"
    "unat a \<le> 0xFFFF"
  using unat_u8_less [of a] unat_u8_less [of b] by linarith+

lemma be_words_bound: "\<forall>w\<in>set (be_words xs). w \<le> 0xFFFF"
  by (induction xs rule: be_words.induct) (auto simp: two_bytes_le_FFFF)

lemma sum_be_words_bound: "sum_list (be_words xs) \<le> 0xFFFF * ((length xs + 1) div 2)"
  by (induction xs rule: be_words.induct)
    (auto simp: two_bytes_le_FFFF intro: add_mono [OF two_bytes_le_FFFF(1)])

lemma sum_le_words_bound: "sum_list (le_words xs) \<le> 0xFFFF * ((length xs + 1) div 2)"
  by (induction xs rule: le_words.induct)
    (auto simp: two_bytes_le_FFFF intro: add_mono [OF two_bytes_le_FFFF(3)])

text \<open>The masked shifts of the source are the big-endian value of two bytes.\<close>

lemma and_FF00_shift: "(push_bit 8 x AND 0xff00 :: u32) = push_bit 8 (x AND 0xff)"
proof -
  have "(0xff00 :: u32) = push_bit 8 0xff"
    by simp
  then show ?thesis
    by (simp only: push_bit_and)
qed

lemma ucast_and_FF: "(ucast (a :: u8) AND 0xFF :: u32) = ucast a"
  by (simp add: word_unat_eq_iff unat_and_FF)

lemma unat_shift8: "unat (push_bit 8 (ucast (a :: u8)) :: u32) = 256 * unat a"
proof -
  have "256 * unat a < 4294967296"
    using unat_u8_less [of a] by linarith
  then show ?thesis
    by (simp only: unsigned_push_bit_eq)
      (simp add: push_bit_eq_mult take_bit_eq_mod mult.commute)
qed

lemma two_bytes_be:
  "(push_bit 8 (ucast hi) AND 0xff00 OR ucast lo AND 0x00FF :: u32) =
    of_nat (256 * unat (hi :: u8) + unat (lo :: u8))"
proof -
  have "(push_bit 8 (ucast hi) :: u32) AND ucast lo = 0"
    by (rule bit_word_eqI) (auto simp: bit_simps dest: bit_imp_le_length)
  then have "unat (push_bit 8 (ucast hi) OR ucast lo :: u32) = 256 * unat hi + unat lo"
    by (simp only: unat_or_disjoint unat_shift8) simp
  then show ?thesis
    unfolding and_FF00_shift ucast_and_FF by (rule word_eq_of_natI)
qed

lemma one_byte_be: "(push_bit 8 (ucast b) AND 0xFFFF :: u32) = of_nat (256 * unat (b :: u8))"
proof -
  have "unat (push_bit 8 (ucast b) AND 0xFFFF :: u32) = 256 * unat b"
    by (simp only: unat_and_FFFF unat_shift8) simp
  then show ?thesis
    by (rule word_eq_of_natI)
qed

lemma le_word_value: "(ucast (of_le16 a b) :: u64) = of_nat (unat a + 256 * unat b)"
proof -
  have "unat (ucast (of_le16 a b) :: u64) = unat a + 256 * unat b"
    by (simp add: unat_of_le16)
  then show ?thesis
    by (rule word_eq_of_natI)
qed

subsection \<open>What the routines compute\<close>

lemma Checksum_sum_eq:
  assumes "take (unat sz) (drop (unat num) p) = q" "length q = unat sz"
    "unat num + unat sz < 2 ^ 32"
  shows "Checksum_sum c p num sz = Some (c + of_nat (sum_list (be_words q)))"
  using assms
proof (induction q arbitrary: c num sz rule: be_words.induct)
  case (1 a b bs)
  have n: "unat (num + 1) = unat num + 1" "unat (num + 2) = unat num + 2" "unat (sz - 2) = length bs"
    "1 < sz"
    using "1.prems"(2,3) by (simp_all add: unat_word_ariths word_less_nat_alt unat_sub_if')
  note a = load8_take_drop [OF "1.prems"(1)]
  note b = load8_take_drop [OF a(2)]
  have bs: "take (length bs) (drop (unat num + 2) p) = bs"
    using b(2) "1.prems"(2) by (simp flip: "1.prems"(2))
  from a(1) b(1) have "Checksum_sum c p num sz =
      Checksum_sum (c + of_nat (256 * unat a + unat b)) p (num + 2) (sz - 2)"
    unfolding Checksum_sum_def
    by (subst Checksum_words.simps) (simp add: n two_bytes_be)
  also have "\<dots> = Some (c + of_nat (256 * unat a + unat b) + of_nat (sum_list (be_words bs)))"
    using "1.prems"(2,3) bs by (intro "1.IH") (simp_all add: n)
  finally show ?case
    by (simp add: add.assoc)
next
  case (2 a)
  then have "sz = 1"
    by (simp add: word_unat_eq_iff)
  with load8_take_drop(1) [OF "2.prems"(1)] show ?case
    unfolding Checksum_sum_def by (subst Checksum_words.simps) (simp add: one_byte_be)
next
  case 3
  then have "sz = 0"
    by (simp add: word_unat_eq_iff)
  then show ?case
    unfolding Checksum_sum_def by (subst Checksum_words.simps) simp
qed

text \<open>A size that reaches past the end of the object is an undefined read.\<close>

lemma Checksum_sum_out_of_bounds:
  assumes "unat num + unat sz < 2 ^ 32" "length p < unat num + unat sz" "sz \<noteq> 0"
  shows "Checksum_sum c p num sz = None"
  using assms
proof (induction "unat sz" arbitrary: c num sz rule: less_induct)
  case less
  show ?case
  proof (cases "1 < sz")
    case False
    with less.prems(3) have "sz = 1"
      by (auto simp: word_less_nat_alt word_unat_eq_iff)
    with less.prems show ?thesis
      unfolding Checksum_sum_def by (subst Checksum_words.simps) (simp add: load8_def)
  next
    case True
    have n: "unat (num + 1) = unat num + 1" "unat (num + 2) = unat num + 2" "unat (sz - 2) = unat sz - 2"
      "2 \<le> unat sz"
      using less.prems(1) True by (simp_all add: unat_word_ariths word_less_nat_alt unat_sub_if')
    show ?thesis
    proof (cases "unat num + 1 < length p")
      case False
      then show ?thesis
        unfolding Checksum_sum_def using True
        by (subst Checksum_words.simps) (simp add: load8_def n)
    next
      case inb: True
      with less.prems(2) n have "2 < unat sz"
        by linarith
      then have "Checksum_sum d p (num + 2) (sz - 2) = None" for d
        using less.prems n by (intro less.hyps) (auto simp: word_unat_eq_iff)
      then show ?thesis
        unfolding Checksum_sum_def using True inb
        by (subst Checksum_words.simps) (simp add: load8_def n)
    qed
  qed
qed

lemma Checksum_out_of_bounds:
  "length p < unat sz \<Longrightarrow> Checksum c (Some p) sz = None"
  using Checksum_sum_out_of_bounds [of 0 sz p c] by (auto simp: Checksum_def)

lemma csum_sum_eq:
  assumes "take (nat packlen) (drop packet p) = q" "int (length q) = packlen"
  shows "csum_sum s p packet packlen = Some (s + of_nat (sum_list (le_words q)))"
  using assms
proof (induction q arbitrary: s packet packlen rule: le_words.induct)
  case (1 a b bs)
  note a = load8_take_drop [OF "1.prems"(1)]
  note b = load8_take_drop [OF a(2)]
  have bs: "take (length bs) (drop (packet + 2) p) = bs"
    using b(2) "1.prems"(2) by auto
  have "1 < packlen"
    using "1.prems"(2) by simp
  with a(1) b(1) have "csum_sum s p packet packlen =
      csum_sum (s + of_nat (unat a + 256 * unat b)) p (packet + 2) (packlen - 2)"
    unfolding csum_sum_def
    by (subst csum_words.simps) (simp add: le_word_value)
  also have "\<dots> = Some (s + of_nat (unat a + 256 * unat b) + of_nat (sum_list (le_words bs)))"
    using "1.prems"(2) bs by (intro "1.IH") auto
  finally show ?case
    by (simp add: add.assoc)
next
  case (2 a)
  then have "packlen = 1"
    by simp
  with load8_take_drop(1) [OF "2.prems"(1)] show ?case
    unfolding csum_sum_def by (subst csum_words.simps) simp
next
  case 3
  then show ?case
    unfolding csum_sum_def by (subst csum_words.simps) simp
qed

text \<open>The checksum of a buffer is the one's complement sum of its big-endian words and the
  passed value, as long as the 32-bit accumulator cannot overflow.\<close>

lemma Checksum_value:
  assumes "unat sz \<le> length p" "sz \<noteq> 0"
    "unat c + sum_list (be_words (take (unat sz) p)) < 2 ^ 32"
  shows "\<exists>r. Checksum c (Some p) sz = Some r \<and>
    unat r = ones_norm (unat c + sum_list (be_words (take (unat sz) p)))"
proof -
  let ?S = "sum_list (be_words (take (unat sz) p))"
  have "Checksum_sum c p 0 sz = Some (c + of_nat ?S)"
    using assms(1) unat_u32_less [of sz] by (intro Checksum_sum_eq) auto
  moreover have "unat (c + of_nat ?S) = unat c + ?S"
    using assms(3) by (simp add: unat_word_ariths unat_of_nat)
  ultimately show ?thesis
    using assms(2) by (simp add: Checksum_def ck.unat_fold)
qed

text \<open>\<open>(uint16_t)(~s)\<close> of a folded sum.\<close>

lemma unat_ucast_not:
  fixes s :: "'a::len word"
  assumes "16 \<le> LENGTH('a)" "unat s \<le> 0xFFFF"
  shows "unat (ucast (NOT s) :: u16) = 0xFFFF - unat s"
proof -
  have "(ucast (NOT s) :: u16) = NOT (ucast s)"
    using assms(1) by (intro bit_word_eqI) (auto simp: bit_simps)
  moreover have "unat (ucast s :: u16) = unat s"
    using assms(2) by (simp add: unsigned_ucast_eq take_bit_eq_mod)
  ultimately show ?thesis
    by (simp add: unat_not)
qed

subsection \<open>Byte order independence\<close>

lemma ones_norm_256: "x \<le> 0xFFFF \<Longrightarrow> 256 * (x mod 256) + x div 256 = ones_norm (256 * x)"
proof (rule ones_norm_unique)
  assume "x \<le> 0xFFFF"
  then show "256 * (x mod 256) + x div 256 \<le> 0xFFFF"
    by auto
  have "256 * x = 65535 * (x div 256) + (256 * (x mod 256) + x div 256)"
    using div_mult_mod_eq [of x 256] by linarith
  then show "(256 * (x mod 256) + x div 256) mod 0xFFFF = 256 * x mod 0xFFFF"
    by (simp only: mod_mult_self4)
qed auto

lemma sum_words_swap: "256 * sum_list (le_words xs) mod 0xFFFF = sum_list (be_words xs) mod 0xFFFF"
proof (induction xs rule: le_words.induct)
  case (1 a b bs)
  have "256 * (unat a + 256 * unat b) = 65535 * unat b + (256 * unat a + unat b)"
    by simp
  then have "256 * (unat a + 256 * unat b) mod 65535 = (256 * unat a + unat b) mod 65535"
    by (simp only: mod_mult_self4)
  from mod_add_cong [OF this 1] show ?case
    by (simp add: distrib_left)
qed simp_all

lemma sum_words_zero: "sum_list (le_words xs) = 0 \<longleftrightarrow> sum_list (be_words xs) = 0"
  by (induction xs rule: le_words.induct) (simp_all del: sum_list_eq_0_iff)

lemma ones_norm_words_swap:
  "ones_norm (256 * ones_norm (sum_list (le_words xs))) = ones_norm (sum_list (be_words xs))"
proof (rule ones_norm_unique [OF ones_norm_le])
  show "ones_norm (256 * ones_norm (sum_list (le_words xs))) mod 65535 =
      sum_list (be_words xs) mod 65535"
    by (metis mod_mult_right_eq ones_norm_mod sum_words_swap)
qed (simp add: sum_words_zero del: sum_list_eq_0_iff)

lemma bswap16_not: "bswap16 (NOT x) = NOT (bswap16 x)"
proof -
  have "bit (bswap16 (NOT x)) n \<longleftrightarrow> \<not> bit (bswap16 x) n" if "n < 16" for n
    using that by (auto simp: bswap16_def bit_simps dest: bit_imp_le_length)
  then show ?thesis
    by (intro bit_word_eqI) (simp add: bit_not_iff)
qed

lemma bswap16_bswap16 [simp]: "bswap16 (bswap16 x) = x"
  by (rule bit_word_eqI) (auto simp: bswap16_def bit_simps dest: bit_imp_le_length)

lemma csum_value:
  assumes "n \<le> length p" "n \<le> 2 ^ 31"
  shows "\<exists>r. csum p (int n) = Some r \<and> unat r = 0xFFFF - ones_norm (sum_list (le_words (take n p)))"
proof -
  let ?S = "sum_list (le_words (take n p))"
  have "csum_sum 0 p 0 (int n) = Some (of_nat ?S)"
    using assms(1) csum_sum_eq [of "int n" 0 p "take n p" 0] by simp
  moreover have "?S < 2 ^ 64"
    using sum_le_words_bound [of "take n p"] assms by simp
  then have "unat (of_nat ?S :: u64) = ?S"
    by (simp add: unat_of_nat)
  ultimately show ?thesis
    using unat_ucast_not [OF _ cs.fold_fits, of "of_nat ?S"] by (simp add: csum_def cs.unat_fold)
qed


lemma bswap16_of_words:
  assumes "unat x = 0xFFFF - ones_norm (sum_list (le_words q))"
    and "unat y = 0xFFFF - ones_norm (sum_list (be_words q))"
  shows "x = bswap16 y"
proof -
  have le: "unat (NOT x) = ones_norm (sum_list (le_words q))"
    using assms(1) ones_norm_le by (simp add: unat_not)
  have "unat (NOT (bswap16 x)) = unat (bswap16 (NOT x))"
    by (simp add: bswap16_not)
  also have "\<dots> = ones_norm (256 * unat (NOT x))"
    unfolding unat_bswap16 by (rule ones_norm_256) (simp add: le ones_norm_le)
  also have "\<dots> = ones_norm (sum_list (be_words q))"
    unfolding le by (rule ones_norm_words_swap)
  also have "\<dots> = unat (NOT y)"
    using assms(2) ones_norm_le [of "sum_list (be_words q)"] by (simp add: unat_not)
  finally have "bswap16 x = y"
    by (simp add: word_unat_eq_iff [symmetric])
  then show ?thesis
    by (metis bswap16_bswap16)
qed

lemma Checksum_from_zero:
  assumes "0 < n" "n \<le> length p" "n \<le> 131074"
  shows "Checksum 0 (Some p) (of_nat n) =
    Some (of_nat (ones_norm (sum_list (be_words (take n p)))))"
proof -
  have n: "unat (of_nat n :: u32) = n"
    using assms(3) by (simp add: unat_of_nat)
  have "sum_list (be_words (take n p)) \<le> 0xFFFF * ((n + 1) div 2)"
    using sum_be_words_bound [of "take n p"] assms(2) by simp
  also have "\<dots> \<le> 0xFFFF * 65537"
    using assms(3) by simp
  finally have "sum_list (be_words (take n p)) < 2 ^ 32"
    by simp
  then obtain r where r: "Checksum 0 (Some p) (of_nat n) = Some r"
      "unat r = ones_norm (sum_list (be_words (take n p)))"
    using Checksum_value [of "of_nat n" p 0] assms n by (auto simp: word_unat_eq_iff)
  then show ?thesis
    using word_eq_of_natI [OF r(2)] by simp
qed

subsection \<open>Properties\<close>

text \<open>\<open>Checksum\<close> returns, for every non-empty buffer of at most 131074 bytes, the one's
  complement sum of RFC 1071 over the big-endian 16-bit words of the buffer, an odd last byte
  padded with zero; the loops stop and no byte outside the buffer is read.\<close>

theorem Checksum_is_rfc1071_sum:
  assumes "0 < n" "n \<le> length p" "n \<le> 131074"
  shows "Checksum 0 (Some p) (of_nat n) = Some (of_nat (ones_sum (be_words (take n p))))"
  using Checksum_from_zero [OF assms] ones_sum_norm [OF be_words_bound, of "take n p"] by simp

theorem Checksum_is_rfc1071_sum_witness:
  "Checksum 0 (Some [0x00, 0x01, 0xf2, 0x03, 0xf4, 0xf5, 0xf6, 0xf7]) (of_nat 8) = Some 0xddf2"
proof -
  have "ones_sum (be_words [0x00, 0x01, 0xf2, 0x03, 0xf4, 0xf5, 0xf6, 0xf7]) = 0xddf2"
    by (simp add: ones_sum_def ones_add_def)
  then show ?thesis
    using Checksum_is_rfc1071_sum [of 8 "[0x00, 0x01, 0xf2, 0x03, 0xf4, 0xf5, 0xf6, 0xf7]"] by simp
qed

lemma be_words_replicate_FF: "be_words (replicate (2 * k) 0xFF) = replicate k 0xFFFF"
  by (induction k) simp_all

text \<open>The bound of 131074 bytes is the least possible: on 131076 bytes of 0xFF the 32-bit
  accumulator wraps around and the result is one less than the one's complement sum.\<close>

theorem Checksum_overflow:
  "Checksum 0 (Some (replicate 131076 0xFF)) 131076 = Some 0xFFFE \<and>
   ones_sum (be_words (replicate 131076 0xFF)) = 0xFFFF"
proof
  let ?p = "replicate 131076 0xFF :: bytes"
  have w: "be_words ?p = replicate 65538 0xFFFF"
    using be_words_replicate_FF [of 65538] by simp
  have "Checksum_sum 0 ?p 0 131076 = Some (0 + of_nat (sum_list (be_words ?p)))"
    by (rule Checksum_sum_eq) (simp_all add: unat_numeral)
  also have "(of_nat (sum_list (be_words ?p)) :: u32) = 0xFFFE"
    by (simp add: w sum_list_replicate)
  finally have "Checksum 0 (Some ?p) 131076 = Some (Checksum_fold 0xFFFE)"
    by (simp add: Checksum_def)
  then show "Checksum 0 (Some ?p) 131076 = Some 0xFFFE"
    by (simp add: Checksum_fold.simps)
  show "ones_sum (be_words ?p) = 0xFFFF"
    using ones_sum_norm [OF be_words_bound, of ?p]
    by (simp add: w sum_list_replicate ones_norm_def)
qed

text \<open>For any length the accumulator holds the sum modulo \<open>2 ^ 32\<close>.\<close>

lemma Checksum_wrapped:
  assumes "0 < n" "n \<le> length p" "n < 2 ^ 32"
  shows "Checksum 0 (Some p) (of_nat n) = Some (of_nat (ones_norm (sum_list (be_words (take n p)) mod 2 ^ 32)))"
proof -
  have n: "unat (of_nat n :: u32) = n"
    using assms(3) by (simp add: unat_of_nat take_bit_eq_mod)
  then have "(of_nat n :: u32) \<noteq> 0"
    using assms(1) by auto
  moreover have "Checksum_sum 0 p 0 (of_nat n) = Some (0 + of_nat (sum_list (be_words (take n p))))"
    using assms(2,3) n by (intro Checksum_sum_eq) simp_all
  moreover have "unat (Checksum_fold (of_nat m)) = ones_norm (m mod 2 ^ 32)" for m
    by (simp only: ck.unat_fold unat_of_nat take_bit_eq_mod len_num1 len_bit0) simp
  then have "Checksum_fold (of_nat m) = of_nat (ones_norm (m mod 2 ^ 32))" for m
    by (rule word_eq_of_natI)
  ultimately show ?thesis
    by (simp add: Checksum_def)
qed

text \<open>On bytes of 0xFF the wrapped sum is a different one as soon as it wraps.\<close>

lemma sum_words_FF: "sum_list (be_words (replicate n 0xFF)) = 0xFFFF * (n div 2) + 0xFF00 * (n mod 2)"
proof (induction n rule: less_induct)
  case (less n)
  consider "n = 0" | "n = 1" | m where "n = Suc (Suc m)"
    by (metis One_nat_def not0_implies_Suc)
  then show ?case
    by cases (simp_all add: less.IH)
qed

lemma wrapped_sum_differs:
  assumes "2 ^ 32 \<le> S" "S < 2 ^ 32 * 0xFFFF"
  shows "ones_norm (S mod 2 ^ 32) \<noteq> ones_norm S"
proof
  assume "ones_norm (S mod 2 ^ 32) = ones_norm S"
  then have "S mod 2 ^ 32 mod 0xFFFF = S mod 0xFFFF"
    by (metis ones_norm_mod)
  then have "0xFFFF dvd S - S mod 2 ^ 32"
    by (metis mod_eq_dvd_iff_nat mod_less_eq_dividend)
  then have "0xFFFF dvd 2 ^ 32 * (S div 2 ^ 32)"
    by (simp only: minus_mod_eq_mult_div)
  moreover have "coprime (0xFFFF :: nat) (2 ^ 32)"
    by (simp only: coprime_power_right_iff coprime_right_2_iff_odd) simp
  ultimately have "0xFFFF dvd S div 2 ^ 32"
    by (simp only: coprime_dvd_mult_right_iff)
  moreover have "0 < S div 2 ^ 32"
    using assms(1) by (simp add: div_greater_zero_iff)
  moreover have "S div 2 ^ 32 < 0xFFFF"
    using assms(2) by (simp add: less_mult_imp_div_less mult.commute)
  ultimately show False
    by (meson dvd_imp_le not_less)
qed

text \<open>C3: \<open>Checksum\<close> refines the one's complement sum of RFC 1071 over the big-endian 16-bit words of a buffer, an odd last
  byte padded with zero, exactly for the lengths up to 131074 bytes: for these it returns the sum for every buffer, reads no byte
  outside of it, and its loops stop; for every greater length there is a buffer whose sum wraps the 32-bit accumulator and comes out
  wrong.\<close>

theorem Checksum_refines_rfc1071:
  assumes "0 < n" "n < 2 ^ 32"
  shows "(\<forall>p. n \<le> length p \<longrightarrow> Checksum 0 (Some p) (of_nat n) = Some (of_nat (ones_sum (be_words (take n p))))) \<longleftrightarrow> n \<le> 131074"
proof
  let ?p = "replicate n 0xFF :: bytes" and ?S = "0xFFFF * (n div 2) + 0xFF00 * (n mod 2)"
  assume "\<forall>p. n \<le> length p \<longrightarrow> Checksum 0 (Some p) (of_nat n) = Some (of_nat (ones_sum (be_words (take n p))))"
  then have "Checksum 0 (Some ?p) (of_nat n) = Some (of_nat (ones_norm ?S))"
    using ones_sum_norm [OF be_words_bound, of ?p] by (simp add: sum_words_FF)
  then have "(of_nat (ones_norm (?S mod 2 ^ 32)) :: u32) = of_nat (ones_norm ?S)"
    using Checksum_wrapped [OF assms(1) _ assms(2), of ?p] by (simp add: sum_words_FF)
  then have "ones_norm (?S mod 2 ^ 32) = ones_norm ?S"
    using ones_norm_le [of "?S mod 2 ^ 32"] ones_norm_le [of ?S]
    by (simp add: word_of_nat_eq_iff take_bit_nat_eq_self)
  moreover have "?S < 2 ^ 32 * 0xFFFF"
    using assms(2) by linarith
  ultimately have "?S < 2 ^ 32"
    using wrapped_sum_differs [of ?S] by linarith
  moreover have "65538 \<le> n div 2" if "131076 \<le> n"
    using div_le_mono [OF that, of 2] by simp
  ultimately show "n \<le> 131074"
    by (cases "n = 131075") auto
next
  assume "n \<le> 131074"
  then show "\<forall>p. n \<le> length p \<longrightarrow> Checksum 0 (Some p) (of_nat n) = Some (of_nat (ones_sum (be_words (take n p))))"
    using Checksum_is_rfc1071_sum [OF assms(1)] by blast
qed

theorem Checksum_refines_rfc1071_witness:
  "Checksum 0 (Some [0x00, 0x01, 0xf2, 0x03, 0xf4, 0xf5, 0xf6, 0xf7]) (of_nat 8) = Some 0xddf2 \<and>
   (\<exists>p. 131075 \<le> length p \<and> Checksum 0 (Some p) (of_nat 131075) \<noteq> Some (of_nat (ones_sum (be_words (take 131075 p)))))"
proof -
  have "ones_sum (be_words [0x00, 0x01, 0xf2, 0x03, 0xf4, 0xf5, 0xf6, 0xf7]) = 0xddf2"
    by (simp add: ones_sum_def ones_add_def)
  moreover have all: "\<forall>p. 8 \<le> length p \<longrightarrow> Checksum 0 (Some p) (of_nat 8) = Some (of_nat (ones_sum (be_words (take 8 p))))"
    by (subst Checksum_refines_rfc1071) simp_all
  ultimately have "Checksum 0 (Some [0x00, 0x01, 0xf2, 0x03, 0xf4, 0xf5, 0xf6, 0xf7]) (of_nat 8) = Some 0xddf2"
    using all [rule_format, of "[0x00, 0x01, 0xf2, 0x03, 0xf4, 0xf5, 0xf6, 0xf7]"] by simp
  moreover have "\<not> (\<forall>p. 131075 \<le> length p \<longrightarrow>
      Checksum 0 (Some p) (of_nat 131075) = Some (of_nat (ones_sum (be_words (take 131075 p)))))"
    by (subst Checksum_refines_rfc1071) simp_all
  ultimately show ?thesis
    by blast
qed

text \<open>C27: the two routines agree: the value \<open>csum\<close> computes over host-order words is, in
  memory, the network-order complement of the sum \<open>Checksum\<close> computes over big-endian words.\<close>

theorem csum_is_Checksum_in_network_order:
  assumes "0 < n" "n \<le> length p" "n \<le> 131074"
  shows "\<exists>s. Checksum 0 (Some p) (of_nat n) = Some s \<and>
    csum p (int n) = Some (htons (ucast (NOT s)))"
proof -
  let ?B = "sum_list (be_words (take n p))"
  let ?s = "of_nat (ones_norm ?B) :: u32"
  have u: "unat ?s = ones_norm ?B"
    using ones_norm_le [of ?B] by (simp add: unat_of_nat)
  obtain r where r: "csum p (int n) = Some r"
      "unat r = 0xFFFF - ones_norm (sum_list (le_words (take n p)))"
    using csum_value [of n p] assms by auto
  have "r = htons (ucast (NOT ?s))"
    using r(2) unat_ucast_not [of ?s] ones_norm_le [of ?B]
    by (intro bswap16_of_words) (simp_all add: u)
  then show ?thesis
    using Checksum_from_zero [OF assms] r(1) by simp
qed

theorem csum_is_Checksum_in_network_order_witness:
  "\<exists>s. Checksum 0 (Some [0x45, 0x00, 0x73]) (of_nat 3) = Some s \<and>
    csum [0x45, 0x00, 0x73] (int 3) = Some (htons (ucast (NOT s)))"
  by (rule csum_is_Checksum_in_network_order) simp_all

end
