(* ===== verification/Headers.thy ===== *)
theory Headers
  imports Checksum
begin

text \<open>
  The packed protocol headers of \<^verbatim>\<open>src/c/common/header.h\<close> and the functions that fill in
  their checksums.  A header pointer is an offset into the packet buffer, and a member access
  is an access at the member's offset, so that the code's casts between byte pointers and
  structure pointers keep their aliasing.
\<close>

unbundle bit_operations_syntax

subsection \<open>Layout under \<open>#pragma pack(1)\<close>\<close>

datatype IPTYPES = IPTYPE_V4 | IPTYPE_V6

text \<open>Members with their sizes in bytes, in declaration order; a union has the size of its
  largest member.\<close>

definition IPv4_HEADER_t :: "(string \<times> nat) list" where
  "IPv4_HEADER_t =
    [(''bVersionAndHeaderLen'', 1), (''bTypeOfService'', 1), (''u16TotalLenOfPacket'', 2),
     (''u16PacketID'', 2), (''u16Sliceinfo'', 2), (''bTTL'', 1), (''bTypeOfProtocol'', 1),
     (''u16CheckSum'', 2), (''abSrcAddr'', 4), (''abDstAddr'', 4)]"

definition IPv6_HEADER_t :: "(string \<times> nat) list" where
  "IPv6_HEADER_t =
    [(''abVTF'', 4), (''u16PayloadLen'', 2), (''bNextHeader'', 1), (''bHopLimit'', 1),
     (''abSrcAddr'', 16), (''abDstAddr'', 16)]"

definition UDP_HEADER_t :: "(string \<times> nat) list" where
  "UDP_HEADER_t =
    [(''u16SrcPort'', 2), (''u16DstPort'', 2), (''u16Length'', 2), (''u16CheckSum'', 2)]"

fun offsetof :: "(string \<times> nat) list \<Rightarrow> string \<Rightarrow> nat" where
  "offsetof [] f = 0"
| "offsetof ((g, n) # fs) f = (if f = g then 0 else n + offsetof fs f)"

definition sizeof :: "(string \<times> nat) list \<Rightarrow> nat" where
  "sizeof fs = sum_list (map snd fs)"

lemma ipv4_layout [c_layout]:
  "offsetof IPv4_HEADER_t ''bVersionAndHeaderLen'' = 0"
  "offsetof IPv4_HEADER_t ''u16TotalLenOfPacket'' = 2"
  "offsetof IPv4_HEADER_t ''bTTL'' = 8"
  "offsetof IPv4_HEADER_t ''bTypeOfProtocol'' = 9"
  "offsetof IPv4_HEADER_t ''u16CheckSum'' = 10"
  "offsetof IPv4_HEADER_t ''abSrcAddr'' = 12"
  "offsetof IPv4_HEADER_t ''abDstAddr'' = 16"
  "sizeof IPv4_HEADER_t = 20"
  by (simp_all add: IPv4_HEADER_t_def sizeof_def)

lemma ipv6_layout [c_layout]:
  "offsetof IPv6_HEADER_t ''abVTF'' = 0"
  "offsetof IPv6_HEADER_t ''u16PayloadLen'' = 4"
  "offsetof IPv6_HEADER_t ''bNextHeader'' = 6"
  "offsetof IPv6_HEADER_t ''bHopLimit'' = 7"
  "offsetof IPv6_HEADER_t ''abSrcAddr'' = 8"
  "offsetof IPv6_HEADER_t ''abDstAddr'' = 24"
  "sizeof IPv6_HEADER_t = 40"
  by (simp_all add: IPv6_HEADER_t_def sizeof_def)

lemma udp_layout [c_layout]:
  "offsetof UDP_HEADER_t ''u16SrcPort'' = 0"
  "offsetof UDP_HEADER_t ''u16DstPort'' = 2"
  "offsetof UDP_HEADER_t ''u16Length'' = 4"
  "offsetof UDP_HEADER_t ''u16CheckSum'' = 6"
  "sizeof UDP_HEADER_t = 8"
  by (simp_all add: UDP_HEADER_t_def sizeof_def)


subsection \<open>Filling in the checksums\<close>

definition ipv4_header_checksum :: "bytes \<Rightarrow> nat \<Rightarrow> bytes option" where
  "ipv4_header_checksum m pIpHeader = do {
     vhl \<leftarrow> load8 m (pIpHeader + offsetof IPv4_HEADER_t ''bVersionAndHeaderLen'');
     let ipHeadLen = (push_bit 2 (vhl AND 0x0F) :: u8);
     m \<leftarrow> store16 m (pIpHeader + offsetof IPv4_HEADER_t ''u16CheckSum'') 0;
     s \<leftarrow> Checksum 0 (Some (drop pIpHeader m)) (ucast ipHeadLen);
     store16 m (pIpHeader + offsetof IPv4_HEADER_t ''u16CheckSum'') (htons (ucast (NOT s)))
   }"

text \<open>\<open>sum += udpLen\<close> and the size argument of \<open>Checksum\<close> truncate the \<open>size_t\<close> length to
  32 bits, the length member to 16.\<close>

definition udp4_header_checksum :: "bytes \<Rightarrow> nat \<Rightarrow> nat \<Rightarrow> u64 \<Rightarrow> bytes option" where
  "udp4_header_checksum m ptIPv4Header ptUDPHeader udpLen = do {
     m \<leftarrow> store16 m (ptUDPHeader + offsetof UDP_HEADER_t ''u16Length'') (htons (ucast udpLen));
     let s = (ucast udpLen :: u32);
     s \<leftarrow> Checksum s (Some (drop (ptIPv4Header + offsetof IPv4_HEADER_t ''abSrcAddr'') m)) 4;
     s \<leftarrow> Checksum s (Some (drop (ptIPv4Header + offsetof IPv4_HEADER_t ''abDstAddr'') m)) 4;
     proto \<leftarrow> load8 m (ptIPv4Header + offsetof IPv4_HEADER_t ''bTypeOfProtocol'');
     let s = s + (ucast proto AND 0x00FF);
     m \<leftarrow> store16 m (ptUDPHeader + offsetof UDP_HEADER_t ''u16CheckSum'') 0;
     s \<leftarrow> Checksum s (Some (drop ptUDPHeader m)) (ucast udpLen);
     store16 m (ptUDPHeader + offsetof UDP_HEADER_t ''u16CheckSum'') (htons (ucast (NOT s)))
   }"

definition udp6_header_checksum :: "bytes \<Rightarrow> nat \<Rightarrow> nat \<Rightarrow> u64 \<Rightarrow> bytes option" where
  "udp6_header_checksum m pIpHeader ptUDPHeader udpLen = do {
     m \<leftarrow> store16 m (ptUDPHeader + offsetof UDP_HEADER_t ''u16Length'') (htons (ucast udpLen));
     let s = (ucast udpLen :: u32);
     s \<leftarrow> Checksum s (Some (drop (pIpHeader + offsetof IPv6_HEADER_t ''abSrcAddr'') m)) 16;
     s \<leftarrow> Checksum s (Some (drop (pIpHeader + offsetof IPv6_HEADER_t ''abDstAddr'') m)) 16;
     proto \<leftarrow> load8 m (pIpHeader + offsetof IPv6_HEADER_t ''bNextHeader'');
     let s = s + (ucast proto AND 0x00FF);
     m \<leftarrow> store16 m (ptUDPHeader + offsetof UDP_HEADER_t ''u16CheckSum'') 0;
     s \<leftarrow> Checksum s (Some (drop ptUDPHeader m)) (ucast udpLen);
     store16 m (ptUDPHeader + offsetof UDP_HEADER_t ''u16CheckSum'') (htons (ucast (NOT s)))
   }"

text \<open>The \<open>csum\<close>-based variants, which assign every partial sum instead of adding it.  The
  length converts to the \<open>int\<close> parameter of \<open>csum\<close>.\<close>

definition csum32 :: "bytes \<Rightarrow> int \<Rightarrow> u32 option" where
  "csum32 p packlen = map_option ucast (csum p packlen)"

definition udp4_header_checksum2 :: "bytes \<Rightarrow> nat \<Rightarrow> nat \<Rightarrow> u64 \<Rightarrow> bytes option" where
  "udp4_header_checksum2 m pIPv4Header ptUDPHeader udpLen = do {
     m \<leftarrow> store16 m (ptUDPHeader + offsetof UDP_HEADER_t ''u16Length'') (htons (ucast udpLen));
     let s = (ucast udpLen :: u32);
     s \<leftarrow> csum32 (drop (pIPv4Header + offsetof IPv4_HEADER_t ''abSrcAddr'') m) 4;
     s \<leftarrow> csum32 (drop (pIPv4Header + offsetof IPv4_HEADER_t ''abDstAddr'') m) 4;
     proto \<leftarrow> load8 m (pIPv4Header + offsetof IPv4_HEADER_t ''bTypeOfProtocol'');
     let s = s + (ucast proto AND 0x00FF);
     m \<leftarrow> store16 m (ptUDPHeader + offsetof UDP_HEADER_t ''u16CheckSum'') 0;
     s \<leftarrow> csum32 (drop ptUDPHeader m) (to_int32 (uint udpLen));
     store16 m (ptUDPHeader + offsetof UDP_HEADER_t ''u16CheckSum'') (htons (ucast (NOT s)))
   }"

definition udp6_header_checksum2 :: "bytes \<Rightarrow> nat \<Rightarrow> nat \<Rightarrow> u64 \<Rightarrow> bytes option" where
  "udp6_header_checksum2 m pIPv6Header ptUDPHeader udpLen = do {
     m \<leftarrow> store16 m (ptUDPHeader + offsetof UDP_HEADER_t ''u16Length'') (htons (ucast udpLen));
     let s = (ucast udpLen :: u32);
     s \<leftarrow> csum32 (drop (pIPv6Header + offsetof IPv6_HEADER_t ''abSrcAddr'') m) 16;
     s \<leftarrow> csum32 (drop (pIPv6Header + offsetof IPv6_HEADER_t ''abDstAddr'') m) 16;
     proto \<leftarrow> load8 m (pIPv6Header + offsetof IPv6_HEADER_t ''bNextHeader'');
     let s = s + (ucast proto AND 0x00FF);
     m \<leftarrow> store16 m (ptUDPHeader + offsetof UDP_HEADER_t ''u16CheckSum'') 0;
     s \<leftarrow> csum32 (drop ptUDPHeader m) (to_int32 (uint udpLen));
     store16 m (ptUDPHeader + offsetof UDP_HEADER_t ''u16CheckSum'') (htons (ucast (NOT s)))
   }"

subsection \<open>What a receiver checks\<close>

text \<open>A header or datagram is accepted when the one's complement sum over it, its checksum
  included, is 0xFFFF (RFC 791, RFC 768, RFC 8200).\<close>

definition bytes_at :: "bytes \<Rightarrow> nat \<Rightarrow> nat \<Rightarrow> bytes" where
  "bytes_at m i n = take n (drop i m)"

definition ipv4_header_ok :: "bytes \<Rightarrow> nat \<Rightarrow> nat \<Rightarrow> bool" where
  "ipv4_header_ok m ip hlen \<longleftrightarrow> ones_sum (be_words (bytes_at m ip hlen)) = 0xFFFF"

definition pseudo4 :: "bytes \<Rightarrow> nat \<Rightarrow> nat \<Rightarrow> nat list" where
  "pseudo4 m ip len =
     be_words (bytes_at m (ip + 12) 4) @ be_words (bytes_at m (ip + 16) 4) @
     [unat (m ! (ip + 9)), len]"

definition pseudo6 :: "bytes \<Rightarrow> nat \<Rightarrow> nat \<Rightarrow> nat list" where
  "pseudo6 m ip len =
     be_words (bytes_at m (ip + 8) 16) @ be_words (bytes_at m (ip + 24) 16) @
     [unat (m ! (ip + 6)), len]"

definition udp_datagram_ok :: "nat list \<Rightarrow> bytes \<Rightarrow> nat \<Rightarrow> nat \<Rightarrow> bool" where
  "udp_datagram_ok pseudo m udp len \<longleftrightarrow>
     ones_sum (pseudo @ be_words (bytes_at m udp len)) = 0xFFFF"

subsection \<open>Stores into a checksum field\<close>

lemma length_bytes_at: "i + n \<le> length m \<Longrightarrow> length (bytes_at m i n) = n"
  by (simp add: bytes_at_def)

text \<open>The bytes of a network-order 16-bit value.\<close>

lemma le16_htons: "\<exists>a b. le16 (htons v) = [a, b] \<and> 256 * unat a + unat b = unat v"
proof -
  have v: "unat v div 256 < 256"
    using unat_u16_less [of v] by linarith
  then have "unat (ucast (bswap16 v) :: u8) = unat v div 256"
    by (simp add: unsigned_ucast_eq unat_bswap16 take_bit_eq_mod)
  moreover have "unat (drop_bit 8 (bswap16 v)) = unat v mod 256"
    using v by (simp only: unsigned_drop_bit_eq unat_bswap16)
      (simp add: drop_bit_eq_div take_bit_eq_mod)
  then have "unat (ucast (drop_bit 8 (bswap16 v)) :: u8) = unat v mod 256"
    by (simp add: unsigned_ucast_eq take_bit_eq_mod)
  ultimately show ?thesis
    by (auto simp: le16_def)
qed

lemma le16_zero: "le16 0 = [0, 0]"
  by (simp add: le16_def)

lemma sum_be_words_store:
  assumes "even i" "i + 2 \<le> length q"
  shows "sum_list (be_words (take i q @ [a, b] @ drop (i + 2) q)) =
    sum_list (be_words (take i q)) + (256 * unat a + unat b) + sum_list (be_words (drop (i + 2) q))"
  using assms by (subst be_words_append) simp_all

lemma bytes_at_store_inside:
  assumes "store_bytes m (j + i) bs = Some m'" "i + length bs \<le> n" "j + n \<le> length m"
  shows "bytes_at m' j n =
    take i (bytes_at m j n) @ bs @ drop (i + length bs) (bytes_at m j n)"
proof -
  have m': "m' = take (j + i) m @ bs @ drop (j + i + length bs) m"
    using assms(1) by (simp add: store_bytes_def split: if_splits)
  have "drop j m' = take i (drop j m) @ bs @ drop (i + length bs) (drop j m)"
    using assms(2,3) by (simp add: m' drop_take ac_simps)
  then show ?thesis
    using assms(2,3) by (simp add: bytes_at_def drop_take min_absorb1 min_absorb2)
qed


lemma bytes_at_store_below:
  "store_bytes m i bs = Some m' \<Longrightarrow> j + n \<le> i \<Longrightarrow> bytes_at m' j n = bytes_at m j n"
  unfolding bytes_at_def by (rule load_store_below)

lemma nth_store_outside:
  assumes "store_bytes m i bs = Some m'" "j < i \<or> i + length bs \<le> j" "j < length m"
  shows "m' ! j = m ! j"
  using assms by (auto simp: store_bytes_def nth_append min_def split: if_splits)

subsection \<open>Running sums\<close>

lemma Checksum_running:
  assumes "n = unat sz" "0 < n" "n \<le> length p" "k + 0xFFFF * ((n + 1) div 2) < 2 ^ 32"
  shows "Checksum (of_nat k) (Some p) sz =
    Some (of_nat (ones_norm (k + sum_list (be_words (take n p)))))"
proof -
  let ?S = "sum_list (be_words (take n p))"
  have "?S \<le> 0xFFFF * ((n + 1) div 2)"
    using sum_be_words_bound [of "take n p"] assms(3) by simp
  then have S: "k + ?S < 2 ^ 32"
    using assms(4) by linarith
  then have k: "unat (of_nat k :: u32) = k"
    by (simp add: unat_of_nat)
  obtain r where r: "Checksum (of_nat k) (Some p) sz = Some r" "unat r = ones_norm (k + ?S)"
    using Checksum_value [of sz p "of_nat k"] assms(1-3) S k by (auto simp: unat_gt_0)
  then show ?thesis
    using word_eq_of_natI [OF r(2)] by simp
qed

text \<open>Storing the complement of a sum makes the sum over everything 0xFFFF.\<close>

lemma ones_norm_complement: "ones_norm (n + (0xFFFF - ones_norm n)) = 0xFFFF"
proof -
  have "ones_norm (n + (0xFFFF - ones_norm n)) = ones_norm (ones_norm n + (0xFFFF - ones_norm n))"
    by (simp only: ones_norm_add)
  also have "ones_norm n + (0xFFFF - ones_norm n) = 0xFFFF"
    using ones_norm_le [of n] by simp
  finally show ?thesis
    by (simp add: ones_norm_small)
qed

lemma complement_field:
  "\<exists>a b. le16 (htons (ucast (NOT (of_nat (ones_norm n) :: u32)))) = [a, b] \<and>
    256 * unat a + unat b = 0xFFFF - ones_norm n"
proof -
  have "unat (of_nat (ones_norm n) :: u32) = ones_norm n"
    using ones_norm_le [of n] by (simp add: unat_of_nat)
  then have "unat (ucast (NOT (of_nat (ones_norm n) :: u32)) :: u16) = 0xFFFF - ones_norm n"
    using unat_ucast_not [of "of_nat (ones_norm n) :: u32"] ones_norm_le [of n] by simp
  then show ?thesis
    using le16_htons by metis
qed

text \<open>The common end of all checksum functions: the field at an even offset of a region is
  zeroed, the region is summed onto \<open>k\<close>, and the complement is stored.\<close>

lemma finish_checksum:
  assumes "even i" "i + 2 \<le> n" "j + n \<le> length m" "n = unat sz"
    and "k + 0xFFFF * ((n + 1) div 2) < 2 ^ 32"
  shows "\<exists>m0 s m'. store16 m (j + i) 0 = Some m0 \<and>
    Checksum (of_nat k) (Some (drop j m0)) sz = Some s \<and>
    store16 m0 (j + i) (htons (ucast (NOT s))) = Some m' \<and>
    ones_norm (k + sum_list (be_words (bytes_at m' j n))) = 0xFFFF \<and>
    length m' = length m \<and>
    (\<forall>x < length m. x < j + i \<or> j + i + 2 \<le> x \<longrightarrow> m' ! x = m ! x)"
proof -
  obtain m0 where m0: "store16 m (j + i) 0 = Some m0"
    using assms(2,3) by (simp add: store_bytes_in_bounds)
  have len0: "length m0 = length m"
    using m0 by (rule store_bytes_length)
  let ?q = "bytes_at m0 j n"
  let ?T = "k + sum_list (be_words ?q)"
  have s: "Checksum (of_nat k) (Some (drop j m0)) sz = Some (of_nat (ones_norm ?T))"
    using assms(2-5) len0 by (subst Checksum_running [of n]) (auto simp: bytes_at_def)
  obtain a b where ab: "le16 (htons (ucast (NOT (of_nat (ones_norm ?T) :: u32)))) = [a, b]"
      "256 * unat a + unat b = 0xFFFF - ones_norm ?T"
    using complement_field by blast
  obtain m' where m': "store_bytes m0 (j + i) [a, b] = Some m'"
    using assms(2,3) len0 by (simp add: store_bytes_in_bounds)
  have len: "length ?q = n"
    using assms(3) len0 by (simp add: length_bytes_at)
  have zero: "?q = take i (bytes_at m j n) @ [0, 0] @ drop (i + 2) (bytes_at m j n)"
    using bytes_at_store_inside [OF m0] assms(2,3) by (simp add: le16_zero)
  have "sum_list (be_words ?q) = sum_list (be_words (take i ?q)) + sum_list (be_words (drop (i + 2) ?q))"
  proof -
    have "?q = take i ?q @ [0, 0] @ drop (i + 2) ?q"
      using zero assms(2,3) by (simp add: length_bytes_at)
    then show ?thesis
      using sum_be_words_store [of i ?q 0 0] assms(1,2) len by simp
  qed
  moreover have "bytes_at m' j n = take i ?q @ [a, b] @ drop (i + 2) ?q"
    using bytes_at_store_inside [OF m'] assms(2,3) len0 by simp
  ultimately have "sum_list (be_words (bytes_at m' j n)) =
      sum_list (be_words ?q) + (0xFFFF - ones_norm ?T)"
    using sum_be_words_store [of i ?q a b] assms(1,2) len ab(2) by simp
  then have "ones_norm (k + sum_list (be_words (bytes_at m' j n))) = 0xFFFF"
    using ones_norm_complement [of ?T] by (simp add: add.assoc)
  moreover have "\<forall>x < length m. x < j + i \<or> j + i + 2 \<le> x \<longrightarrow> m' ! x = m ! x"
    using nth_store_outside [OF m0] nth_store_outside [OF m'] len0 by simp
  ultimately show ?thesis
    using m0 s m' ab(1) len0 store_bytes_length [OF m'] by auto
qed


subsection \<open>The pseudo header\<close>

text \<open>Both UDP functions sum two addresses and a protocol number of the IP header before the
  datagram.  The interface fixes where they are; its laws are the offsets of a structure of
  \<open>hsize\<close> bytes.\<close>

lemma running_total_fits:
  fixes a b len :: nat
  assumes "a \<le> 0xFFFF" "b < 256" "len \<le> 0xFFFF"
  shows "a + b + 0xFFFF * ((len + 1) div 2) < 2 ^ 32"
proof -
  have "(len + 1) div 2 \<le> 32768"
    using assms(3) by simp
  then have "0xFFFF * ((len + 1) div 2) \<le> 0xFFFF * 32768"
    by simp
  then show ?thesis
    using assms(1,2) by simp
qed

lemma ones_norm_chain:
  "ones_norm (ones_norm (ones_norm (l + a) + b) + p + x) = ones_norm (a + b + p + l + x)"
  by (simp only: add.assoc ones_norm_add) (simp add: ac_simps)

lemma be_words_le16_htons: "be_words (le16 (htons v)) = [unat v]"
  using le16_htons [of v] by auto

locale udp_checksummer =
  fixes fill :: "bytes \<Rightarrow> nat \<Rightarrow> nat \<Rightarrow> u64 \<Rightarrow> bytes option"
    and src dst alen proto hsize :: nat
  assumes inside: "src + alen \<le> hsize" "dst + alen \<le> hsize" "proto < hsize"
    and alen: "0 < alen" "alen \<le> 16"
    and fill_unfold: "fill m ip udp len = do {
       m \<leftarrow> store16 m (udp + 4) (htons (ucast len));
       s \<leftarrow> Checksum (ucast len) (Some (drop (ip + src) m)) (of_nat alen);
       s \<leftarrow> Checksum s (Some (drop (ip + dst) m)) (of_nat alen);
       pr \<leftarrow> load8 m (ip + proto);
       m \<leftarrow> store16 m (udp + 6) 0;
       s \<leftarrow> Checksum (s + (ucast pr AND 0x00FF)) (Some (drop udp m)) (ucast len);
       store16 m (udp + 6) (htons (ucast (NOT s)))
     }"
begin

definition pseudo_sum :: "bytes \<Rightarrow> nat \<Rightarrow> nat \<Rightarrow> nat" where
  "pseudo_sum m ip len =
     sum_list (be_words (bytes_at m (ip + src) alen)) +
     sum_list (be_words (bytes_at m (ip + dst) alen)) + unat (m ! (ip + proto)) + len"

lemma address_sum:
  assumes "a + alen \<le> length m" "k \<le> 0x10000"
  shows "Checksum (of_nat k) (Some (drop a m)) (of_nat alen) =
    Some (of_nat (ones_norm (k + sum_list (be_words (bytes_at m a alen)))))"
proof -
  have "unat (of_nat alen :: u32) = alen"
    using alen by (simp add: unat_of_nat)
  moreover have "0xFFFF * ((alen + 1) div 2) \<le> 0xFFFF * 8"
    using alen by simp
  ultimately show ?thesis
    using Checksum_running [of alen "of_nat alen" "drop a m" k] assms alen
    by (simp add: bytes_at_def)
qed

lemma fill_ok:
  assumes hdr: "ip + hsize \<le> udp" and len: "8 \<le> len" "len \<le> 0xFFFF"
    and seg: "udp + len \<le> length m"
  shows "\<exists>m'. fill m ip udp (of_nat len) = Some m' \<and> length m' = length m \<and>
    ones_norm (pseudo_sum m ip len + sum_list (be_words (bytes_at m' udp len))) = 0xFFFF \<and>
    be_words (bytes_at m' (udp + 4) 2) = [len] \<and>
    (\<forall>x < length m. x < udp + 4 \<or> udp + 8 \<le> x \<longrightarrow> m' ! x = m ! x)"
proof -
  have c: "unat (ucast (of_nat len :: u64) :: u32) = len" "unat (ucast (of_nat len :: u64) :: u16) = len"
    "(ucast (of_nat len :: u64) :: u32) = of_nat len"
    using len by (simp_all add: unsigned_ucast_eq unat_of_nat take_bit_eq_mod word_eq_of_natI)
  obtain m1 where m1: "store16 m (udp + 4) (htons (ucast (of_nat len :: u64))) = Some m1"
    using len seg by (simp add: store_bytes_in_bounds)
  have l1: "length m1 = length m"
    using m1 by (rule store_bytes_length)
  let ?s1 = "len + sum_list (be_words (bytes_at m1 (ip + src) alen))"
  let ?s2 = "ones_norm ?s1 + sum_list (be_words (bytes_at m1 (ip + dst) alen))"
  let ?k = "ones_norm ?s2 + unat (m1 ! (ip + proto))"
  have a1: "Checksum (of_nat len) (Some (drop (ip + src) m1)) (of_nat alen) =
      Some (of_nat (ones_norm ?s1))"
    using inside hdr seg len l1 by (intro address_sum) auto
  have a2: "Checksum (of_nat (ones_norm ?s1)) (Some (drop (ip + dst) m1)) (of_nat alen) =
      Some (of_nat (ones_norm ?s2))"
    using inside hdr seg len l1 ones_norm_le [of ?s1] by (intro address_sum) auto
  have pr: "load8 m1 (ip + proto) = Some (m1 ! (ip + proto))"
    using inside hdr seg len l1 by (intro load8_in_bounds) auto
  have k: "of_nat (ones_norm ?s2) + (ucast (m1 ! (ip + proto)) AND 0x00FF) = (of_nat ?k :: u32)"
    by (simp add: ucast_and_FF word_unat_eq_iff)
  have "?k + 0xFFFF * ((len + 1) div 2) < 2 ^ 32"
    using len(2) by (intro running_total_fits ones_norm_le unat_u8_less)
  then obtain m2 s m' where
    m2: "store16 m1 (udp + 6) 0 = Some m2" and
    s: "Checksum (of_nat ?k) (Some (drop udp m2)) (ucast (of_nat len :: u64)) = Some s" and
    m': "store16 m2 (udp + 6) (htons (ucast (NOT s))) = Some m'" and
    sum: "ones_norm (?k + sum_list (be_words (bytes_at m' udp len))) = 0xFFFF" and
    l': "length m' = length m" and
    frame: "\<forall>x < length m. x < udp + 6 \<or> udp + 6 + 2 \<le> x \<longrightarrow> m' ! x = m1 ! x"
    using finish_checksum [of 6 len udp m1 "ucast (of_nat len :: u64)" ?k] len seg l1 c(1) by auto
  have "fill m ip udp (of_nat len) = Some m'"
    unfolding fill_unfold by (simp add: m1 c(3) a1 a2 pr k m2 s [unfolded c(3)] m' del: of_nat_add)
  moreover have "ones_norm (pseudo_sum m ip len + sum_list (be_words (bytes_at m' udp len))) =
      ones_norm (?k + sum_list (be_words (bytes_at m' udp len)))"
    using inside hdr seg len(1) unfolding pseudo_sum_def ones_norm_chain
    by (simp add: bytes_at_store_below [OF m1] nth_store_outside [OF m1])
  moreover have "bytes_at m' (udp + 4) 2 = le16 (htons (ucast (of_nat len :: u64)))"
    using bytes_at_store_below [OF m', of "udp + 4" 2] bytes_at_store_below [OF m2, of "udp + 4" 2]
      load_store_same [OF m1] by (simp add: bytes_at_def)
  then have "be_words (bytes_at m' (udp + 4) 2) = [len]"
    by (simp only: be_words_le16_htons c(2))
  moreover have "\<forall>x < length m. x < udp + 4 \<or> udp + 8 \<le> x \<longrightarrow> m' ! x = m ! x"
    using frame nth_store_outside [OF m1] by auto
  ultimately show ?thesis
    using sum l' by auto
qed

end


context udp_checksummer begin

text \<open>A length that reaches past the end of the buffer makes the function read outside it.\<close>

lemma fill_out_of_bounds:
  assumes "length m < udp + len" "len < 2 ^ 32" "0 < len"
  shows "fill m ip udp (of_nat len) = None"
proof -
  have len: "unat (ucast (of_nat len :: u64) :: u32) = len"
    using assms(2) by (simp add: unsigned_ucast_eq unat_of_nat take_bit_eq_mod)
  have "length m - udp < len"
    using assms(1,3) by arith
  then have "Checksum c (Some (drop udp m')) (ucast (of_nat len :: u64)) = None"
    if "length m' = length m" for m' c
    using that by (intro Checksum_out_of_bounds) (simp only: len length_drop)
  then have "fill m ip udp (of_nat len) \<noteq> Some m'" for m'
    unfolding fill_unfold
    by (auto simp: Option.bind_eq_Some_conv dest!: store_bytes_length)
  then show ?thesis
    by (cases "fill m ip udp (of_nat len)") auto
qed

end

interpretation udp4: udp_checksummer udp4_header_checksum 12 16 4 9 20
  by unfold_locales (simp_all add: udp4_header_checksum_def c_layout Let_def)

interpretation udp6: udp_checksummer udp6_header_checksum 8 24 16 6 40
  by unfold_locales (simp_all add: udp6_header_checksum_def c_layout Let_def)

lemma words_ok_of_norm:
  assumes "\<forall>w\<in>set ps. w \<le> 0xFFFF"
  shows "udp_datagram_ok ps m udp len \<longleftrightarrow>
    ones_norm (sum_list ps + sum_list (be_words (bytes_at m udp len))) = 0xFFFF"
proof -
  have "\<forall>w\<in>set (ps @ be_words (bytes_at m udp len)). w \<le> 0xFFFF"
    using assms be_words_bound [of "bytes_at m udp len"] by auto
  then show ?thesis
    by (simp only: udp_datagram_ok_def ones_sum_norm sum_list_append)
qed

lemma pseudo_words_small:
  "len \<le> 0xFFFF \<Longrightarrow> \<forall>w\<in>set (pseudo4 m ip len). w \<le> 0xFFFF"
  "len \<le> 0xFFFF \<Longrightarrow> \<forall>w\<in>set (pseudo6 m ip len). w \<le> 0xFFFF"
  using be_words_bound by (auto simp: pseudo4_def pseudo6_def two_bytes_le_FFFF)

lemma pseudo_sums:
  "sum_list (pseudo4 m ip len) = udp4.pseudo_sum m ip len"
  "sum_list (pseudo6 m ip len) = udp6.pseudo_sum m ip len"
  by (simp_all add: pseudo4_def pseudo6_def udp4.pseudo_sum_def udp6.pseudo_sum_def)

lemma udp4_checksum_valid:
  assumes "ip + 20 \<le> udp" "8 \<le> len" "len \<le> 0xFFFF" "udp + len \<le> length m"
  shows "\<exists>m'. udp4_header_checksum m ip udp (of_nat len) = Some m' \<and> length m' = length m \<and>
    udp_datagram_ok (pseudo4 m ip len) m' udp len \<and>
    be_words (bytes_at m' (udp + 4) 2) = [len] \<and>
    (\<forall>x < length m. x < udp + 4 \<or> udp + 8 \<le> x \<longrightarrow> m' ! x = m ! x)"
  using udp4.fill_ok [OF assms] words_ok_of_norm [OF pseudo_words_small(1) [OF assms(3)]]
  by (simp add: pseudo_sums)

lemma udp6_checksum_valid:
  assumes "ip + 40 \<le> udp" "8 \<le> len" "len \<le> 0xFFFF" "udp + len \<le> length m"
  shows "\<exists>m'. udp6_header_checksum m ip udp (of_nat len) = Some m' \<and> length m' = length m \<and>
    udp_datagram_ok (pseudo6 m ip len) m' udp len \<and>
    be_words (bytes_at m' (udp + 4) 2) = [len] \<and>
    (\<forall>x < length m. x < udp + 4 \<or> udp + 8 \<le> x \<longrightarrow> m' ! x = m ! x)"
  using udp6.fill_ok [OF assms] words_ok_of_norm [OF pseudo_words_small(2) [OF assms(3)]]
  by (simp add: pseudo_sums)

lemma header_length: "unat (ucast (push_bit 2 (v AND 0x0F) :: u8) :: u32) = 4 * (unat v mod 16)"
proof -
  have "v AND 0x0F = take_bit 4 v"
    by (simp add: take_bit_eq_mask mask_eq_exp_minus_1)
  moreover have "unat (take_bit 4 v) = unat v mod 16"
    by (simp only: unsigned_take_bit_eq) (simp add: take_bit_eq_mod)
  moreover have "unat (push_bit 2 (take_bit 4 v)) = 4 * unat (take_bit 4 v)"
    using calculation by (simp only: unsigned_push_bit_eq) (simp add: push_bit_eq_mult take_bit_eq_mod)
  ultimately show ?thesis
    by simp
qed

subsection \<open>Properties\<close>

text \<open>C15: for a header of at least twelve bytes inside the buffer, \<open>ipv4_header_checksum\<close>
  returns, the header passes the receiver's check, and no other byte has changed.\<close>

theorem ipv4_header_checksum_ok:
  assumes "ip + 4 * hlen \<le> length m" "3 \<le> hlen" "unat (m ! ip) mod 16 = hlen"
  shows "\<exists>m'. ipv4_header_checksum m ip = Some m' \<and> length m' = length m \<and>
    ipv4_header_ok m' ip (4 * hlen) \<and>
    (\<forall>x < length m. x < ip + 10 \<or> ip + 12 \<le> x \<longrightarrow> m' ! x = m ! x)"
proof -
  have v: "load8 m ip = Some (m ! ip)"
    using assms(1,2) by (intro load8_in_bounds) auto
  have h: "unat (ucast (push_bit 2 (m ! ip AND 0x0F)) :: u32) = 4 * hlen"
    using assms(3) by (simp only: header_length)
  have "0 + 0xFFFF * ((4 * hlen + 1) div 2) < 2 ^ 32"
    using assms(3) by auto
  then obtain m0 s m' where
    "store16 m (ip + 10) 0 = Some m0"
    "Checksum (of_nat 0) (Some (drop ip m0)) (ucast (push_bit 2 (m ! ip AND 0x0F))) = Some s"
    "store16 m0 (ip + 10) (htons (ucast (NOT s))) = Some m'"
    "ones_norm (0 + sum_list (be_words (bytes_at m' ip (4 * hlen)))) = 0xFFFF"
    "length m' = length m"
    "\<forall>x < length m. x < ip + 10 \<or> ip + 10 + 2 \<le> x \<longrightarrow> m' ! x = m ! x"
    using finish_checksum [of 10 "4 * hlen" ip m "ucast (push_bit 2 (m ! ip AND 0x0F))" 0]
      assms(1,2) h by auto
  then show ?thesis
    using v ones_sum_norm [OF be_words_bound]
    by (simp add: ipv4_header_checksum_def ipv4_header_ok_def c_layout)
qed

theorem ipv4_header_checksum_ok_witness:
  "\<exists>m'. ipv4_header_checksum [0x45, 0x00, 0x00, 0x73, 0x00, 0x00, 0x40, 0x00, 0x40, 0x11,
    0xFF, 0xFF, 0xc0, 0xa8, 0x00, 0x01, 0xc0, 0xa8, 0x00, 0xc7] 0 = Some m' \<and> length m' = 20 \<and>
    ipv4_header_ok m' 0 20 \<and> m' ! 0 = 0x45"
  using ipv4_header_checksum_ok [of 0 5 "[0x45, 0x00, 0x00, 0x73, 0x00, 0x00, 0x40, 0x00, 0x40, 0x11,
    0xFF, 0xFF, 0xc0, 0xa8, 0x00, 0x01, 0xc0, 0xa8, 0x00, 0xc7]"]
  by auto

text \<open>C2: \<open>udp4_header_checksum\<close> writes the length and a checksum with which the receiver's
  check of the datagram and its IPv4 pseudo header succeeds; it changes nothing else.\<close>

theorem udp4_header_checksum_ok:
  assumes "ip + 20 \<le> udp" "8 \<le> len" "len \<le> 0xFFFF" "udp + len \<le> length m"
  shows "\<exists>m'. udp4_header_checksum m ip udp (of_nat len) = Some m' \<and> length m' = length m \<and>
    udp_datagram_ok (pseudo4 m ip len) m' udp len \<and>
    be_words (bytes_at m' (udp + 4) 2) = [len] \<and>
    (\<forall>x < length m. x < udp + 4 \<or> udp + 8 \<le> x \<longrightarrow> m' ! x = m ! x)"
  using assms by (rule udp4_checksum_valid)

theorem udp4_header_checksum_ok_witness:
  "\<exists>m'. udp4_header_checksum (replicate 20 0x11 @ replicate 11 0xAB) 0 20 (of_nat 11) = Some m' \<and>
    udp_datagram_ok (pseudo4 (replicate 20 0x11 @ replicate 11 0xAB) 0 11) m' 20 11"
  using udp4_header_checksum_ok [of 0 20 11 "replicate 20 0x11 @ replicate 11 0xAB"] by auto



lemma csum_total: "n \<le> length p \<Longrightarrow> n \<le> 2 ^ 31 \<Longrightarrow> \<exists>r. csum32 p (int n) = Some r"
  using csum_value [of n p] by (auto simp: csum32_def)

lemma map_drop_store:
  "j \<le> length m \<Longrightarrow> map_option (drop j) (store_bytes m (j + i) bs) = store_bytes (drop j m) i bs"
  by (auto simp: store_bytes_def drop_take ac_simps)

definition datagram_csum :: "bytes \<Rightarrow> u64 \<Rightarrow> bytes option" where
  "datagram_csum d len = do {
     d \<leftarrow> store16 d 4 (htons (ucast len));
     d \<leftarrow> store16 d 6 0;
     s \<leftarrow> csum32 d (to_int32 (uint len));
     store16 d 6 (htons (ucast (NOT s)))
   }"

lemma udp4_header_checksum2_local:
  assumes "ip + 20 \<le> udp" "udp + 8 \<le> length m"
  shows "map_option (drop udp) (udp4_header_checksum2 m ip udp len) = datagram_csum (drop udp m) len"
proof -
  obtain m1 where m1: "store16 m (udp + 4) (htons (ucast len)) = Some m1"
    using assms by (simp add: store_bytes_in_bounds)
  have l1: "length m1 = length m"
    using m1 by (rule store_bytes_length)
  obtain m2 where m2: "store16 m1 (udp + 6) 0 = Some m2"
    using assms l1 by (simp add: store_bytes_in_bounds)
  have l2: "length m2 = length m"
    using m2 l1 store_bytes_length by metis
  have d: "store16 (drop udp m) 4 (htons (ucast len)) = Some (drop udp m1)"
    "store16 (drop udp m1) 6 0 = Some (drop udp m2)"
    using map_drop_store [of udp m 4 "le16 (htons (ucast len))"] map_drop_store [of udp m1 6 "le16 0"]
      m1 m2 assms l1 by simp_all
  have "4 \<le> length m1 - (ip + 12)" "4 \<le> length m1 - (ip + 16)"
    using assms l1 by linarith+
  then obtain a b where "csum32 (drop (ip + 12) m1) 4 = Some a" "csum32 (drop (ip + 16) m1) 4 = Some b"
    using csum_total [of 4 "drop (ip + 12) m1"] csum_total [of 4 "drop (ip + 16) m1"] by auto
  moreover have "load8 m1 (ip + 9) = Some (m1 ! (ip + 9))"
    using assms l1 by (simp add: load8_def)
  ultimately show ?thesis
    using assms l2 map_drop_store [of udp m2 6]
    by (cases "csum32 (drop udp m2) (to_int32 (uint len))")
      (simp_all add: udp4_header_checksum2_def datagram_csum_def c_layout m1 m2 d)
qed

text \<open>C28: the csum-based variant does not protect the addresses: the datagram it leaves
  depends on nothing that precedes the datagram in memory, the IPv4 header included.\<close>

theorem udp4_header_checksum2_ignores_header:
  assumes "ip + 20 \<le> udp" "udp + 8 \<le> length m" "length h = udp"
  shows "map_option (drop udp) (udp4_header_checksum2 (h @ drop udp m) ip udp len) =
    map_option (drop udp) (udp4_header_checksum2 m ip udp len)"
  using assms udp4_header_checksum2_local [of ip udp "h @ drop udp m"]
  by (simp add: udp4_header_checksum2_local)

theorem udp4_header_checksum2_ignores_header_witness:
  "map_option (drop 20) (udp4_header_checksum2 (replicate 20 0x00 @ replicate 8 0xAB) 0 20 8) =
    map_option (drop 20) (udp4_header_checksum2 (replicate 20 0x11 @ replicate 8 0xAB) 0 20 8)"
  using udp4_header_checksum2_ignores_header
    [of 0 20 "replicate 20 0x11 @ replicate 8 0xAB" "replicate 20 0x00" 8] by simp

subsection \<open>Fields\<close>

text \<open>A buffer of the same size that differs at most in the bytes from \<open>i\<close> up to \<open>j\<close>, which lie inside of it.\<close>

definition same_outside :: "nat \<Rightarrow> nat \<Rightarrow> bytes \<Rightarrow> bytes \<Rightarrow> bool" where
  "same_outside i j m m' \<longleftrightarrow> length m' = length m \<and> j \<le> length m \<and> take i m' = take i m \<and> drop j m' = drop j m"

lemma same_outside_store:
  assumes "store16 m k x = Some m'" "i \<le> k" "j = k + 2"
  shows "same_outside i j m m'"
  using assms(2,3) load_store_below [OF assms(1), of 0 i] load_store_above [OF assms(1), of j] store_bytes_length [OF assms(1)]
    assms(1) by (auto simp: same_outside_def store_bytes_def le16_def split: if_splits)

lemma same_outside_trans:
  assumes "same_outside i k m m1" "same_outside i j m1 m2" "k \<le> j"
  shows "same_outside i j m m2"
proof -
  have "drop (j - k) (drop k m1) = drop (j - k) (drop k m)"
    using assms(1) by (simp add: same_outside_def)
  then show ?thesis
    using assms by (simp add: same_outside_def)
qed

lemma udp_fields:
  assumes "store16 m (udp + 4) len = Some m1" "store16 m1 (udp + 6) 0 = Some m2" "store16 m2 (udp + 6) s = Some m'"
  shows "same_outside (udp + 4) (udp + 8) m m' \<and> bytes_at m' (udp + 4) 2 = le16 len"
proof
  have "same_outside (udp + 4) (udp + 6) m m1"
    by (rule same_outside_store [OF assms(1)]) simp_all
  moreover have "same_outside (udp + 4) (udp + 8) m1 m2"
    by (rule same_outside_store [OF assms(2)]) simp_all
  moreover have "same_outside (udp + 4) (udp + 8) m2 m'"
    by (rule same_outside_store [OF assms(3)]) simp_all
  ultimately show "same_outside (udp + 4) (udp + 8) m m'"
    by (auto intro: same_outside_trans)
  have "bytes_at m1 (udp + 4) 2 = le16 len"
    using load_store_same [OF assms(1)] by (simp add: bytes_at_def le16_def numeral_2_eq_2)
  then show "bytes_at m' (udp + 4) 2 = le16 len"
    using load_store_below [OF assms(2), of "udp + 4" 2] load_store_below [OF assms(3), of "udp + 4" 2] by (simp add: bytes_at_def)
qed

text \<open>C16: the five functions write nothing but their fields, for all pointers and lengths, also where the headers
  overlap, and whether or not the checksum is right: \<open>ipv4_header_checksum\<close> keeps the packet except for the two bytes of the
  checksum, and the four UDP functions keep it except for the length, which becomes the 16-bit length in network order,
  and the checksum next to it.\<close>

theorem checksum_functions_fields:
  "(ipv4_header_checksum m ip = Some m' \<longrightarrow> same_outside (ip + 10) (ip + 12) m m') \<and>
   (\<forall>f \<in> {udp4_header_checksum, udp6_header_checksum, udp4_header_checksum2, udp6_header_checksum2}.
      f m ip udp len = Some m' \<longrightarrow>
        same_outside (udp + 4) (udp + 8) m m' \<and> bytes_at m' (udp + 4) 2 = le16 (htons (ucast len)))"
proof (intro conjI ballI impI)
  assume "ipv4_header_checksum m ip = Some m'"
  then obtain m1 s where "store16 m (ip + 10) 0 = Some m1" "store16 m1 (ip + 10) s = Some m'"
    by (auto simp: ipv4_header_checksum_def c_layout Let_def split: Option.bind_splits)
  then have "same_outside (ip + 10) (ip + 12) m m1" "same_outside (ip + 10) (ip + 12) m1 m'"
    by (auto elim!: same_outside_store)
  then show "same_outside (ip + 10) (ip + 12) m m'"
    by (auto intro: same_outside_trans)
next
  fix f
  assume "f \<in> {udp4_header_checksum, udp6_header_checksum, udp4_header_checksum2, udp6_header_checksum2}"
    and "f m ip udp len = Some m'"
  then have "\<exists>m1 m2 s. store16 m (udp + 4) (htons (ucast len)) = Some m1 \<and> store16 m1 (udp + 6) 0 = Some m2 \<and>
      store16 m2 (udp + 6) s = Some m'"
    by (elim insertE emptyE; hypsubst)
      (auto simp: udp4_header_checksum_def udp6_header_checksum_def udp4_header_checksum2_def udp6_header_checksum2_def c_layout Let_def
        split: Option.bind_splits)
  then show "same_outside (udp + 4) (udp + 8) m m'" "bytes_at m' (udp + 4) 2 = le16 (htons (ucast len))"
    using udp_fields by blast+
qed

theorem checksum_functions_fields_witness:
  "\<exists>m'. udp4_header_checksum (replicate 20 0x11 @ replicate 11 0xAB) 0 20 (of_nat 11) = Some m' \<and>
    same_outside 24 28 (replicate 20 0x11 @ replicate 11 0xAB) m' \<and> bytes_at m' 24 2 = [0, 11]"
proof -
  obtain m' where "udp4_header_checksum (replicate 20 0x11 @ replicate 11 0xAB) 0 20 (of_nat 11) = Some m'"
    using udp4_checksum_valid [of 0 20 11 "replicate 20 0x11 @ replicate 11 0xAB"] by auto
  then show ?thesis
    using checksum_functions_fields [of "replicate 20 0x11 @ replicate 11 0xAB" 0 m' 20 "of_nat 11"]
    by (simp add: le16_def bswap16_def)
qed

end
