(* ===== verification/RawPackets.thy ===== *)
theory RawPackets
  imports Headers
begin

text \<open>
  The packets of the raw socket programs: the buffer contents that \<open>sendV6\<close> and \<open>sendV4\<close> of
  \<^verbatim>\<open>src/c/raw6/rawudp.c\<close> and the send loop of \<^verbatim>\<open>src/c/raw6/rawall.c\<close> prepare.
  The functions are partial: \<open>None\<close> is an access outside the 4096-byte packet buffer.
\<close>

unbundle bit_operations_syntax

definition IPPROTO_UDP :: u8 where
  "IPPROTO_UDP = 17"

definition abPktInfo_init :: bytes where
  "abPktInfo_init = replicate 4096 0"

subsection \<open>The IP headers\<close>

text \<open>\<open>memset\<close>, the member assignments and the two \<open>memcpy\<close> calls, in the order of the source.
  \<open>sizeof(UDP_HEADER_t) + u16ContentLen\<close> is passed to the 16-bit parameter of \<open>htons\<close>.\<close>

definition fill_ipv6_header :: "bytes \<Rightarrow> bytes \<Rightarrow> bytes \<Rightarrow> u16 \<Rightarrow> bytes option" where
  "fill_ipv6_header m src dst u16ContentLen = do {
     m \<leftarrow> store_bytes m 0 (replicate (sizeof IPv6_HEADER_t) 0);
     m \<leftarrow> store8 m (offsetof IPv6_HEADER_t ''abVTF'') 0x60;
     m \<leftarrow> store16 m (offsetof IPv6_HEADER_t ''u16PayloadLen'')
            (htons (of_nat (sizeof UDP_HEADER_t) + u16ContentLen));
     m \<leftarrow> store8 m (offsetof IPv6_HEADER_t ''bNextHeader'') IPPROTO_UDP;
     m \<leftarrow> store8 m (offsetof IPv6_HEADER_t ''bHopLimit'') 128;
     m \<leftarrow> store_bytes m (offsetof IPv6_HEADER_t ''abSrcAddr'') src;
     store_bytes m (offsetof IPv6_HEADER_t ''abDstAddr'') dst
   }"

definition fill_ipv4_header :: "bytes \<Rightarrow> bytes \<Rightarrow> bytes \<Rightarrow> u16 \<Rightarrow> bytes option" where
  "fill_ipv4_header m src dst u16ContentLen = do {
     m \<leftarrow> store_bytes m 0 (replicate (sizeof IPv4_HEADER_t) 0);
     m \<leftarrow> store8 m (offsetof IPv4_HEADER_t ''bVersionAndHeaderLen'') 0x45;
     m \<leftarrow> store16 m (offsetof IPv4_HEADER_t ''u16TotalLenOfPacket'')
            (htons (of_nat (sizeof IPv4_HEADER_t) + of_nat (sizeof UDP_HEADER_t) + u16ContentLen));
     m \<leftarrow> store8 m (offsetof IPv4_HEADER_t ''bTypeOfProtocol'') IPPROTO_UDP;
     m \<leftarrow> store8 m (offsetof IPv4_HEADER_t ''bTTL'') 128;
     m \<leftarrow> store_bytes m (offsetof IPv4_HEADER_t ''abSrcAddr'') src;
     store_bytes m (offsetof IPv4_HEADER_t ''abDstAddr'') dst
   }"

text \<open>The UDP header behind it, before its checksum is filled in.\<close>

definition fill_udp_header :: "bytes \<Rightarrow> nat \<Rightarrow> u64 \<Rightarrow> bytes option" where
  "fill_udp_header m udp reqLen = do {
     m \<leftarrow> store16 m (udp + offsetof UDP_HEADER_t ''u16SrcPort'') (htons 12760);
     m \<leftarrow> store16 m (udp + offsetof UDP_HEADER_t ''u16DstPort'') (htons 22760);
     m \<leftarrow> store16 m (udp + offsetof UDP_HEADER_t ''u16Length'') (htons (ucast reqLen));
     store16 m (udp + offsetof UDP_HEADER_t ''u16CheckSum'') 0
   }"

subsection \<open>The packets of \<open>sendV6\<close> and \<open>sendV4\<close>\<close>

definition req_len :: "u16 \<Rightarrow> u64" where
  "req_len u16ContentLen = of_nat (sizeof UDP_HEADER_t) + ucast u16ContentLen"

definition build_v6 :: "bytes \<Rightarrow> bytes \<Rightarrow> bytes \<Rightarrow> u16 \<Rightarrow> bytes option" where
  "build_v6 m src dst u16ContentLen = do {
     m \<leftarrow> fill_ipv6_header m src dst u16ContentLen;
     m \<leftarrow> fill_udp_header m (sizeof IPv6_HEADER_t) (req_len u16ContentLen);
     udp6_header_checksum m 0 (sizeof IPv6_HEADER_t) (req_len u16ContentLen)
   }"

definition build_v4 :: "bytes \<Rightarrow> bytes \<Rightarrow> bytes \<Rightarrow> u16 \<Rightarrow> bytes option" where
  "build_v4 m src dst u16ContentLen = do {
     m \<leftarrow> fill_ipv4_header m src dst u16ContentLen;
     m \<leftarrow> fill_udp_header m (sizeof IPv4_HEADER_t) (req_len u16ContentLen);
     udp4_header_checksum m 0 (sizeof IPv4_HEADER_t) (req_len u16ContentLen)
   }"

text \<open>With \<open>-v\<close> the header is sent together with the string \<open>hello world\<close>, its terminating
  zero included: the length is set again and the checksum computed again over the buffer.\<close>

definition hello_world :: bytes where
  "hello_world = map (\<lambda>c. of_nat (of_char c)) ''hello world'' @ [0]"

definition iovec_len :: u64 where
  "iovec_len = of_nat (sizeof UDP_HEADER_t + length hello_world)"

definition rebuild_iovec_v6 :: "bytes \<Rightarrow> bytes option" where
  "rebuild_iovec_v6 m = do {
     m \<leftarrow> store16 m (sizeof IPv6_HEADER_t + offsetof UDP_HEADER_t ''u16Length'') (htons (ucast iovec_len));
     udp6_header_checksum m 0 (sizeof IPv6_HEADER_t) iovec_len
   }"

definition rebuild_iovec_v4 :: "bytes \<Rightarrow> bytes option" where
  "rebuild_iovec_v4 m = do {
     m \<leftarrow> store16 m (sizeof IPv4_HEADER_t + offsetof UDP_HEADER_t ''u16Length'') (htons (ucast iovec_len));
     udp4_header_checksum m 0 (sizeof IPv4_HEADER_t) iovec_len
   }"

subsection \<open>Where the builders succeed\<close>

text \<open>The header of a packet for given addresses, as bytes.\<close>

definition ipv6_header_bytes :: "bytes \<Rightarrow> bytes \<Rightarrow> u16 \<Rightarrow> bytes" where
  "ipv6_header_bytes src dst u16ContentLen =
     [0x60, 0, 0, 0] @ le16 (htons (8 + u16ContentLen)) @ [17, 128] @ src @ dst"

definition ipv4_header_bytes :: "bytes \<Rightarrow> bytes \<Rightarrow> u16 \<Rightarrow> bytes" where
  "ipv4_header_bytes src dst u16ContentLen =
     [0x45, 0] @ le16 (htons (28 + u16ContentLen)) @ [0, 0, 0, 0, 128, 17, 0, 0] @ src @ dst"

lemma fill_ipv6_header_eq:
  assumes "40 \<le> length m" "length src = 16" "length dst = 16"
  shows "fill_ipv6_header m src dst len = Some (ipv6_header_bytes src dst len @ drop 40 m)"
  using assms
  by (simp add: fill_ipv6_header_def c_layout store_bytes_def ipv6_header_bytes_def IPPROTO_UDP_def
      numeral_eq_Suc le16_def)

lemma fill_ipv4_header_eq:
  assumes "20 \<le> length m" "length src = 4" "length dst = 4"
  shows "fill_ipv4_header m src dst len = Some (ipv4_header_bytes src dst len @ drop 20 m)"
  using assms
  by (simp add: fill_ipv4_header_def c_layout store_bytes_def ipv4_header_bytes_def IPPROTO_UDP_def
      numeral_eq_Suc le16_def)


definition udp_header_bytes :: "u64 \<Rightarrow> bytes" where
  "udp_header_bytes reqLen =
     le16 (htons 12760) @ le16 (htons 22760) @ le16 (htons (ucast reqLen)) @ [0, 0]"

lemma length_udp_header_bytes [simp]: "length (udp_header_bytes n) = 8"
  by (simp add: udp_header_bytes_def)

lemma length_ip_header_bytes:
  "length src = 16 \<Longrightarrow> length dst = 16 \<Longrightarrow> length (ipv6_header_bytes src dst len) = 40"
  "length src = 4 \<Longrightarrow> length dst = 4 \<Longrightarrow> length (ipv4_header_bytes src dst len) = 20"
  by (simp_all add: ipv6_header_bytes_def ipv4_header_bytes_def)

lemma store_behind:
  "length pre = udp \<Longrightarrow>
    store_bytes (pre @ d) (udp + i) bs = map_option ((@) pre) (store_bytes d i bs)"
  by (auto simp: store_bytes_def)

lemma fill_udp_header_eq:
  assumes "8 \<le> length d" "length pre = udp"
  shows "fill_udp_header (pre @ d) udp n = Some (pre @ udp_header_bytes n @ drop 8 d)"
  using assms
  by (simp add: fill_udp_header_def c_layout store_behind [of pre udp _ 0, simplified] store_behind)
    (simp add: store_bytes_def udp_header_bytes_def le16_def numeral_eq_Suc, arith)

lemma unat_req_len: "unat (req_len n) = 8 + unat n"
proof -
  have "8 + unat n < 18446744073709551616"
    using unat_u16_less [of n] by linarith
  then show ?thesis
    by (simp add: req_len_def c_layout unat_word_ariths)
qed

lemma req_len_of_nat: "req_len n = of_nat (8 + unat n)"
  by (rule word_eq_of_natI) (rule unat_req_len)

text \<open>The buffer on which the checksum function is called.\<close>

lemma build_v6_unfold:
  assumes "48 \<le> length m" "length src = 16" "length dst = 16"
  shows "build_v6 m src dst len =
    udp6_header_checksum
      (ipv6_header_bytes src dst len @ udp_header_bytes (req_len len) @ drop 48 m)
      0 40 (of_nat (8 + unat len))"
  using assms
  by (simp add: build_v6_def fill_ipv6_header_eq c_layout fill_udp_header_eq length_ip_header_bytes
      req_len_of_nat del: of_nat_add)

lemma build_v4_unfold:
  assumes "28 \<le> length m" "length src = 4" "length dst = 4"
  shows "build_v4 m src dst len =
    udp4_header_checksum
      (ipv4_header_bytes src dst len @ udp_header_bytes (req_len len) @ drop 28 m)
      0 20 (of_nat (8 + unat len))"
  using assms
  by (simp add: build_v4_def fill_ipv4_header_eq c_layout fill_udp_header_eq length_ip_header_bytes
      req_len_of_nat del: of_nat_add)

text \<open>The pseudo header is read from the IP header only.\<close>

lemma bytes_at_take: "i + n \<le> k \<Longrightarrow> bytes_at (take k m) i n = bytes_at m i n"
  by (simp add: bytes_at_def drop_take min_absorb1)

lemma pseudo6_take: "pseudo6 (take 40 m) 0 len = pseudo6 m 0 len"
  by (simp add: pseudo6_def bytes_at_take)

lemma pseudo4_take: "pseudo4 (take 20 m) 0 len = pseudo4 m 0 len"
  by (simp add: pseudo4_def bytes_at_take)

lemma take_eq_of_nth:
  "k \<le> length m \<Longrightarrow> length m' = length m \<Longrightarrow> (\<forall>x < length m. x < k \<longrightarrow> m' ! x = m ! x) \<Longrightarrow>
    take k m' = take k m"
  by (rule nth_equalityI) auto

lemma drop_eq_of_nth:
  "length m' = length m \<Longrightarrow> (\<forall>x < length m. k \<le> x \<longrightarrow> m' ! x = m ! x) \<Longrightarrow> drop k m' = drop k m"
  by (rule nth_equalityI) auto


text \<open>What the frame condition of a checksum function leaves of the buffer it is called on.\<close>

lemma checksum_frame:
  assumes "length h = k" "length m' = length (h @ udp_header_bytes n @ rest)"
    and frame: "\<forall>x < length (h @ udp_header_bytes n @ rest).
      x < k + 4 \<or> k + 8 \<le> x \<longrightarrow> m' ! x = (h @ udp_header_bytes n @ rest) ! x"
    and len: "be_words (bytes_at m' (k + 4) 2) = [w]"
  shows "take k m' = h" "drop (k + 8) m' = rest" "be_words (bytes_at m' k 6) = [12760, 22760, w]"
proof -
  let ?b = "h @ udp_header_bytes n @ rest"
  have t: "take (k + 4) m' = take (k + 4) ?b"
    using assms by (intro take_eq_of_nth) auto
  have "take k m' = take k (take (k + 4) m')"
    by simp
  also have "\<dots> = h"
    unfolding t using assms(1) by simp
  finally show "take k m' = h" .
  have "drop (k + 8) m' = drop (k + 8) ?b"
    using assms by (intro drop_eq_of_nth) auto
  then show "drop (k + 8) m' = rest"
    using assms(1) by simp
  have "bytes_at m' k 4 = bytes_at (take (k + 4) m') k 4"
    by (simp add: bytes_at_take)
  also have "\<dots> = le16 (htons 12760) @ le16 (htons 22760)"
    unfolding t using assms(1) by (simp add: bytes_at_def udp_header_bytes_def)
  finally have "be_words (bytes_at m' k 4) = [12760, 22760]"
    by (simp add: be_words_append be_words_le16_htons)
  moreover have "bytes_at m' k 6 = bytes_at m' k 4 @ bytes_at m' (k + 4) 2"
    using take_add [of 4 2 "drop k m'"] by (simp add: bytes_at_def add.commute)
  moreover have "length (bytes_at m' k 4) = 4"
    using assms(1,2) by (simp add: bytes_at_def)
  ultimately show "be_words (bytes_at m' k 6) = [12760, 22760, w]"
    using len by (simp add: be_words_append)
qed

lemma build_v6_valid:
  assumes "length m = 4096" "length src = 16" "length dst = 16" "unat len \<le> 4048"
  shows "\<exists>m'. build_v6 m src dst len = Some m' \<and> length m' = 4096 \<and>
    take 40 m' = ipv6_header_bytes src dst len \<and>
    udp_datagram_ok (pseudo6 m' 0 (8 + unat len)) m' 40 (8 + unat len) \<and>
    be_words (bytes_at m' 40 6) = [12760, 22760, 8 + unat len] \<and>
    drop 48 m' = drop 48 m"
proof -
  let ?h = "ipv6_header_bytes src dst len"
  let ?b = "?h @ udp_header_bytes (req_len len) @ drop 48 m"
  have l: "length ?h = 40" "length ?b = 4096"
    using assms by (simp_all add: length_ip_header_bytes)
  obtain m' where m': "udp6_header_checksum ?b 0 40 (of_nat (8 + unat len)) = Some m'"
      "length m' = length ?b" "udp_datagram_ok (pseudo6 ?b 0 (8 + unat len)) m' 40 (8 + unat len)"
      "be_words (bytes_at m' (40 + 4) 2) = [8 + unat len]"
      "\<forall>x < length ?b. x < 40 + 4 \<or> 40 + 8 \<le> x \<longrightarrow> m' ! x = ?b ! x"
    using udp6_checksum_valid [of 0 40 "8 + unat len" ?b] l assms(4) by auto
  note f = checksum_frame [OF l(1) m'(2,5,4)]
  have "pseudo6 m' 0 (8 + unat len) = pseudo6 ?b 0 (8 + unat len)"
    using f(1) l(1) pseudo6_take [of m'] pseudo6_take [of ?b] by simp
  then show ?thesis
    using build_v6_unfold [of m src dst len] assms(1-3) m'(1,2,3) f l(2) by auto
qed

lemma build_v4_valid:
  assumes "length m = 4096" "length src = 4" "length dst = 4" "unat len \<le> 4068"
  shows "\<exists>m'. build_v4 m src dst len = Some m' \<and> length m' = 4096 \<and>
    take 20 m' = ipv4_header_bytes src dst len \<and>
    udp_datagram_ok (pseudo4 m' 0 (8 + unat len)) m' 20 (8 + unat len) \<and>
    be_words (bytes_at m' 20 6) = [12760, 22760, 8 + unat len] \<and>
    drop 28 m' = drop 28 m"
proof -
  let ?h = "ipv4_header_bytes src dst len"
  let ?b = "?h @ udp_header_bytes (req_len len) @ drop 28 m"
  have l: "length ?h = 20" "length ?b = 4096"
    using assms by (simp_all add: length_ip_header_bytes)
  obtain m' where m': "udp4_header_checksum ?b 0 20 (of_nat (8 + unat len)) = Some m'"
      "length m' = length ?b" "udp_datagram_ok (pseudo4 ?b 0 (8 + unat len)) m' 20 (8 + unat len)"
      "be_words (bytes_at m' (20 + 4) 2) = [8 + unat len]"
      "\<forall>x < length ?b. x < 20 + 4 \<or> 20 + 8 \<le> x \<longrightarrow> m' ! x = ?b ! x"
    using udp4_checksum_valid [of 0 20 "8 + unat len" ?b] l assms(4) by auto
  note f = checksum_frame [OF l(1) m'(2,5,4)]
  have "pseudo4 m' 0 (8 + unat len) = pseudo4 ?b 0 (8 + unat len)"
    using f(1) l(1) pseudo4_take [of m'] pseudo4_take [of ?b] by simp
  then show ?thesis
    using build_v4_unfold [of m src dst len] assms(1-3) m'(1,2,3) f l(2) by auto
qed

lemma build_v6_undefined:
  assumes "length m = 4096" "length src = 16" "length dst = 16" "4048 < unat len"
  shows "build_v6 m src dst len = None"
proof -
  have "unat len < 65536"
    by (rule unat_u16_less)
  then have "8 + unat len < 2 ^ 32"
    by (simp del: unat_u16_less)
  then show ?thesis
    using assms build_v6_unfold [of m src dst len]
      udp6.fill_out_of_bounds [of _ 40 "8 + unat len" 0] by (simp add: length_ip_header_bytes)
qed

lemma build_v4_undefined:
  assumes "length m = 4096" "length src = 4" "length dst = 4" "4068 < unat len"
  shows "build_v4 m src dst len = None"
proof -
  have "unat len < 65536"
    by (rule unat_u16_less)
  then have "8 + unat len < 2 ^ 32"
    by (simp del: unat_u16_less)
  then show ?thesis
    using assms build_v4_unfold [of m src dst len]
      udp4.fill_out_of_bounds [of _ 20 "8 + unat len" 0] by (simp add: length_ip_header_bytes)
qed

text \<open>The packet \<open>sendV6\<close> builds in its 4096-byte buffer is defined exactly for contents of
  at most 4048 bytes; then it starts with the IPv6 header for the two addresses and the UDP
  datagram behind it carries the ports, the length and a checksum the receiver accepts.  A
  longer content, which the option \<open>-l\<close> admits, makes the checksum read past the buffer.\<close>

theorem build_v6_correct:
  assumes "length m = 4096" "length src = 16" "length dst = 16"
  shows "(build_v6 m src dst len \<noteq> None \<longleftrightarrow> unat len \<le> 4048) \<and>
    (\<forall>m'. build_v6 m src dst len = Some m' \<longrightarrow>
      take 40 m' = ipv6_header_bytes src dst len \<and>
      be_words (bytes_at m' 40 6) = [12760, 22760, 8 + unat len] \<and>
      udp_datagram_ok (pseudo6 m' 0 (8 + unat len)) m' 40 (8 + unat len))"
  using build_v6_valid [OF assms, of len] build_v6_undefined [OF assms, of len]
  by (cases "unat len \<le> 4048") auto

theorem build_v6_correct_witness:
  "build_v6 abPktInfo_init (replicate 16 1) (replicate 16 2) 2049 \<noteq> None \<and>
   build_v6 abPktInfo_init (replicate 16 1) (replicate 16 2) 4049 = None"
  using build_v6_correct [of abPktInfo_init "replicate 16 1" "replicate 16 2" 2049]
    build_v6_correct [of abPktInfo_init "replicate 16 1" "replicate 16 2" 4049]
  by (simp add: abPktInfo_init_def)

text \<open>The same for \<open>sendV4\<close>, whose shorter header leaves room for 4068 bytes.\<close>

theorem build_v4_correct:
  assumes "length m = 4096" "length src = 4" "length dst = 4"
  shows "(build_v4 m src dst len \<noteq> None \<longleftrightarrow> unat len \<le> 4068) \<and>
    (\<forall>m'. build_v4 m src dst len = Some m' \<longrightarrow>
      take 20 m' = ipv4_header_bytes src dst len \<and>
      be_words (bytes_at m' 20 6) = [12760, 22760, 8 + unat len] \<and>
      udp_datagram_ok (pseudo4 m' 0 (8 + unat len)) m' 20 (8 + unat len))"
  using build_v4_valid [OF assms, of len] build_v4_undefined [OF assms, of len]
  by (cases "unat len \<le> 4068") auto

theorem build_v4_correct_witness:
  "build_v4 abPktInfo_init (replicate 4 1) (replicate 4 2) 2049 \<noteq> None \<and>
   build_v4 abPktInfo_init (replicate 4 1) (replicate 4 2) 4069 = None"
  using build_v4_correct [of abPktInfo_init "replicate 4 1" "replicate 4 2" 2049]
    build_v4_correct [of abPktInfo_init "replicate 4 1" "replicate 4 2" 4069]
  by (simp add: abPktInfo_init_def)



subsection \<open>The scatter/gather variant\<close>

lemma length_hello_world [simp]: "length hello_world = 12"
  by (simp add: hello_world_def)

lemma sum_hello_world: "sum_list (be_words hello_world) = 168396"
  by (simp add: hello_world_def)

lemma iovec_len_eq: "iovec_len = of_nat 20"
  by (simp add: iovec_len_def c_layout)

lemma other_payload_rejected:
  assumes "even (length d)" "ones_norm (p + sum_list (be_words (d @ replicate 12 0))) = 0xFFFF"
  shows "ones_norm (p + sum_list (be_words (d @ hello_world))) \<noteq> 0xFFFF"
proof
  assume wrong: "ones_norm (p + sum_list (be_words (d @ hello_world))) = 0xFFFF"
  let ?n = "p + sum_list (be_words d)"
  have "sum_list (be_words (replicate 12 0)) = 0"
    by (simp add: numeral_eq_Suc)
  then have "?n mod 0xFFFF = 0"
    using assms ones_norm_mod [of ?n] by (simp add: be_words_append del: sum_list_eq_0_iff)
  moreover have "(?n + 168396) mod 0xFFFF = 0"
    using wrong assms(1) ones_norm_mod [of "?n + 168396"]
    by (simp add: be_words_append sum_hello_world add.assoc)
  ultimately show False
    using mod_add_left_eq [of ?n "0xFFFF" 168396] by simp
qed

text \<open>
  The scattered send of both families: \<open>k\<close> is the length of the IP header, \<open>fill\<close> the checksum function for a datagram of
  20 bytes behind it, \<open>rebuild\<close> the code that sets the length again and calls it, and \<open>pseudo\<close> the pseudo header.
\<close>

locale scatter_send =
  fixes k :: nat and fill rebuild :: "bytes \<Rightarrow> bytes option" and pseudo :: "bytes \<Rightarrow> nat list"
  assumes room: "k + 20 \<le> 4096"
    and rebuild_eq: "rebuild m = do { m \<leftarrow> store16 m (k + 4) (htons (ucast iovec_len)); fill m }"
    and fill_ok: "length m = 4096 \<Longrightarrow> \<exists>m'. fill m = Some m' \<and> length m' = length m \<and> udp_datagram_ok (pseudo m) m' k 20 \<and>
      be_words (bytes_at m' (k + 4) 2) = [20] \<and> (\<forall>x < length m. x < k + 4 \<or> k + 8 \<le> x \<longrightarrow> m' ! x = m ! x)"
    and pseudo_take: "pseudo (take k m) = pseudo m"
    and pseudo_small: "\<forall>w \<in> set (pseudo m). w \<le> 0xFFFF"
begin

lemma rebuild_valid:
  assumes "length m = 4096"
  shows "\<exists>m'. rebuild m = Some m' \<and> length m' = 4096 \<and> take (k + 4) m' = take (k + 4) m \<and> drop (k + 8) m' = drop (k + 8) m \<and>
    be_words (bytes_at m' (k + 4) 2) = [20] \<and> udp_datagram_ok (pseudo m) m' k 20"
proof -
  obtain m1 where m1: "store16 m (k + 4) (htons (ucast iovec_len)) = Some m1"
    using assms room by (simp add: store_bytes_in_bounds)
  have l1: "length m1 = 4096"
    using store_bytes_length [OF m1] assms by simp
  obtain m' where m': "fill m1 = Some m'" "length m' = length m1" "udp_datagram_ok (pseudo m1) m' k 20"
      "be_words (bytes_at m' (k + 4) 2) = [20]" "\<forall>x < length m1. x < k + 4 \<or> k + 8 \<le> x \<longrightarrow> m' ! x = m1 ! x"
    using fill_ok [OF l1] by blast
  have t: "take (k + 4) m' = take (k + 4) m1" and d: "drop (k + 8) m' = drop (k + 8) m1"
    using m'(2,5) l1 room by (intro take_eq_of_nth drop_eq_of_nth; simp)+
  have below: "take (k + 4) m1 = take (k + 4) m" "drop (k + 8) m1 = drop (k + 8) m"
    using load_store_below [OF m1, of 0 "k + 4"] load_store_above [OF m1, of "k + 8"] by simp_all
  have "take k m1 = take k m"
    using arg_cong [OF below(1), of "take k"] by simp
  then have "pseudo m1 = pseudo m"
    using pseudo_take [of m1] pseudo_take [of m] by simp
  then show ?thesis
    using m' t d l1 below by (auto simp: rebuild_eq m1)
qed

text \<open>The checksum covers the zero bytes behind the header and not the string that is sent with it.\<close>

lemma scattered_rejected:
  assumes "length m = 4096" "drop (k + 8) m = drop (k + 8) abPktInfo_init" "be_words (bytes_at m k 6) = [p, q, n]"
  shows "\<exists>m'. rebuild m = Some m' \<and> length m' = 4096 \<and> take k m' = take k m \<and> be_words (bytes_at m' k 6) = [p, q, 20] \<and>
    \<not> udp_datagram_ok (pseudo (take k m)) (bytes_at m' k 8 @ hello_world) 0 20"
proof -
  obtain m' where m': "rebuild m = Some m'" "length m' = 4096" "take (k + 4) m' = take (k + 4) m"
      "drop (k + 8) m' = drop (k + 8) m" "be_words (bytes_at m' (k + 4) 2) = [20]" "udp_datagram_ok (pseudo m) m' k 20"
    using rebuild_valid [OF assms(1)] by blast
  have "bytes_at m' k 20 = bytes_at m' k 8 @ bytes_at m' (k + 8) 12"
    using take_add [of 8 12 "drop k m'"] by (simp add: bytes_at_def add.commute)
  also have "bytes_at m' (k + 8) 12 = replicate 12 0"
    using m'(4) assms(2) room by (simp add: bytes_at_def abPktInfo_init_def)
  finally have zero: "bytes_at m' k 20 = bytes_at m' k 8 @ replicate 12 0" .
  have l8: "length (bytes_at m' k 8) = 8"
    using m'(2) room by (simp add: bytes_at_def)
  have "ones_norm (sum_list (pseudo m) + sum_list (be_words (bytes_at m' k 8 @ replicate 12 0))) = 0xFFFF"
    using m'(6) words_ok_of_norm [OF pseudo_small] zero by simp
  from other_payload_rejected [OF _ this] l8
  have "\<not> udp_datagram_ok (pseudo m) (bytes_at m' k 8 @ hello_world) 0 20"
    by (simp add: words_ok_of_norm [OF pseudo_small]) (simp add: bytes_at_def)
  moreover have "take k m' = take k m"
    using arg_cong [OF m'(3), of "take k"] by simp
  moreover have "be_words (bytes_at m' k 6) = [p, q, 20]"
  proof -
    have split: "bytes_at b k 6 = bytes_at b k 4 @ bytes_at b (k + 4) 2" for b :: bytes
      using take_add [of 4 2 "drop k b"] by (simp add: bytes_at_def add.commute)
    have l: "length (bytes_at b k 4) = 4" if "length b = 4096" for b :: bytes
      using that room by (simp add: bytes_at_def)
    have "bytes_at m' k 4 = bytes_at m k 4"
      using arg_cong [OF m'(3), of "drop k"] by (simp add: bytes_at_def drop_take)
    moreover have "be_words (bytes_at m k 4) @ be_words (bytes_at m (k + 4) 2) = [p, q, n]"
      using assms(3) l [OF assms(1)] by (simp add: split be_words_append)
    moreover have "\<exists>a b. be_words (bytes_at m k 4) = [a, b]"
      using l [OF assms(1)] by (auto simp: length_Suc_conv numeral_eq_Suc)
    ultimately show ?thesis
      using m'(5) l [OF m'(2)] by (auto simp: split be_words_append)
  qed
  ultimately show ?thesis
    using m'(1,2) by (simp add: pseudo_take)
qed

end

interpretation sc6: scatter_send 40 "\<lambda>m. udp6_header_checksum m 0 40 (of_nat 20)" rebuild_iovec_v6 "\<lambda>m. pseudo6 m 0 20"
proof unfold_locales
  show "\<exists>m'. udp6_header_checksum m 0 40 (of_nat 20) = Some m' \<and> length m' = length m \<and>
      udp_datagram_ok (pseudo6 m 0 20) m' 40 20 \<and> be_words (bytes_at m' (40 + 4) 2) = [20] \<and>
      (\<forall>x < length m. x < 40 + 4 \<or> 40 + 8 \<le> x \<longrightarrow> m' ! x = m ! x)" if "length m = 4096" for m
    using that by (intro udp6_checksum_valid) simp_all
qed (use pseudo_words_small(2) [of 20 _ 0] in \<open>simp_all add: pseudo6_take rebuild_iovec_v6_def c_layout iovec_len_eq\<close>)

interpretation sc4: scatter_send 20 "\<lambda>m. udp4_header_checksum m 0 20 (of_nat 20)" rebuild_iovec_v4 "\<lambda>m. pseudo4 m 0 20"
proof unfold_locales
  show "\<exists>m'. udp4_header_checksum m 0 20 (of_nat 20) = Some m' \<and> length m' = length m \<and>
      udp_datagram_ok (pseudo4 m 0 20) m' 20 20 \<and> be_words (bytes_at m' (20 + 4) 2) = [20] \<and>
      (\<forall>x < length m. x < 20 + 4 \<or> 20 + 8 \<le> x \<longrightarrow> m' ! x = m ! x)" if "length m = 4096" for m
    using that by (intro udp4_checksum_valid) simp_all
qed (use pseudo_words_small(1) [of 20 _ 0] in \<open>simp_all add: pseudo4_take rebuild_iovec_v4_def c_layout iovec_len_eq\<close>)

text \<open>With \<open>-v\<close>, \<open>sendV6\<close> computes the checksum over the buffer but sends the header with
  the string \<open>hello world\<close> behind it: no receiver accepts the datagram, whatever the addresses.\<close>

theorem iovec_v6_datagram_rejected:
  assumes "length src = 16" "length dst = 16" "build_v6 abPktInfo_init src dst len = Some m"
  shows "\<exists>m'. rebuild_iovec_v6 m = Some m' \<and>
    \<not> udp_datagram_ok (pseudo6 m' 0 20) (bytes_at m' 40 8 @ hello_world) 0 20"
proof -
  have init: "length abPktInfo_init = 4096"
    by (simp add: abPktInfo_init_def)
  have "unat len \<le> 4048"
    using build_v6_undefined [OF init assms(1,2), of len] assms(3) by force
  then have m: "length m = 4096" "drop (40 + 8) m = drop (40 + 8) abPktInfo_init"
      "be_words (bytes_at m 40 6) = [12760, 22760, 8 + unat len]"
    using build_v6_valid [OF init assms(1,2), of len] assms(3) by auto
  show ?thesis
    using sc6.scattered_rejected [OF m] pseudo6_take by metis
qed

theorem iovec_v6_datagram_rejected_witness:
  "\<exists>m m'. build_v6 abPktInfo_init (replicate 16 1) (replicate 16 2) 0 = Some m \<and>
    rebuild_iovec_v6 m = Some m' \<and>
    \<not> udp_datagram_ok (pseudo6 m' 0 20) (bytes_at m' 40 8 @ hello_world) 0 20"
proof -
  obtain m where m: "build_v6 abPktInfo_init (replicate 16 1) (replicate 16 2) 0 = Some m"
    using build_v6_valid [of abPktInfo_init "replicate 16 1" "replicate 16 2" 0]
    by (auto simp: abPktInfo_init_def)
  then show ?thesis
    using iovec_v6_datagram_rejected [OF _ _ m] by auto
qed

end
