(* ===== verification/CIO.thy ===== *)
theory CIO
  imports CPrelude "HOL-Library.State_Monad"
begin

text \<open>
  Programs that call the operating system.  A program is a state transformer on the history
  of its calls and outputs, newest first.  The operating system is a parameter \<open>os\<close>: what a
  call returns may depend on the whole history, so a statement for every \<open>os\<close> covers every
  behaviour of the kernel.  A call returns its result, the error number, the bytes it stored
  through its pointers and, for a received datagram, the peer's address.  \<open>printf\<close> is recorded with its format and arguments; the text of
  \<open>strerror_r\<close> for an error number is the argument \<open>ArgErr\<close>.

  The parts of libc that compute, \<open>getopt\<close> and \<open>atoi\<close>, are defined here.
\<close>

subsection \<open>Histories and programs\<close>

datatype arg = ArgI int | ArgS string | ArgErr int

record sysret =
  sys_ret :: int
  sys_errno :: int
  sys_data :: bytes
  sys_addr :: bytes

datatype 'c event = Printf string "arg list" | Eprintf string "arg list" | Call 'c sysret

type_synonym 'c history = "'c event list"
type_synonym 'c os = "'c event list \<Rightarrow> 'c \<Rightarrow> sysret"
type_synonym ('c, 'a) prog = "('c event list, 'a) state"

definition call :: "'c os \<Rightarrow> 'c \<Rightarrow> ('c, sysret) prog" where
  "call os c = State (\<lambda>h. (os h c, Call c (os h c) # h))"

definition printf :: "string \<Rightarrow> arg list \<Rightarrow> ('c, unit) prog" where
  "printf fmt args = State (\<lambda>h. ((), Printf fmt args # h))"

definition eprintf :: "string \<Rightarrow> arg list \<Rightarrow> ('c, unit) prog" where
  "eprintf fmt args = State (\<lambda>h. ((), Eprintf fmt args # h))"

text \<open>\<open>perror(s)\<close> prints the string and the text of \<open>errno\<close> to standard error.\<close>

definition perror :: "string \<Rightarrow> sysret \<Rightarrow> ('c, unit) prog" where
  "perror s r = eprintf ''%s: %s\<newline>'' [ArgS s, ArgErr (sys_errno r)]"

abbreviation exit_with :: "'a \<Rightarrow> ('c, 'a) prog" where
  "exit_with \<equiv> State_Monad.return"

lemma run_call [simp]: "run_state (call os c) h = (os h c, Call c (os h c) # h)"
  by (simp add: call_def)

lemma run_printf [simp]: "run_state (printf f as) h = ((), Printf f as # h)"
  by (simp add: printf_def)

lemma run_eprintf [simp]: "run_state (eprintf f as) h = ((), Eprintf f as # h)"
  by (simp add: eprintf_def)

text \<open>The simplifier does not look into format strings.\<close>

lemma Printf_cong [cong]: "as = bs \<Longrightarrow> Printf f as = Printf f bs"
  by simp

lemma Eprintf_cong [cong]: "as = bs \<Longrightarrow> Eprintf f as = Eprintf f bs"
  by simp

lemma printf_cong [cong]: "as = bs \<Longrightarrow> printf f as = printf f bs"
  by simp

lemma eprintf_cong [cong]: "as = bs \<Longrightarrow> eprintf f as = eprintf f bs"
  by simp

text \<open>An operating system for examples, which answers every call with the same number.\<close>

definition os_const :: "int \<Rightarrow> 'c os" where
  "os_const n h c = \<lparr>sys_ret = n, sys_errno = 0, sys_data = [], sys_addr = []\<rparr>"

definition result :: "('c, 'a) prog \<Rightarrow> 'c history \<Rightarrow> 'a" where
  "result p h = fst (run_state p h)"

definition final :: "('c, 'a) prog \<Rightarrow> 'c history \<Rightarrow> 'c history" where
  "final p h = snd (run_state p h)"

fun calls :: "'c history \<Rightarrow> 'c list" where
  "calls [] = []"
| "calls (Call c r # h) = c # calls h"
| "calls (_ # h) = calls h"

text \<open>How a program ends: with an exit code, in undefined behaviour, or not within the fuel given
  to its loop.\<close>

datatype outcome = Exit int | Undefined | Running

lemma final_bind: "final (State_Monad.bind p f) h = final (f (result p h)) (final p h)"
  by (simp add: final_def result_def split_beta)

lemma result_bind: "result (State_Monad.bind p f) h = result (f (result p h)) (final p h)"
  by (simp add: final_def result_def split_beta)

lemma final_simps [simp]:
  "final (printf f as) h = Printf f as # h"
  "final (eprintf f as) h = Eprintf f as # h"
  "final (call os c) h = Call c (os h c) # h"
  "final (exit_with x) h = h"
  by (simp_all add: final_def)

lemma result_simps [simp]:
  "result (call os c) h = os h c"
  "result (exit_with x) h = x"
  by (simp_all add: result_def)

text \<open>A program only adds to its history.\<close>

definition extends :: "('c, 'a) prog \<Rightarrow> bool" where
  "extends p \<longleftrightarrow> (\<forall>h. \<exists>out. final p h = out @ h)"

named_theorems extends_rules

lemma extends_bind [extends_rules]:
  "extends p \<Longrightarrow> (\<And>x. extends (f x)) \<Longrightarrow> extends (State_Monad.bind p f)"
  unfolding extends_def final_bind by (metis append_assoc)

lemma extends_basic [extends_rules]:
  "extends (printf fmt as)" "extends (eprintf fmt as)" "extends (call os c)" "extends (exit_with x)"
  by (simp_all add: extends_def)

lemma extends_control [extends_rules]:
  "extends p \<Longrightarrow> extends q \<Longrightarrow> extends (if b then p else q)"
  "(\<And>y. extends (f y)) \<Longrightarrow> extends (Let e f)"
  by (simp_all add: Let_def)

subsection \<open>Monitors\<close>

text \<open>
  A monitor follows the calls of a history through an automaton; \<open>None\<close> is a violation of the
  protocol it states.  \<open>wp\<close> is the weakest precondition of a program with respect to a monitor:
  from a history in state \<open>s\<close> the program keeps the protocol, for whatever the operating system
  answers, and ends with \<open>Q\<close> of its result and the state reached.
\<close>

fun monitor :: "('c \<Rightarrow> sysret \<Rightarrow> 's \<Rightarrow> 's option) \<Rightarrow> 's \<Rightarrow> 'c history \<Rightarrow> 's option" where
  "monitor step s [] = Some s"
| "monitor step s (Call c r # h) =
    (case monitor step s h of None \<Rightarrow> None | Some t \<Rightarrow> step c r t)"
| "monitor step s (_ # h) = monitor step s h"

definition wp ::
    "('c \<Rightarrow> sysret \<Rightarrow> 's \<Rightarrow> 's option) \<Rightarrow> ('c, 'a) prog \<Rightarrow> ('a \<Rightarrow> 's \<Rightarrow> bool) \<Rightarrow> 's \<Rightarrow> bool" where
  "wp step p Q s \<longleftrightarrow>
    (\<forall>s0 h. monitor step s0 h = Some s \<longrightarrow>
      (\<exists>t. monitor step s0 (final p h) = Some t \<and> Q (result p h) t))"

named_theorems wp_rules \<open>weakest preconditions of the program constructs\<close>

lemma wp_bind [wp_rules]:
  "wp step p (\<lambda>x. wp step (f x) Q) s \<Longrightarrow> wp step (State_Monad.bind p f) Q s"
  unfolding wp_def final_bind result_bind by blast

lemma wp_return [wp_rules]: "Q x s \<Longrightarrow> wp step (exit_with x) Q s"
  by (simp add: wp_def)

lemma wp_printf [wp_rules]: "Q () s \<Longrightarrow> wp step (printf f as) Q s"
  by (simp add: wp_def)

lemma wp_eprintf [wp_rules]: "Q () s \<Longrightarrow> wp step (eprintf f as) Q s"
  by (simp add: wp_def)

lemma wp_perror [wp_rules]: "Q () s \<Longrightarrow> wp step (perror f r) Q s"
  by (simp add: perror_def wp_eprintf)

lemma wp_call: "(\<And>r. \<exists>t. step c r s = Some t \<and> Q r t) \<Longrightarrow> wp step (call os c) Q s"
  by (auto simp: wp_def)

text \<open>With a law \<open>L\<close> on what the operating system answers.\<close>

lemma wp_call_law:
  assumes "\<And>h. L c (os h c)" "\<And>r. L c r \<Longrightarrow> \<exists>t. step c r s = Some t \<and> Q r t"
  shows "wp step (call os c) Q s"
  using assms by (auto simp: wp_def)

lemma wp_if [wp_rules]:
  "(b \<Longrightarrow> wp step p Q s) \<Longrightarrow> (\<not> b \<Longrightarrow> wp step q Q s) \<Longrightarrow> wp step (if b then p else q) Q s"
  by simp

lemma wp_option [wp_rules]:
  "(x = None \<Longrightarrow> wp step p Q s) \<Longrightarrow> (\<And>y. x = Some y \<Longrightarrow> wp step (f y) Q s) \<Longrightarrow>
    wp step (case x of None \<Rightarrow> p | Some y \<Rightarrow> f y) Q s"
  by (cases x) simp_all

lemma wp_let [wp_rules]: "(\<And>x. x = e \<Longrightarrow> wp step (f x) Q s) \<Longrightarrow> wp step (Let e f) Q s"
  by simp

lemma wp_prod [wp_rules]:
  "(\<And>a b. x = (a, b) \<Longrightarrow> wp step (f a b) Q s) \<Longrightarrow> wp step (case x of (a, b) \<Rightarrow> f a b) Q s"
  by (cases x) simp

lemma wp_mono: "wp step p Q s \<Longrightarrow> (\<And>x t. Q x t \<Longrightarrow> R x t) \<Longrightarrow> wp step p R s"
  unfolding wp_def by blast

lemma wp_result: "wp step p Q s \<Longrightarrow> (\<And>h. R (result p h)) \<Longrightarrow> wp step p (\<lambda>x t. Q x t \<and> R x) s"
  unfolding wp_def by blast

lemma wpD:
  "wp step p Q s \<Longrightarrow> monitor step s0 h = Some s \<Longrightarrow>
    \<exists>t. monitor step s0 (final p h) = Some t \<and> Q (result p h) t"
  by (simp add: wp_def)

text \<open>The monitor that only records the calls, the oldest first.\<close>

definition log_step :: "'c \<Rightarrow> sysret \<Rightarrow> ('c \<times> sysret) list \<Rightarrow> ('c \<times> sysret) list option" where
  "log_step c r log = Some (log @ [(c, r)])"

lemma wp_log_call: "(\<And>r. Q r (log @ [(c, r)])) \<Longrightarrow> wp log_step (call os c) Q log"
  by (rule wp_call) (simp add: log_step_def)

fun call_log :: "'c history \<Rightarrow> ('c \<times> sysret) list" where
  "call_log [] = []"
| "call_log (Call c r # h) = call_log h @ [(c, r)]"
| "call_log (_ # h) = call_log h"

lemma map_fst_call_log: "map fst (call_log h) = rev (calls h)"
  by (induction h rule: call_log.induct) auto

lemma monitor_log_step: "monitor log_step [] h = Some (call_log h)"
  by (induction h rule: call_log.induct) (auto simp: log_step_def)

lemma wp_logD: "wp log_step p Q [] \<Longrightarrow> Q (result p []) (call_log (final p []))"
  using wpD [of log_step p Q "[]" "[]" "[]"] by (simp add: monitor_log_step)

text \<open>Any monitor is determined by the recorded calls.\<close>

fun run_steps :: "('c \<Rightarrow> sysret \<Rightarrow> 's \<Rightarrow> 's option) \<Rightarrow> ('c \<times> sysret) list \<Rightarrow> 's \<Rightarrow> 's option" where
  "run_steps step [] s = Some s"
| "run_steps step ((c, r) # log) s =
    (case step c r s of None \<Rightarrow> None | Some t \<Rightarrow> run_steps step log t)"

lemma run_steps_append:
  "run_steps step (l @ l') s =
    (case run_steps step l s of None \<Rightarrow> None | Some t \<Rightarrow> run_steps step l' t)"
  by (induction l arbitrary: s) (auto split: option.splits)

lemma monitor_run_steps: "monitor step s h = run_steps step (call_log h) s"
  by (induction h rule: call_log.induct) (auto simp: run_steps_append split: option.splits)

subsection \<open>Descriptors\<close>

text \<open>
  The discipline of descriptors, for any set of calls: the state is the list of open descriptors, the newest first; a
  call that opens one adds its result, closing needs an open descriptor and removes it, and every other use
  needs an open descriptor.
\<close>

locale fd_monitor =
  fixes step :: "'c \<Rightarrow> sysret \<Rightarrow> int list \<Rightarrow> int list option"
    and opens :: "'c \<Rightarrow> bool" and closes :: "'c \<Rightarrow> int option" and uses :: "'c \<Rightarrow> int option"
  assumes open_step: "opens c \<Longrightarrow> step c r fds = Some (if sys_ret r < 0 then fds else sys_ret r # fds)"
    and close_step: "closes c = Some fd \<Longrightarrow> step c r fds = (if fd \<in> set fds then Some (remove1 fd fds) else None)"
    and use_step: "uses c = Some fd \<Longrightarrow> step c r fds = (if fd \<in> set fds then Some fds else None)"
    and other_step: "\<not> opens c \<Longrightarrow> closes c = None \<Longrightarrow> uses c = None \<Longrightarrow> step c r fds = Some fds"
begin

lemma wp_open:
  "opens c \<Longrightarrow> (\<And>r. sys_ret r < 0 \<Longrightarrow> Q r fds) \<Longrightarrow> (\<And>r. 0 \<le> sys_ret r \<Longrightarrow> Q r (sys_ret r # fds)) \<Longrightarrow>
    wp step (call os c) Q fds"
  by (rule wp_call) (auto simp: open_step)

lemma wp_close:
  "closes c = Some fd \<Longrightarrow> fd \<in> set fds \<Longrightarrow> (\<And>r. Q r (remove1 fd fds)) \<Longrightarrow> wp step (call os c) Q fds"
  by (rule wp_call) (simp add: close_step)

lemma wp_use: "uses c = Some fd \<Longrightarrow> fd \<in> set fds \<Longrightarrow> (\<And>r. Q r fds) \<Longrightarrow> wp step (call os c) Q fds"
  by (rule wp_call) (simp add: use_step)

lemma wp_other:
  "\<not> opens c \<Longrightarrow> closes c = None \<Longrightarrow> uses c = None \<Longrightarrow> (\<And>r. Q r fds) \<Longrightarrow> wp step (call os c) Q fds"
  by (rule wp_call) (simp add: other_step)

text \<open>A descriptor is open at the end only when it was open before or a call has returned it.\<close>

lemma step_origin:
  assumes "step c r fds = Some fds'" "fd \<in> set fds'"
  shows "fd \<in> set fds \<or> opens c \<and> sys_ret r = fd \<and> 0 \<le> fd"
proof (cases "opens c")
  case True
  with assms show ?thesis
    by (auto simp: open_step split: if_splits)
next
  case False
  then show ?thesis
    using assms by (cases "closes c"; cases "uses c")
      (auto simp: close_step use_step other_step split: if_splits dest: set_remove1_subset [THEN subsetD])
qed

lemma open_origin:
  "monitor step fds h = Some fds' \<Longrightarrow> fd \<in> set fds' \<Longrightarrow>
    fd \<in> set fds \<or> (\<exists>c r. Call c r \<in> set h \<and> opens c \<and> sys_ret r = fd \<and> 0 \<le> fd)"
proof (induction h arbitrary: fds')
  case (Cons e h)
  show ?case
  proof (cases e)
    case (Call c r)
    with Cons.prems(1) obtain t where t: "monitor step fds h = Some t" "step c r t = Some fds'"
      by (auto split: option.splits)
    with Cons.IH [OF t(1)] step_origin [OF t(2) Cons.prems(2)] Call show ?thesis
      by auto
  qed (use Cons in auto)
qed simp

end

subsection \<open>Input\<close>

text \<open>How often a call was made.\<close>

definition made :: "'c \<Rightarrow> 'c history \<Rightarrow> nat" where
  "made c h = length (filter (\<lambda>d. d = c) (calls h))"

lemma made_simps [simp]:
  "made c [] = 0"
  "made c (Printf f as # h) = made c h"
  "made c (Eprintf f as # h) = made c h"
  "made c (Call d r # h) = (if d = c then 1 else 0) + made c h"
  by (simp_all add: made_def)

text \<open>The line that a call of \<open>fgets\<close> stored; the result of the call is 0 for \<open>NULL\<close>.\<close>

definition line_of :: "sysret \<Rightarrow> string" where
  "line_of r = map (\<lambda>b. char_of (unat b)) (sys_data r)"

text \<open>The call \<open>c\<close> reads the lines \<open>lns\<close>, one at a time, and then the end of the file.\<close>

definition delivers :: "'c os \<Rightarrow> 'c \<Rightarrow> string list \<Rightarrow> bool" where
  "delivers os c lns \<longleftrightarrow>
    (\<forall>h. if made c h < length lns then sys_ret (os h c) \<noteq> 0 \<and> line_of (os h c) = lns ! made c h
         else sys_ret (os h c) = 0)"

lemma delivers_line:
  "delivers os c lns \<Longrightarrow> made c h < length lns \<Longrightarrow> sys_ret (os h c) \<noteq> 0 \<and> line_of (os h c) = lns ! made c h"
  "delivers os c lns \<Longrightarrow> length lns \<le> made c h \<Longrightarrow> sys_ret (os h c) = 0"
  by (simp_all add: delivers_def not_less [symmetric])

text \<open>
  A loop that reads one line in each round refines a function on the list of lines: \<open>stop\<close> gives the result when it
  stops at a line, \<open>advance\<close> the next state, \<open>at_end\<close> the result at the end of the file, and \<open>emit\<close> what a round adds
  to the observation \<open>obs\<close> of the history.
\<close>

fun consume ::
    "('s \<Rightarrow> string \<Rightarrow> 'r option) \<Rightarrow> ('s \<Rightarrow> string \<Rightarrow> 's) \<Rightarrow> ('s \<Rightarrow> 'r) \<Rightarrow> ('s \<Rightarrow> string \<Rightarrow> 'o list) \<Rightarrow> 's \<Rightarrow>
     string list \<Rightarrow> 'r \<times> 'o list" where
  "consume stop advance at_end emit s [] = (at_end s, [])"
| "consume stop advance at_end emit s (l # ls) =
    (case stop s l of
       Some r \<Rightarrow> (r, emit s l)
     | None \<Rightarrow> let (r, out) = consume stop advance at_end emit (advance s l) ls in (r, emit s l @ out))"

locale line_loop =
  fixes loop :: "'c os \<Rightarrow> nat \<Rightarrow> 's \<Rightarrow> ('c, 'r) prog" and inp :: 'c and ok :: "'c os \<Rightarrow> bool"
    and stop :: "'s \<Rightarrow> string \<Rightarrow> 'r option" and advance :: "'s \<Rightarrow> string \<Rightarrow> 's" and at_end :: "'s \<Rightarrow> 'r"
    and emit :: "'s \<Rightarrow> string \<Rightarrow> 'o list" and obs :: "'c history \<Rightarrow> 'o list"
  assumes eof: "ok os \<Longrightarrow> delivers os inp lns \<Longrightarrow> length lns \<le> made inp h \<Longrightarrow>
      result (loop os (Suc n) s) h = at_end s \<and> obs (final (loop os (Suc n) s) h) = obs h"
    and stops: "ok os \<Longrightarrow> delivers os inp lns \<Longrightarrow> made inp h < length lns \<Longrightarrow> stop s (lns ! made inp h) = Some r \<Longrightarrow>
      result (loop os (Suc n) s) h = r \<and> obs (final (loop os (Suc n) s) h) = obs h @ emit s (lns ! made inp h)"
    and continues: "ok os \<Longrightarrow> delivers os inp lns \<Longrightarrow> made inp h < length lns \<Longrightarrow> stop s (lns ! made inp h) = None \<Longrightarrow>
      \<exists>g. made inp g = Suc (made inp h) \<and> obs g = obs h @ emit s (lns ! made inp h) \<and>
        result (loop os (Suc n) s) h = result (loop os n (advance s (lns ! made inp h))) g \<and>
        final (loop os (Suc n) s) h = final (loop os n (advance s (lns ! made inp h))) g"
begin

lemma consumes:
  assumes "ok os" "delivers os inp lns"
  shows "length lns < fuel + made inp h \<Longrightarrow> made inp h \<le> length lns \<Longrightarrow>
    result (loop os fuel s) h = fst (consume stop advance at_end emit s (drop (made inp h) lns)) \<and>
    obs (final (loop os fuel s) h) = obs h @ snd (consume stop advance at_end emit s (drop (made inp h) lns))"
proof (induction fuel arbitrary: h s)
  case (Suc fuel)
  show ?case
  proof (cases "made inp h < length lns")
    case True
    let ?l = "lns ! made inp h"
    have drop: "drop (made inp h) lns = ?l # drop (Suc (made inp h)) lns"
      using True by (simp add: Cons_nth_drop_Suc)
    show ?thesis
    proof (cases "stop s ?l")
      case None
      from continues [OF assms True this] obtain g where g: "made inp g = Suc (made inp h)" "obs g = obs h @ emit s ?l"
          "result (loop os (Suc fuel) s) h = result (loop os fuel (advance s ?l)) g"
          "final (loop os (Suc fuel) s) h = final (loop os fuel (advance s ?l)) g"
        by blast
      then show ?thesis
        using Suc.IH [of g "advance s ?l"] Suc.prems True None by (simp add: drop split_beta)
    qed (use stops [OF assms True] in \<open>simp add: drop\<close>)
  qed (use eof [OF assms, of h] Suc.prems in simp)
qed simp

end

text \<open>A loop that stops at no line.\<close>

lemma consume_all:
  "consume (\<lambda>s l. None) (\<lambda>s l. s) at_end (\<lambda>s l. emit l) s lns = (at_end s, concat (map emit lns))"
  by (induction lns) auto

lemma char_of_byte: "char_of (unat (of_char c :: u8)) = c"
proof -
  have "unat (of_char c :: u8) = of_char c"
    using unat_of_nat [where 'a = 8, of "of_char c"] by (simp add: of_nat_of_char)
  then show ?thesis
    by simp
qed

lemma line_of_chars: "sys_data r = map of_char s \<Longrightarrow> line_of r = s"
  by (simp add: line_of_def comp_def char_of_byte)

text \<open>An environment for examples, which delivers lines and answers other calls with a number.\<close>

definition os_lines :: "'c \<Rightarrow> string list \<Rightarrow> ('c \<Rightarrow> int) \<Rightarrow> 'c os" where
  "os_lines c lns rets h d =
    (if d = c then
       (if made c h < length lns then \<lparr>sys_ret = 1, sys_errno = 0, sys_data = map of_char (lns ! made c h), sys_addr = []\<rparr>
        else \<lparr>sys_ret = 0, sys_errno = 0, sys_data = [], sys_addr = []\<rparr>)
     else \<lparr>sys_ret = rets d, sys_errno = 0, sys_data = [3, 0, 0, 0, 4, 0, 0, 0], sys_addr = []\<rparr>)"

lemma delivers_os_lines: "delivers (os_lines c lns rets) c lns"
  by (auto simp: delivers_def os_lines_def intro!: line_of_chars)

lemma os_lines_other: "d \<noteq> c \<Longrightarrow> sys_ret (os_lines c lns rets h d) = rets d"
  by (simp add: os_lines_def)

subsection \<open>libc: \<open>atoi\<close>\<close>

fun skip_space :: "string \<Rightarrow> string" where
  "skip_space [] = []"
| "skip_space (c # cs) =
    (if of_char c \<in> {0x20, 0x09, 0x0A, 0x0B, 0x0C, 0x0D :: nat} then skip_space cs else c # cs)"

definition is_digit :: "char \<Rightarrow> bool" where
  "is_digit c \<longleftrightarrow> 0x30 \<le> (of_char c :: nat) \<and> (of_char c :: nat) \<le> 0x39"

fun digits_value :: "int \<Rightarrow> string \<Rightarrow> int" where
  "digits_value v [] = v"
| "digits_value v (c # cs) =
    (if is_digit c then digits_value (10 * v + (of_char c - 0x30)) cs else v)"

text \<open>\<open>%zu\<close> and \<open>%d\<close>: a number in decimal; \<open>digits_value\<close> reads it back.\<close>

definition digit :: "nat \<Rightarrow> char" where
  "digit n = char_of (0x30 + n)"

fun decimal :: "nat \<Rightarrow> string" where
  "decimal n = (if n < 10 then [digit n] else decimal (n div 10) @ [digit (n mod 10)])"

declare decimal.simps [simp del]

lemma of_char_digit: "n < 10 \<Longrightarrow> (of_char (digit n) :: nat) = 0x30 + n"
  by (simp add: digit_def)

lemma is_digit_digit: "n < 10 \<Longrightarrow> is_digit (digit n)"
  by (simp add: is_digit_def of_char_digit)

lemma decimal_digits: "list_all is_digit (decimal n)"
proof (induction n rule: decimal.induct)
  case (1 n)
  then show ?case
    by (subst decimal.simps) (simp add: is_digit_digit)
qed

lemma digits_value_append:
  "list_all is_digit ds \<Longrightarrow> digits_value v (ds @ s) = digits_value (digits_value v ds) s"
  by (induction ds arbitrary: v) auto

text \<open>Reading a printed number gives the number.\<close>

lemma digits_value_decimal: "digits_value 0 (decimal n) = int n"
proof (induction n rule: decimal.induct)
  case (1 n)
  have "(of_char (digit m) :: int) = 0x30 + int m" if "m < 10" for m
    using of_char_digit [OF that] by (metis of_nat_add of_nat_numeral of_nat_of_char)
  then show ?case
    using 1 by (subst decimal.simps)
      (auto simp: is_digit_digit digits_value_append decimal_digits zdiv_int zmod_int)
qed

lemma digits_value_decimal_stop:
  assumes "\<not> is_digit c"
  shows "digits_value 0 (decimal n @ c # s) = int n" "dropWhile is_digit (decimal n @ c # s) = c # s"
proof -
  show "digits_value 0 (decimal n @ c # s) = int n"
    using assms by (simp add: digits_value_append decimal_digits digits_value_decimal)
  show "dropWhile is_digit (decimal n @ c # s) = c # s"
    using assms decimal_digits [of n] by (simp add: dropWhile_append3 list_all_iff)
qed

text \<open>glibc converts with \<open>strtol\<close>, which saturates at 64 bits, and truncates to \<open>int\<close>.\<close>

definition atoi :: "string \<Rightarrow> int" where
  "atoi s =
    (let v = (case skip_space s of
        [] \<Rightarrow> 0
      | c # cs \<Rightarrow>
          if c = CHR ''-'' then - digits_value 0 cs
          else if c = CHR ''+'' then digits_value 0 cs
          else digits_value 0 (c # cs))
     in to_int32 (max (- (2 ^ 63)) (min (2 ^ 63 - 1) v)))"

subsection \<open>libc: \<open>getopt\<close>\<close>

text \<open>The options found, in order, and the operands left after them.  As in glibc, operands are
  moved behind the options, \<open>--\<close> ends the options, options without argument can share one
  word, and an unknown option or a missing argument is reported as \<open>?\<close>.\<close>

datatype optres = Opt char string | OptErr

fun wants_arg :: "string \<Rightarrow> char \<Rightarrow> bool option" where
  "wants_arg [] c = None"
| "wants_arg (d # ds) c =
    (if d = c \<and> c \<noteq> CHR '':'' then Some (ds \<noteq> [] \<and> hd ds = CHR '':'') else wants_arg ds c)"

fun getopt_cluster :: "string \<Rightarrow> string \<Rightarrow> string list \<Rightarrow> optres list \<times> string list" where
  "getopt_cluster spec [] rest = ([], rest)"
| "getopt_cluster spec (c # cs) rest =
    (case wants_arg spec c of
       None \<Rightarrow> (let (os, rest) = getopt_cluster spec cs rest in (OptErr # os, rest))
     | Some False \<Rightarrow> (let (os, rest) = getopt_cluster spec cs rest in (Opt c [] # os, rest))
     | Some True \<Rightarrow>
         (if cs \<noteq> [] then ([Opt c cs], rest)
          else (case rest of [] \<Rightarrow> ([OptErr], []) | a # rest \<Rightarrow> ([Opt c a], rest))))"

lemma getopt_cluster_shorter: "length (snd (getopt_cluster spec cs rest)) \<le> length rest"
  by (induction cs) (auto split: option.splits bool.splits list.splits prod.splits)

function getopt :: "string \<Rightarrow> string list \<Rightarrow> optres list \<times> string list" where
  "getopt spec [] = ([], [])"
| "getopt spec (a # as) =
    (if a = ''--'' then ([], as)
     else if 2 \<le> length a \<and> hd a = CHR ''-'' then
       (let (os, as') = getopt_cluster spec (tl a) as;
            (os', operands) = getopt spec as'
        in (os @ os', operands))
     else (let (os, operands) = getopt spec as in (os, a # operands)))"
  by pat_completeness auto
termination
proof (relation "measure (\<lambda>(spec, as). length as)", goal_cases)
  case (2 spec a as x os as')
  then show ?case
    using getopt_cluster_shorter [of spec "tl a" as] by (auto simp: prod_eq_iff less_Suc_eq_le)
qed auto

text \<open>\<open>getopt\<close> returns only options that its specification lists.\<close>

lemma getopt_cluster_known:
  "Opt c a \<in> set (fst (getopt_cluster spec cs rest)) \<Longrightarrow> wants_arg spec c \<noteq> None"
  by (induction cs) (auto split: option.splits bool.splits list.splits prod.splits if_splits)

lemma getopt_known: "Opt c a \<in> set (fst (getopt spec args)) \<Longrightarrow> wants_arg spec c \<noteq> None"
proof (induction spec args rule: getopt.induct)
  case (2 spec w ws)
  then show ?case
    using getopt_cluster_known [of c a spec "tl w" ws]
    by (cases "getopt_cluster spec (tl w) ws") (auto simp: split_beta split: if_splits)
qed simp

end
