(* ===== verification/SocketCalls.thy ===== *)
theory SocketCalls
  imports CIO
begin

text \<open>
  The socket calls of the network programs, the libc address functions they use, and the
  discipline of file descriptors.
\<close>

subsection \<open>Constants of the system headers (Linux, x86-64)\<close>

abbreviation (input) AF_INET :: int where "AF_INET \<equiv> 2"
abbreviation (input) AF_NETLINK :: int where "AF_NETLINK \<equiv> 16"
abbreviation (input) AF_INET6 :: int where "AF_INET6 \<equiv> 10"
abbreviation (input) SOCK_STREAM :: int where "SOCK_STREAM \<equiv> 1"
abbreviation (input) SOCK_DGRAM :: int where "SOCK_DGRAM \<equiv> 2"
abbreviation (input) SOCK_RAW :: int where "SOCK_RAW \<equiv> 3"
abbreviation (input) PROTO_UDP :: int where "PROTO_UDP \<equiv> 17"
abbreviation (input) PROTO_IPV6 :: int where "PROTO_IPV6 \<equiv> 41"
abbreviation (input) PROTO_RAW :: int where "PROTO_RAW \<equiv> 255"
abbreviation (input) SOL_SOCKET :: int where "SOL_SOCKET \<equiv> 1"
abbreviation (input) SO_RCVBUF :: int where "SO_RCVBUF \<equiv> 8"

subsection \<open>Addresses\<close>

record sockaddr_in =
  sin_family :: int
  sin_port :: u16
  sin_addr :: bytes

record sockaddr_in6 =
  sin6_family :: int
  sin6_port :: u16
  sin6_flowinfo :: u32
  sin6_addr :: bytes
  sin6_scope_id :: u32

datatype sockaddr = SA4 sockaddr_in | SA6 sockaddr_in6

definition zero_in :: sockaddr_in where
  "zero_in = \<lparr>sin_family = 0, sin_port = 0, sin_addr = replicate 4 0\<rparr>"

definition zero_in6 :: sockaddr_in6 where
  "zero_in6 = \<lparr>sin6_family = 0, sin6_port = 0, sin6_flowinfo = 0, sin6_addr = replicate 16 0,
     sin6_scope_id = 0\<rparr>"

text \<open>The bytes of a \<open>sockaddr_in6\<close> in memory, and the object after the kernel has stored an
  address over it.  \<open>overlay\<close> writes bytes over the start of an object, never past its end.\<close>

definition overlay :: "bytes \<Rightarrow> bytes \<Rightarrow> bytes" where
  "overlay new old = take (length old) new @ drop (length new) old"

definition le32 :: "u32 \<Rightarrow> bytes" where
  "le32 w = le16 (ucast w) @ le16 (ucast (drop_bit 16 w))"

definition of_le32 :: "bytes \<Rightarrow> u32" where
  "of_le32 bs = ucast (of_le16 (bs ! 0) (bs ! 1)) + push_bit 16 (ucast (of_le16 (bs ! 2) (bs ! 3)))"

definition in6_bytes :: "sockaddr_in6 \<Rightarrow> bytes" where
  "in6_bytes a = le16 (word_of_int (sin6_family a)) @ le16 (sin6_port a) @ le32 (sin6_flowinfo a) @
     sin6_addr a @ le32 (sin6_scope_id a)"

definition in6_of_bytes :: "bytes \<Rightarrow> sockaddr_in6" where
  "in6_of_bytes bs = \<lparr>sin6_family = uint (of_le16 (bs ! 0) (bs ! 1)), sin6_port = of_le16 (bs ! 2) (bs ! 3),
     sin6_flowinfo = of_le32 (drop 4 bs), sin6_addr = take 16 (drop 8 bs),
     sin6_scope_id = of_le32 (drop 24 bs)\<rparr>"

definition stored_in6 :: "sysret \<Rightarrow> sockaddr_in6 \<Rightarrow> sockaddr_in6" where
  "stored_in6 r a =
     (if sys_ret r < 0 then a else in6_of_bytes (overlay (sys_addr r) (in6_bytes a)))"

lemma stored_in6_addr:
  "0 \<le> sys_ret r \<Longrightarrow> sys_addr r = in6_bytes a \<Longrightarrow> length (sin6_addr a) = 16 \<Longrightarrow> length (sin6_addr b) = 16 \<Longrightarrow>
    sin6_addr (stored_in6 r b) = sin6_addr a"
  by (simp add: stored_in6_def in6_of_bytes_def overlay_def in6_bytes_def le32_def le16_def)

text \<open>Text and time conversions of libc are parameters.  \<open>inet_pton\<close> leaves its destination
  unchanged when the text is no address of the family.\<close>

record libc =
  pton4 :: "string \<Rightarrow> bytes option"
  pton6 :: "string \<Rightarrow> bytes option"
  ntop4 :: "bytes \<Rightarrow> string"
  ntop6 :: "bytes \<Rightarrow> string"
  fmt_time :: "int \<Rightarrow> string"

definition inet_pton :: "(string \<Rightarrow> bytes option) \<Rightarrow> string \<Rightarrow> bytes \<Rightarrow> bytes" where
  "inet_pton pton s dst = (case pton s of None \<Rightarrow> dst | Some a \<Rightarrow> a)"

text \<open>What the manual page of \<open>inet_pton\<close> promises: addresses of four and of sixteen bytes.\<close>

definition pton_sizes :: "libc \<Rightarrow> bool" where
  "pton_sizes lc \<longleftrightarrow> (\<forall>s a. pton4 lc s = Some a \<longrightarrow> length a = 4) \<and>
     (\<forall>s a. pton6 lc s = Some a \<longrightarrow> length a = 16)"

lemma length_inet_pton:
  "pton_sizes lc \<Longrightarrow> length d = 4 \<Longrightarrow> length (inet_pton (pton4 lc) s d) = 4"
  "pton_sizes lc \<Longrightarrow> length e = 16 \<Longrightarrow> length (inet_pton (pton6 lc) s e) = 16"
  by (auto simp: pton_sizes_def inet_pton_def split: option.splits)

subsection \<open>Calls\<close>

datatype sock_call =
    Socket int int int
  | Bind int sockaddr
  | Close int
  | SendTo int bytes sockaddr
  | SendMsg int "bytes list" sockaddr
  | RecvFrom int nat int
  | Send int bytes
  | Poll int int
  | SetSockOpt int int int int
  | GetSockOpt int int int u32
  | GetSockName int
  | Sleep int
  | Time
  | GetPid

type_synonym sock_os = "sock_call os"
type_synonym 'a sock_prog = "(sock_call, 'a) prog"
type_synonym sock_history = "sock_call history"

fun fd_of :: "sock_call \<Rightarrow> int option" where
  "fd_of (Bind fd _) = Some fd"
| "fd_of (Close fd) = Some fd"
| "fd_of (SendTo fd _ _) = Some fd"
| "fd_of (SendMsg fd _ _) = Some fd"
| "fd_of (RecvFrom fd _ _) = Some fd"
| "fd_of (Send fd _) = Some fd"
| "fd_of (Poll fd _) = Some fd"
| "fd_of (SetSockOpt fd _ _ _) = Some fd"
| "fd_of (GetSockOpt fd _ _ _) = Some fd"
| "fd_of (GetSockName fd) = Some fd"
| "fd_of _ = None"

text \<open>An environment for examples: a libc that knows no address.\<close>

definition libc_none :: libc where
  "libc_none = \<lparr>pton4 = (\<lambda>_. None), pton6 = (\<lambda>_. None), ntop4 = (\<lambda>_. []), ntop6 = (\<lambda>_. []),
     fmt_time = (\<lambda>_. [])\<rparr>"

text \<open>
  The discipline of descriptors as a monitor: its state is the list of open descriptors, the
  newest first.  Every call must be made on an open descriptor.
\<close>

fun sock_step :: "sock_call \<Rightarrow> sysret \<Rightarrow> int list \<Rightarrow> int list option" where
  "sock_step (Socket d t p) r fds = Some (if sys_ret r < 0 then fds else sys_ret r # fds)"
| "sock_step (Close fd) r fds = (if fd \<in> set fds then Some (remove1 fd fds) else None)"
| "sock_step c r fds =
    (case fd_of c of None \<Rightarrow> Some fds | Some fd \<Rightarrow> if fd \<in> set fds then Some fds else None)"

fun opens_fd :: "sock_call \<Rightarrow> bool" where
  "opens_fd (Socket d t p) = True"
| "opens_fd c = False"

fun closes_fd :: "sock_call \<Rightarrow> int option" where
  "closes_fd (Close fd) = Some fd"
| "closes_fd c = None"

definition uses_fd :: "sock_call \<Rightarrow> int option" where
  "uses_fd c = (if closes_fd c = None then fd_of c else None)"

interpretation sock: fd_monitor sock_step opens_fd closes_fd uses_fd
proof
  show "opens_fd c \<Longrightarrow> sock_step c r fds = Some (if sys_ret r < 0 then fds else sys_ret r # fds)" for c r fds
    by (cases c) simp_all
  show "closes_fd c = Some fd \<Longrightarrow> sock_step c r fds = (if fd \<in> set fds then Some (remove1 fd fds) else None)" for c r fds fd
    by (cases c) simp_all
  show "uses_fd c = Some fd \<Longrightarrow> sock_step c r fds = (if fd \<in> set fds then Some fds else None)" for c r fds fd
    by (cases c) (simp_all add: uses_fd_def)
  show "\<not> opens_fd c \<Longrightarrow> closes_fd c = None \<Longrightarrow> uses_fd c = None \<Longrightarrow> sock_step c r fds = Some fds" for c r fds
    by (cases c) (simp_all add: uses_fd_def)
qed

lemma uses_fd_simps [simp]:
  "uses_fd (Bind fd sa) = Some fd" "uses_fd (SendTo fd d sa) = Some fd" "uses_fd (SendMsg fd v sa) = Some fd"
  "uses_fd (RecvFrom fd k fl) = Some fd" "uses_fd (Send fd d) = Some fd" "uses_fd (Poll fd ms) = Some fd"
  "uses_fd (SetSockOpt fd l opt val) = Some fd" "uses_fd (GetSockOpt fd l opt len) = Some fd"
  "uses_fd (GetSockName fd) = Some fd" "uses_fd (Sleep n) = None" "uses_fd Time = None" "uses_fd GetPid = None"
  by (simp_all add: uses_fd_def)

text \<open>The rules of the discipline for each call.\<close>

lemmas wp_socket_rules [wp_rules] =
  sock.wp_open [of "Socket d t p" for d t p, simplified]
  sock.wp_close [OF closes_fd.simps(1)]
  uses_fd_simps(1-9) [THEN sock.wp_use]
  sock.wp_other [of "Sleep k" for k, simplified]
  sock.wp_other [of Time, simplified]
  sock.wp_other [of GetPid, simplified]

text \<open>A program that calls only on open descriptors and, when it ends with an exit code, leaves
  open exactly what was open before.\<close>

definition fd_balanced :: "(sock_call, outcome) prog \<Rightarrow> bool" where
  "fd_balanced p \<longleftrightarrow>
    (\<forall>fds. wp sock_step p (\<lambda>res fds'. \<forall>code. res = Exit code \<longrightarrow> fds' = fds) fds)"

end
