(* ===== verification/RawSockets.thy ===== *)
theory RawSockets
  imports RawPackets SocketCalls
begin

text \<open>
  \<open>raw6/rawudp.c\<close>: \<open>sendV6\<close>, \<open>sendV4\<close> and \<open>main\<close>, which send one UDP datagram on a raw socket, and
  the history each run leaves.
\<close>

subsection \<open>\<open>rawudp\<close>: sending\<close>

text \<open>The end of \<open>sendV6\<close> and \<open>sendV4\<close>: the report on \<open>sendLen\<close>.\<close>

definition report_send :: "sysret \<Rightarrow> unit sock_prog" where
  "report_send r =
    (if sys_ret r < 0 then printf ''Send data errno: %d -> %s\<newline>'' [ArgI (sys_errno r), ArgErr (sys_errno r)]
     else printf ''Has send data %zd bytes!\<newline>'' [ArgI (sys_ret r)])"

definition report_port :: "sysret \<Rightarrow> unit sock_prog" where
  "report_port r =
    (if sys_ret r < 0 then eprintf ''Send fail when sin6_port is not zero; errno:%d -> %s\<newline>''
       [ArgI (sys_errno r), ArgErr (sys_errno r)]
     else exit_with ())"

text \<open>\<open>None\<close> is an access outside \<open>abPktInfo\<close>.  The two buffers of a \<open>sendmsg\<close> are the UDP header
  in \<open>abPktInfo\<close> and the string literal.\<close>

definition sendV6 ::
    "sock_os \<Rightarrow> bytes \<Rightarrow> int \<Rightarrow> sockaddr_in6 \<Rightarrow> sockaddr_in6 \<Rightarrow> bool \<Rightarrow> u16 \<Rightarrow> unit option sock_prog" where
  "sendV6 os abPktInfo tRawUDPSock from to iovec_flag u16ContentLen =
    (let from = from\<lparr>sin6_port := 0\<rparr>; to = to\<lparr>sin6_port := 0\<rparr> in
     case build_v6 abPktInfo (sin6_addr from) (sin6_addr to) u16ContentLen of
       None \<Rightarrow> exit_with None
     | Some m \<Rightarrow> do {
         printf ''Will send IPv6 %zu bytes\<newline>'' [ArgI (uint (req_len u16ContentLen))];
         if iovec_flag then
           (case rebuild_iovec_v6 m of
              None \<Rightarrow> exit_with None
            | Some m \<Rightarrow> do {
                let vec = [bytes_at m (sizeof IPv6_HEADER_t) (sizeof UDP_HEADER_t), hello_world];
                r \<leftarrow> call os (SendMsg tRawUDPSock vec (SA6 (to\<lparr>sin6_port := 1234\<rparr>)));
                report_port r;
                r \<leftarrow> call os (SendMsg tRawUDPSock vec (SA6 (to\<lparr>sin6_port := 0\<rparr>)));
                report_send r;
                exit_with (Some ())
              })
         else
           (case load_bytes m (sizeof IPv6_HEADER_t) (unat (req_len u16ContentLen)) of
              None \<Rightarrow> exit_with None
            | Some d \<Rightarrow> do {
                r \<leftarrow> call os (SendTo tRawUDPSock d (SA6 to));
                report_send r;
                exit_with (Some ())
              })
       })"

definition sendV4 ::
    "sock_os \<Rightarrow> bytes \<Rightarrow> int \<Rightarrow> sockaddr_in \<Rightarrow> sockaddr_in \<Rightarrow> bool \<Rightarrow> u16 \<Rightarrow> unit option sock_prog" where
  "sendV4 os abPktInfo tRawUDPSock from to iovec_flag u16ContentLen =
    (let from = from\<lparr>sin_port := 0\<rparr>; to = to\<lparr>sin_port := 0\<rparr> in
     case build_v4 abPktInfo (sin_addr from) (sin_addr to) u16ContentLen of
       None \<Rightarrow> exit_with None
     | Some m \<Rightarrow> do {
         printf ''Will send IPv4 %zu bytes\<newline>'' [ArgI (uint (req_len u16ContentLen))];
         if iovec_flag then
           (case rebuild_iovec_v4 m of
              None \<Rightarrow> exit_with None
            | Some m \<Rightarrow> do {
                let vec = [bytes_at m (sizeof IPv4_HEADER_t) (sizeof UDP_HEADER_t), hello_world];
                r \<leftarrow> call os (SendMsg tRawUDPSock vec (SA4 (to\<lparr>sin_port := 1234\<rparr>)));
                report_port r;
                r \<leftarrow> call os (SendMsg tRawUDPSock vec (SA4 (to\<lparr>sin_port := 0\<rparr>)));
                report_send r;
                exit_with (Some ())
              })
         else
           (case load_bytes m (sizeof IPv4_HEADER_t) (unat (req_len u16ContentLen)) of
              None \<Rightarrow> exit_with None
            | Some d \<Rightarrow> do {
                r \<leftarrow> call os (SendTo tRawUDPSock d (SA4 to));
                report_send r;
                exit_with (Some ())
              })
       })"

subsection \<open>\<open>rawudp\<close>: \<open>main\<close>\<close>

record rawudp_args =
  from6 :: sockaddr_in6
  to6 :: sockaddr_in6
  from4 :: sockaddr_in
  to4 :: sockaddr_in
  iovec_flag :: bool
  ip_flag :: IPTYPES
  u16ContentLen :: u16

definition rawudp_defaults :: "libc \<Rightarrow> rawudp_args" where
  "rawudp_defaults lc = \<lparr>
     from6 = zero_in6\<lparr>sin6_family := AF_INET6,
       sin6_addr := inet_pton (pton6 lc) ''FEC0:2021::192.168.31.1'' (sin6_addr zero_in6)\<rparr>,
     to6 = zero_in6\<lparr>sin6_family := AF_INET6,
       sin6_addr := inet_pton (pton6 lc) ''FEC0:2021::192.168.31.2'' (sin6_addr zero_in6)\<rparr>,
     from4 = zero_in\<lparr>sin_family := AF_INET,
       sin_addr := inet_pton (pton4 lc) ''192.168.31.1'' (sin_addr zero_in)\<rparr>,
     to4 = zero_in\<lparr>sin_family := AF_INET,
       sin_addr := inet_pton (pton4 lc) ''192.168.31.2'' (sin_addr zero_in)\<rparr>,
     iovec_flag = False, ip_flag = IPTYPE_V6, u16ContentLen = 2049\<rparr>"

text \<open>The \<open>getopt\<close> loop; \<open>None\<close> is the return after the usage message.\<close>

fun rawudp_getopt :: "libc \<Rightarrow> string \<Rightarrow> optres list \<Rightarrow> rawudp_args \<Rightarrow> rawudp_args option sock_prog" where
  "rawudp_getopt lc argv0 [] a = exit_with (Some a)"
| "rawudp_getopt lc argv0 (OptErr # opts) a = do {
     eprintf ''Usage: %s [-s src] [-d dst] [-l len] [-v] [-4] name\<newline>'' [ArgS argv0];
     exit_with None
   }"
| "rawudp_getopt lc argv0 (Opt c optarg # opts) a =
    (if c = CHR ''v'' then rawudp_getopt lc argv0 opts (a\<lparr>iovec_flag := True\<rparr>)
     else if c = CHR ''s'' then do {
       printf ''Change src addr to %s\<newline>'' [ArgS optarg];
       rawudp_getopt lc argv0 opts (a\<lparr>
         from6 := (from6 a)\<lparr>sin6_addr := inet_pton (pton6 lc) optarg (sin6_addr (from6 a))\<rparr>,
         from4 := (from4 a)\<lparr>sin_addr := inet_pton (pton4 lc) optarg (sin_addr (from4 a))\<rparr>\<rparr>)
     }
     else if c = CHR ''d'' then do {
       printf ''Change dst addr to %s\<newline>'' [ArgS optarg];
       rawudp_getopt lc argv0 opts (a\<lparr>
         to6 := (to6 a)\<lparr>sin6_addr := inet_pton (pton6 lc) optarg (sin6_addr (to6 a))\<rparr>,
         to4 := (to4 a)\<lparr>sin_addr := inet_pton (pton4 lc) optarg (sin_addr (to4 a))\<rparr>\<rparr>)
     }
     else if c = CHR ''l'' then
       rawudp_getopt lc argv0 opts (a\<lparr>u16ContentLen := word_of_int (atoi optarg)\<rparr>)
     else if c = CHR ''4'' then rawudp_getopt lc argv0 opts (a\<lparr>ip_flag := IPTYPE_V4\<rparr>)
     else do {
       eprintf ''Usage: %s [-s src] [-d dst] [-l len] [-v] [-4] name\<newline>'' [ArgS argv0];
       exit_with None
     })"

text \<open>From the creation of the socket to the end of \<open>main\<close>.\<close>

definition rawudp_run :: "sock_os \<Rightarrow> string \<Rightarrow> rawudp_args \<Rightarrow> outcome sock_prog" where
  "rawudp_run os szFromAddrBuf a = do {
     r \<leftarrow> (if ip_flag a = IPTYPE_V6 then call os (Socket AF_INET6 SOCK_RAW PROTO_UDP)
           else call os (Socket AF_INET SOCK_RAW PROTO_UDP));
     if sys_ret r < 0 then do {
       printf ''Create raw udp protocol sock errno: %d -> %s\<newline>'' [ArgI (sys_errno r), ArgErr (sys_errno r)];
       exit_with (Exit (- 1))
     }
     else do {
       let tRawUDPSock = sys_ret r;
       printf ''Create raw udp protocol sock successfully, got sock fd: %d\<newline>'' [ArgI tRawUDPSock];
       r \<leftarrow> (if ip_flag a = IPTYPE_V6 then call os (Bind tRawUDPSock (SA6 (from6 a)))
             else call os (Bind tRawUDPSock (SA4 (from4 a))));
       if sys_ret r < 0 then do {
         printf ''Bind addr: %s , errno: %d -> %s\<newline>''
           [ArgS szFromAddrBuf, ArgI (sys_errno r), ArgErr (sys_errno r)];
         call os (Close tRawUDPSock);
         exit_with (Exit (- 1))
       }
       else do {
         printf ''Bind successfully !\<newline>'' [];
         ok \<leftarrow> (if ip_flag a = IPTYPE_V6
                then sendV6 os abPktInfo_init tRawUDPSock (from6 a) (to6 a) (iovec_flag a) (u16ContentLen a)
                else sendV4 os abPktInfo_init tRawUDPSock (from4 a) (to4 a) (iovec_flag a) (u16ContentLen a));
         case ok of
           None \<Rightarrow> exit_with Undefined
         | Some _ \<Rightarrow> do {
             printf ''Test program exit!\<newline>'' [];
             call os (Close tRawUDPSock);
             exit_with (Exit 0)
           }
       }
     }
   }"

definition rawudp_main :: "sock_os \<Rightarrow> libc \<Rightarrow> string list \<Rightarrow> outcome sock_prog" where
  "rawudp_main os lc argv = do {
     printf ''Hello World!\<newline>'' [];
     let (opts, operands) = getopt ''4vs:d:l:'' (tl argv);
     parsed \<leftarrow> rawudp_getopt lc (hd argv) opts (rawudp_defaults lc);
     case parsed of
       None \<Rightarrow> exit_with (Exit 1)
     | Some a \<Rightarrow> do {
         let szFromAddrBuf =
           (if ip_flag a = IPTYPE_V4 then ntop4 lc (sin_addr (from4 a)) else ntop6 lc (sin6_addr (from6 a)));
         let szToAddrBuf =
           (if ip_flag a = IPTYPE_V4 then ntop4 lc (sin_addr (to4 a)) else ntop6 lc (sin6_addr (to6 a)));
         let optind = length argv - length operands;
         printf ''ip_flag=%d; Src=%s; dst=%s; u16ContentLen=%u; iovec_flag=%d; optind=%d\<newline>''
           [ArgI (case ip_flag a of IPTYPE_V4 \<Rightarrow> 4 | IPTYPE_V6 \<Rightarrow> 6), ArgS szFromAddrBuf, ArgS szToAddrBuf,
            ArgI (uint (u16ContentLen a)), ArgI (if iovec_flag a then 1 else 0), ArgI (int optind)];
         (if length argv \<le> optind then eprintf ''Can Expected argument after options\<newline>'' []
          else exit_with ());
         rawudp_run os szFromAddrBuf a
       }
   }"


subsection \<open>\<open>rawudp\<close>: descriptors\<close>

lemma wp_report [wp_rules]:
  "Q () s \<Longrightarrow> wp step (report_send r) Q s" "Q () s \<Longrightarrow> wp step (report_port r) Q s"
  unfolding report_send_def report_port_def by (intro wp_rules; assumption)+

lemma wp_send [wp_rules]:
  "fd \<in> set fds \<Longrightarrow> (\<And>x. Q x fds) \<Longrightarrow> wp sock_step (sendV6 os m fd f t v len) Q fds"
  "fd \<in> set fds \<Longrightarrow> (\<And>x. Q x fds) \<Longrightarrow> wp sock_step (sendV4 os m fd f' t' v len) Q fds"
  unfolding sendV6_def sendV4_def by (intro wp_rules; assumption)+

lemma wp_rawudp_getopt [wp_rules]:
  "(\<And>x. Q x s) \<Longrightarrow> wp step (rawudp_getopt lc argv0 opts a) Q s"
  by (induction lc argv0 opts a rule: rawudp_getopt.induct) (auto intro!: wp_rules)

lemma fd_balanced_rawudp: "fd_balanced (rawudp_main os lc argv)"
  unfolding fd_balanced_def rawudp_main_def rawudp_run_def
  by (intro allI wp_rules) auto


subsection \<open>\<open>rawudp\<close>: the datagram\<close>

text \<open>
  What a program does that opens a socket, binds it, makes some calls on it and closes it:
  \<open>log\<close> are its calls with their results and \<open>res\<close> how it ends; \<open>ok\<close> states the calls between the
  bind and the close, given the descriptor.
\<close>

definition bound_run ::
    "sock_call \<Rightarrow> sockaddr \<Rightarrow> (int \<Rightarrow> sock_call list \<Rightarrow> bool) \<Rightarrow> (sock_call \<times> sysret) list \<Rightarrow> outcome \<Rightarrow> bool" where
  "bound_run sock src ok log res \<longleftrightarrow>
    (case log of
       [] \<Rightarrow> False
     | (c, r) # log \<Rightarrow> c = sock \<and>
         (if sys_ret r < 0 then log = [] \<and> res = Exit (- 1)
          else case log of
            [] \<Rightarrow> False
          | (c, b) # log \<Rightarrow> c = Bind (sys_ret r) src \<and>
              (if sys_ret b < 0 then map fst log = [Close (sys_ret r)] \<and> res = Exit (- 1)
               else \<exists>cs. ok (sys_ret r) cs \<and> map fst log = cs @ [Close (sys_ret r)] \<and>
                 res = Exit 0)))"

lemma bound_run_sent:
  assumes "bound_run (Socket x y z) src ok log res" "SendTo fd d to \<in> set (map fst log)"
  shows "\<exists>fd' cs. ok fd' cs \<and> SendTo fd d to \<in> set cs"
proof -
  obtain r log1 where log: "log = (Socket x y z, r) # log1"
    using assms(1) by (cases log) (auto simp: bound_run_def)
  with assms have "0 \<le> sys_ret r" "SendTo fd d to \<in> set (map fst log1)"
    by (auto simp: bound_run_def split: if_splits)
  then obtain b log2 where log1: "log1 = (Bind (sys_ret r) src, b) # log2"
    using assms(1) log by (cases log1) (auto simp: bound_run_def)
  with \<open>SendTo fd d to \<in> set (map fst log1)\<close> have sent: "SendTo fd d to \<in> set (map fst log2)"
    by simp
  have "if sys_ret b < 0 then map fst log2 = [Close (sys_ret r)]
      else \<exists>cs. ok (sys_ret r) cs \<and> map fst log2 = cs @ [Close (sys_ret r)]"
    using assms(1) \<open>0 \<le> sys_ret r\<close> by (auto simp: bound_run_def log log1 split: if_splits)
  then consider "map fst log2 = [Close (sys_ret r)]"
    | cs where "ok (sys_ret r) cs" "map fst log2 = cs @ [Close (sys_ret r)]"
    by (auto split: if_splits)
  then show ?thesis
  proof cases
    case 2
    with sent have "SendTo fd d to \<in> set cs"
      by (simp del: set_map)
    with 2(1) show ?thesis
      by blast
  qed (use sent in \<open>simp del: set_map\<close>)
qed

lemma udp_datagram_ok_at:
  "udp_datagram_ok p m i n \<Longrightarrow> i + n \<le> length m \<Longrightarrow> udp_datagram_ok p (bytes_at m i n) 0 n"
  by (simp add: udp_datagram_ok_def bytes_at_def min_def)

lemma length_abPktInfo_init [simp]: "length abPktInfo_init = 4096"
  by (simp add: abPktInfo_init_def)

text \<open>The ports and the length of the header, and a content of zero bytes.\<close>

definition plain_datagram :: "u16 \<Rightarrow> bytes \<Rightarrow> bool" where
  "plain_datagram len d \<longleftrightarrow> be_words (take 6 d) = [12760, 22760, 8 + unat len] \<and> drop 8 d = replicate (unat len) 0"

lemma plain_datagram_at:
  assumes "be_words (bytes_at m i 6) = [12760, 22760, 8 + unat len]" "drop (i + 8) m = drop (i + 8) abPktInfo_init"
    and "i + 8 + unat len \<le> 4096"
  shows "plain_datagram len (bytes_at m i (8 + unat len))"
proof -
  have "drop 8 (bytes_at m i (8 + unat len)) = take (unat len) (drop (i + 8) m)"
    by (simp add: bytes_at_def drop_take add.commute)
  also have "\<dots> = replicate (unat len) 0"
    using assms(2,3) by (simp add: abPktInfo_init_def)
  finally show ?thesis
    using assms(1) by (simp add: plain_datagram_def bytes_at_def min_def)
qed

lemma wp_log_sendV6:
  assumes "length (sin6_addr f) = 16" "length (sin6_addr t) = 16" "unat len \<le> 4048" "\<not> v"
    and Q: "\<And>d r. length d = 8 + unat len \<Longrightarrow>
      udp_datagram_ok (pseudo6 (ipv6_header_bytes (sin6_addr f) (sin6_addr t) len) 0 (8 + unat len)) d 0
        (8 + unat len) \<Longrightarrow> plain_datagram len d \<Longrightarrow>
      Q (Some ()) (log @ [(SendTo fd d (SA6 (t\<lparr>sin6_port := 0\<rparr>)), r)])"
  shows "wp log_step (sendV6 os abPktInfo_init fd f t v len) Q log"
proof -
  obtain m where m: "build_v6 abPktInfo_init (sin6_addr f) (sin6_addr t) len = Some m"
      "length m = 4096" "take 40 m = ipv6_header_bytes (sin6_addr f) (sin6_addr t) len"
      "udp_datagram_ok (pseudo6 m 0 (8 + unat len)) m 40 (8 + unat len)"
      "be_words (bytes_at m 40 6) = [12760, 22760, 8 + unat len]" "drop (40 + 8) m = drop (40 + 8) abPktInfo_init"
    using build_v6_valid [of abPktInfo_init, OF _ assms(1-3)] by auto
  have load: "load_bytes m 40 (8 + unat len) = Some (bytes_at m 40 (8 + unat len))"
    using m(2) assms(3) by (simp add: load_bytes_def bytes_at_def)
  have "udp_datagram_ok (pseudo6 (take 40 m) 0 (8 + unat len)) (bytes_at m 40 (8 + unat len)) 0
      (8 + unat len)"
    unfolding pseudo6_take using m(2,4) assms(3) by (intro udp_datagram_ok_at) simp_all
  moreover have "length (bytes_at m 40 (8 + unat len)) = 8 + unat len"
    using m(2) assms(3) by (simp add: length_bytes_at)
  moreover have "plain_datagram len (bytes_at m 40 (8 + unat len))"
    using m(5,6) assms(3) by (intro plain_datagram_at) simp_all
  ultimately show ?thesis
    unfolding sendV6_def
    using assms(4)
    by (simp add: m(1) load unat_req_len c_layout) (intro wp_rules wp_log_call Q; simp add: m(3))
qed

lemma wp_log_sendV4:
  assumes "length (sin_addr f) = 4" "length (sin_addr t) = 4" "unat len \<le> 4068" "\<not> v"
    and Q: "\<And>d r. length d = 8 + unat len \<Longrightarrow>
      udp_datagram_ok (pseudo4 (ipv4_header_bytes (sin_addr f) (sin_addr t) len) 0 (8 + unat len)) d 0
        (8 + unat len) \<Longrightarrow> plain_datagram len d \<Longrightarrow>
      Q (Some ()) (log @ [(SendTo fd d (SA4 (t\<lparr>sin_port := 0\<rparr>)), r)])"
  shows "wp log_step (sendV4 os abPktInfo_init fd f t v len) Q log"
proof -
  obtain m where m: "build_v4 abPktInfo_init (sin_addr f) (sin_addr t) len = Some m"
      "length m = 4096" "take 20 m = ipv4_header_bytes (sin_addr f) (sin_addr t) len"
      "udp_datagram_ok (pseudo4 m 0 (8 + unat len)) m 20 (8 + unat len)"
      "be_words (bytes_at m 20 6) = [12760, 22760, 8 + unat len]" "drop (20 + 8) m = drop (20 + 8) abPktInfo_init"
    using build_v4_valid [of abPktInfo_init, OF _ assms(1-3)] by auto
  have load: "load_bytes m 20 (8 + unat len) = Some (bytes_at m 20 (8 + unat len))"
    using m(2) assms(3) by (simp add: load_bytes_def bytes_at_def)
  have "udp_datagram_ok (pseudo4 (take 20 m) 0 (8 + unat len)) (bytes_at m 20 (8 + unat len)) 0
      (8 + unat len)"
    unfolding pseudo4_take using m(2,4) assms(3) by (intro udp_datagram_ok_at) simp_all
  moreover have "length (bytes_at m 20 (8 + unat len)) = 8 + unat len"
    using m(2) assms(3) by (simp add: length_bytes_at)
  moreover have "plain_datagram len (bytes_at m 20 (8 + unat len))"
    using m(5,6) assms(3) by (intro plain_datagram_at) simp_all
  ultimately show ?thesis
    unfolding sendV4_def
    using assms(4)
    by (simp add: m(1) load unat_req_len c_layout) (intro wp_rules wp_log_call Q; simp add: m(3))
qed

text \<open>Over IPv6, with at most 4048 bytes of content.\<close>

theorem rawudp_v6_one_datagram:
  assumes "ip_flag a = IPTYPE_V6" "\<not> iovec_flag a"
    and "length (sin6_addr (from6 a)) = 16" "length (sin6_addr (to6 a)) = 16"
    and "unat (u16ContentLen a) \<le> 4048"
  shows "bound_run (Socket AF_INET6 SOCK_RAW PROTO_UDP) (SA6 (from6 a))
    (\<lambda>fd cs. \<exists>d. cs = [SendTo fd d (SA6 ((to6 a)\<lparr>sin6_port := 0\<rparr>))] \<and> length d = 8 + unat (u16ContentLen a) \<and>
      plain_datagram (u16ContentLen a) d \<and>
      udp_datagram_ok (pseudo6 (ipv6_header_bytes (sin6_addr (from6 a)) (sin6_addr (to6 a)) (u16ContentLen a))
        0 (length d)) d 0 (length d))
    (call_log (final (rawudp_run os s a) [])) (result (rawudp_run os s a) [])"
  using assms unfolding rawudp_run_def
  by - (rule wp_logD, simp, intro wp_rules wp_log_call wp_log_sendV6; simp add: bound_run_def)

theorem rawudp_v6_one_datagram_witness:
  "let a = rawudp_defaults libc_none in
   bound_run (Socket AF_INET6 SOCK_RAW PROTO_UDP) (SA6 (from6 a))
    (\<lambda>fd cs. \<exists>d. cs = [SendTo fd d (SA6 ((to6 a)\<lparr>sin6_port := 0\<rparr>))] \<and> length d = 2057 \<and> plain_datagram 2049 d \<and>
      udp_datagram_ok (pseudo6 (ipv6_header_bytes (replicate 16 0) (replicate 16 0) 2049) 0 (length d))
        d 0 (length d))
    (call_log (final (rawudp_run (os_const 3) [] a) [])) (result (rawudp_run (os_const 3) [] a) [])"
  using rawudp_v6_one_datagram [of "rawudp_defaults libc_none" "os_const 3" "[]"]
  by (simp add: rawudp_defaults_def zero_in6_def zero_in_def inet_pton_def libc_none_def)

text \<open>The same over IPv4, with at most 4068 bytes of content.\<close>

theorem rawudp_v4_one_datagram:
  assumes "ip_flag a = IPTYPE_V4" "\<not> iovec_flag a"
    and "length (sin_addr (from4 a)) = 4" "length (sin_addr (to4 a)) = 4"
    and "unat (u16ContentLen a) \<le> 4068"
  shows "bound_run (Socket AF_INET SOCK_RAW PROTO_UDP) (SA4 (from4 a))
    (\<lambda>fd cs. \<exists>d. cs = [SendTo fd d (SA4 ((to4 a)\<lparr>sin_port := 0\<rparr>))] \<and> length d = 8 + unat (u16ContentLen a) \<and>
      plain_datagram (u16ContentLen a) d \<and>
      udp_datagram_ok (pseudo4 (ipv4_header_bytes (sin_addr (from4 a)) (sin_addr (to4 a)) (u16ContentLen a))
        0 (length d)) d 0 (length d))
    (call_log (final (rawudp_run os s a) [])) (result (rawudp_run os s a) [])"
  using assms unfolding rawudp_run_def
  by - (rule wp_logD, simp, intro wp_rules wp_log_call wp_log_sendV4; simp add: bound_run_def)

theorem rawudp_v4_one_datagram_witness:
  "let a = (rawudp_defaults libc_none)\<lparr>ip_flag := IPTYPE_V4\<rparr> in
   bound_run (Socket AF_INET SOCK_RAW PROTO_UDP) (SA4 (from4 a))
    (\<lambda>fd cs. \<exists>d. cs = [SendTo fd d (SA4 ((to4 a)\<lparr>sin_port := 0\<rparr>))] \<and> length d = 2057 \<and> plain_datagram 2049 d \<and>
      udp_datagram_ok (pseudo4 (ipv4_header_bytes (replicate 4 0) (replicate 4 0) 2049) 0 (length d))
        d 0 (length d))
    (call_log (final (rawudp_run (os_const 3) [] a) [])) (result (rawudp_run (os_const 3) [] a) [])"
  using rawudp_v4_one_datagram [of "(rawudp_defaults libc_none)\<lparr>ip_flag := IPTYPE_V4\<rparr>" "os_const 3" "[]"]
  by (simp add: rawudp_defaults_def zero_in6_def zero_in_def inet_pton_def libc_none_def)



end
