(* ===== verification/RawPrograms.thy ===== *)
theory RawPrograms
  imports RawSockets
begin

text \<open>
  \<open>raw6/rawall.c\<close>, which sends packets with a hand-written IPv6 header, and \<open>raw6/server.c\<close>, which
  receives packets and toggles \<open>IPV6_HDRINCL\<close> after each of them.
\<close>

definition argv_addr :: "(string \<Rightarrow> bytes option) \<Rightarrow> string list \<Rightarrow> nat \<Rightarrow> bytes \<Rightarrow> bytes" where
  "argv_addr pton argv i dst = (if i < length argv then inet_pton pton (argv ! i) dst else dst)"

subsection \<open>\<open>rawall\<close>\<close>

text \<open>Why the loop over a 16-bit number ends.\<close>

lemma rawall_measure:
  fixes n :: u16
  assumes "n + 1500 < 2048"
  shows "(if n + 1500 < 2048 then 2048 - unat (n + 1500) else 4096) <
    (if n < 2048 then 2048 - unat n else 4096)"
proof (cases "n < 2048")
  case True
  then have "unat n < 2048"
    by (simp add: word_less_nat_alt)
  then have "unat (n + 1500) = unat n + 1500"
    by (simp add: unat_word_ariths)
  moreover have "unat (n + 1500) < 2048"
    using assms by (simp add: word_less_nat_alt)
  ultimately show ?thesis
    using True assms by simp
qed (use assms in simp)

text \<open>The \<open>do\<close> loop over \<open>contentLen\<close>, a 16-bit number; \<open>None\<close> is an access outside \<open>abPktInfo\<close>.\<close>

function rawall_loop ::
    "sock_os \<Rightarrow> int \<Rightarrow> sockaddr_in6 \<Rightarrow> bytes \<Rightarrow> u16 \<Rightarrow> unit option sock_prog" where
  "rawall_loop os tRawSendOnlySock to m contentLen =
    (case fill_udp_header m (sizeof IPv6_HEADER_t) (req_len contentLen) of
       None \<Rightarrow> exit_with None
     | Some m \<Rightarrow> do {
         let reqLen = sizeof IPv6_HEADER_t + sizeof UDP_HEADER_t + unat contentLen;
         printf ''will send %zu bytes\<newline>'' [ArgI (int reqLen)];
         case load_bytes m 0 reqLen of
           None \<Rightarrow> exit_with None
         | Some d \<Rightarrow> do {
             r \<leftarrow> call os (SendTo tRawSendOnlySock d (SA6 to));
             (if sys_ret r < 0 then printf ''send data errno: %d -> %s\<newline>'' [ArgI (sys_errno r), ArgErr (sys_errno r)]
              else printf ''has send data %zd bytes!\<newline>'' [ArgI (sys_ret r)]);
             if contentLen + 1500 < 2048
             then rawall_loop os tRawSendOnlySock to m (contentLen + 1500)
             else exit_with (Some ())
           }
       })"
  by pat_completeness auto

termination
  by (relation "measure (\<lambda>(os, fd, to, m, n :: u16). if n < 2048 then 2048 - unat n else 4096)")
    (use rawall_measure in \<open>auto simp del: not_less\<close>)

declare rawall_loop.simps [simp del]

text \<open>The header of the packets and the loop.\<close>

definition rawall_send :: "sock_os \<Rightarrow> int \<Rightarrow> sockaddr_in6 \<Rightarrow> sockaddr_in6 \<Rightarrow> unit option sock_prog" where
  "rawall_send os fd from to =
    (case fill_ipv6_header (replicate 4096 0) (sin6_addr from) (sin6_addr to) 512 of
       None \<Rightarrow> exit_with None
     | Some m \<Rightarrow> rawall_loop os fd (to\<lparr>sin6_port := 0\<rparr>) m 512)"

text \<open>The addresses: with one argument it is the destination, with two the source comes first.\<close>

definition rawall_src :: "libc \<Rightarrow> string list \<Rightarrow> bytes" where
  "rawall_src lc argv =
    (let a = inet_pton (pton6 lc) ''FEC0:2021::192.168.31.1'' (sin6_addr zero_in6)
     in if length argv < 3 then a else argv_addr (pton6 lc) argv 1 a)"

definition rawall_dst :: "libc \<Rightarrow> string list \<Rightarrow> bytes" where
  "rawall_dst lc argv =
    (let a = inet_pton (pton6 lc) ''FEC0:2021::192.168.31.2'' (sin6_addr zero_in6)
     in if length argv < 3 then argv_addr (pton6 lc) argv 1 a else argv_addr (pton6 lc) argv 2 a)"

definition rawall_main :: "sock_os \<Rightarrow> libc \<Rightarrow> string list \<Rightarrow> outcome sock_prog" where
  "rawall_main os lc argv = do {
     printf ''Hello World!\<newline>'' [];
     r \<leftarrow> call os (Socket AF_INET6 SOCK_RAW PROTO_RAW);
     if sys_ret r < 0 then do {
       printf ''create raw udp protocol sock errno: %d -> %s\<newline>'' [ArgI (sys_errno r), ArgErr (sys_errno r)];
       exit_with (Exit (- 1))
     }
     else do {
       let fd = sys_ret r;
       printf ''create raw all protocol sock successfully, got sock fd: %d\<newline>'' [ArgI fd];
       (if length argv > 1 then
          (if length argv < 3 then printf ''change dst addr to %s\<newline>'' [ArgS (argv ! 1)]
           else do {
             printf ''change src addr to %s\<newline>'' [ArgS (argv ! 1)];
             printf ''change dst addr to %s\<newline>'' [ArgS (argv ! 2)]
           })
        else exit_with ());
       let from = zero_in6\<lparr>sin6_family := AF_INET6, sin6_addr := rawall_src lc argv\<rparr>;
       let to = zero_in6\<lparr>sin6_family := AF_INET6, sin6_addr := rawall_dst lc argv\<rparr>;
       r \<leftarrow> call os (Bind fd (SA6 from));
       if sys_ret r < 0 then do {
         printf ''bind addr: %s , errno: %d -> %s\<newline>''
           [ArgS (ntop6 lc (sin6_addr from)), ArgI (sys_errno r), ArgErr (sys_errno r)];
         call os (Close fd);
         exit_with (Exit (- 1))
       }
       else do {
         printf ''bind successfully !\<newline>'' [];
         sent \<leftarrow> rawall_send os fd from to;
         case sent of
           None \<Rightarrow> exit_with Undefined
         | Some _ \<Rightarrow> do {
             printf ''test program exit!\<newline>'' [];
             call os (Close fd);
             exit_with (Exit 0)
           }
       }
     }
   }"

lemma wp_rawall_loop [wp_rules]:
  assumes "fd \<in> set fds" "\<And>x. Q x fds"
  shows "wp sock_step (rawall_loop os fd t m n) Q fds"
  using assms
proof (induction os fd t m n rule: rawall_loop.induct)
  case (1 os fd t m n)
  show ?case
    unfolding rawall_loop.simps [of os fd t m n]
    by (intro wp_rules 1) auto
qed

lemma fd_balanced_rawall: "fd_balanced (rawall_main os lc argv)"
  unfolding fd_balanced_def rawall_main_def rawall_send_def by (intro allI wp_rules) auto


text \<open>One round of the loop on a buffer whose payload is zero.\<close>

definition rawall_packet :: "bytes \<Rightarrow> u16 \<Rightarrow> bytes" where
  "rawall_packet hdr n = hdr @ udp_header_bytes (req_len n) @ replicate (unat n) 0"

lemma wp_log_rawall_round:
  assumes "length hdr = 40" "length u = 8" "unat n \<le> 4048"
    and "\<And>r. (if n + 1500 < 2048
      then wp log_step (rawall_loop os fd t (hdr @ udp_header_bytes (req_len n) @ replicate 4048 0) (n + 1500)) Q
      else Q (Some ())) (log @ [(SendTo fd (rawall_packet hdr n) (SA6 t), r)])"
  shows "wp log_step (rawall_loop os fd t (hdr @ u @ replicate 4048 0) n) Q log"
proof -
  have "fill_udp_header (hdr @ u @ replicate 4048 0) 40 (req_len n) =
      Some (hdr @ udp_header_bytes (req_len n) @ replicate 4048 0)"
    using assms(1,2) by (subst fill_udp_header_eq) simp_all
  moreover have "load_bytes (hdr @ udp_header_bytes (req_len n) @ replicate 4048 0) 0 (48 + unat n) =
      Some (rawall_packet hdr n)"
    using assms(1,3) by (simp add: load_bytes_def rawall_packet_def)
  ultimately show ?thesis
    using assms(4) unfolding rawall_loop.simps [of os fd t _ n]
    by (simp add: c_layout) (intro conjI impI wp_rules wp_log_call; simp)
qed

lemma wp_log_rawall_send:
  assumes "length (sin6_addr f) = 16" "length (sin6_addr t) = 16" "sin6_port t = 0"
    and "\<And>r1 r2. Q (Some ()) (log @
      [(SendTo fd (rawall_packet (ipv6_header_bytes (sin6_addr f) (sin6_addr t) 512) 512) (SA6 t), r1),
       (SendTo fd (rawall_packet (ipv6_header_bytes (sin6_addr f) (sin6_addr t) 512) 2012) (SA6 t), r2)])"
  shows "wp log_step (rawall_send os fd f t) Q log"
proof -
  let ?hdr = "ipv6_header_bytes (sin6_addr f) (sin6_addr t) 512"
  have hdr: "length ?hdr = 40"
    using assms by (simp add: length_ip_header_bytes)
  have "wp log_step (rawall_loop os fd t (?hdr @ replicate 8 0 @ replicate 4048 0) 512) Q log"
    by (rule wp_log_rawall_round; simp add: hdr) (rule wp_log_rawall_round; simp add: hdr assms)
  moreover have t: "t\<lparr>sin6_port := 0\<rparr> = t"
    using assms(3) by (cases t) simp
  ultimately show ?thesis
    using assms unfolding rawall_send_def t by (simp add: fill_ipv6_header_eq flip: replicate_add)
qed

lemma length_rawall_addr:
  "pton_sizes lc \<Longrightarrow> length (rawall_src lc argv) = 16 \<and> length (rawall_dst lc argv) = 16"
  by (simp add: rawall_src_def rawall_dst_def argv_addr_def length_inet_pton zero_in6_def Let_def)

text \<open>C30: \<open>rawall\<close> sends exactly two packets, with 512 and 2012 bytes of content, both behind the
  IPv6 header made for the first: the payload length field of the second is 520 where 2020 bytes
  follow.\<close>

theorem rawall_two_packets:
  assumes "pton_sizes lc"
  shows "let from = zero_in6\<lparr>sin6_family := AF_INET6, sin6_addr := rawall_src lc argv\<rparr>;
      to = zero_in6\<lparr>sin6_family := AF_INET6, sin6_addr := rawall_dst lc argv\<rparr>;
      hdr = ipv6_header_bytes (sin6_addr from) (sin6_addr to) 512
    in bound_run (Socket AF_INET6 SOCK_RAW PROTO_RAW) (SA6 from)
      (\<lambda>fd cs. cs = [SendTo fd (hdr @ udp_header_bytes 520 @ replicate 512 0) (SA6 to),
         SendTo fd (hdr @ udp_header_bytes 2020 @ replicate 2012 0) (SA6 to)])
      (call_log (final (rawall_main os lc argv) [])) (result (rawall_main os lc argv) []) \<and>
    be_words (bytes_at hdr 4 2) = [520]"
proof -
  note len = length_rawall_addr [OF assms, of argv]
  let ?hdr = "ipv6_header_bytes (rawall_src lc argv) (rawall_dst lc argv) 512"
  have "be_words (bytes_at ?hdr 4 2) = [520]"
    by (simp add: ipv6_header_bytes_def bytes_at_def be_words_le16_htons)
  moreover have "wp log_step (rawall_main os lc argv) (\<lambda>res log. bound_run (Socket AF_INET6 SOCK_RAW PROTO_RAW)
      (SA6 (zero_in6\<lparr>sin6_family := AF_INET6, sin6_addr := rawall_src lc argv\<rparr>))
      (\<lambda>fd cs. cs = map (\<lambda>n. SendTo fd (rawall_packet ?hdr n)
        (SA6 (zero_in6\<lparr>sin6_family := AF_INET6, sin6_addr := rawall_dst lc argv\<rparr>))) [512, 2012])
      log res) []"
    unfolding rawall_main_def Let_def
    by (intro wp_rules wp_log_call wp_log_rawall_send; simp add: len bound_run_def zero_in6_def)
  ultimately show ?thesis
    using wp_logD [of "rawall_main os lc argv"]
    by (fastforce simp: Let_def rawall_packet_def req_len_def c_layout)
qed


theorem rawall_two_packets_witness:
  "pton_sizes libc_none \<and>
   (let a = zero_in6\<lparr>sin6_family := AF_INET6\<rparr>;
      hdr = ipv6_header_bytes (replicate 16 0) (replicate 16 0) 512
    in bound_run (Socket AF_INET6 SOCK_RAW PROTO_RAW) (SA6 a)
      (\<lambda>fd cs. cs = [SendTo fd (hdr @ udp_header_bytes 520 @ replicate 512 0) (SA6 a),
         SendTo fd (hdr @ udp_header_bytes 2020 @ replicate 2012 0) (SA6 a)])
      (call_log (final (rawall_main (os_const 3) libc_none [''rawall'']) []))
      (result (rawall_main (os_const 3) libc_none [''rawall'']) []) \<and>
    be_words (bytes_at hdr 4 2) = [520])"
proof -
  have "pton_sizes libc_none"
    by (simp add: pton_sizes_def libc_none_def)
  moreover have "rawall_src libc_none [''rawall''] = replicate 16 0"
      "rawall_dst libc_none [''rawall''] = replicate 16 0"
    by (simp_all add: rawall_src_def rawall_dst_def inet_pton_def argv_addr_def libc_none_def zero_in6_def)
  ultimately show ?thesis
    using rawall_two_packets [of libc_none "[''rawall'']" "os_const 3"]
    by (simp add: Let_def zero_in6_def)
qed

subsection \<open>\<open>server\<close>\<close>

abbreviation (input) IPV6_HDRINCL :: int where "IPV6_HDRINCL \<equiv> 36"

text \<open>A port of the UDP header at an offset of the receive buffer, as \<open>ntohs\<close> gives it.\<close>

definition port_at :: "bytes \<Rightarrow> nat \<Rightarrow> arg" where
  "port_at m i = ArgI (uint (ntohs (of_le16 (m ! i) (m ! (i + 1)))))"

text \<open>The receive loop; \<open>no\<close> is the setting of \<open>IPV6_HDRINCL\<close>.  The loop has no bound of its own:
  \<open>fuel\<close> bounds the rounds and \<open>None\<close> is a loop still running.\<close>

fun server_loop ::
    "sock_os \<Rightarrow> libc \<Rightarrow> int \<Rightarrow> nat \<Rightarrow> int \<Rightarrow> bytes \<Rightarrow> sockaddr_in6 \<Rightarrow> unit option sock_prog" where
  "server_loop os lc tRawUDPSock 0 no abPktInfo from = exit_with None"
| "server_loop os lc tRawUDPSock (Suc fuel) no abPktInfo from = do {
     r \<leftarrow> call os (RecvFrom tRawUDPSock 4096 0);
     if sys_ret r < 0 then do {
       printf ''recvfrom in failure, rc: %zd, errno: %d -> %s\<newline>''
         [ArgI (sys_ret r), ArgI (sys_errno r), ArgErr (sys_errno r)];
       exit_with (Some ())
     }
     else do {
       let abPktInfo = overlay (sys_data r) abPktInfo;
       let from = stored_in6 r from;
       t \<leftarrow> call os Time;
       printf ''%s recv from peer: %s, len: %zd with IPPROTO_IPV6 setting: %d . src port: %u, dst port: %u;  no ip header included src port: %u, dst port: %u\<newline>''
         [ArgS (fmt_time lc (sys_ret t)), ArgS (ntop6 lc (sin6_addr from)), ArgI (sys_ret r), ArgI no,
          port_at abPktInfo (sizeof IPv6_HEADER_t + offsetof UDP_HEADER_t ''u16SrcPort''),
          port_at abPktInfo (sizeof IPv6_HEADER_t + offsetof UDP_HEADER_t ''u16DstPort''),
          port_at abPktInfo (offsetof UDP_HEADER_t ''u16SrcPort''),
          port_at abPktInfo (offsetof UDP_HEADER_t ''u16DstPort'')];
       let no = c_bool (no = 0);
       printf ''change IPPROTO_IPV6 setting: %d\<newline>'' [ArgI no];
       r \<leftarrow> call os (SetSockOpt tRawUDPSock PROTO_IPV6 IPV6_HDRINCL no);
       (if sys_ret r < 0 then printf ''setsockopt IPV6_HDRINCL in failure errno: %d -> %s\<newline>''
          [ArgI (sys_errno r), ArgErr (sys_errno r)]
        else exit_with ());
       server_loop os lc tRawUDPSock fuel no abPktInfo from
     }
   }"

definition server_main :: "nat \<Rightarrow> sock_os \<Rightarrow> libc \<Rightarrow> string list \<Rightarrow> outcome sock_prog" where
  "server_main fuel os lc argv = do {
     printf ''Hello World!\<newline>'' [];
     r \<leftarrow> call os (Socket AF_INET6 SOCK_RAW PROTO_UDP);
     if sys_ret r < 0 then do {
       printf ''create raw udp protocol sock errno: %d -> %s\<newline>'' [ArgI (sys_errno r), ArgErr (sys_errno r)];
       exit_with (Exit (- 1))
     }
     else do {
       let fd = sys_ret r;
       printf ''create raw udp protocol sock successfully, got sock fd: %d\<newline>'' [ArgI fd];
       (if length argv > 1 then printf ''change server listen addr to %s\<newline>'' [ArgS (argv ! 1)]
        else exit_with ());
       let from = zero_in6\<lparr>sin6_family := AF_INET6\<rparr>;
       let to = zero_in6\<lparr>sin6_family := AF_INET6, sin6_addr := argv_addr (pton6 lc) argv 1
         (inet_pton (pton6 lc) ''FEC0:2021::192.168.200.34'' (sin6_addr zero_in6))\<rparr>;
       r \<leftarrow> call os (Bind fd (SA6 to));
       if sys_ret r < 0 then do {
         printf ''bind addr: %s , errno: %d -> %s\<newline>''
           [ArgS (ntop6 lc (sin6_addr to)), ArgI (sys_errno r), ArgErr (sys_errno r)];
         call os (Close fd);
         exit_with (Exit (- 1))
       }
       else do {
         printf ''bind successfully !\<newline>'' [];
         printf ''will enter recv loop !\<newline>'' [];
         done \<leftarrow> server_loop os lc fd fuel 0 (replicate 4096 0) from;
         case done of
           None \<Rightarrow> exit_with Running
         | Some _ \<Rightarrow> do {
             printf ''test program exit!\<newline>'' [];
             call os (Close fd);
             exit_with (Exit 0)
           }
       }
     }
   }"

lemma wp_server_loop [wp_rules]:
  assumes "fd \<in> set fds" "\<And>x. Q x fds"
  shows "wp sock_step (server_loop os lc fd fuel no m f) Q fds"
  using assms(1)
proof (induction fuel arbitrary: no m f)
  case (Suc fuel)
  show ?case
    unfolding server_loop.simps by (intro wp_rules Suc assms)
qed (simp add: wp_return assms)

lemma fd_balanced_server: "fd_balanced (server_main fuel os lc argv)"
  unfolding fd_balanced_def server_main_def by (intro allI wp_rules) auto


text \<open>The setting of \<open>IPV6_HDRINCL\<close> as a monitor: a change must go to the other value.\<close>

fun hdrincl_step :: "sock_call \<Rightarrow> sysret \<Rightarrow> int \<Rightarrow> int option" where
  "hdrincl_step (SetSockOpt fd level opt v) r s = (if v = 1 - s then Some v else None)"
| "hdrincl_step c r s = Some s"

lemma wp_hdrincl_calls:
  "(\<And>r. Q r s) \<Longrightarrow> wp hdrincl_step (call os (Socket d t p)) Q s"
  "(\<And>r. Q r s) \<Longrightarrow> wp hdrincl_step (call os (Bind fd sa)) Q s"
  "(\<And>r. Q r s) \<Longrightarrow> wp hdrincl_step (call os (Close fd)) Q s"
  "(\<And>r. Q r s) \<Longrightarrow> wp hdrincl_step (call os (RecvFrom fd k fl)) Q s"
  "(\<And>r. Q r s) \<Longrightarrow> wp hdrincl_step (call os Time) Q s"
  "v = 1 - s \<Longrightarrow> (\<And>r. Q r v) \<Longrightarrow> wp hdrincl_step (call os (SetSockOpt fd l opt v)) Q s"
  by (rule wp_call, simp)+

lemma wp_hdrincl_loop:
  assumes "s = 0 \<or> s = 1" "\<And>x t. t = 0 \<or> t = 1 \<Longrightarrow> Q x t"
  shows "wp hdrincl_step (server_loop os lc fd fuel s m f) Q s"
  using assms(1)
proof (induction fuel arbitrary: s m f)
  case (Suc fuel)
  then show ?case
    unfolding server_loop.simps
    by (intro wp_rules wp_hdrincl_calls Suc.IH assms(2)) (auto simp: c_bool_def)
qed (simp add: wp_return assms)

text \<open>Every \<open>setsockopt\<close> of the server changes \<open>IPV6_HDRINCL\<close> to the other value, beginning with
  1, for every number of packets and whatever the calls return.\<close>

theorem server_toggles:
  "\<exists>s\<in>{0, 1}. monitor hdrincl_step 0 (final (server_main fuel os lc argv) []) = Some s"
proof -
  have "wp hdrincl_step (server_main fuel os lc argv) (\<lambda>_ t. t = 0 \<or> t = 1) 0"
    unfolding server_main_def
    by (intro wp_rules wp_hdrincl_calls wp_hdrincl_loop; simp)
  from wpD [OF this, of 0 "[]"] show ?thesis
    by auto
qed

text \<open>The receive loop shows what it received.\<close>

lemma extends_server_loop: "extends (server_loop os lc fd fuel no m f)"
  by (induction fuel arbitrary: no m f) (auto intro!: extends_rules simp del: not_less)

lemma extends_set: "extends p \<Longrightarrow> e \<in> set h \<Longrightarrow> e \<in> set (final p h)"
  unfolding extends_def by (metis Un_iff set_append)

lemma port_at_bytes: "m ! i = a \<Longrightarrow> m ! (i + 1) = b \<Longrightarrow> port_at m i = ArgI (int (256 * unat a + unat b))"
proof -
  have "unat (ntohs (of_le16 a b)) = 256 * unat a + unat b"
    unfolding unat_bswap16 unat_of_le16 by simp
  then show "m ! i = a \<Longrightarrow> m ! (i + 1) = b \<Longrightarrow> port_at m i = ArgI (int (256 * unat a + unat b))"
    unfolding port_at_def by (metis uint_nat)
qed

lemma two_words:
  assumes "be_words (take 6 d) = [s, t, u]"
  shows "\<exists>a b c e rest. d = a # b # c # e # rest \<and> s = 256 * unat a + unat b \<and> t = 256 * unat c + unat e"
proof (cases d rule: be_words.cases)
  case (1 a b d')
  with assms show ?thesis
    by (cases d' rule: be_words.cases) auto
qed (use assms in auto)

abbreviation (input) server_report :: string where
  "server_report \<equiv>
    ''%s recv from peer: %s, len: %zd with IPPROTO_IPV6 setting: %d . src port: %u, dst port: %u;  no ip header included src port: %u, dst port: %u\<newline>''"

lemma server_round_shows:
  assumes "sys_data (os h (RecvFrom fd 4096 0)) = d" "sys_ret (os h (RecvFrom fd 4096 0)) = int (length d)"
    and "be_words (take 6 d) = [s, t, u]" "length d \<le> 4096" "length m = 4096"
  shows "\<exists>tm p q. Printf server_report
      [ArgS tm, ArgS (ntop6 lc (sin6_addr (stored_in6 (os h (RecvFrom fd 4096 0)) f))), ArgI (int (length d)), ArgI no, p, q,
       ArgI (int s), ArgI (int t)] \<in> set (final (server_loop os lc fd (Suc fuel) no m f) h)"
proof -
  obtain a b c e rest where d: "d = a # b # c # e # rest" "s = 256 * unat a + unat b" "t = 256 * unat c + unat e"
    using two_words [OF assms(3)] by blast
  let ?m = "overlay d m" and ?r = "os h (RecvFrom fd 4096 0)"
  have m: "?m ! 0 = a" "?m ! 1 = b" "?m ! 2 = c" "?m ! 3 = e"
    using assms(4,5) by (simp_all add: overlay_def d(1) nth_append)
  have ports: "port_at ?m 0 = ArgI (int s)" "port_at ?m 2 = ArgI (int t)"
    using port_at_bytes [of ?m 0 a b] port_at_bytes [of ?m 2 c e] m d by simp_all
  note shown = extends_set [OF extends_server_loop]
  show ?thesis
  proof (intro exI)
    show "Printf server_report
      [ArgS (fmt_time lc (sys_ret (os (Call (RecvFrom fd 4096 0) ?r # h) Time))), ArgS (ntop6 lc (sin6_addr (stored_in6 ?r f))),
       ArgI (int (length d)), ArgI no, port_at ?m 40, port_at ?m 42, ArgI (int s), ArgI (int t)]
      \<in> set (final (server_loop os lc fd (Suc fuel) no m f) h)"
      using assms(1,2) by (simp add: final_bind Let_def c_layout ports) (intro conjI impI shown; simp)
  qed
qed

definition received :: "sock_history \<Rightarrow> nat" where
  "received h = length (filter (\<lambda>c. case c of RecvFrom _ _ _ \<Rightarrow> True | _ \<Rightarrow> False) (calls h))"

lemma received_simps [simp]:
  "received [] = 0"
  "received (Printf f as # h) = received h"
  "received (Call c r # h) = (case c of RecvFrom _ _ _ \<Rightarrow> 1 | _ \<Rightarrow> 0) + received h"
  by (simp_all add: received_def split: sock_call.splits)

lemma server_loop_ends:
  assumes "\<And>h fd. n \<le> received h \<Longrightarrow> sys_ret (os h (RecvFrom fd 4096 0)) < 0"
  shows "0 < fuel \<Longrightarrow> n < fuel + received h \<Longrightarrow> result (server_loop os lc fd fuel no m f) h = Some ()"
proof (induction fuel arbitrary: h no m f)
  case (Suc fuel)
  show ?case
  proof (cases "sys_ret (os h (RecvFrom fd 4096 0)) < 0")
    case True
    then show ?thesis
      by (simp add: result_bind)
  next
    case False
    with assms [of h fd] have "received h < n"
      by (meson not_less)
    with Suc.prems have "0 < fuel" "n < fuel + Suc (received h)"
      by simp_all
    with Suc.IH False show ?thesis
      by (simp add: result_bind final_bind Let_def)
  qed
qed simp

text \<open>C31: when the kernel fails a receive after at most \<open>n\<close> packets, the server ends: \<open>n + 1\<close> rounds are
  enough, and it exits with 0, or with -1 when the socket or the bind fails.\<close>

theorem server_ends:
  assumes "\<And>h fd. n \<le> received h \<Longrightarrow> sys_ret (os h (RecvFrom fd 4096 0)) < 0" "n < fuel"
  shows "result (server_main fuel os lc argv) [] \<in> {Exit 0, Exit (- 1)}"
proof -
  have loop: "result (server_loop os lc fd fuel no m f) h = Some ()" for fd no m f h
    using server_loop_ends [of n os, OF assms(1)] assms(2) by (metis gr0I less_nat_zero_code trans_less_add1)
  show ?thesis
    unfolding server_main_def by (simp add: result_bind loop Let_def)
qed

theorem server_ends_witness:
  "result (server_main 1 (os_const (- 1)) libc_none [''server'']) [] \<in> {Exit 0, Exit (- 1)} \<and>
   result (server_main 3 (\<lambda>h c. os_const (if received h < 2 then 5 else - 1) h c) libc_none [''server'']) []
     \<in> {Exit 0, Exit (- 1)}"
  using server_ends [of 0 "os_const (- 1)" 1 libc_none "[''server'']"]
    server_ends [of 2 "\<lambda>h c. os_const (if received h < 2 then 5 else - 1) h c" 3 libc_none "[''server'']"]
  by (simp add: os_const_def)

end
