(* ===== verification/SocketPrograms.thy ===== *)
theory SocketPrograms
  imports RawPrograms
begin

text \<open>
  The remaining socket programs: \<open>raw6/flowlabel.c\<close>, \<open>raw4/rawbind.c\<close>, \<open>sockbuf/main.c\<close>,
  \<open>sctp/main.c\<close> and \<open>udpSendData/main.c\<close>, and what all of them do with their descriptors.
\<close>

subsection \<open>\<open>flowlabel\<close>\<close>

definition flowlabel_main :: "sock_os \<Rightarrow> libc \<Rightarrow> outcome sock_prog" where
  "flowlabel_main os lc = do {
     printf ''Hello World!\<newline>'' [];
     r \<leftarrow> call os (Socket AF_INET6 SOCK_DGRAM 0);
     if sys_ret r < 0 then do {
       printf ''create raw udp protocol sock errno: %d -> %s\<newline>'' [ArgI (sys_errno r), ArgErr (sys_errno r)];
       exit_with (Exit (- 1))
     }
     else do {
       let fd = sys_ret r;
       printf ''create raw udp protocol sock successfully, got sock fd: %d\<newline>'' [ArgI fd];
       let from = zero_in6\<lparr>sin6_family := AF_INET6\<rparr>;
       let to = zero_in6\<lparr>sin6_family := AF_INET6\<rparr>;
       r \<leftarrow> call os (Bind fd (SA6 to));
       if sys_ret r < 0 then do {
         printf ''bind addr: %s , errno: %d -> %s\<newline>''
           [ArgS (ntop6 lc (sin6_addr to)), ArgI (sys_errno r), ArgErr (sys_errno r)];
         call os (Close fd);
         exit_with (Exit (- 1))
       }
       else do {
         let szFromAddrBuf = ntop6 lc (sin6_addr from);
         r \<leftarrow> call os (GetSockName fd);
         let from = stored_in6 r from;
         printf ''bind successfully wildcard addr: %s, port: %u !\<newline>''
           [ArgS szFromAddrBuf, ArgI (uint (ntohs (sin6_port from)))];
         let to = from\<lparr>sin6_flowinfo := ucast (htons 1234)\<rparr>;
         call os (SendTo fd hello_world (SA6 to));
         r \<leftarrow> call os (RecvFrom fd 256 0);
         printf ''recv %d bytes, flowinfo: %u\<newline>''
           [ArgI (to_int32 (sys_ret r)), ArgI (uint (ntohs (ucast (sin6_flowinfo to))))];
         printf ''test program exit!\<newline>'' [];
         call os (Close fd);
         exit_with (Exit 0)
       }
     }
   }"

subsection \<open>\<open>rawbind\<close>\<close>

definition rawbind_main :: "sock_os \<Rightarrow> libc \<Rightarrow> string list \<Rightarrow> outcome sock_prog" where
  "rawbind_main os lc argv = do {
     printf ''Hello World!\<newline>'' [];
     r \<leftarrow> call os (Socket AF_INET SOCK_RAW PROTO_UDP);
     if sys_ret r < 0 then do {
       printf ''create raw udp protocol sock errno: %d -> %s\<newline>'' [ArgI (sys_errno r), ArgErr (sys_errno r)];
       exit_with (Exit (- 1))
     }
     else do {
       let tRawUDPSock = sys_ret r;
       r \<leftarrow> call os (Socket AF_INET SOCK_RAW PROTO_UDP);
       if sys_ret r < 0 then do {
         printf ''create rebind raw udp protocol sock errno: %d -> %s\<newline>''
           [ArgI (sys_errno r), ArgErr (sys_errno r)];
         exit_with (Exit (- 1))
       }
       else do {
         let tRebindRawUDPSock = sys_ret r;
         printf ''create raw udp protocol sock successfully, got sock fd: %d\<newline>'' [ArgI tRawUDPSock];
         (if length argv > 1 then printf ''change bind addr to %s\<newline>'' [ArgS (argv ! 1)] else exit_with ());
         let from = zero_in\<lparr>sin_family := AF_INET, sin_addr := argv_addr (pton4 lc) argv 1
           (inet_pton (pton4 lc) ''192.168.2.9'' (sin_addr zero_in))\<rparr>;
         r \<leftarrow> call os (Bind tRawUDPSock (SA4 from));
         if sys_ret r < 0 then do {
           printf ''bind addr: %s , errno: %d -> %s\<newline>''
             [ArgS (ntop4 lc (sin_addr from)), ArgI (sys_errno r), ArgErr (sys_errno r)];
           call os (Close tRawUDPSock);
           call os (Close tRebindRawUDPSock);
           exit_with (Exit (- 1))
         }
         else do {
           printf ''bind successfully !\<newline>'' [];
           r \<leftarrow> call os (Bind tRebindRawUDPSock (SA4 from));
           if sys_ret r < 0 then do {
             printf ''rebind addr: %s , errno: %d -> %s\<newline>''
               [ArgS (ntop4 lc (sin_addr from)), ArgI (sys_errno r), ArgErr (sys_errno r)];
             call os (Close tRawUDPSock);
             call os (Close tRebindRawUDPSock);
             exit_with (Exit (- 1))
           }
           else do {
             printf ''rebind successfully !\<newline>'' [];
             printf ''test program exit!\<newline>'' [];
             call os (Close tRawUDPSock);
             call os (Close tRebindRawUDPSock);
             exit_with (Exit 0)
           }
         }
       }
     }
   }"

subsection \<open>\<open>sockbuf\<close>\<close>

text \<open>\<open>getsockopt\<close> stores at most \<open>optlen\<close> bytes of the option over \<open>optval\<close> and their number in
  \<open>optlen\<close>.  The first call is made with the indeterminate value of \<open>optlen\<close>, an argument here.\<close>

definition getsockopt_u32 :: "sysret \<Rightarrow> u32 \<times> u32 \<Rightarrow> u32 \<times> u32" where
  "getsockopt_u32 r v =
    (if sys_ret r < 0 then v
     else (of_le32 (overlay (sys_data r) (le32 (fst v))), of_nat (length (sys_data r))))"

definition sockbuf_main :: "sock_os \<Rightarrow> u32 \<Rightarrow> outcome sock_prog" where
  "sockbuf_main os optlen = do {
     printf ''\<newline>Hello World!'' [];
     r \<leftarrow> call os (Socket AF_INET SOCK_DGRAM 0);
     if sys_ret r < 0 then do {
       printf ''\<newline>create sock errno: %d -> %s'' [ArgI (sys_errno r), ArgErr (sys_errno r)];
       exit_with (Exit (- 1))
     }
     else do {
       let tSock = sys_ret r;
       printf ''\<newline>create sock successfully, got sock fd: %d'' [ArgI tSock];
       let tSockAddr = zero_in\<lparr>sin_family := AF_INET, sin_port := htons 12701\<rparr>;
       r \<leftarrow> call os (Bind tSock (SA4 tSockAddr));
       if sys_ret r < 0 then do {
         printf ''\<newline>bind errno: %d -> %s'' [ArgI (sys_errno r), ArgErr (sys_errno r)];
         exit_with (Exit (- 1))
       }
       else do {
         printf ''\<newline>bind successfully !'' [];
         r \<leftarrow> call os (SetSockOpt tSock SOL_SOCKET SO_RCVBUF (1024 * 1024 * 1024));
         printf ''\<newline>setsockopt rc: %d'' [ArgI (sys_ret r)];
         r \<leftarrow> call os (GetSockOpt tSock SOL_SOCKET SO_RCVBUF optlen);
         let (optval, optlen) = getsockopt_u32 r (0, optlen);
         printf ''\<newline>getsockopt without providing optlen value. rc: %d, has set bufsize: %u, optlen: %u''
           [ArgI (sys_ret r), ArgI (uint optval), ArgI (uint optlen)];
         r \<leftarrow> call os (GetSockOpt tSock SOL_SOCKET SO_RCVBUF 4);
         let (optval, optlen) = getsockopt_u32 r (optval, 4);
         printf ''\<newline>compare getsockopt rc: %d, has set bufsize: %u, optlen: %u''
           [ArgI (sys_ret r), ArgI (uint optval), ArgI (uint optlen)];
         printf ''\<newline>'' [];
         call os (Close tSock);
         exit_with (Exit 0)
       }
     }
   }"

subsection \<open>\<open>sctp\<close>\<close>

definition sctp_main :: "sock_os \<Rightarrow> outcome sock_prog" where
  "sctp_main os = do {
     r \<leftarrow> call os (Socket AF_INET SOCK_STREAM 132);
     if sys_ret r \<le> 0 then do {
       perror ''checksctp'' r;
       exit_with (Exit 1)
     }
     else do {
       eprintf ''SCTP supported\<newline>'' [];
       call os (Close (sys_ret r));
       exit_with (Exit 0)
     }
   }"

subsection \<open>\<open>udpSendData\<close>\<close>

text \<open>The loop from \<open>i\<close>, with \<open>n\<close> rounds left; \<open>buf\<close> is the uninitialised buffer that is sent.\<close>

fun udpSendData_loop :: "sock_os \<Rightarrow> int \<Rightarrow> bytes \<Rightarrow> sockaddr_in \<Rightarrow> nat \<Rightarrow> nat \<Rightarrow> unit sock_prog" where
  "udpSendData_loop os tSock buf tSocketAddr i 0 = exit_with ()"
| "udpSendData_loop os tSock buf tSocketAddr i (Suc n) = do {
     b \<leftarrow> call os Time;
     r \<leftarrow> call os (SendTo tSock buf (SA4 tSocketAddr));
     e \<leftarrow> call os Time;
     printf ''Has send %zd bytes at loop: %zu when time:%ld -> %ld\<newline>''
       [ArgI (sys_ret r), ArgI (int i), ArgI (sys_ret b), ArgI (sys_ret e)];
     (if sys_ret r < 0 then printf ''errno: %d, desc: %s\<newline>'' [ArgI (sys_errno r), ArgErr (sys_errno r)]
      else exit_with ());
     (if sys_ret e - sys_ret b > 1 then do {
        printf ''Has been blocked long time ..........................................................\<newline>'' [];
        call os (Sleep 10);
        exit_with ()
      }
      else exit_with ());
     udpSendData_loop os tSock buf tSocketAddr (Suc i) n
   }"

definition udpSendData_main :: "sock_os \<Rightarrow> libc \<Rightarrow> bytes \<Rightarrow> string list \<Rightarrow> outcome sock_prog" where
  "udpSendData_main os lc buf argv =
    (if length argv < 2 then do {
       printf ''You must provide the dest addr!\<newline>'' [];
       exit_with (Exit (- 1))
     }
     else do {
       printf ''The dest addr: %s\<newline>'' [ArgS (argv ! 1)];
       r \<leftarrow> call os (Socket AF_INET SOCK_DGRAM PROTO_UDP);
       if sys_ret r = - 1 then do {
         printf ''\<newline>[OSS]:%s,Can not get a Socket errno:%d,errnoDesc:%s\<newline>''
           [ArgS ''main'', ArgI (sys_errno r), ArgErr (sys_errno r)];
         exit_with (Exit (- 1))
       }
       else do {
         let tSocketAddr = zero_in\<lparr>sin_family := AF_INET,
           sin_addr := inet_pton (pton4 lc) (argv ! 1) (sin_addr zero_in), sin_port := htons 6775\<rparr>;
         printf ''Send data to a non-exist IP ....\<newline>'' [];
         udpSendData_loop os (sys_ret r) buf tSocketAddr 0 65536;
         printf ''will exit !!!\<newline>'' [];
         exit_with (Exit 0)
       }
     })"


subsection \<open>Descriptors\<close>

text \<open>C13: \<open>rawudp\<close>, \<open>rawall\<close>, \<open>server\<close> and \<open>flowlabel\<close> make every call on a descriptor that is open
  at that moment and have closed what they opened when they exit, on every path and whatever the
  kernel answers.\<close>

theorem socket_programs_balanced:
  "fd_balanced (rawudp_main os lc argv) \<and> fd_balanced (rawall_main os lc argv) \<and>
   fd_balanced (server_main fuel os lc argv) \<and> fd_balanced (flowlabel_main os lc)"
proof -
  have "fd_balanced (flowlabel_main os lc)"
    unfolding fd_balanced_def flowlabel_main_def by (intro allI wp_rules) auto
  then show ?thesis
    by (simp add: fd_balanced_rawudp fd_balanced_rawall fd_balanced_server)
qed

text \<open>A property of the recorded calls and of the descriptors they leave open.\<close>

lemma wp_log_fds:
  "wp log_step p (\<lambda>_ log. run_steps sock_step log [] = Some (left log)) [] \<Longrightarrow>
    monitor sock_step [] (final p []) = Some (left (call_log (final p [])))"
  using wp_logD [of p "\<lambda>_ log. run_steps sock_step log [] = Some (left log)"]
  by (simp add: monitor_run_steps)

definition second_socket_failed :: "(sock_call \<times> sysret) list \<Rightarrow> int list" where
  "second_socket_failed log =
    (case log of [(_, r1), (_, r2)] \<Rightarrow> if sys_ret r2 < 0 then [sys_ret r1] else [] | _ \<Rightarrow> [])"

definition bind_failed :: "(sock_call \<times> sysret) list \<Rightarrow> int list" where
  "bind_failed log =
    (case log of [(_, r1), (_, r2)] \<Rightarrow> [sys_ret r1] | _ \<Rightarrow> [])"


subsection \<open>Traffic\<close>

text \<open>A monitor that counts the datagrams and admits only the given one.\<close>

fun send_step :: "bytes \<Rightarrow> sockaddr \<Rightarrow> sock_call \<Rightarrow> sysret \<Rightarrow> nat \<Rightarrow> nat option" where
  "send_step d sa (SendTo fd d' sa') r k = (if d' = d \<and> sa' = sa then Some (Suc k) else None)"
| "send_step d sa c r k = Some k"

lemma wp_send_step:
  "(\<And>r. Q r (Suc k)) \<Longrightarrow> wp (send_step d sa) (call os (SendTo fd d sa)) Q k"
  "(\<And>r. Q r k) \<Longrightarrow> wp (send_step d sa) (call os Time) Q k"
  "(\<And>r. Q r k) \<Longrightarrow> wp (send_step d sa) (call os (Sleep z)) Q k"
  "(\<And>r. Q r k) \<Longrightarrow> wp (send_step d sa) (call os (Socket x y z)) Q k"
  by (rule wp_call, simp)+

lemma wp_udpSendData_loop:
  assumes "Q () (k + n)"
  shows "wp (send_step buf (SA4 a)) (udpSendData_loop os fd buf a i n) Q k"
  using assms
proof (induction n arbitrary: k i)
  case (Suc n)
  then show ?case
    unfolding udpSendData_loop.simps by (intro wp_rules wp_send_step Suc.IH) simp_all
qed (simp add: wp_return)

text \<open>\<open>udpSendData\<close> with a destination either exits with -1 having sent nothing, the socket call
  having returned -1, or sends its buffer to port 6775 of the destination exactly 65536
  times and exits with 0, whatever the sends return.\<close>

theorem udpSendData_sends:
  assumes "2 \<le> length argv"
  shows "let dst = SA4 \<lparr>sin_family = AF_INET, sin_port = htons 6775,
      sin_addr = inet_pton (pton4 lc) (argv ! 1) (replicate 4 0)\<rparr>
    in \<exists>k. monitor (send_step buf dst) 0 (final (udpSendData_main os lc buf argv) []) = Some k \<and>
      (result (udpSendData_main os lc buf argv) [], k) \<in> {(Exit 0, 65536), (Exit (- 1), 0)}"
proof -
  let ?dst = "SA4 \<lparr>sin_family = AF_INET, sin_port = htons 6775,
      sin_addr = inet_pton (pton4 lc) (argv ! 1) (replicate 4 0)\<rparr>"
  have "wp (send_step buf ?dst) (udpSendData_main os lc buf argv)
      (\<lambda>res k. (res, k) \<in> {(Exit 0, 65536), (Exit (- 1), 0)}) 0"
    using assms unfolding udpSendData_main_def Let_def
    by (intro wp_rules wp_send_step) (simp_all add: zero_in_def wp_udpSendData_loop wp_rules)
  from wpD [OF this, of 0 "[]"] show ?thesis
    by (simp add: Let_def)
qed


theorem udpSendData_sends_witness:
  "let dst = SA4 \<lparr>sin_family = AF_INET, sin_port = htons 6775, sin_addr = replicate 4 0\<rparr>;
     p = udpSendData_main (os_const 7) libc_none (replicate 8192 0) [''udpSendData'', ''192.0.2.1'']
   in \<exists>k. monitor (send_step (replicate 8192 0) dst) 0 (final p []) = Some k \<and>
      (result p [], k) \<in> {(Exit 0, 65536), (Exit (- 1), 0)}"
  using udpSendData_sends [of "[''udpSendData'', ''192.0.2.1'']" libc_none "replicate 8192 0" "os_const 7"]
  unfolding Let_def by (simp add: inet_pton_def libc_none_def)

end
