(* ===== verification/ScatteredSend.thy ===== *)
theory ScatteredSend
  imports RawSockets
begin

text \<open>
  \<open>rawudp\<close> of \<open>raw6/rawudp.c\<close> with the option \<open>-v\<close>, which sends the header and a string as two parts.
\<close>

text \<open>The two parts of a scattered datagram: a header with the ports and the length, and the string.  A receiver does not
  accept them with the pseudo header \<open>ps\<close>.\<close>

definition scattered_datagram :: "nat list \<Rightarrow> bytes list \<Rightarrow> bool" where
  "scattered_datagram ps vec \<longleftrightarrow>
    (\<exists>h. vec = [h, hello_world] \<and> length h = 8 \<and> be_words (take 6 h) = [12760, 22760, 20] \<and>
      \<not> udp_datagram_ok ps (concat vec) 0 20)"

lemma scattered_datagram_at:
  assumes "length m = 4096" "k \<le> 4000" "be_words (bytes_at m k 6) = [12760, 22760, 20]"
    and "\<not> udp_datagram_ok ps (bytes_at m k 8 @ hello_world) 0 20"
  shows "scattered_datagram ps [bytes_at m k 8, hello_world]"
proof -
  have "take 6 (bytes_at m k 8) = bytes_at m k 6"
    by (simp add: bytes_at_def min_def)
  then show ?thesis
    using assms by (simp add: scattered_datagram_def length_bytes_at)
qed

lemma wp_log_sendV6_scattered:
  assumes "length (sin6_addr f) = 16" "length (sin6_addr t) = 16" "unat len \<le> 4048" "v"
    and Q: "\<And>vec r r'. scattered_datagram (pseudo6 (ipv6_header_bytes (sin6_addr f) (sin6_addr t) len) 0 20) vec \<Longrightarrow>
      Q (Some ()) (log @ [(SendMsg fd vec (SA6 (t\<lparr>sin6_port := 1234\<rparr>)), r), (SendMsg fd vec (SA6 (t\<lparr>sin6_port := 0\<rparr>)), r')])"
  shows "wp log_step (sendV6 os abPktInfo_init fd f t v len) Q log"
proof -
  obtain m where m: "build_v6 abPktInfo_init (sin6_addr f) (sin6_addr t) len = Some m"
      "length m = 4096" "take 40 m = ipv6_header_bytes (sin6_addr f) (sin6_addr t) len"
      "be_words (bytes_at m 40 6) = [12760, 22760, 8 + unat len]" "drop (40 + 8) m = drop (40 + 8) abPktInfo_init"
    using build_v6_valid [of abPktInfo_init, OF _ assms(1-3)] by auto
  obtain m' where m': "rebuild_iovec_v6 m = Some m'" "length m' = 4096" "be_words (bytes_at m' 40 6) = [12760, 22760, 20]"
      "\<not> udp_datagram_ok (pseudo6 (take 40 m) 0 20) (bytes_at m' 40 8 @ hello_world) 0 20"
    using sc6.scattered_rejected [OF m(2,5,4)] by blast
  note d = scattered_datagram_at [OF m'(2) _ m'(3,4), unfolded m(3), simplified]
  show ?thesis
    unfolding sendV6_def
    using assms(4)
    by (simp add: m(1) m'(1) c_layout) (intro wp_rules wp_log_call; simp add: Q [OF d])
qed

lemma wp_log_sendV4_scattered:
  assumes "length (sin_addr f) = 4" "length (sin_addr t) = 4" "unat len \<le> 4068" "v"
    and Q: "\<And>vec r r'. scattered_datagram (pseudo4 (ipv4_header_bytes (sin_addr f) (sin_addr t) len) 0 20) vec \<Longrightarrow>
      Q (Some ()) (log @ [(SendMsg fd vec (SA4 (t\<lparr>sin_port := 1234\<rparr>)), r), (SendMsg fd vec (SA4 (t\<lparr>sin_port := 0\<rparr>)), r')])"
  shows "wp log_step (sendV4 os abPktInfo_init fd f t v len) Q log"
proof -
  obtain m where m: "build_v4 abPktInfo_init (sin_addr f) (sin_addr t) len = Some m"
      "length m = 4096" "take 20 m = ipv4_header_bytes (sin_addr f) (sin_addr t) len"
      "be_words (bytes_at m 20 6) = [12760, 22760, 8 + unat len]" "drop (20 + 8) m = drop (20 + 8) abPktInfo_init"
    using build_v4_valid [of abPktInfo_init, OF _ assms(1-3)] by auto
  obtain m' where m': "rebuild_iovec_v4 m = Some m'" "length m' = 4096" "be_words (bytes_at m' 20 6) = [12760, 22760, 20]"
      "\<not> udp_datagram_ok (pseudo4 (take 20 m) 0 20) (bytes_at m' 20 8 @ hello_world) 0 20"
    using sc4.scattered_rejected [OF m(2,5,4)] by blast
  note d = scattered_datagram_at [OF m'(2) _ m'(3,4), unfolded m(3), simplified]
  show ?thesis
    unfolding sendV4_def
    using assms(4)
    by (simp add: m(1) m'(1) c_layout) (intro wp_rules wp_log_call; simp add: Q [OF d])
qed



end
