(* ===== verification/Netlink.thy ===== *)
theory Netlink
  imports SocketCalls
begin

text \<open>
  \<open>netlink/getroute.c\<close>: the request for a route, the walk over the messages of the answer
  (\<open>NLMSG_OK\<close>, \<open>NLMSG_NEXT\<close>) and over the attributes of a message (\<open>RTA_OK\<close>, \<open>RTA_NEXT\<close>).  Both
  walks are instances of one walk over length-prefixed records.
\<close>

unbundle bit_operations_syntax

subsection \<open>Length-prefixed records\<close>

text \<open>\<open>NLMSG_ALIGN\<close> and \<open>RTA_ALIGN\<close> of the kernel headers; they compute in \<open>unsigned\<close> arithmetic, which
  gives this number for every length that passes the checks of the program.\<close>

definition align4 :: "nat \<Rightarrow> nat" where
  "align4 l = (l + 3) div 4 * 4"

lemma align4_unsigned:
  fixes l :: u32
  assumes "unat l \<le> 0xFFFFFFFC"
  shows "unat ((l + 3) AND NOT 3) = align4 (unat l)"
proof -
  have two: "Suc (Suc (n - 2)) = n" if "2 \<le> n" for n
    using that by arith
  have "(l + 3) AND NOT (mask 2) = push_bit 2 (drop_bit 2 (l + 3))"
    by (rule bit_word_eqI) (auto simp: bit_simps two)
  then have "(l + 3) AND NOT 3 = 4 * drop_bit 2 (l + 3)"
    by (simp add: mask_eq_exp_minus_1 push_bit_eq_mult mult.commute)
  moreover have "unat (l + 3) = unat l + 3"
    using assms by (simp add: unat_word_ariths)
  then have "unat (drop_bit 2 (l + 3)) = (unat l + 3) div 4"
    unfolding unat_drop_bit_eq by (simp add: drop_bit_eq_div)
  moreover have "(unat l + 3) div 4 * 4 < 2 ^ 32"
    using assms div_times_less_eq_dividend [of "unat l + 3" 4] by (simp del: div_times_less_eq_dividend)
  ultimately show ?thesis
    by (simp add: align4_def unat_word_ariths mult.commute)
qed

lemma align4_bounds: "l \<le> align4 l" "align4 l < l + 4"
  by (auto simp: align4_def)

lemma tlv_decreases: "0 < l \<Longrightarrow> int l \<le> len \<Longrightarrow> nat (len - int (align4 l)) < nat len"
  using align4_bounds [of l] by linarith

text \<open>The offsets visited from \<open>off\<close> with \<open>len\<close> bytes left, and the bytes left when the walk stops.
  \<open>lenf\<close> reads the length field of the record at an offset; \<open>None\<close> is a read outside the buffer.\<close>

function tlv_seq ::
    "nat \<Rightarrow> (bytes \<Rightarrow> nat \<Rightarrow> nat option) \<Rightarrow> bytes \<Rightarrow> nat \<Rightarrow> int \<Rightarrow> (nat list \<times> int) option" where
  "tlv_seq hdr lenf buf off len =
    (if hdr = 0 \<or> len < int hdr then Some ([], len)
     else case lenf buf off of
       None \<Rightarrow> None
     | Some l \<Rightarrow>
         if hdr \<le> l \<and> int l \<le> len then
           map_option (\<lambda>(offs, rest). (off # offs, rest))
             (tlv_seq hdr lenf buf (off + align4 l) (len - int (align4 l)))
         else Some ([], len))"
  by pat_completeness auto

termination
  by (relation "measure (\<lambda>(hdr, lenf, buf, off, len). nat len)") (use tlv_decreases in \<open>auto simp: Suc_le_eq\<close>)

declare tlv_seq.simps [simp del]

text \<open>What a kind of record provides, and what the walk then guarantees.\<close>

locale tlv =
  fixes hdr :: nat and lenf :: "bytes \<Rightarrow> nat \<Rightarrow> nat option"
  assumes hdr_pos: "0 < hdr"
    and lenf_in_bounds: "off + hdr \<le> length buf \<Longrightarrow> lenf buf off \<noteq> None"
begin

lemma walk_in_bounds:
  "int off + len \<le> int (length buf) \<Longrightarrow> \<exists>offs rest. tlv_seq hdr lenf buf off len = Some (offs, rest)"
proof (induction "nat len" arbitrary: off len rule: less_induct)
  case less
  show ?case
  proof (cases "len < int hdr")
    case False
    then obtain l where l: "lenf buf off = Some l"
      using lenf_in_bounds [of off buf] less.prems by fastforce
    have "\<exists>offs rest. tlv_seq hdr lenf buf (off + align4 l) (len - int (align4 l)) = Some (offs, rest)"
      if "hdr \<le> l" "int l \<le> len"
      using that hdr_pos less.prems by (intro less.hyps tlv_decreases) auto
    with l show ?thesis
      by (subst tlv_seq.simps) auto
  qed (subst tlv_seq.simps, simp)
qed

lemma walk_member:
  assumes "tlv_seq hdr lenf buf off len = Some (offs, rest)" "x \<in> set offs"
  shows "\<exists>l. lenf buf x = Some l \<and> hdr \<le> l \<and> off \<le> x \<and> int x + int l \<le> int off + len"
  using assms
proof (induction "nat len" arbitrary: off len offs rest rule: less_induct)
  case less
  from less.prems obtain l offs' where l: "lenf buf off = Some l" "hdr \<le> l" "int l \<le> len"
      "offs = off # offs'"
      "tlv_seq hdr lenf buf (off + align4 l) (len - int (align4 l)) = Some (offs', rest)"
    by (subst (asm) tlv_seq.simps) (auto split: if_splits option.splits)
  show ?case
  proof (cases "x = off")
    case False
    then have "x \<in> set offs'"
      using less.prems(2) l(4) by simp
    from less.hyps [OF tlv_decreases l(5) this] l(2,3) hdr_pos show ?thesis
      by auto
  qed (use l in auto)
qed

text \<open>The records of a walk do not overlap, and they come in ascending order.\<close>

lemma walk_disjoint:
  assumes "tlv_seq hdr lenf buf off len = Some (offs, rest)"
  shows "sorted_wrt (\<lambda>x y. \<exists>l. lenf buf x = Some l \<and> x + l \<le> y) offs"
  using assms
proof (induction "nat len" arbitrary: off len offs rest rule: less_induct)
  case less
  show ?case
  proof (cases offs)
    case (Cons x offs')
    with less.prems obtain l where l: "lenf buf off = Some l" "hdr \<le> l" "int l \<le> len" "x = off"
        "tlv_seq hdr lenf buf (off + align4 l) (len - int (align4 l)) = Some (offs', rest)"
      by (subst (asm) tlv_seq.simps) (auto split: if_splits option.splits)
    from less.hyps [OF tlv_decreases l(5)] l(2,3) hdr_pos
    have "sorted_wrt (\<lambda>x y. \<exists>l. lenf buf x = Some l \<and> x + l \<le> y) offs'"
      by simp
    moreover have "off + l \<le> y" if "y \<in> set offs'" for y
      using walk_member [OF l(5) that] align4_bounds(1) [of l] by linarith
    ultimately show ?thesis
      using Cons l(1,4) by simp
  qed simp
qed

end

subsection \<open>Messages and attributes in memory\<close>

definition load16 :: "bytes \<Rightarrow> nat \<Rightarrow> u16 option" where
  "load16 m i = map_option (\<lambda>bs. of_le16 (bs ! 0) (bs ! 1)) (load_bytes m i 2)"

definition load32 :: "bytes \<Rightarrow> nat \<Rightarrow> u32 option" where
  "load32 m i = map_option of_le32 (load_bytes m i 4)"

definition rta_len_at :: "bytes \<Rightarrow> nat \<Rightarrow> nat option" where
  "rta_len_at m i = map_option unat (load16 m i)"

definition nlmsg_len_at :: "bytes \<Rightarrow> nat \<Rightarrow> nat option" where
  "nlmsg_len_at m i = map_option unat (load32 m i)"

interpretation rta: tlv 4 rta_len_at
  by unfold_locales (auto simp: rta_len_at_def load16_def load_bytes_def)

interpretation nlm: tlv 16 nlmsg_len_at
  by unfold_locales (auto simp: nlmsg_len_at_def load32_def load_bytes_def)


subsection \<open>\<open>nl_filter_route\<close>\<close>

text \<open>Numbers of \<open>linux/netlink.h\<close> and \<open>linux/rtnetlink.h\<close>.\<close>

abbreviation (input) RTA_MAX :: nat where "RTA_MAX \<equiv> 30"
abbreviation (input) RTA_DST :: nat where "RTA_DST \<equiv> 1"
abbreviation (input) RTA_SRC :: nat where "RTA_SRC \<equiv> 2"
abbreviation (input) RTA_IIF :: nat where "RTA_IIF \<equiv> 3"
abbreviation (input) RTA_OIF :: nat where "RTA_OIF \<equiv> 4"
abbreviation (input) RTA_TABLE :: nat where "RTA_TABLE \<equiv> 15"
abbreviation (input) NLMSG_ERROR :: u16 where "NLMSG_ERROR \<equiv> 2"
abbreviation (input) NLMSG_DONE :: u16 where "NLMSG_DONE \<equiv> 3"
abbreviation (input) RTM_NEWROUTE :: u16 where "RTM_NEWROUTE \<equiv> 24"
abbreviation (input) RTM_GETROUTE :: u16 where "RTM_GETROUTE \<equiv> 26"

text \<open>The loop that fills \<open>tb\<close>: the offset of the attribute of each type; a later attribute of the
  same type replaces an earlier one.\<close>

definition rta_type_at :: "bytes \<Rightarrow> nat \<Rightarrow> nat option" where
  "rta_type_at m i = map_option unat (load16 m (i + 2))"

function rta_loop :: "bytes \<Rightarrow> nat \<Rightarrow> int \<Rightarrow> (nat \<rightharpoonup> nat) \<Rightarrow> (nat \<rightharpoonup> nat) option" where
  "rta_loop m rta len tb =
    (if len < 4 then Some tb
     else case rta_len_at m rta of
       None \<Rightarrow> None
     | Some rta_len \<Rightarrow>
         if 4 \<le> rta_len \<and> int rta_len \<le> len then
           (case rta_type_at m rta of
              None \<Rightarrow> None
            | Some rta_type \<Rightarrow>
                rta_loop m (rta + align4 rta_len) (len - int (align4 rta_len))
                  (if rta_type \<le> RTA_MAX then tb(rta_type \<mapsto> rta) else tb))
         else Some tb)"
  by pat_completeness auto
termination
  by (relation "measure (\<lambda>(m, rta, len, tb). nat len)") (use tlv_decreases in auto)

declare rta_loop.simps [simp del]

text \<open>The string at an address: the bytes before the next zero byte.\<close>

definition c_string :: "bytes \<Rightarrow> nat \<Rightarrow> string option" where
  "c_string m i = (if 0 \<in> set (drop i m)
     then Some (map (\<lambda>b. char_of (unat b)) (takeWhile (\<lambda>b. b \<noteq> 0) (drop i m))) else None)"

text \<open>\<open>*(int *)RTA_DATA(tb[t])\<close>, \<open>inet_ntop\<close> on \<open>RTA_DATA(tb[t])\<close> and \<open>RTA_DATA(tb[t])\<close> as a string, when the
  attribute is there: the \<open>printf\<close> of the source, or nothing.\<close>

definition rta_int :: "bytes \<Rightarrow> nat \<Rightarrow> int option" where
  "rta_int m rta = map_option sint (load32 m (rta + 4))"

definition rta_addr :: "libc \<Rightarrow> int \<Rightarrow> bytes \<Rightarrow> nat \<Rightarrow> string option" where
  "rta_addr lc family m rta =
    (if family = AF_INET6 then map_option (ntop6 lc) (load_bytes m (rta + 4) 16)
     else map_option (ntop4 lc) (load_bytes m (rta + 4) 4))"

definition print_rta :: "string \<Rightarrow> (nat \<Rightarrow> arg option) \<Rightarrow> nat option \<Rightarrow> unit option sock_prog" where
  "print_rta fmt read slot =
    (case slot of
       None \<Rightarrow> exit_with (Some ())
     | Some rta \<Rightarrow>
         (case read rta of
            None \<Rightarrow> exit_with None
          | Some v \<Rightarrow> do { printf fmt [v]; exit_with (Some ()) }))"

definition print_rtas :: "libc \<Rightarrow> int \<Rightarrow> bytes \<Rightarrow> (nat \<rightharpoonup> nat) \<Rightarrow> unit option sock_prog" where
  "print_rtas lc family m tb = do {
     a \<leftarrow> print_rta ''RTA_TABLE: %d\<newline>'' (\<lambda>rta. map_option ArgI (rta_int m rta)) (tb RTA_TABLE);
     b \<leftarrow> (if a = None then exit_with None
           else print_rta ''RTA_IIF: %d\<newline>'' (\<lambda>rta. map_option ArgI (rta_int m rta)) (tb RTA_IIF));
     c \<leftarrow> (if b = None then exit_with None
           else print_rta ''RTA_OIF: %d\<newline>'' (\<lambda>rta. map_option ArgI (rta_int m rta)) (tb RTA_OIF));
     d \<leftarrow> (if c = None then exit_with None
           else print_rta ''RTA_SRC: %s\<newline>'' (\<lambda>rta. map_option ArgS (c_string m (rta + 4))) (tb RTA_SRC));
     (if d = None then exit_with None
      else print_rta ''RTA_DST: %s\<newline>'' (\<lambda>rta. map_option ArgS (rta_addr lc family m rta)) (tb RTA_DST))
   }"

text \<open>\<open>n\<close> is the offset of the message in \<open>buf\<close>; \<open>None\<close> is a read outside \<open>buf\<close>.\<close>

definition nl_filter_route ::
    "libc \<Rightarrow> int \<Rightarrow> bytes \<Rightarrow> nat \<Rightarrow> u16 \<Rightarrow> int option sock_prog" where
  "nl_filter_route lc family m n expected_msgtype = do {
     printf ''recv para: %p\<newline>'' [ArgI 0];
     case (load32 m n, load16 m (n + 4)) of
       (Some nlmsg_len, Some nlmsg_type) \<Rightarrow>
         if nlmsg_type \<noteq> expected_msgtype then do {
           eprintf ''unrecognize msg: %d\<newline>'' [ArgI (uint nlmsg_type)];
           exit_with (Some (- 1))
         }
         else do {
           let len = to_int32 (uint nlmsg_len - 28);
           if len < 0 then do {
             eprintf ''too short: %d\<newline>'' [ArgI (sint nlmsg_len)];
             exit_with (Some (- 1))
           }
           else
             (case (rta_loop m (n + 28) len Map.empty, load_bytes m (n + 16) 12) of
                (Some tb, Some r) \<Rightarrow> do {
                  printf ''come from route netlink message\<newline>rtm_family:     %u\<newline>rtm_dst_len:    %u\<newline>rtm_src_len:    %u\<newline>rtm_table:      %u\<newline>rtm_protocol:   %u\<newline>rtm_scope:      %u\<newline>''
                    (map (\<lambda>i. ArgI (uint (r ! i))) [0, 1, 2, 4, 5, 6]);
                  printf ''\<newline>come from following rta(s)\<newline>'' [];
                  ok \<leftarrow> print_rtas lc family m tb;
                  exit_with (map_option (\<lambda>_. 0) ok)
                }
              | _ \<Rightarrow> exit_with None)
         }
     | _ \<Rightarrow> exit_with None
   }"


subsection \<open>The answer\<close>

record nlmsghdr =
  nlmsg_len :: u32
  nlmsg_type :: u16
  nlmsg_flags :: u16
  nlmsg_seq :: u32
  nlmsg_pid :: u32

definition load_nlmsghdr :: "bytes \<Rightarrow> nat \<Rightarrow> nlmsghdr option" where
  "load_nlmsghdr m h = do {
     len \<leftarrow> load32 m h;
     typ \<leftarrow> load16 m (h + 4);
     flags \<leftarrow> load16 m (h + 6);
     seq \<leftarrow> load32 m (h + 8);
     pid \<leftarrow> load32 m (h + 12);
     Some \<lparr>nlmsg_len = len, nlmsg_type = typ, nlmsg_flags = flags, nlmsg_seq = seq, nlmsg_pid = pid\<rparr>
   }"

abbreviation (input) req_pid :: u32 where "req_pid \<equiv> 1234"
abbreviation (input) req_seq :: int where "req_seq \<equiv> 1"

text \<open>What becomes of one message: go on with the next one (\<open>skip_it\<close> included) or leave the loop.\<close>

datatype nl_next = NlNext | NlBreak

definition nl_message :: "libc \<Rightarrow> int \<Rightarrow> int \<Rightarrow> bytes \<Rightarrow> nat \<Rightarrow> nlmsghdr \<Rightarrow> nl_next option sock_prog" where
  "nl_message lc self_pid family m h n =
    (if nlmsg_pid n = 0 \<or> (nlmsg_pid n \<noteq> 0 \<and> (nlmsg_pid n \<noteq> req_pid \<and> sint (nlmsg_pid n) \<noteq> self_pid))
     then do {
       eprintf ''error: not expected response msg! self_pid: %d, request nlmsg_pid: %d, response nlmsg_pid: %d''
         [ArgI self_pid, ArgI (sint req_pid), ArgI (sint (nlmsg_pid n))];
       exit_with (Some NlNext)
     }
     else if nlmsg_type n = NLMSG_DONE then do {
       printf ''reach the end! NLMSG_DONE \<newline>'' [];
       exit_with (Some NlBreak)
     }
     else if nlmsg_type n = NLMSG_ERROR then
       (if nlmsg_len n < 36 then do {
          eprintf ''error: ERROR truncated'' [];
          exit_with (Some NlBreak)
        }
        else
          (case (load32 m (h + 16), load_nlmsghdr m (h + 20)) of
             (Some err, Some msg) \<Rightarrow>
               if err = 0 then do {
                 printf ''got response ack! self_pid: %d, request nlmsg_pid: %d, seq: %d, response nlmsg_pid: %d, seq: %d''
                   [ArgI self_pid, ArgI (sint req_pid), ArgI req_seq, ArgI (sint (nlmsg_pid n)),
                    ArgI (sint (nlmsg_seq n))];
                 exit_with (Some NlNext)
               }
               else do {
                 eprintf '' error: %s, type=%u, seq=%u, pid=%d\<newline>''
                   [ArgErr (to_int32 (- sint err)), ArgI (uint (nlmsg_type msg)), ArgI (uint (nlmsg_seq msg)),
                    ArgI (sint (nlmsg_pid msg))];
                 exit_with (Some NlBreak)
               }
           | _ \<Rightarrow> exit_with None))
     else do {
       printf ''get response nlmsg: %u ...\<newline>'' [ArgI (uint (nlmsg_type n))];
       rc \<leftarrow> nl_filter_route lc family m h RTM_NEWROUTE;
       exit_with (map_option (\<lambda>_. NlNext) rc)
     })"

text \<open>The loop over the messages; it gives \<open>msglen\<close>, the bytes left.\<close>

function nl_loop :: "libc \<Rightarrow> int \<Rightarrow> int \<Rightarrow> bytes \<Rightarrow> nat \<Rightarrow> int \<Rightarrow> int option sock_prog" where
  "nl_loop lc self_pid family m h msglen =
    (if msglen < 16 then exit_with (Some msglen)
     else case load_nlmsghdr m h of
       None \<Rightarrow> exit_with None
     | Some n \<Rightarrow>
         if 16 \<le> unat (nlmsg_len n) \<and> int (unat (nlmsg_len n)) \<le> msglen then do {
           next \<leftarrow> nl_message lc self_pid family m h n;
           case next of
             None \<Rightarrow> exit_with None
           | Some NlBreak \<Rightarrow> exit_with (Some msglen)
           | Some NlNext \<Rightarrow>
               nl_loop lc self_pid family m (h + align4 (unat (nlmsg_len n)))
                 (msglen - int (align4 (unat (nlmsg_len n))))
         }
         else exit_with (Some msglen))"
  by pat_completeness auto
termination
proof (relation "measure (\<lambda>(lc, self_pid, family, m, h, msglen). nat msglen)", goal_cases)
  case (2 lc self_pid family m h msglen n)
  then show ?case
    using tlv_decreases [of "unat (nlmsg_len n)" msglen] by (simp only: in_measure prod.case) simp
qed simp

declare nl_loop.simps [simp del]

subsection \<open>The request and \<open>main\<close>\<close>

text \<open>The object \<open>req\<close>: a message header, an \<open>rtmsg\<close> with the family and an attribute with 64 bytes of
  data.  An address text that is not of the family leaves the data zero.\<close>

definition req_family :: "libc \<Rightarrow> string \<Rightarrow> int" where
  "req_family lc dst = (if pton6 lc dst = None then AF_INET else AF_INET6)"

definition rta_length :: "nat \<Rightarrow> nat" where
  "rta_length n = 4 + n"

definition getroute_req :: "libc \<Rightarrow> bool \<Rightarrow> string \<Rightarrow> bytes" where
  "getroute_req lc ack_flag dst =
    (let family = req_family lc dst;
         rta_len = rta_length (if family = AF_INET then 4 else 16);
         data = (if family = AF_INET then inet_pton (pton4 lc) dst (replicate 4 0)
                 else inet_pton (pton6 lc) dst (replicate 16 0))
     in le32 (of_nat (28 + rta_len)) @ le16 RTM_GETROUTE @ le16 (if ack_flag then 1 OR 4 else 1) @
        le32 1 @ le32 req_pid @
        [word_of_int family, 0, 0, 0, 0, 0, 0, 0] @ le32 0 @
        le16 (of_nat rta_len) @ le16 (of_nat RTA_DST) @ data @ replicate (64 - length data) 0)"

text \<open>\<open>getopt\<close> moves the operands behind the option words: \<open>argv[1]\<close> is the first option word when
  there is one.\<close>

definition argv1_after_getopt :: "string list \<Rightarrow> string" where
  "argv1_after_getopt argv =
    (case find (\<lambda>a. 2 \<le> length a \<and> hd a = CHR ''-'') (tl argv) of Some a \<Rightarrow> a | None \<Rightarrow> argv ! 1)"

definition fail_msg :: "string \<Rightarrow> arg list \<Rightarrow> int \<Rightarrow> unit sock_prog" where
  "fail_msg fmt as errno = eprintf (fmt @ '' errno: %d -> %s\<newline>'') (as @ [ArgI errno, ArgErr errno])"

definition fail_flow :: "sock_os \<Rightarrow> int \<Rightarrow> outcome sock_prog" where
  "fail_flow os fd = do {
     eprintf ''\<newline>in failure, test program will exit!\<newline>'' [];
     call os (Close fd);
     exit_with (Exit (- 1))
   }"

text \<open>\<open>buf0\<close> is the uninitialised receive buffer and \<open>errno0\<close> the error number before any call.\<close>

definition getroute_main :: "sock_os \<Rightarrow> libc \<Rightarrow> bytes \<Rightarrow> int \<Rightarrow> string list \<Rightarrow> outcome sock_prog" where
  "getroute_main os lc buf0 errno0 argv = do {
     let (opts, operands) = getopt ''a'' (tl argv);
     if OptErr \<in> set opts then do {
       eprintf ''Usage: %s [-a] dst\<newline>'' [ArgS (hd argv)];
       exit_with (Exit (- 1))
     }
     else if operands = [] then do {
       fail_msg ''Usage: %s [-a] dst\<newline>'' [ArgS (hd argv)] errno0;
       exit_with (Exit (- 1))
     }
     else do {
       let ack_flag = (opts \<noteq> []);
       let dst = argv1_after_getopt argv;
       printf ''Hello World! Get route for %s\<newline>'' [ArgS (hd operands)];
       r \<leftarrow> call os (Socket AF_NETLINK (SOCK_RAW + 0x80000) 0);
       if sys_ret r < 0 then do {
         fail_msg ''create net link sock in failure!'' [] (sys_errno r);
         exit_with (Exit (- 1))
       }
       else do {
         let fd = sys_ret r;
         r \<leftarrow> call os (Send fd (getroute_req lc ack_flag dst));
         if sys_ret r < 0 then do {
           fail_msg ''send net link req in failure!'' [] (sys_errno r);
           fail_flow os fd
         }
         else do {
           r \<leftarrow> call os (Poll fd 2000);
           if sys_ret r < 0 then do {
             fail_msg ''wait response in failure!'' [] (sys_errno r);
             fail_flow os fd
           }
           else do {
             r \<leftarrow> call os (RecvFrom fd 4096 0x60);
             if sys_ret r < 0 then do {
               fail_msg ''recv response in failure!'' [] (sys_errno r);
               fail_flow os fd
             }
             else if sys_ret r > 4096 then do {
               fail_msg ''recv response is too big! recvlen: %ld'' [ArgI (sys_ret r)] (sys_errno r);
               fail_flow os fd
             }
             else do {
               pid \<leftarrow> call os GetPid;
               left \<leftarrow> nl_loop lc (sys_ret pid) (req_family lc dst) (overlay (sys_data r) buf0) 0 (sys_ret r);
               case left of
                 None \<Rightarrow> exit_with Undefined
               | Some msglen \<Rightarrow>
                   if msglen > 0 then do {
                     fail_msg ''parse data has remnant of size : %ld'' [ArgI msglen] (sys_errno pid);
                     fail_flow os fd
                   }
                   else do {
                     printf ''\<newline>test program will exit!\<newline>'' [];
                     call os (Close fd);
                     exit_with (Exit 0)
                   }
             }
           }
         }
       }
     }
   }"


subsection \<open>Descriptors\<close>

lemma wp_print_rta [wp_rules]: "(\<And>x. Q x s) \<Longrightarrow> wp step (print_rta fmt rd slot) Q s"
  unfolding print_rta_def by (intro wp_rules)

lemma wp_print_rtas [wp_rules]: "(\<And>x. Q x s) \<Longrightarrow> wp step (print_rtas lc family m tb) Q s"
  unfolding print_rtas_def by (intro wp_rules)

lemma wp_nl_filter_route [wp_rules]:
  "(\<And>x. Q x s) \<Longrightarrow> wp step (nl_filter_route lc family m n t) Q s"
  unfolding nl_filter_route_def by (intro wp_rules)

lemma wp_nl_message [wp_rules]: "(\<And>x. Q x s) \<Longrightarrow> wp step (nl_message lc pid family m h n) Q s"
  unfolding nl_message_def by (intro wp_rules)

lemma wp_nl_next [wp_rules]:
  "(x = NlNext \<Longrightarrow> wp step p Q s) \<Longrightarrow> (x = NlBreak \<Longrightarrow> wp step q Q s) \<Longrightarrow>
    wp step (case x of NlNext \<Rightarrow> p | NlBreak \<Rightarrow> q) Q s"
  by (cases x) simp_all

lemma wp_nl_loop: "(\<And>x. Q x s) \<Longrightarrow> wp step (nl_loop lc pid family m h msglen) Q s"
proof (induction lc pid family m h msglen rule: nl_loop.induct)
  case (1 lc pid family m h msglen)
  show ?case
    by (subst nl_loop.simps) (intro wp_rules 1)
qed

lemma wp_fail [wp_rules]:
  "Q () s \<Longrightarrow> wp step (fail_msg fmt as e) Q s"
  "fd \<in> set fds \<Longrightarrow> R (Exit (- 1)) (remove1 fd fds) \<Longrightarrow> wp sock_step (fail_flow os fd) R fds"
  unfolding fail_msg_def fail_flow_def by (intro wp_rules; assumption)+

text \<open>\<open>getroute\<close> makes every call on its open netlink socket and has closed it when it exits, on
  the normal path and on every failure path, whatever the kernel answers.\<close>

theorem getroute_balanced: "fd_balanced (getroute_main os lc buf0 errno0 argv)"
  unfolding fd_balanced_def getroute_main_def by (intro allI wp_rules wp_nl_loop) auto

subsection \<open>The attribute table\<close>

definition attr_table :: "bytes \<Rightarrow> (nat \<rightharpoonup> nat) \<Rightarrow> nat list \<Rightarrow> (nat \<rightharpoonup> nat)" where
  "attr_table m tb offs t =
    (let same = filter (\<lambda>x. rta_type_at m x = Some t) offs
     in if t \<le> RTA_MAX \<and> same \<noteq> [] then Some (last same) else tb t)"

lemma attr_table_Cons:
  "rta_type_at m x = Some u \<Longrightarrow>
    attr_table m tb (x # offs) = attr_table m (if u \<le> RTA_MAX then tb(u \<mapsto> x) else tb) offs"
  by (rule ext) (auto simp: attr_table_def Let_def)

lemma rta_type_in_bounds: "i + 4 \<le> length m \<Longrightarrow> \<exists>t. rta_type_at m i = Some t"
  by (simp add: rta_type_at_def load16_def load_bytes_def)

lemma rta_loop_eq:
  assumes "int rta + len \<le> int (length m)"
  shows "rta_loop m rta len tb =
    map_option (\<lambda>(offs, rest). attr_table m tb offs) (tlv_seq 4 rta_len_at m rta len)"
  using assms
proof (induction m rta len tb rule: rta_loop.induct)
  case (1 m rta len tb)
  have stop: "attr_table m tb [] = tb"
    by (simp add: attr_table_def fun_eq_iff)
  show ?case
  proof (cases "len < 4")
    case True
    then show ?thesis
      by (subst rta_loop.simps, subst tlv_seq.simps) (simp add: stop)
  next
    case False
    then obtain l u where lu: "rta_len_at m rta = Some l" "rta_type_at m rta = Some u"
      using rta.lenf_in_bounds [of rta m] rta_type_in_bounds [of rta m] 1(2) by fastforce
    with False 1 show ?thesis
      by (subst rta_loop.simps, subst tlv_seq.simps)
        (auto simp: attr_table_Cons stop option.map_comp comp_def split_beta)
  qed
qed




subsection \<open>Reads stay in the receive buffer\<close>

text \<open>
  What the program takes for granted of the attributes it prints: interface and table numbers have
  four bytes, the destination has the size of an address, and a source attribute is followed by a zero
  byte somewhere in the buffer (it is printed as a string).
\<close>

definition attr_sized :: "int \<Rightarrow> bytes \<Rightarrow> nat \<Rightarrow> bool" where
  "attr_sized family m x \<longleftrightarrow>
    (case (rta_type_at m x, rta_len_at m x) of
       (Some t, Some l) \<Rightarrow>
         (t \<in> {RTA_TABLE, RTA_IIF, RTA_OIF} \<longrightarrow> 8 \<le> l) \<and>
         (t = RTA_DST \<longrightarrow> (if family = AF_INET6 then 20 else 8) \<le> l) \<and>
         (t = RTA_SRC \<longrightarrow> 0 \<in> set (drop (x + 4) m))
     | _ \<Rightarrow> False)"

definition message_sized :: "int \<Rightarrow> bytes \<Rightarrow> nat \<Rightarrow> bool" where
  "message_sized family m h \<longleftrightarrow>
    (case nlmsg_len_at m h of
       None \<Rightarrow> False
     | Some l \<Rightarrow>
         case tlv_seq 4 rta_len_at m (h + 28) (int l - 28) of
           None \<Rightarrow> False
         | Some (offs, rest) \<Rightarrow> list_all (attr_sized family m) offs)"

lemma load_in_bounds:
  "i + 2 \<le> length m \<Longrightarrow> \<exists>w. load16 m i = Some w"
  "i + 4 \<le> length m \<Longrightarrow> \<exists>v. load32 m i = Some v"
  "i + 16 \<le> length m \<Longrightarrow> \<exists>n. load_nlmsghdr m i = Some n"
  by (auto simp: load16_def load32_def load_bytes_def load_nlmsghdr_def)

lemma attr_table_member:
  assumes "attr_table m Map.empty offs t = Some x"
  shows "x \<in> set offs" "rta_type_at m x = Some t"
proof -
  let ?same = "filter (\<lambda>x. rta_type_at m x = Some t) offs"
  have "x = last ?same" "?same \<noteq> []"
    using assms by (auto simp: attr_table_def Let_def split: if_splits)
  then have "x \<in> set ?same"
    using last_in_set by blast
  then show "x \<in> set offs" "rta_type_at m x = Some t"
    by simp_all
qed

lemma result_print_rta:
  "(\<And>x. slot = Some x \<Longrightarrow> rd x \<noteq> None) \<Longrightarrow> result (print_rta fmt rd slot) h = Some ()"
  by (auto simp: print_rta_def result_bind split: option.splits)

lemma print_rtas_in_bounds:
  assumes "\<And>x. x \<in> set offs \<Longrightarrow> attr_sized family m x"
    and "\<And>x. x \<in> set offs \<Longrightarrow> \<exists>l. rta_len_at m x = Some l \<and> x + l \<le> length m"
  shows "result (print_rtas lc family m (attr_table m Map.empty offs)) h = Some ()"
proof -
  have slot: "\<exists>l. rta_len_at m x = Some l \<and> x + l \<le> length m \<and>
      (t \<in> {RTA_TABLE, RTA_IIF, RTA_OIF} \<longrightarrow> 8 \<le> l) \<and>
      (t = RTA_DST \<longrightarrow> (if family = AF_INET6 then 20 else 8) \<le> l) \<and>
      (t = RTA_SRC \<longrightarrow> 0 \<in> set (drop (x + 4) m))"
    if "attr_table m Map.empty offs t = Some x" for t x
    using attr_table_member [OF that] assms [of x] by (fastforce simp: attr_sized_def)
  have int4: "rta_int m x \<noteq> None"
    if "attr_table m Map.empty offs t = Some x" "t \<in> {RTA_TABLE, RTA_IIF, RTA_OIF}" for t x
    using slot [OF that(1)] that(2) load_in_bounds(2) [of "x + 4" m] by (auto simp: rta_int_def)
  have addr: "rta_addr lc family m x \<noteq> None" if "attr_table m Map.empty offs RTA_DST = Some x" for x
    using slot [OF that] by (auto simp: rta_addr_def load_bytes_def split: if_splits)
  have str: "c_string m (x + 4) \<noteq> None" if "attr_table m Map.empty offs RTA_SRC = Some x" for x
    using slot [OF that] by (auto simp: c_string_def)
  show ?thesis
    unfolding print_rtas_def result_bind
    by (simp add: result_print_rta int4 addr str)
qed


lemma to_int32_small: "- 2147483648 \<le> n \<Longrightarrow> n < 2147483648 \<Longrightarrow> to_int32 n = n"
  by (simp add: to_int32_def sint_sbintrunc' signed_take_bit_int_eq_self)

lemma nl_filter_route_in_bounds:
  assumes "load_nlmsghdr m h = Some n" "16 \<le> unat (nlmsg_len n)" "h + unat (nlmsg_len n) \<le> length m"
    and "length m = 4096" "message_sized family m h"
  shows "result (nl_filter_route lc family m h t) hist \<noteq> None"
proof -
  let ?l = "unat (nlmsg_len n)"
  have len: "load32 m h = Some (nlmsg_len n)"
    using assms(1) by (auto simp: load_nlmsghdr_def split: Option.bind_splits)
  obtain ty where ty: "load16 m (h + 4) = Some ty"
    using load_in_bounds(1) [of "h + 4" m] assms(2,3) by auto
  have u: "uint (nlmsg_len n) = int ?l"
    by simp
  have small: "to_int32 (uint (nlmsg_len n) - 28) = int ?l - 28"
    unfolding u by (rule to_int32_small) (use assms(3,4) in linarith)+
  show ?thesis
  proof (cases "int ?l - 28 < 0")
    case True
    then show ?thesis
      unfolding nl_filter_route_def by (simp add: result_bind len ty small Let_def)
  next
    case False
    then have "28 \<le> ?l"
      by linarith
    then have rtm: "load_bytes m (h + 16) 12 \<noteq> None"
      using assms(3) by (simp add: load_bytes_def)
    have bound: "int (h + 28) + (int ?l - 28) \<le> int (length m)"
      using assms(3) by linarith
    obtain offs rest where w: "tlv_seq 4 rta_len_at m (h + 28) (int ?l - 28) = Some (offs, rest)"
      using rta.walk_in_bounds [OF bound] by blast
    have loop: "rta_loop m (h + 28) (int ?l - 28) Map.empty = Some (attr_table m Map.empty offs)"
      using rta_loop_eq [OF bound, of Map.empty] w by simp
    have "attr_sized family m x" if "x \<in> set offs" for x
      using assms(5) w that len by (simp add: message_sized_def nlmsg_len_at_def list_all_iff)
    moreover have "\<exists>l. rta_len_at m x = Some l \<and> x + l \<le> length m" if "x \<in> set offs" for x
      using rta.walk_member [OF w that] bound by fastforce
    ultimately have "result (print_rtas lc family m (attr_table m Map.empty offs)) g = Some ()" for g
      by (rule print_rtas_in_bounds)
    then show ?thesis
      using False rtm loop unfolding nl_filter_route_def
      by (auto simp: result_bind len ty small Let_def)
  qed
qed

lemma nl_message_in_bounds:
  assumes "load_nlmsghdr m h = Some n" "16 \<le> unat (nlmsg_len n)" "h + unat (nlmsg_len n) \<le> length m"
    and "length m = 4096" "message_sized family m h"
  shows "result (nl_message lc pid family m h n) hist \<noteq> None"
proof -
  have err: "load32 m (h + 16) \<noteq> None" "load_nlmsghdr m (h + 20) \<noteq> None" if "\<not> nlmsg_len n < 36"
    using that assms(3) load_in_bounds(2) [of "h + 16" m] load_in_bounds(3) [of "h + 20" m]
    by (auto simp: word_less_nat_alt)
  have "result (nl_filter_route lc family m h t) g \<noteq> None" for t g
    using nl_filter_route_in_bounds [OF assms] .
  with err show ?thesis
    unfolding nl_message_def by (auto simp: result_bind)
qed

lemma nl_loop_in_bounds:
  assumes "length m = 4096" "int h + msglen \<le> 4096"
    and "tlv_seq 16 nlmsg_len_at m h msglen = Some (offs, rest)" "list_all (message_sized family m) offs"
  shows "\<exists>left. result (nl_loop lc pid family m h msglen) hist = Some left"
  using assms(2-4)
proof (induction "nat msglen" arbitrary: h msglen offs hist rule: less_induct)
  case less
  show ?case
  proof (cases "msglen < 16")
    case False
    then obtain n where n: "load_nlmsghdr m h = Some n"
      using load_in_bounds(3) [of h m] less.prems(1) assms(1) by fastforce
    let ?l = "unat (nlmsg_len n)"
    have len: "nlmsg_len_at m h = Some ?l"
      using n by (auto simp: nlmsg_len_at_def load_nlmsghdr_def split: Option.bind_splits)
    show ?thesis
    proof (cases "16 \<le> ?l \<and> int ?l \<le> msglen")
      case True
      with len False less.prems(2) obtain offs' where w: "offs = h # offs'"
          "tlv_seq 16 nlmsg_len_at m (h + align4 ?l) (msglen - int (align4 ?l)) = Some (offs', rest)"
        by (subst (asm) tlv_seq.simps) auto
      obtain nx where nx: "result (nl_message lc pid family m h n) hist = Some nx"
        using nl_message_in_bounds [OF n, of family lc pid hist] True less.prems w(1) assms(1) by auto
      have "\<exists>left. result (nl_loop lc pid family m (h + align4 ?l) (msglen - int (align4 ?l))) g = Some left" for g
        using True less.prems w by (intro less.hyps [OF tlv_decreases]) auto
      then show ?thesis
        using False True n nx by (subst nl_loop.simps) (simp add: result_bind split: nl_next.split)
    qed (use False n in \<open>subst nl_loop.simps, auto\<close>)
  qed (subst nl_loop.simps, simp)
qed

text \<open>An answer that \<open>recvfrom\<close> stores over \<open>buf0\<close>: when it fits, its messages are sized.\<close>

definition answer_sized :: "bytes \<Rightarrow> sysret \<Rightarrow> bool" where
  "answer_sized buf0 r \<longleftrightarrow>
    (case tlv_seq 16 nlmsg_len_at (overlay (sys_data r) buf0) 0 (min 4096 (sys_ret r)) of
       None \<Rightarrow> False
     | Some (offs, rest) \<Rightarrow>
         list_all (\<lambda>h. list_all (\<lambda>family. message_sized family (overlay (sys_data r) buf0) h)
           [AF_INET, AF_INET6]) offs)"

lemma wp_nl_loop_defined:
  assumes "length buf0 = 4096" "answer_sized buf0 r" "sys_ret r \<le> 4096" "family \<in> {AF_INET, AF_INET6}"
    and "\<And>left. Q (Some left) s"
  shows "wp step (nl_loop lc pid family (overlay (sys_data r) buf0) 0 (sys_ret r)) Q s"
proof -
  let ?m = "overlay (sys_data r) buf0"
  have len: "length ?m = 4096"
    using assms(1) by (simp add: overlay_def)
  obtain offs rest where w: "tlv_seq 16 nlmsg_len_at ?m 0 (sys_ret r) = Some (offs, rest)"
      "list_all (message_sized family ?m) offs"
    using assms(2-4) by (auto simp: answer_sized_def list_all_iff min_def split: option.splits if_splits)
  have "result (nl_loop lc pid family ?m 0 (sys_ret r)) hist \<noteq> None" for hist
    using nl_loop_in_bounds [OF len _ w, of lc pid hist] assms(3) by auto
  then have "wp step (nl_loop lc pid family ?m 0 (sys_ret r)) (\<lambda>x t. t = s \<and> x \<noteq> None) s"
    by (intro wp_result wp_nl_loop) simp_all
  then show ?thesis
    by (rule wp_mono) (use assms(5) in auto)
qed

text \<open>C7: whatever the kernel answers, when the attributes of the answer have the sizes the program
  expects, \<open>getroute\<close> visits every message, reads nothing outside its buffer and ends with an exit
  code; an answer longer than the buffer is reported and not parsed.\<close>

theorem getroute_defined:
  assumes "length buf0 = 4096" "\<And>h fd. answer_sized buf0 (os h (RecvFrom fd 4096 0x60))"
  shows "result (getroute_main os lc buf0 errno0 argv) [] \<in> {Exit 0, Exit (- 1)}"
proof (rule wp_logD [of "getroute_main os lc buf0 errno0 argv" "\<lambda>res log. res \<in> {Exit 0, Exit (- 1)}"])
  have recv: "wp log_step (call os (RecvFrom fd 4096 0x60)) Q log"
    if "\<And>r. answer_sized buf0 r \<Longrightarrow> Q r (log @ [(RecvFrom fd 4096 0x60, r)])" for fd Q log
    by (rule wp_call_law [where L = "\<lambda>_. answer_sized buf0"]) (use assms(2) that in \<open>auto simp: log_step_def\<close>)
  have call: "wp log_step (call os c) Q log" if "c = Socket d t p \<or> c = Close fd \<or> c = Send fd b \<or>
      c = Poll fd ms \<or> c = GetPid" "\<And>r. Q r (log @ [(c, r)])" for c d t p fd b ms Q log
    using that(2) by (rule wp_log_call)
  show "wp log_step (getroute_main os lc buf0 errno0 argv) (\<lambda>res log. res \<in> {Exit 0, Exit (- 1)}) []"
    unfolding getroute_main_def fail_flow_def
    by (intro wp_rules recv call wp_nl_loop_defined; (simp add: assms(1) req_family_def | blast)?)
qed


theorem getroute_defined_witness:
  "length (replicate 4096 (0 :: u8)) = 4096 \<and>
   (\<forall>fd. answer_sized (replicate 4096 0) (os_const 0 [] (RecvFrom fd 4096 0x60))) \<and>
   result (getroute_main (os_const 0) libc_none (replicate 4096 0) 0 [''getroute'', ''::1'']) []
     \<in> {Exit 0, Exit (- 1)}"
proof -
  have "answer_sized (replicate 4096 0) (os_const 0 h c)" for h and c :: sock_call
    by (simp add: answer_sized_def os_const_def tlv_seq.simps)
  then show ?thesis
    using getroute_defined [of "replicate 4096 0" "os_const 0" libc_none 0 "[''getroute'', ''::1'']"] by simp
qed

subsection \<open>The request\<close>

lemma length_le32 [simp]: "length (le32 w) = 4"
  by (simp add: le32_def)

lemma of_le32_le32: "of_le32 (le32 w) = w"
proof -
  have low: "ucast (ucast w :: u16) = take_bit 16 w"
    by (rule bit_word_eqI) (auto simp: bit_simps)
  have high: "ucast (ucast (drop_bit 16 w) :: u16) = drop_bit 16 w"
    by (rule bit_word_eqI) (auto simp: bit_simps dest: bit_imp_le_length)
  show ?thesis
    using bits_ident [of 16 w]
    by (simp add: of_le32_def le32_def le16_def of_le16_le16 low high add.commute flip: drop_bit_eq_div)
qed

lemma load_le:
  "load_bytes m i 2 = Some (le16 v) \<Longrightarrow> load16 m i = Some v"
  "load_bytes m i 4 = Some (le32 w) \<Longrightarrow> load32 m i = Some w"
  by (simp_all add: load16_def load32_def of_le32_le32) (simp add: le16_def of_le16_le16)


text \<open>C19: the request is a well-formed netlink message, readable by the program's own walks: 96 bytes
  with a header of the length up to the end of its one attribute, which is the destination and holds the
  address of the family.\<close>

theorem request_well_formed:
  assumes "pton_sizes lc"
  shows "let req = getroute_req lc ack dst; v4 = (pton6 lc dst = None); n = (if v4 then 4 else 16)
    in length req = 96 \<and>
      load_nlmsghdr req 0 = Some \<lparr>nlmsg_len = of_nat (32 + n), nlmsg_type = RTM_GETROUTE,
        nlmsg_flags = (if ack then 5 else 1), nlmsg_seq = 1, nlmsg_pid = 1234\<rparr> \<and>
      tlv_seq 4 rta_len_at req 28 (int (32 + n) - 28) = Some ([28], 0) \<and>
      rta_type_at req 28 = Some RTA_DST \<and>
      load_bytes req 16 1 = Some [if v4 then 2 else 10] \<and>
      load_bytes req 32 n = Some (if v4 then inet_pton (pton4 lc) dst (replicate 4 0)
        else inet_pton (pton6 lc) dst (replicate 16 0))"
proof -
  define v4 where "v4 \<longleftrightarrow> pton6 lc dst = None"
  define n where "n = (if v4 then 4 else 16 :: nat)"
  define a where "a = (if v4 then inet_pton (pton4 lc) dst (replicate 4 0)
        else inet_pton (pton6 lc) dst (replicate 16 0))"
  have a: "length a = n"
    using length_inet_pton [OF assms] by (simp add: a_def n_def)
  have n: "n = 4 \<or> n = 16"
    by (simp add: n_def)
  let ?req = "getroute_req lc ack dst"
  have req: "?req = le32 (of_nat (32 + n)) @ le16 26 @ le16 (if ack then 5 else 1) @ le32 1 @ le32 1234 @
        [if v4 then 2 else 10, 0, 0, 0, 0, 0, 0, 0] @ le32 0 @
        le16 (of_nat (4 + n)) @ le16 1 @ a @ replicate (64 - n) 0"
    using a by (auto simp: getroute_req_def req_family_def rta_length_def Let_def v4_def n_def a_def)
  have loads: "load_bytes ?req 0 4 = Some (le32 (of_nat (32 + n)))" "load_bytes ?req 4 2 = Some (le16 26)"
      "load_bytes ?req 6 2 = Some (le16 (if ack then 5 else 1))" "load_bytes ?req 8 4 = Some (le32 1)"
      "load_bytes ?req 12 4 = Some (le32 1234)" "load_bytes ?req 16 1 = Some [if v4 then 2 else 10]"
      "load_bytes ?req 28 2 = Some (le16 (of_nat (4 + n)))" "load_bytes ?req 30 2 = Some (le16 1)"
      "load_bytes ?req 32 n = Some a" "length ?req = 96"
    using n a by (auto simp: req load_bytes_def)
  note fields = load_le(2) [OF loads(1)] load_le(1) [OF loads(2)] load_le(1) [OF loads(3)]
    load_le(2) [OF loads(4)] load_le(2) [OF loads(5)] load_le(1) [OF loads(7)] load_le(1) [OF loads(8)]
  have "rta_len_at ?req 28 = Some (4 + n)"
    using n by (auto simp: rta_len_at_def fields)
  then have "tlv_seq 4 rta_len_at ?req 28 (int (32 + n) - 28) = Some ([28], 0)"
    using n by (auto simp: tlv_seq.simps [of _ _ ?req 28] tlv_seq.simps [of 4 rta_len_at ?req _ 0] align4_def)
  moreover have "load_nlmsghdr ?req 0 = Some \<lparr>nlmsg_len = of_nat (32 + n), nlmsg_type = 26,
        nlmsg_flags = (if ack then 5 else 1), nlmsg_seq = 1, nlmsg_pid = 1234\<rparr>"
    by (simp add: load_nlmsghdr_def fields)
  moreover have "rta_type_at ?req 28 = Some 1"
    by (simp add: rta_type_at_def fields)
  ultimately show ?thesis
    using loads by (simp add: Let_def n_def v4_def a_def split: if_splits)
qed

theorem request_well_formed_witness:
  "pton_sizes libc_none \<and> length (getroute_req libc_none True ''192.0.2.1'') = 96 \<and>
   rta_type_at (getroute_req libc_none True ''192.0.2.1'') 28 = Some RTA_DST"
  using request_well_formed [of libc_none True "''192.0.2.1''"]
  by (simp add: pton_sizes_def libc_none_def Let_def)

text \<open>The monitor that admits only one request.\<close>

fun sent_step :: "bytes \<Rightarrow> sock_call \<Rightarrow> sysret \<Rightarrow> unit \<Rightarrow> unit option" where
  "sent_step d (Send fd b) r s = (if b = d then Some s else None)"
| "sent_step d c r s = Some s"

lemma wp_sent_step:
  "(\<And>r. Q r ()) \<Longrightarrow> wp (sent_step d) (call os (Send fd d)) Q ()"
  "(\<And>r. Q r ()) \<Longrightarrow> wp (sent_step d) (call os (Socket x y z)) Q ()"
  "(\<And>r. Q r ()) \<Longrightarrow> wp (sent_step d) (call os (Close fd)) Q ()"
  "(\<And>r. Q r ()) \<Longrightarrow> wp (sent_step d) (call os (Poll fd ms)) Q ()"
  "(\<And>r. Q r ()) \<Longrightarrow> wp (sent_step d) (call os (RecvFrom fd k fl)) Q ()"
  "(\<And>r. Q r ()) \<Longrightarrow> wp (sent_step d) (call os GetPid) Q ()"
  by (rule wp_call, simp)+

text \<open>With \<open>-a\<close> the program looks up the option word instead of the destination: the request it sends
  is the one for the string \<open>-a\<close>, whatever destination follows.\<close>

theorem ack_request_ignores_destination:
  "monitor (sent_step (getroute_req lc True ''-a'')) ()
     (final (getroute_main os lc buf0 errno0 [prog, ''-a'', dst]) []) = Some ()"
proof -
  have opts: "fst (getopt ''a'' [''-a'', dst]) \<noteq> []"
    by (simp add: split_beta)
  have dst: "argv1_after_getopt [prog, ''-a'', dst] = ''-a''"
    by (simp add: argv1_after_getopt_def)
  have "wp (sent_step (getroute_req lc True ''-a'')) (getroute_main os lc buf0 errno0 [prog, ''-a'', dst])
      (\<lambda>_ _. True) ()"
    unfolding getroute_main_def fail_flow_def Let_def split_beta dst list.sel
    using opts by (simp only: simp_thms) (intro wp_rules wp_sent_step wp_nl_loop TrueI)
  from wpD [OF this, of "()" "[]"] show ?thesis
    by simp
qed

end
