(* ===== verification/RouteReport.thy ===== *)
theory RouteReport
  imports Netlink
begin

text \<open>
  What \<open>netlink/getroute.c\<close> reports.  Answers of the kernel are built here by an encoder, which lays out attributes and
  messages as \<open>linux/rtnetlink.h\<close> describes them; the walks of the program are shown to be its inverse, and the report of
  the program is stated on the list of the attributes instead of on the bytes.
\<close>

subsection \<open>Encoded records\<close>

text \<open>An encoder for the records of a walk: it writes the length that \<open>lenf\<close> reads and pads the record to
  four bytes.\<close>

locale tlv_codec = tlv +
  fixes enc :: "'r \<Rightarrow> bytes" and rlen :: "'r \<Rightarrow> nat" and valid :: "'r \<Rightarrow> bool"
  assumes enc_len: "valid r \<Longrightarrow> lenf (pre @ enc r @ post) (length pre) = Some (rlen r)"
    and enc_size: "valid r \<Longrightarrow> length (enc r) = align4 (rlen r)"
    and hdr_le: "valid r \<Longrightarrow> hdr \<le> rlen r"
begin

primrec starts :: "nat \<Rightarrow> 'r list \<Rightarrow> nat list" where
  "starts off [] = []"
| "starts off (r # rs) = off # starts (off + length (enc r)) rs"

lemma starts_append: "starts off (rs @ rs') = starts off rs @ starts (off + length (concat (map enc rs))) rs'"
  by (induction rs arbitrary: off) (simp_all add: add.assoc)

lemma walk_encoded:
  "list_all valid rs \<Longrightarrow>
    tlv_seq hdr lenf (pre @ concat (map enc rs) @ post) (length pre) (int (length (concat (map enc rs)))) =
      Some (starts (length pre) rs, 0)"
proof (induction rs arbitrary: pre)
  case Nil
  then show ?case
    using hdr_pos by (simp add: tlv_seq.simps)
next
  case (Cons r rs)
  let ?m = "pre @ concat (map enc (r # rs)) @ post"
  have r: "lenf ?m (length pre) = Some (rlen r)" "length (enc r) = align4 (rlen r)" "hdr \<le> rlen r" "rlen r \<le> align4 (rlen r)"
    using Cons.prems enc_len [of r pre "concat (map enc rs) @ post"] enc_size [of r] hdr_le [of r] align4_bounds(1) by simp_all
  have "tlv_seq hdr lenf ?m (length pre + align4 (rlen r)) (int (length (concat (map enc rs)))) =
      Some (starts (length pre + align4 (rlen r)) rs, 0)"
    using Cons.IH [of "pre @ enc r"] Cons.prems by (simp add: r(2))
  then show ?case
    using r hdr_pos by (subst tlv_seq.simps) simp
qed

end

subsection \<open>Attributes\<close>

text \<open>An attribute is its type and its data.\<close>

type_synonym rtattr = "nat \<times> bytes"

definition enc_attr :: "rtattr \<Rightarrow> bytes" where
  "enc_attr a = le16 (of_nat (4 + length (snd a))) @ le16 (of_nat (fst a)) @ snd a @
     replicate (align4 (4 + length (snd a)) - (4 + length (snd a))) 0"

definition attr_ok :: "rtattr \<Rightarrow> bool" where
  "attr_ok a \<longleftrightarrow> fst a < 65536 \<and> 4 + length (snd a) < 65536"

lemma load_bytes_at: "load_bytes (pre @ bs @ post) (length pre) (length bs) = Some bs"
  by (simp add: load_bytes_def)

lemma load16_at: "load16 (pre @ le16 v @ post) (length pre) = Some v"
  using load_le(1) [OF load_bytes_at [of pre "le16 v" post, unfolded length_le16]] .

lemma load32_at: "load32 (pre @ le32 w @ post) (length pre) = Some w"
  using load_le(2) [OF load_bytes_at [of pre "le32 w" post, unfolded length_le32]] .

lemma enc_attr_fields:
  assumes "attr_ok a"
  shows "rta_len_at (pre @ enc_attr a @ post) (length pre) = Some (4 + length (snd a))"
    and "rta_type_at (pre @ enc_attr a @ post) (length pre) = Some (fst a)"
    and "n \<le> length (snd a) \<Longrightarrow> load_bytes (pre @ enc_attr a @ post) (length pre + 4) n = Some (take n (snd a))"
proof -
  let ?rest = "snd a @ replicate (align4 (4 + length (snd a)) - (4 + length (snd a))) 0 @ post"
  have small: "unat (of_nat (4 + length (snd a)) :: u16) = 4 + length (snd a)" "unat (of_nat (fst a) :: u16) = fst a"
    using assms by (simp_all add: attr_ok_def unat_of_nat del: of_nat_add)
  show "rta_len_at (pre @ enc_attr a @ post) (length pre) = Some (4 + length (snd a))"
    using load16_at [of pre "of_nat (4 + length (snd a))" "le16 (of_nat (fst a)) @ ?rest"] small(1)
    by (simp add: rta_len_at_def enc_attr_def del: of_nat_add)
  show "rta_type_at (pre @ enc_attr a @ post) (length pre) = Some (fst a)"
    using load16_at [of "pre @ le16 (of_nat (4 + length (snd a)))" "of_nat (fst a)" ?rest] small(2)
    by (simp add: rta_type_at_def enc_attr_def)
  show "load_bytes (pre @ enc_attr a @ post) (length pre + 4) n = Some (take n (snd a))" if "n \<le> length (snd a)"
    using that by (simp add: load_bytes_def enc_attr_def)
qed

interpretation rta_codec: tlv_codec 4 rta_len_at enc_attr "\<lambda>a. 4 + length (snd a)" attr_ok
proof unfold_locales
  show "length (enc_attr a) = align4 (4 + length (snd a))" for a
    using align4_bounds(1) [of "4 + length (snd a)"] by (simp add: enc_attr_def)
qed (simp_all add: enc_attr_fields)

text \<open>The data of the last attribute of a type.\<close>

definition last_attr :: "rtattr list \<Rightarrow> nat \<Rightarrow> bytes option" where
  "last_attr attrs t = map_of (rev attrs) t"

lemma last_attr_append: "last_attr (attrs @ [(u, d)]) t = (if t = u then Some d else last_attr attrs t)"
  by (simp add: last_attr_def)

text \<open>The table of the program points to the last attribute of each type.\<close>

lemma attr_table_encoded:
  assumes "list_all attr_ok attrs" "m = pre @ concat (map enc_attr attrs) @ post" "t \<le> RTA_MAX"
  shows "case last_attr attrs t of
      None \<Rightarrow> attr_table m Map.empty (rta_codec.starts (length pre) attrs) t = None
    | Some d \<Rightarrow> \<exists>p q. attr_table m Map.empty (rta_codec.starts (length pre) attrs) t = Some (length p) \<and>
        m = p @ enc_attr (t, d) @ q"
  using assms(1,2)
proof (induction attrs arbitrary: post rule: rev_induct)
  case Nil
  then show ?case
    by (simp add: last_attr_def attr_table_def)
next
  case (snoc a attrs)
  obtain u d where a: "a = (u, d)"
    by (cases a)
  let ?p = "pre @ concat (map enc_attr attrs)"
  let ?offs = "rta_codec.starts (length pre) attrs"
  have m: "m = ?p @ enc_attr (u, d) @ post"
    using snoc.prems by (simp add: a)
  have ty: "rta_type_at m (length ?p) = Some u"
    unfolding m using enc_attr_fields(2) [of "(u, d)" ?p post] snoc.prems(1) by (simp add: a)
  have table: "attr_table m Map.empty (rta_codec.starts (length pre) (attrs @ [a])) t =
      (if t = u then Some (length ?p) else attr_table m Map.empty ?offs t)"
    using ty assms(3) by (auto simp: attr_table_def Let_def rta_codec.starts_append)
  have IH: "case last_attr attrs t of None \<Rightarrow> attr_table m Map.empty ?offs t = None
    | Some d \<Rightarrow> \<exists>p q. attr_table m Map.empty ?offs t = Some (length p) \<and> m = p @ enc_attr (t, d) @ q"
    using snoc.IH [of "enc_attr a @ post"] snoc.prems by simp
  show ?case
  proof (cases "t = u")
    case True
    then have "attr_table m Map.empty (rta_codec.starts (length pre) (attrs @ [a])) t = Some (length ?p)" "m = ?p @ enc_attr (t, d) @ post"
      using table m by simp_all
    then show ?thesis
      unfolding a True last_attr_append by (simp, intro exI [of _ ?p] exI [of _ post] conjI) simp_all
  next
    case False
    with IH show ?thesis
      unfolding table unfolding a last_attr_append by simp
  qed
qed

subsection \<open>The report of one route\<close>

text \<open>
  The report on the level of attributes: the lines of \<open>print_rtas\<close> for the last attribute of each type it looks at.  A source
  attribute is left out here: the program prints its bytes as a string, so that its line depends on what
  follows in memory.
\<close>

definition attr_line :: "string \<Rightarrow> (bytes \<Rightarrow> arg) \<Rightarrow> rtattr list \<Rightarrow> nat \<Rightarrow> sock_call event list" where
  "attr_line fmt rd attrs t = (case last_attr attrs t of None \<Rightarrow> [] | Some d \<Rightarrow> [Printf fmt [rd d]])"

definition int_arg :: "bytes \<Rightarrow> arg" where
  "int_arg d = ArgI (sint (of_le32 (take 4 d)))"

definition addr_arg :: "libc \<Rightarrow> int \<Rightarrow> bytes \<Rightarrow> arg" where
  "addr_arg lc family d = ArgS (if family = AF_INET6 then ntop6 lc (take 16 d) else ntop4 lc (take 4 d))"

definition route_lines :: "libc \<Rightarrow> int \<Rightarrow> rtattr list \<Rightarrow> sock_call event list" where
  "route_lines lc family attrs =
     attr_line ''RTA_TABLE: %d\<newline>'' int_arg attrs RTA_TABLE @
     attr_line ''RTA_IIF: %d\<newline>'' int_arg attrs RTA_IIF @
     attr_line ''RTA_OIF: %d\<newline>'' int_arg attrs RTA_OIF @
     attr_line ''RTA_DST: %s\<newline>'' (addr_arg lc family) attrs RTA_DST"

text \<open>Attributes as the kernel sends them for a family.\<close>

definition attr_for :: "int \<Rightarrow> rtattr \<Rightarrow> bool" where
  "attr_for family a \<longleftrightarrow> attr_ok a \<and> fst a \<noteq> RTA_SRC \<and>
     (fst a \<in> {RTA_TABLE, RTA_IIF, RTA_OIF} \<longrightarrow> 4 \<le> length (snd a)) \<and>
     (fst a = RTA_DST \<longrightarrow> (if family = AF_INET6 then 16 else 4) \<le> length (snd a))"

text \<open>A program that prints some lines and makes no call.\<close>

definition prints :: "('c, 'a) prog \<Rightarrow> 'a \<Rightarrow> 'c event list \<Rightarrow> bool" where
  "prints p x lns \<longleftrightarrow> (\<forall>h. result p h = x \<and> final p h = rev lns @ h)"

lemma prints_bind: "prints p x lns \<Longrightarrow> prints (f x) y lns' \<Longrightarrow> prints (State_Monad.bind p f) y (lns @ lns')"
  by (simp add: prints_def result_bind final_bind)

lemma prints_simps:
  "prints (exit_with x) x []" "prints (printf f as) () [Printf f as]"
  by (simp_all add: prints_def result_def)

lemma print_rta_prints:
  assumes "list_all (attr_for family) attrs" "m = pre @ concat (map enc_attr attrs) @ post" "t \<le> RTA_MAX"
    and "\<And>p q d. attr_for family (t, d) \<Longrightarrow> m = p @ enc_attr (t, d) @ q \<Longrightarrow> rd (length p) = Some (arg d)"
  shows "prints (print_rta fmt rd (attr_table m Map.empty (rta_codec.starts (length pre) attrs) t)) (Some ())
    (attr_line fmt arg attrs t)"
proof -
  have ok: "list_all attr_ok attrs"
    using assms(1) by (auto simp: list_all_iff attr_for_def)
  have "attr_for family (t, d)" if "last_attr attrs t = Some d" for d
    using that assms(1) by (auto simp: last_attr_def list_all_iff dest!: map_of_SomeD)
  with attr_table_encoded [OF ok assms(2,3)] assms(4) show ?thesis
    by (fastforce simp: prints_def print_rta_def attr_line_def result_bind final_bind split: option.splits)
qed

lemma print_rtas_prints:
  assumes "list_all (attr_for family) attrs" "m = pre @ concat (map enc_attr attrs) @ post"
  shows "prints (print_rtas lc family m (attr_table m Map.empty (rta_codec.starts (length pre) attrs))) (Some ())
    (route_lines lc family attrs)"
proof -
  let ?tb = "attr_table m Map.empty (rta_codec.starts (length pre) attrs)"
  have data: "load_bytes m (length p + 4) n = Some (take n d)"
    if "attr_for family (t, d)" "m = p @ enc_attr (t, d) @ q" "n \<le> length d" for p q t d n
    using enc_attr_fields(3) [of "(t, d)" n p q] that by (simp add: attr_for_def)
  have int4: "map_option ArgI (rta_int m (length p)) = Some (int_arg d)"
    if "attr_for family (t, d)" "m = p @ enc_attr (t, d) @ q" "t \<in> {RTA_TABLE, RTA_IIF, RTA_OIF}" for p q t d
    using data [OF that(1,2), of 4] that(1,3) by (auto simp: rta_int_def load32_def int_arg_def attr_for_def)
  have addr: "map_option ArgS (rta_addr lc family m (length p)) = Some (addr_arg lc family d)"
    if "attr_for family (RTA_DST, d)" "m = p @ enc_attr (RTA_DST, d) @ q" for p q d
    using data [OF that, of 4] data [OF that, of 16] that(1) by (auto simp: rta_addr_def addr_arg_def attr_for_def split: if_splits)
  have src: "?tb RTA_SRC = None"
  proof -
    have "last_attr attrs RTA_SRC = None"
      using assms(1) by (force simp: last_attr_def map_of_eq_None_iff list_all_iff attr_for_def)
    moreover have "list_all attr_ok attrs"
      using assms(1) by (auto simp: list_all_iff attr_for_def)
    ultimately show ?thesis
      using attr_table_encoded [of attrs m pre post RTA_SRC] assms(2) by simp
  qed
  have ints: "prints (print_rta fmt (\<lambda>rta. map_option ArgI (rta_int m rta)) (?tb t)) (Some ()) (attr_line fmt int_arg attrs t)"
    if "t \<in> {RTA_TABLE, RTA_IIF, RTA_OIF}" for t fmt
    by (rule print_rta_prints [OF assms]) (use that int4 in auto)
  have addrs: "prints (print_rta fmt (\<lambda>rta. map_option ArgS (rta_addr lc family m rta)) (?tb RTA_DST)) (Some ())
      (attr_line fmt (addr_arg lc family) attrs RTA_DST)" for fmt
    by (rule print_rta_prints [OF assms]) (use addr in auto)
  show ?thesis
    using ints [of RTA_TABLE "''RTA_TABLE: %d\<newline>''"] ints [of RTA_IIF "''RTA_IIF: %d\<newline>''"] ints [of RTA_OIF "''RTA_OIF: %d\<newline>''"]
      addrs [of "''RTA_DST: %s\<newline>''"] src
    by (simp add: prints_def print_rtas_def route_lines_def result_bind final_bind print_rta_def [of _ _ None])
qed

subsection \<open>The report of an answer\<close>

text \<open>A route message: flags, sequence number and sender of its header, the twelve bytes of its \<open>rtmsg\<close> and its
  attributes.\<close>

record route_msg =
  rm_flags :: u16
  rm_seq :: u32
  rm_pid :: u32
  rm_rtmsg :: bytes
  rm_attrs :: "rtattr list"

definition msg_len :: "route_msg \<Rightarrow> nat" where
  "msg_len msg = 28 + length (concat (map enc_attr (rm_attrs msg)))"

definition enc_msg :: "route_msg \<Rightarrow> bytes" where
  "enc_msg msg = le32 (of_nat (msg_len msg)) @ le16 RTM_NEWROUTE @ le16 (rm_flags msg) @ le32 (rm_seq msg) @ le32 (rm_pid msg) @
     rm_rtmsg msg @ concat (map enc_attr (rm_attrs msg))"

definition msg_ok :: "route_msg \<Rightarrow> bool" where
  "msg_ok msg \<longleftrightarrow> length (rm_rtmsg msg) = 12 \<and> list_all attr_ok (rm_attrs msg) \<and> msg_len msg \<le> 4096"

lemma align4_enc_attrs: "align4 (28 + length (concat (map enc_attr attrs))) = 28 + length (concat (map enc_attr attrs))"
proof -
  have size: "length (enc_attr a) = align4 (4 + length (snd a))" for a
    using align4_bounds(1) [of "4 + length (snd a)"] by (simp add: enc_attr_def)
  have "4 dvd length (concat (map enc_attr attrs))"
    by (induction attrs) (simp_all add: size align4_def)
  then obtain k where "length (concat (map enc_attr attrs)) = 4 * k" ..
  then show ?thesis
    by (simp add: align4_def)
qed

lemma enc_msg_header:
  assumes "msg_ok msg"
  shows "load_nlmsghdr (pre @ enc_msg msg @ post) (length pre) =
    Some \<lparr>nlmsg_len = of_nat (msg_len msg), nlmsg_type = RTM_NEWROUTE, nlmsg_flags = rm_flags msg, nlmsg_seq = rm_seq msg,
      nlmsg_pid = rm_pid msg\<rparr>"
    and "unat (of_nat (msg_len msg) :: u32) = msg_len msg"
    and "length (enc_msg msg) = msg_len msg"
    and "nlmsg_len_at (pre @ enc_msg msg @ post) (length pre) = Some (msg_len msg)"
proof -
  let ?tail = "rm_rtmsg msg @ concat (map enc_attr (rm_attrs msg)) @ post"
  note at = load32_at [of pre "of_nat (msg_len msg)" "le16 RTM_NEWROUTE @ le16 (rm_flags msg) @ le32 (rm_seq msg) @ le32 (rm_pid msg) @ ?tail"]
    load16_at [of "pre @ le32 (of_nat (msg_len msg))" RTM_NEWROUTE "le16 (rm_flags msg) @ le32 (rm_seq msg) @ le32 (rm_pid msg) @ ?tail"]
    load16_at [of "pre @ le32 (of_nat (msg_len msg)) @ le16 RTM_NEWROUTE" "rm_flags msg" "le32 (rm_seq msg) @ le32 (rm_pid msg) @ ?tail"]
    load32_at [of "pre @ le32 (of_nat (msg_len msg)) @ le16 RTM_NEWROUTE @ le16 (rm_flags msg)" "rm_seq msg" "le32 (rm_pid msg) @ ?tail"]
    load32_at [of "pre @ le32 (of_nat (msg_len msg)) @ le16 RTM_NEWROUTE @ le16 (rm_flags msg) @ le32 (rm_seq msg)" "rm_pid msg" ?tail]
  show "load_nlmsghdr (pre @ enc_msg msg @ post) (length pre) =
    Some \<lparr>nlmsg_len = of_nat (msg_len msg), nlmsg_type = RTM_NEWROUTE, nlmsg_flags = rm_flags msg, nlmsg_seq = rm_seq msg,
      nlmsg_pid = rm_pid msg\<rparr>"
    using at by (simp add: load_nlmsghdr_def enc_msg_def)
  show len: "unat (of_nat (msg_len msg) :: u32) = msg_len msg"
    using assms by (simp add: msg_ok_def unat_of_nat)
  show "length (enc_msg msg) = msg_len msg"
    using assms by (simp add: enc_msg_def msg_len_def msg_ok_def)
  show "nlmsg_len_at (pre @ enc_msg msg @ post) (length pre) = Some (msg_len msg)"
    using at(1) len by (simp add: nlmsg_len_at_def enc_msg_def)
qed

interpretation nlm_codec: tlv_codec 16 nlmsg_len_at enc_msg msg_len msg_ok
proof unfold_locales
  show "length (enc_msg msg) = align4 (msg_len msg)" if "msg_ok msg" for msg
    using enc_msg_header(3) [OF that] align4_enc_attrs by (simp add: msg_len_def)
qed (simp_all add: enc_msg_header msg_len_def)

text \<open>What the program prints for a message.\<close>

definition msg_lines :: "libc \<Rightarrow> int \<Rightarrow> route_msg \<Rightarrow> sock_call event list" where
  "msg_lines lc family msg =
     [Printf ''get response nlmsg: %u ...\<newline>'' [ArgI 24],
      Printf ''recv para: %p\<newline>'' [ArgI 0],
      Printf ''come from route netlink message\<newline>rtm_family:     %u\<newline>rtm_dst_len:    %u\<newline>rtm_src_len:    %u\<newline>rtm_table:      %u\<newline>rtm_protocol:   %u\<newline>rtm_scope:      %u\<newline>''
        (map (\<lambda>i. ArgI (uint (rm_rtmsg msg ! i))) [0, 1, 2, 4, 5, 6]),
      Printf ''\<newline>come from following rta(s)\<newline>'' []] @
     route_lines lc family (rm_attrs msg)"

text \<open>A message that answers the request: from the process or with the number it used, and with attributes for
  the family.\<close>

definition msg_for :: "int \<Rightarrow> int \<Rightarrow> route_msg \<Rightarrow> bool" where
  "msg_for family pid msg \<longleftrightarrow> msg_ok msg \<and> list_all (attr_for family) (rm_attrs msg) \<and>
     rm_pid msg \<noteq> 0 \<and> (rm_pid msg = req_pid \<or> sint (rm_pid msg) = pid)"

lemma nl_message_prints:
  assumes "msg_for family pid msg" "m = pre @ enc_msg msg @ post" "load_nlmsghdr m (length pre) = Some n"
  shows "prints (nl_message lc pid family m (length pre) n) (Some NlNext) (msg_lines lc family msg)"
proof -
  have ok: "msg_ok msg" "list_all (attr_for family) (rm_attrs msg)" "length (rm_rtmsg msg) = 12"
    using assms(1) by (simp_all add: msg_for_def msg_ok_def)
  note hdr = enc_msg_header [OF ok(1)]
  let ?attrs = "concat (map enc_attr (rm_attrs msg))"
  let ?pre = "pre @ take 28 (enc_msg msg)"
  have m: "m = ?pre @ ?attrs @ post" "length ?pre = length pre + 28"
    using ok(3) by (simp_all add: assms(2) enc_msg_def)
  have n: "nlmsg_len n = of_nat (msg_len msg)" "nlmsg_type n = RTM_NEWROUTE" "nlmsg_pid n = rm_pid msg"
    using assms(2,3) hdr(1) [of pre post] by auto
  have "uint (nlmsg_len n) = int (msg_len msg)"
    using hdr(2) by (metis n(1) uint_nat)
  then have len: "to_int32 (uint (nlmsg_len n) - 28) = int (length ?attrs)"
    using ok(1) by (subst to_int32_small) (auto simp: msg_len_def msg_ok_def)
  have loads: "load32 m (length pre) = Some (nlmsg_len n)" "load16 m (length pre + 4) = Some RTM_NEWROUTE"
    using assms(3) n(2) by (auto simp: load_nlmsghdr_def split: Option.bind_splits)
  have rtm: "load_bytes m (length pre + 16) 12 = Some (rm_rtmsg msg)"
    using ok(3) by (simp add: load_bytes_def assms(2) enc_msg_def)
  have "list_all attr_ok (rm_attrs msg)"
    using ok(1) by (simp add: msg_ok_def)
  from rta_codec.walk_encoded [OF this, of ?pre post]
  have walk: "tlv_seq 4 rta_len_at m (length pre + 28) (int (length ?attrs)) = Some (rta_codec.starts (length ?pre) (rm_attrs msg), 0)"
    by (simp only: m(1) [symmetric] m(2))
  have "int (length pre + 28) + int (length ?attrs) \<le> int (length m)"
    using hdr(3) by (simp add: assms(2) msg_len_def del: length_concat)
  from rta_loop_eq [OF this, of Map.empty]
  have tb: "rta_loop m (length pre + 28) (int (length ?attrs)) Map.empty =
      Some (attr_table m Map.empty (rta_codec.starts (length ?pre) (rm_attrs msg)))"
    by (simp add: walk)
  show ?thesis
    using assms(1) print_rtas_prints [OF ok(2) m(1), of lc] tb unfolding m(2)
    by (simp add: nl_message_def nl_filter_route_def prints_def result_bind final_bind n(2,3) msg_lines_def msg_for_def
      loads len rtm Let_def del: length_concat)
qed

lemma nl_loop_prints:
  "list_all (msg_for family pid) msgs \<Longrightarrow> m = pre @ concat (map enc_msg msgs) @ post \<Longrightarrow>
    prints (nl_loop lc pid family m (length pre) (int (length (concat (map enc_msg msgs))))) (Some 0)
      (concat (map (msg_lines lc family) msgs))"
proof (induction msgs arbitrary: pre)
  case Nil
  then show ?case
    by (subst nl_loop.simps) (simp add: prints_simps)
next
  case (Cons msg msgs)
  then have ok: "msg_for family pid msg" "msg_ok msg"
    by (simp_all add: msg_for_def)
  note hdr = enc_msg_header [OF ok(2)]
  have m: "m = pre @ enc_msg msg @ concat (map enc_msg msgs) @ post"
    using Cons.prems by simp
  obtain n where n: "load_nlmsghdr m (length pre) = Some n" "unat (nlmsg_len n) = msg_len msg"
    using hdr(1,2) unfolding m by simp
  have size: "align4 (msg_len msg) = msg_len msg" "16 \<le> msg_len msg"
    using align4_enc_attrs by (simp_all add: msg_len_def)
  have "prints (nl_loop lc pid family m (length (pre @ enc_msg msg)) (int (length (concat (map enc_msg msgs))))) (Some 0)
      (concat (map (msg_lines lc family) msgs))"
    using Cons by simp
  with nl_message_prints [OF ok(1) m n(1), of lc] show ?case
    using n size by (subst nl_loop.simps) (simp add: hdr(3) prints_def result_bind final_bind)
qed

text \<open>What a program has written, the oldest first.\<close>

fun outputs :: "'c history \<Rightarrow> 'c event list" where
  "outputs [] = []"
| "outputs (Call c r # h) = outputs h"
| "outputs (e # h) = outputs h @ [e]"

fun is_output :: "'c event \<Rightarrow> bool" where
  "is_output (Call c r) = False"
| "is_output _ = True"

lemma outputs_rev: "list_all is_output evs \<Longrightarrow> outputs (rev evs @ h) = outputs h @ evs"
proof (induction evs rule: rev_induct)
  case (snoc e evs)
  then show ?case
    by (cases e) simp_all
qed simp

lemma lines_are_output: "list_all is_output (concat (map (msg_lines lc family) msgs))"
proof -
  have "list_all is_output (attr_line fmt rd attrs t)" for fmt rd attrs t
    by (simp add: attr_line_def split: option.split)
  then show ?thesis
    by (induction msgs) (simp_all add: msg_lines_def route_lines_def)
qed

text \<open>C10: for a destination and an answer of the kernel made of route messages, \<open>getroute\<close> shows them all, in their order: for each
  message its \<open>rtmsg\<close> and then the table, the interfaces and the destination, each from the last attribute of
  its type, and it ends with 0.  So the walk over the bytes is the inverse of the layout of the answer, for any
  number of messages and attributes, in any order, of any types (no source attribute), that fit the buffer.\<close>

theorem getroute_reports_answer:
  fixes os :: sock_os
  defines "pid \<equiv> \<lambda>h. sys_ret (os h GetPid)"
  assumes "dst \<noteq> []" "hd dst \<noteq> CHR ''-''" "length buf0 = 4096" "length (concat (map enc_msg msgs)) \<le> 4096"
    and calls: "\<And>h c. 0 \<le> sys_ret (os h c)"
    and answer: "\<And>h fd. sys_data (os h (RecvFrom fd 4096 0x60)) = concat (map enc_msg msgs)"
      "\<And>h fd. sys_ret (os h (RecvFrom fd 4096 0x60)) = int (length (concat (map enc_msg msgs)))"
    and msgs: "\<And>h. list_all (msg_for (req_family lc dst) (pid h)) msgs"
  shows "result (getroute_main os lc buf0 errno0 [prog, dst]) [] = Exit 0 \<and>
    outputs (final (getroute_main os lc buf0 errno0 [prog, dst]) []) =
      [Printf ''Hello World! Get route for %s\<newline>'' [ArgS dst]] @
      concat (map (msg_lines lc (req_family lc dst)) msgs) @
      [Printf ''\<newline>test program will exit!\<newline>'' []]"
proof -
  have opts: "getopt ''a'' [dst] = ([], [dst])" "argv1_after_getopt [prog, dst] = dst"
    using assms(2,3) by (auto simp: argv1_after_getopt_def)
  have m: "overlay (concat (map enc_msg msgs)) buf0 = [] @ concat (map enc_msg msgs) @ drop (length (concat (map enc_msg msgs))) buf0"
    using assms(4,5) by (simp add: overlay_def)
  have "prints (nl_loop lc (pid h) (req_family lc dst) (overlay (concat (map enc_msg msgs)) buf0) 0
      (int (length (concat (map enc_msg msgs))))) (Some 0) (concat (map (msg_lines lc (req_family lc dst)) msgs))" for h
    using nl_loop_prints [OF msgs m, of lc h] by simp
  moreover have "\<not> sys_ret (os h c) < 0" for h c
    using calls [of h c] by simp
  ultimately show ?thesis
    using assms(5) outputs_rev [OF lines_are_output [of lc "req_family lc dst" msgs]]
    by (simp add: getroute_main_def Let_def opts result_bind final_bind prints_def answer pid_def del: getopt.simps length_concat)
qed

text \<open>A kernel for examples, which answers with a route over the interface 7.\<close>

definition example_msgs :: "route_msg list" where
  "example_msgs = [\<lparr>rm_flags = 0, rm_seq = 1, rm_pid = 1234, rm_rtmsg = [2, 32, 0, 0, 254, 0, 0, 1, 0, 2, 0, 0],
     rm_attrs = [(15, [254, 0, 0, 0]), (1, [192, 0, 2, 1]), (4, [7, 0, 0, 0])]\<rparr>]"

fun os_route :: sock_os where
  "os_route h (RecvFrom fd k fl) =
     \<lparr>sys_ret = int (length (concat (map enc_msg example_msgs))), sys_errno = 0, sys_data = concat (map enc_msg example_msgs), sys_addr = []\<rparr>"
| "os_route h c = os_const 3 h c"

theorem getroute_reports_answer_witness:
  "result (getroute_main os_route libc_none (replicate 4096 0) 0 [''getroute'', ''192.0.2.1'']) [] = Exit 0 \<and>
   Printf ''RTA_OIF: %d\<newline>'' [ArgI 7] \<in>
     set (outputs (final (getroute_main os_route libc_none (replicate 4096 0) 0 [''getroute'', ''192.0.2.1'']) []))"
proof -
  have family: "req_family libc_none ''192.0.2.1'' = AF_INET"
    by (simp add: req_family_def libc_none_def)
  have attrs: "list_all (attr_for AF_INET) [(15, [254, 0, 0, 0]), (1, [192, 0, 2, 1]), (4, [7, 0, 0, 0])]"
    by (simp add: attr_for_def attr_ok_def)
  then have ok: "list_all (msg_for AF_INET pid) example_msgs" for pid
    by (simp add: example_msgs_def msg_for_def msg_ok_def msg_len_def attr_for_def enc_attr_def align4_def)
  have len: "length (concat (map enc_msg example_msgs)) \<le> 4096"
    by (simp add: example_msgs_def enc_msg_def enc_attr_def align4_def)
  have calls: "0 \<le> sys_ret (os_route h c)" for h c
    by (cases c) (simp_all add: os_const_def)
  have "int_arg [7, 0, 0, 0] = ArgI 7"
    by (simp add: int_arg_def of_le32_def of_le16_def)
  then have "Printf ''RTA_OIF: %d\<newline>'' [ArgI 7] \<in> set (concat (map (msg_lines libc_none AF_INET) example_msgs))"
    by (simp add: example_msgs_def msg_lines_def route_lines_def attr_line_def last_attr_def)
  then show ?thesis
    using getroute_reports_answer [of "''192.0.2.1''" "replicate 4096 0" example_msgs os_route libc_none 0 "''getroute''"] family ok len calls
    by simp
qed

end
