(* ===== verification/BitField.thy ===== *)
theory BitField
  imports SocketCalls
begin

text \<open>
  \<open>bits/bitincr.c\<close>: a union of a 20-bit field, a 12-bit field and a 32-bit word, all of them at bit 0,
  and two loops that increment a field and wait for it to exceed its largest value.
\<close>

unbundle bit_operations_syntax

subsection \<open>Bit fields\<close>

text \<open>The object is its 32 bits, the member \<open>guard\<close>.  Reading and assigning a field of \<open>w\<close> bits at bit
  0; an assignment keeps the low \<open>w\<close> bits of the value and the other bits of the object.\<close>

definition field :: "nat \<Rightarrow> u32 \<Rightarrow> u32" where
  "field w guard = take_bit w guard"

definition set_field :: "nat \<Rightarrow> u32 \<Rightarrow> u32 \<Rightarrow> u32" where
  "set_field w v guard = (guard AND NOT (mask w)) OR take_bit w v"

abbreviation seq :: "u32 \<Rightarrow> u32" where "seq \<equiv> field 20"
abbreviation pt :: "u32 \<Rightarrow> u32" where "pt \<equiv> field 12"

definition BIT_SEQ_MAX :: u32 where
  "BIT_SEQ_MAX = push_bit 20 1 - 1"

definition BIT_PT_MAX :: u32 where
  "BIT_PT_MAX = push_bit 12 1 - 1"

subsection \<open>The loops\<close>

text \<open>The state of a loop is the object and \<open>bNeetPrintNext\<close>; the argument counts the rounds left.\<close>

fun seq_loop :: "nat \<Rightarrow> u32 \<times> bool \<Rightarrow> (u32 \<times> bool) sock_prog" where
  "seq_loop 0 s = exit_with s"
| "seq_loop (Suc n) (a, bNeetPrintNext) = do {
     let a = set_field 20 (seq a + 1) a;
     (if bNeetPrintNext then
        printf ''Seq value next value : 0x%x,  pt value: %u ; guard: 0x%x !\<newline>''
          [ArgI (uint (seq a)), ArgI (uint (pt a)), ArgI (uint a)]
      else exit_with ());
     (if seq a \<ge> BIT_SEQ_MAX then printf ''Seq value reach max : 0x%x !\<newline>'' [ArgI (uint (seq a))]
      else exit_with ());
     let bNeetPrintNext = (seq a \<ge> BIT_SEQ_MAX);
     if seq a > BIT_SEQ_MAX then do {
       printf ''Seq exceed the threshold value : 0x%x !\<newline>'' [ArgI (uint (seq a))];
       exit_with (a, bNeetPrintNext)
     }
     else seq_loop n (a, bNeetPrintNext)
   }"

fun pt_loop :: "nat \<Rightarrow> u32 \<times> bool \<Rightarrow> (u32 \<times> bool) sock_prog" where
  "pt_loop 0 s = exit_with s"
| "pt_loop (Suc n) (a, bNeetPrintNext) = do {
     let a = set_field 12 (pt a + 1) a;
     (if bNeetPrintNext then
        printf ''Pt value next value : 0x%x,  pt value: %u ; guard: 0x%x !\<newline>''
          [ArgI (uint (seq a)), ArgI (uint (pt a)), ArgI (uint a)]
      else exit_with ());
     (if pt a \<ge> BIT_PT_MAX then printf ''Pt value reach max : 0x%x !\<newline>'' [ArgI (uint (pt a))]
      else exit_with ());
     let bNeetPrintNext = (pt a \<ge> BIT_PT_MAX);
     if pt a > BIT_PT_MAX then do {
       printf ''Pt exceed the threshold value : 0x%x !\<newline>'' [ArgI (uint (pt a))];
       exit_with (a, bNeetPrintNext)
     }
     else pt_loop n (a, bNeetPrintNext)
   }"

abbreviation (input) UINT_MAX :: nat where "UINT_MAX \<equiv> 0xFFFFFFFF"
abbreviation (input) USHRT_MAX :: nat where "USHRT_MAX \<equiv> 0xFFFF"

definition bitincr_main :: "sock_os \<Rightarrow> outcome sock_prog" where
  "bitincr_main os = do {
     printf ''Hello world test bit field threshold!\<newline>'' [];
     let a = set_field 20 (BIT_SEQ_MAX + 2) 0;
     let a = set_field 12 3 a;
     printf ''Seq value beyond max one: %u ; middle pt value: %u !\<newline>'' [ArgI (uint (seq a)), ArgI (uint (pt a))];
     call os (Sleep 8);
     (a, bNeetPrintNext) \<leftarrow> seq_loop UINT_MAX (a, False);
     printf ''\<newline>Seq value after loop: %u, pt value: %u ; guard: 0x%x !\<newline>\<newline>''
       [ArgI (uint (seq a)), ArgI (uint (pt a)), ArgI (uint a)];
     call os (Sleep 8);
     (a, bNeetPrintNext) \<leftarrow> pt_loop USHRT_MAX (a, bNeetPrintNext);
     printf ''\<newline>Seq value after loop: %u, pt value: %u ; guard: 0x%x !\<newline>\<newline>''
       [ArgI (uint (seq a)), ArgI (uint (pt a)), ArgI (uint a)];
     printf ''Exit from program !\<newline>'' [];
     exit_with (Exit 0)
   }"

subsection \<open>Fields as numbers\<close>

lemma unat_field: "unat (field w a) = unat a mod 2 ^ w"
  unfolding field_def unsigned_take_bit_eq by (simp add: take_bit_eq_mod)

lemma field_set_field: "field w (set_field w v a) = take_bit w v"
  by (rule bit_word_eqI) (auto simp: field_def set_field_def bit_simps)

text \<open>An increment wraps at \<open>2 ^ w\<close> and leaves the other bits alone.\<close>

lemma unat_increment:
  assumes "w < 32"
  shows "unat (field w (set_field w (field w a + 1) a)) = (unat (field w a) + 1) mod 2 ^ w"
proof -
  have "unat (field w a) < 2 ^ w"
    by (simp add: unat_field)
  moreover have "(2 :: nat) ^ w \<le> 2 ^ 31"
    using assms by (intro power_increasing) auto
  ultimately have "unat (field w a + 1) = unat (field w a) + 1"
    by (simp add: unat_word_ariths)
  then show ?thesis
    unfolding field_set_field unsigned_take_bit_eq by (simp add: take_bit_eq_mod)
qed

lemma drop_set_field: "drop_bit w (set_field w v a) = drop_bit w a"
  by (rule bit_word_eqI) (auto simp: set_field_def bit_simps dest: bit_imp_le_length)

text \<open>A word is its field and the bits above it.\<close>

lemma field_eqI: "field w a = field w b \<Longrightarrow> drop_bit w a = drop_bit w b \<Longrightarrow> a = b"
  by (metis bits_ident field_def)

text \<open>A loop over a field of \<open>w\<close> bits that increments it and goes on.\<close>

locale counter_loop =
  fixes w :: nat and loop :: "nat \<Rightarrow> u32 \<times> bool \<Rightarrow> (u32 \<times> bool) sock_prog"
  assumes width: "w < 32"
    and loop_stop: "result (loop 0 s) h = s"
    and loop_round: "\<exists>h' f'. result (loop (Suc n) (a, f)) h =
      result (loop n (set_field w (field w a + 1) a, f')) h'"
begin

lemma loop_counts:
  "\<exists>a' f'. result (loop n (a, f)) h = (a', f') \<and>
    unat (field w a') = (unat (field w a) + n) mod 2 ^ w \<and> drop_bit w a' = drop_bit w a"
proof (induction n arbitrary: a f h)
  case 0
  then show ?case
    by (simp add: loop_stop unat_field)
next
  case (Suc n)
  obtain h' f' where "result (loop (Suc n) (a, f)) h =
      result (loop n (set_field w (field w a + 1) a, f')) h'"
    using loop_round by blast
  with Suc [of "set_field w (field w a + 1) a" f' h'] show ?case
    by (auto simp: unat_increment [OF width] drop_set_field mod_simps)
qed

end

lemma max_values:
  "seq a > BIT_SEQ_MAX \<longleftrightarrow> False" "pt a > BIT_PT_MAX \<longleftrightarrow> False"
proof -
  have "unat (seq a) < 1048576" "unat (pt a) < 4096"
    by (simp_all add: unat_field)
  then show "seq a > BIT_SEQ_MAX \<longleftrightarrow> False" "pt a > BIT_PT_MAX \<longleftrightarrow> False"
    by (simp_all add: word_less_nat_alt BIT_SEQ_MAX_def BIT_PT_MAX_def)
qed

interpretation sl: counter_loop 20 seq_loop
  by unfold_locales (simp, simp, unfold seq_loop.simps result_bind Let_def max_values if_False, blast)

interpretation pl: counter_loop 12 pt_loop
  by unfold_locales (simp, simp, unfold pt_loop.simps result_bind Let_def max_values if_False, blast)


text \<open>The loops add to the output.\<close>

lemma extends_loops [extends_rules]: "extends (seq_loop n s)" "extends (pt_loop n s)"
proof -
  show "extends (seq_loop n s)"
  proof (induction n arbitrary: s)
    case (Suc n)
    then show ?case
      by (cases s) (simp only: seq_loop.simps, intro extends_rules)
  qed (simp add: extends_rules)
  show "extends (pt_loop n s)"
  proof (induction n arbitrary: s)
    case (Suc n)
    then show ?case
      by (cases s) (simp only: pt_loop.simps, intro extends_rules)
  qed (simp add: extends_rules)
qed

lemma bits_after_loops:
  assumes "drop_bit w a = (0 :: u32)" "unat (field w a) = n"
  shows "a = of_nat n"
proof -
  have "a = field w a"
    using bits_ident [of w a] assms(1) by (simp add: field_def)
  then show ?thesis
    using assms(2) word_eq_of_natI [of a n] by simp
qed

lemma seq_end: "\<exists>f. result (seq_loop UINT_MAX (3, False)) h = (2, f)"
proof -
  obtain a f where a: "result (seq_loop UINT_MAX (3, False)) h = (a, f)"
      "unat (seq a) = (unat (seq 3) + UINT_MAX) mod 2 ^ 20" "drop_bit 20 a = drop_bit 20 3"
    using sl.loop_counts [of UINT_MAX 3 False h] by blast
  have "a = of_nat 2"
    by (rule bits_after_loops [of 20]) (use a(2,3) in \<open>simp_all add: unat_field\<close>)
  with a(1) show ?thesis
    by simp
qed

lemma pt_end: "\<exists>f'. result (pt_loop USHRT_MAX (2, f)) h = (1, f')"
proof -
  obtain a f' where a: "result (pt_loop USHRT_MAX (2, f)) h = (a, f')"
      "unat (pt a) = (unat (pt 2) + USHRT_MAX) mod 2 ^ 12" "drop_bit 12 a = drop_bit 12 2"
    using pl.loop_counts [of USHRT_MAX 2 f h] by blast
  have "a = of_nat 1"
    by (rule bits_after_loops [of 12]) (use a(2,3) in \<open>simp_all add: unat_field\<close>)
  with a(1) show ?thesis
    by simp
qed

text \<open>A bit field never exceeds its largest value: neither loop is left by its \<open>break\<close>, the fields
  wrap to 0 within the other bits, and after all rounds the program prints 2 for the three members,
  which share their low bits, and then 1; it exits with 0.\<close>

theorem bitincr_output:
  "\<exists>h1 h2. final (bitincr_main os) [] =
      [Printf ''Exit from program !\<newline>'' [],
       Printf ''\<newline>Seq value after loop: %u, pt value: %u ; guard: 0x%x !\<newline>\<newline>'' [ArgI 1, ArgI 1, ArgI 1]] @
      h2 @ [Printf ''\<newline>Seq value after loop: %u, pt value: %u ; guard: 0x%x !\<newline>\<newline>'' [ArgI 2, ArgI 2, ArgI 2]] @
      h1 \<and>
    result (bitincr_main os) [] = Exit 0"
proof -
  define a0 where "a0 = set_field 12 3 (set_field 20 (BIT_SEQ_MAX + 2) 0)"
  have a0: "a0 = 3"
    by (simp add: a0_def set_field_def BIT_SEQ_MAX_def mask_eq_exp_minus_1 take_bit_eq_mask)
  have show_fields: "uint (seq 2) = 2" "uint (pt 2) = 2" "uint (seq 1) = 1" "uint (pt 1) = 1"
    by (simp_all add: field_def take_bit_eq_mask mask_eq_exp_minus_1)
  define start where "start = final (do {
     printf ''Hello world test bit field threshold!\<newline>'' [];
     printf ''Seq value beyond max one: %u ; middle pt value: %u !\<newline>'' [ArgI (uint (seq 3)), ArgI (uint (pt 3))];
     call os (Sleep 8) }) []"
  obtain f out where seq_loop: "result (seq_loop UINT_MAX (3, False)) start = (2, f)"
      "final (seq_loop UINT_MAX (3, False)) start = out @ start"
    using seq_end [of start] extends_loops(1) unfolding extends_def by blast
  define mid where "mid = final (do {
     printf ''\<newline>Seq value after loop: %u, pt value: %u ; guard: 0x%x !\<newline>\<newline>'' [ArgI 2, ArgI 2, ArgI 2];
     call os (Sleep 8) }) (out @ start)"
  obtain f' out' where pt_loop: "result (pt_loop USHRT_MAX (2, f)) mid = (1, f')"
      "final (pt_loop USHRT_MAX (2, f)) mid = out' @ mid"
    using pt_end [of f mid] extends_loops(2) unfolding extends_def by blast
  have "final (bitincr_main os) [] =
      [Printf ''Exit from program !\<newline>'' [],
       Printf ''\<newline>Seq value after loop: %u, pt value: %u ; guard: 0x%x !\<newline>\<newline>'' [ArgI 1, ArgI 1, ArgI 1]] @
      out' @ mid \<and> result (bitincr_main os) [] = Exit 0"
    using seq_loop pt_loop
    unfolding bitincr_main_def Let_def a0_def [symmetric] a0 final_bind result_bind start_def mid_def
    by (simp add: final_bind result_bind show_fields)
  then show ?thesis
    by (intro exI [of _ "out @ start"] exI [of _ "out' @ [hd mid]"]) (simp add: mid_def final_bind)
qed

end
