(* ===== verification/Signals.thy ===== *)
theory Signals
  imports CIO
begin

text \<open>
  \<open>signal/main.c\<close>: a process that installs a one-shot handler for a signal and starts a thread that
  blocks in \<open>pause\<close> or \<open>epoll_pwait\<close>.  The process is a state machine: the steps of the main thread
  and of the child thread, and the delivery of signals to either of them, in any order.
\<close>

subsection \<open>State\<close>

datatype thread = Main | Child
datatype disposition = SIG_DFL | Custom
datatype sigdefault = Terminate | Ignore | Stop
datatype run_status = Alive | Stopped | Killed int | Exited int | Undef

text \<open>Where the threads are.  \<open>CPause\<close>, \<open>CEpollNull\<close> and \<open>CEpollSig\<close> are the three ways the child
  blocks; \<open>CPauseRet\<close> and \<open>CEpollRet\<close> follow the return of the call, \<open>rc\<close> and \<open>errno\<close> given.\<close>

datatype main_pc = MSigaction | MCreate | MAssign | MJoin
datatype child_pc = CNone | CStart | CPause | CPauseRet | CEpollNull | CEpollSig | CEpollRet bool int int | CDone

record proc =
  g_thread_test :: u8
  g_no_pass_again :: u8
  g_epoll_blocked :: u8
  g_signumpara :: int
  g_child_assigned :: bool
  handlers :: "int \<Rightarrow> disposition"
  main_pc :: main_pc
  child_pc :: child_pc
  child_pending :: "int list"
  handled :: nat
  status :: run_status
  out :: "(string \<times> arg list) list"

definition print :: "string \<Rightarrow> arg list \<Rightarrow> proc \<Rightarrow> proc" where
  "print fmt as p = p\<lparr>out := (fmt, as) # out p\<rparr>"

subsection \<open>Options\<close>

definition proc_init :: proc where
  "proc_init = \<lparr>g_thread_test = 0, g_no_pass_again = 0, g_epoll_blocked = 0xFF, g_signumpara = 2,
     g_child_assigned = False, handlers = (\<lambda>_. SIG_DFL), main_pc = MSigaction, child_pc = CNone,
     child_pending = [], handled = 0, status = Alive, out = []\<rparr>"

fun signal_getopt :: "string \<Rightarrow> optres list \<Rightarrow> proc \<Rightarrow> proc" where
  "signal_getopt argv0 [] p = p"
| "signal_getopt argv0 (OptErr # opts) p =
    (print ''Usage: %s [-t --thread] [-n --no_pass] [-s sinalnum] [-e 0 for null para ; 1 will provide sigset para]\<newline>''
      [ArgS argv0] p)\<lparr>status := Exited 1\<rparr>"
| "signal_getopt argv0 (Opt c optarg # opts) p =
    (if c = CHR ''t'' then
       signal_getopt argv0 opts ((print ''Set thread test flag ...\<newline>'' [] p)\<lparr>g_thread_test := 1\<rparr>)
     else if c = CHR ''n'' then
       signal_getopt argv0 opts ((print ''Set no pass signal again flag ...\<newline>'' [] p)\<lparr>g_no_pass_again := 1\<rparr>)
     else if c = CHR ''e'' then
       signal_getopt argv0 opts
         ((print ''Set epoll blocked flag ...\<newline>'' [] p)\<lparr>g_epoll_blocked := word_of_int (atoi optarg)\<rparr>)
     else if c = CHR ''s'' then
       signal_getopt argv0 opts
         ((print ''Set signum to be %d ...\<newline>'' [ArgI (g_signumpara p)] p)\<lparr>g_signumpara := atoi optarg\<rparr>)
     else (print ''Usage: %s [-t --thread] [-n --no_pass] [-s sinalnum] [-e 0 for null para ; 1 will provide sigset para]\<newline>''
      [ArgS argv0] p)\<lparr>status := Exited 1\<rparr>)"

definition signal_start :: "string list \<Rightarrow> proc" where
  "signal_start argv = signal_getopt (hd argv) (fst (getopt ''tns:e:'' (tl argv))) proc_init"

subsection \<open>Signals\<close>

text \<open>The default actions of \<open>signal(7)\<close>, and the numbers that \<open>sigaction\<close> refuses: \<open>SIGKILL\<close>,
  \<open>SIGSTOP\<close>, the two that the thread library keeps, and what is no signal.\<close>

definition default_of :: "int \<Rightarrow> sigdefault" where
  "default_of s = (if s \<in> {17, 18, 23, 28} then Ignore else if s \<in> {19, 20, 21, 22} then Stop else Terminate)"

definition sigaction_ok :: "int \<Rightarrow> bool" where
  "sigaction_ok s \<longleftrightarrow> 1 \<le> s \<and> s \<le> 64 \<and> s \<notin> {9, 19, 32, 33}"

definition default_action :: "int \<Rightarrow> proc \<Rightarrow> proc" where
  "default_action s p =
    (case default_of s of
       Terminate \<Rightarrow> p\<lparr>status := Killed s\<rparr>
     | Ignore \<Rightarrow> p
     | Stop \<Rightarrow> p\<lparr>status := Stopped\<rparr>)"

text \<open>The child blocks the signal only while it waits in \<open>epoll_pwait\<close> with a signal set.\<close>

definition masked :: "thread \<Rightarrow> int \<Rightarrow> proc \<Rightarrow> bool" where
  "masked t s p \<longleftrightarrow> t = Child \<and> child_pc p = CEpollSig \<and> s = g_signumpara p"

text \<open>The handler, run by thread \<open>t\<close>.  The handler does not block its own signal (\<open>SA_NODEFER\<close>), so a
  signal that it sends to its own process or thread is delivered before \<open>kill\<close> or \<open>pthread_kill\<close>
  returns, with the default action just restored.  \<open>pthread_kill\<close> to another thread leaves the signal
  pending there, has no effect on a thread that has ended, and is undefined before
  \<open>g_childThreadId\<close> is assigned.\<close>

definition custom_signal_handler :: "thread \<Rightarrow> int \<Rightarrow> proc \<Rightarrow> proc" where
  "custom_signal_handler t signum p =
    (if g_signumpara p \<noteq> signum then p
     else
       let p = print ''Received signal %d, executing custom logic. it simply restores the default signal process, threadid:0x%lx ... ...\<newline>''
                 [ArgI signum, ArgI (case t of Main \<Rightarrow> 0 | Child \<Rightarrow> 1)] p;
           p = p\<lparr>handlers := (handlers p)(signum := SIG_DFL)\<rparr>
       in if g_thread_test p = 0 then
            (if g_no_pass_again p = 0 then
               default_action signum (print ''Send signal %d to self again, to execute default logic ...\<newline>'' [ArgI signum] p)
             else print ''To see whether the process exits without passing the signal again ...\<newline>'' [] p)
          else
            let p = print ''Send signal to child thread again ...\<newline>'' [] p
            in if \<not> g_child_assigned p then p\<lparr>status := Undef\<rparr>
               else if t = Child then default_action signum p
               else if child_pc p = CDone then p
               else p\<lparr>child_pending := child_pending p @ [signum]\<rparr>)"

text \<open>What the return from the handler does to the call the thread was blocked in: \<open>pause\<close> and
  \<open>epoll_pwait\<close> of the child return with \<open>EINTR\<close>, \<open>pthread_join\<close> of the main thread goes on.\<close>

definition interrupted :: "thread \<Rightarrow> proc \<Rightarrow> proc" where
  "interrupted t p =
    (case (t, child_pc p) of
       (Child, CPause) \<Rightarrow> p\<lparr>child_pc := CPauseRet\<rparr>
     | (Child, CEpollNull) \<Rightarrow> p\<lparr>child_pc := CEpollRet False (- 1) 4\<rparr>
     | (Child, CEpollSig) \<Rightarrow> p\<lparr>child_pc := CEpollRet True (- 1) 4\<rparr>
     | _ \<Rightarrow> p)"

text \<open>Delivery of a signal to a thread.  \<open>SA_RESETHAND\<close> restores the default before the handler runs;
  \<open>handled\<close> counts the runs.\<close>

definition deliver :: "thread \<Rightarrow> int \<Rightarrow> proc \<Rightarrow> proc" where
  "deliver t s p =
    (case handlers p s of
       SIG_DFL \<Rightarrow> default_action s p
     | Custom \<Rightarrow>
         interrupted t (custom_signal_handler t s
           (p\<lparr>handlers := (handlers p)(s := SIG_DFL), handled := Suc (handled p)\<rparr>)))"

subsection \<open>Threads\<close>

text \<open>The steps of \<open>main\<close> after the options; \<open>ok\<close> is whether \<open>pthread_create\<close> made a thread.  It returns an
  error number greater than 0 otherwise, which the test \<open>rc < 0\<close> does not see: the join is then made on
  an indeterminate thread.\<close>

definition main_step :: "bool \<Rightarrow> proc \<Rightarrow> proc" where
  "main_step ok p =
    (case main_pc p of
       MSigaction \<Rightarrow>
         if sigaction_ok (g_signumpara p)
         then (print ''Create child thread to run ...\<newline>'' []
                (p\<lparr>handlers := (handlers p)(g_signumpara p := Custom)\<rparr>))\<lparr>main_pc := MCreate\<rparr>
         else (print ''sigaction: %s\<newline>'' [ArgErr 22] p)\<lparr>status := Exited 1\<rparr>
     | MCreate \<Rightarrow> if ok then p\<lparr>main_pc := MAssign, child_pc := CStart\<rparr> else p\<lparr>status := Undef\<rparr>
     | MAssign \<Rightarrow> (print ''You can tirgger the desired signum ...\<newline>'' [] p)\<lparr>g_child_assigned := True, main_pc := MJoin\<rparr>
     | MJoin \<Rightarrow>
         if child_pc p = CDone then (print ''Main thread will exit ...\<newline>'' [] p)\<lparr>status := Exited 0\<rparr> else p)"

datatype epoll_setup = SetupOk | CreateFails int | PipeFails int | CtlFails int

text \<open>\<open>thread_entry\<close>: up to the blocking call, and from its return.  A wait of \<open>epoll_pwait\<close> that times out
  returns 0.\<close>

definition child_step :: "epoll_setup \<Rightarrow> proc \<Rightarrow> proc" where
  "child_step es p =
    (case child_pc p of
       CStart \<Rightarrow>
         let p = print ''Child thread begins to run, threadid:0x%lx ...\<newline>'' [ArgI 1] p
         in if g_epoll_blocked p = 0xFF
            then (print ''Using pause api to be blocked until a signal was caught\<newline>'' [] p)\<lparr>child_pc := CPause\<rparr>
            else
              let p = print ''Using epoll api be blocked\<newline>'' [] p
              in case es of
                   CreateFails e \<Rightarrow> (print ''epoll_create: %s\<newline>'' [ArgErr e] p)\<lparr>child_pc := CDone\<rparr>
                 | PipeFails e \<Rightarrow> (print ''pipe: %s\<newline>'' [ArgErr e] p)\<lparr>child_pc := CDone\<rparr>
                 | CtlFails e \<Rightarrow> (print ''epoll_ctl add: %s\<newline>'' [ArgErr e] p)\<lparr>child_pc := CDone\<rparr>
                 | SetupOk \<Rightarrow>
                     if g_epoll_blocked p = 0 then p\<lparr>child_pc := CEpollNull\<rparr>
                     else if g_epoll_blocked p = 1 then p\<lparr>child_pc := CEpollSig\<rparr>
                     else (print ''Child thread will exit ...\<newline>'' [] p)\<lparr>child_pc := CDone\<rparr>
     | CPauseRet \<Rightarrow> (print ''Child thread will exit when blocked by pause api ...\<newline>'' [] p)\<lparr>child_pc := CDone\<rparr>
     | CEpollNull \<Rightarrow> p\<lparr>child_pc := CEpollRet False 0 0\<rparr>
     | CEpollSig \<Rightarrow> p\<lparr>child_pc := CEpollRet True 0 0\<rparr>
     | CEpollRet sigset rc e \<Rightarrow>
         let p = (if rc < 0 then
               (if sigset then print ''epoll_pwait has sigset para, rc: %d, errno: %d\<newline>'' [ArgI rc, ArgI e] p
                else print ''epoll_pwait rc: %d, errno: %d\<newline>'' [ArgI rc, ArgI e] p)
             else p)
         in (print ''Child thread will exit ...\<newline>'' [] p)\<lparr>child_pc := CDone\<rparr>
     | _ \<Rightarrow> p)"

subsection \<open>The process\<close>

text \<open>One step of a living process: a thread runs, a signal from outside is delivered to a thread that does
  not block it, or a signal pending for the child is delivered to it.\<close>

inductive sig_step :: "proc \<Rightarrow> proc \<Rightarrow> bool" where
  main: "status p = Alive \<Longrightarrow> sig_step p (main_step ok p)"
| child: "status p = Alive \<Longrightarrow> child_pc p \<noteq> CNone \<Longrightarrow> sig_step p (child_step es p)"
| arrive: "status p = Alive \<Longrightarrow> t = Main \<or> child_pc p \<notin> {CNone, CDone} \<Longrightarrow> \<not> masked t s p \<Longrightarrow>
    sig_step p (deliver t s p)"
| pending: "status p = Alive \<Longrightarrow> child_pending p = s # rest \<Longrightarrow> child_pc p \<noteq> CDone \<Longrightarrow> \<not> masked Child s p \<Longrightarrow>
    sig_step p (deliver Child s (p\<lparr>child_pending := rest\<rparr>))"
| continue: "status p = Stopped \<Longrightarrow> sig_step p (p\<lparr>status := Alive\<rparr>)"

inductive_cases sig_stepE: "sig_step p q"

abbreviation runs :: "proc \<Rightarrow> proc \<Rightarrow> bool" where
  "runs \<equiv> sig_step\<^sup>*\<^sup>*"


subsection \<open>The configuration is fixed\<close>

text \<open>Output does not touch the rest of the state, and the simplifier does not look into it.\<close>

lemma print_simps [simp]:
  "g_thread_test (print fmt as p) = g_thread_test p"
  "g_no_pass_again (print fmt as p) = g_no_pass_again p"
  "g_epoll_blocked (print fmt as p) = g_epoll_blocked p"
  "g_signumpara (print fmt as p) = g_signumpara p"
  "g_child_assigned (print fmt as p) = g_child_assigned p"
  "handlers (print fmt as p) = handlers p"
  "main_pc (print fmt as p) = main_pc p"
  "child_pc (print fmt as p) = child_pc p"
  "child_pending (print fmt as p) = child_pending p"
  "handled (print fmt as p) = handled p"
  "status (print fmt as p) = status p"
  by (simp_all add: print_def)

lemma print_cong [cong]: "p = q \<Longrightarrow> print f as p = print f as q"
  by simp

definition config :: "proc \<Rightarrow> u8 \<times> u8 \<times> u8 \<times> int" where
  "config p = (g_thread_test p, g_no_pass_again p, g_epoll_blocked p, g_signumpara p)"

lemma config_default [simp]: "config (default_action s p) = config p"
  by (simp add: config_def default_action_def split: sigdefault.split)

lemma config_interrupted [simp]: "config (interrupted t p) = config p"
  by (simp add: config_def interrupted_def split: thread.split child_pc.split)

lemma config_handler [simp]: "config (custom_signal_handler t s p) = config p"
  by (simp add: custom_signal_handler_def Let_def) (simp add: config_def)

lemma config_deliver [simp]: "config (deliver t s p) = config p"
  by (simp add: deliver_def split: disposition.split) (simp add: config_def)

lemma config_main [simp]: "config (main_step ok p) = config p"
  by (simp add: main_step_def config_def split: main_pc.split)

lemma config_child [simp]: "config (child_step es p) = config p"
  by (simp add: child_step_def config_def Let_def split: child_pc.split epoll_setup.split)

lemma config_step: "sig_step p q \<Longrightarrow> config q = config p"
  by (erule sig_step.cases) (simp_all, simp_all add: config_def)

lemma config_runs: "runs p q \<Longrightarrow> config q = config p"
  by (induction rule: rtranclp_induct) (simp_all add: config_step)

subsection \<open>The handler runs at most once\<close>

text \<open>The handler is installed for one signal and gone after its first run.\<close>

definition once :: "proc \<Rightarrow> bool" where
  "once p \<longleftrightarrow>
    (if main_pc p = MSigaction then handled p = 0 \<and> handlers p = (\<lambda>_. SIG_DFL)
     else (handled p = 0 \<and> handlers p = (\<lambda>_. SIG_DFL)(g_signumpara p := Custom)) \<or>
       (handled p = Suc 0 \<and> handlers p = (\<lambda>_. SIG_DFL)))"

lemma default_frame [simp]:
  "handled (default_action s p) = handled p" "handlers (default_action s p) = handlers p"
  "main_pc (default_action s p) = main_pc p" "child_pc (default_action s p) = child_pc p"
  "child_pending (default_action s p) = child_pending p"
  by (simp_all add: default_action_def split: sigdefault.split)

lemma interrupted_frame [simp]:
  "handled (interrupted t p) = handled p" "handlers (interrupted t p) = handlers p"
  "main_pc (interrupted t p) = main_pc p" "status (interrupted t p) = status p"
  "child_pending (interrupted t p) = child_pending p" "child_pc (interrupted Main p) = child_pc p"
  by (simp_all add: interrupted_def split: thread.split child_pc.split)

lemma handler_frame [simp]:
  "handled (custom_signal_handler t s p) = handled p"
  "main_pc (custom_signal_handler t s p) = main_pc p"
  "child_pc (custom_signal_handler t s p) = child_pc p"
  "handlers (custom_signal_handler t s p) =
    (if g_signumpara p = s then (handlers p)(s := SIG_DFL) else handlers p)"
  by (simp_all add: custom_signal_handler_def Let_def)

lemma deliver_frame [simp]:
  "main_pc (deliver t s p) = main_pc p"
  "handlers (deliver t s p) = (handlers p)(s := SIG_DFL)"
  "handled (deliver t s p) = handled p + (case handlers p s of SIG_DFL \<Rightarrow> 0 | Custom \<Rightarrow> 1)"
  by (auto simp: deliver_def fun_eq_iff split: disposition.split)

lemma child_frame [simp]:
  "handled (child_step es p) = handled p" "handlers (child_step es p) = handlers p"
  "main_pc (child_step es p) = main_pc p" "child_pending (child_step es p) = child_pending p"
  "status (child_step es p) = status p"
  by (simp_all add: child_step_def Let_def split: child_pc.split epoll_setup.split)

lemma signum_of_config: "config p = config q \<Longrightarrow> g_signumpara p = g_signumpara q"
  by (simp add: config_def)

lemma signum_frame [simp]:
  "g_signumpara (deliver t s p) = g_signumpara p" "g_signumpara (child_step es p) = g_signumpara p"
  "g_signumpara (main_step ok p) = g_signumpara p"
  by (rule signum_of_config, simp)+

lemma once_main: "once p \<Longrightarrow> once (main_step ok p)"
  by (auto simp: once_def main_step_def split: main_pc.split if_splits)

lemma all_default [simp]: "(\<lambda>_. SIG_DFL)(s := SIG_DFL) = (\<lambda>_. SIG_DFL)"
  by auto

lemma once_deliver: "once p \<Longrightarrow> once (deliver t s p)"
proof (cases "handlers p s")
  case SIG_DFL
  then have "(handlers p)(s := SIG_DFL) = handlers p"
    by (rule fun_upd_idem)
  then show "once p \<Longrightarrow> once (deliver t s p)"
    using SIG_DFL by (simp add: once_def)
next
  case Custom
  show "once (deliver t s p)" if once: "once p"
  proof -
    from Custom once have h: "handlers p = (\<lambda>_. SIG_DFL)(g_signumpara p := Custom)" "handled p = 0"
        "main_pc p \<noteq> MSigaction"
      unfolding once_def by (metis disposition.distinct(1))+
    have "s = g_signumpara p"
      using Custom unfolding h(1) by (rule contrapos_pp) simp
    then have "(handlers p)(s := SIG_DFL) = (\<lambda>_. SIG_DFL)"
      unfolding h(1) by simp
    then show ?thesis
      using Custom h(2,3) by (simp add: once_def)
  qed
qed

lemma once_step: "sig_step p q \<Longrightarrow> once p \<Longrightarrow> once q"
proof (induction rule: sig_step.induct)
  case (main p ok)
  then show ?case by (simp add: once_main)
next
  case (child p es)
  then show ?case by (simp add: once_def)
next
  case (arrive p t s)
  then show ?case by (simp add: once_deliver)
next
  case (pending p s rest)
  then show ?case by (intro once_deliver) (simp add: once_def)
next
  case (continue p)
  then show ?case by (simp add: once_def)
qed

lemma start_frame:
  "handled (signal_start argv) = 0" "handlers (signal_start argv) = (\<lambda>_. SIG_DFL)"
  "main_pc (signal_start argv) = MSigaction" "child_pc (signal_start argv) = CNone"
  "child_pending (signal_start argv) = []" "\<not> g_child_assigned (signal_start argv)"
  "status (signal_start argv) \<in> {Alive, Exited 1}"
proof -
  have "handled q = handled p \<and> handlers q = handlers p \<and> main_pc q = main_pc p \<and> child_pc q = child_pc p \<and>
      child_pending q = child_pending p \<and> g_child_assigned q = g_child_assigned p \<and>
      (status p = Alive \<longrightarrow> status q \<in> {Alive, Exited 1})"
    if "q = signal_getopt a os p" for a os p q
    using that by (induction a os p rule: signal_getopt.induct) auto
  from this [OF refl, of "hd argv" "fst (getopt ''tns:e:'' (tl argv))" proc_init]
  show "handled (signal_start argv) = 0" "handlers (signal_start argv) = (\<lambda>_. SIG_DFL)"
    "main_pc (signal_start argv) = MSigaction" "child_pc (signal_start argv) = CNone"
    "child_pending (signal_start argv) = []" "\<not> g_child_assigned (signal_start argv)"
    "status (signal_start argv) \<in> {Alive, Exited 1}"
    by (simp_all add: signal_start_def proc_init_def)
qed

lemma once_start: "once (signal_start argv)"
  by (simp add: once_def start_frame)

lemma once_runs: "runs (signal_start argv) p \<Longrightarrow> once p"
  by (induction rule: rtranclp_induct) (simp_all add: once_start once_step)

text \<open>C9: in every interleaving of the two threads and of signals, the handler runs at most once; after it
  has run every signal has its default action.\<close>

theorem handler_runs_once:
  assumes "runs (signal_start argv) p"
  shows "handled p \<le> 1 \<and> (handled p = 1 \<longrightarrow> (\<forall>s. handlers p s = SIG_DFL))"
  using once_runs [OF assms] by (auto simp: once_def split: if_splits)


theorem handler_runs_once_witness:
  "runs (signal_start [''signal'']) (main_step True (signal_start [''signal''])) \<and>
   handled (main_step True (signal_start [''signal''])) \<le> 1"
proof -
  have "status (signal_start [''signal'']) = Alive"
    by (simp add: signal_start_def proc_init_def)
  then have "runs (signal_start [''signal'']) (main_step True (signal_start [''signal'']))"
    by (intro r_into_rtranclp sig_step.main)
  then show ?thesis
    using handler_runs_once [of "[''signal'']" "main_step True (signal_start [''signal''])"] by simp
qed

subsection \<open>What the second signal does\<close>

lemma handler_effect:
  assumes "default_of (g_signumpara p) = Terminate" "g_signumpara p = s"
  shows "status (custom_signal_handler t s p) =
      (if g_thread_test p = 0 then if g_no_pass_again p = 0 then Killed s else status p
       else if \<not> g_child_assigned p then Undef else if t = Child then Killed s else status p)"
    "child_pending (custom_signal_handler t s p) =
      (if g_thread_test p \<noteq> 0 \<and> g_child_assigned p \<and> t = Main \<and> child_pc p \<noteq> CDone
       then child_pending p @ [s] else child_pending p)"
  using assms by (cases t; simp add: custom_signal_handler_def Let_def default_action_def)+

lemma deliver_default: "handlers p s = SIG_DFL \<Longrightarrow> deliver t s p = default_action s p"
  by (simp add: deliver_def)

lemma deliver_effect:
  assumes "handlers p s = Custom" "default_of s = Terminate" "g_signumpara p = s"
  shows "status (deliver t s p) =
      (if g_thread_test p = 0 then if g_no_pass_again p = 0 then Killed s else status p
       else if \<not> g_child_assigned p then Undef else if t = Child then Killed s else status p)"
    "child_pending (deliver t s p) =
      (if g_thread_test p \<noteq> 0 \<and> g_child_assigned p \<and> t = Main \<and> child_pc p \<noteq> CDone
       then child_pending p @ [s] else child_pending p)"
  using assms by (simp_all add: deliver_def handler_effect)

text \<open>A handled signal was the configured one, and was not handled before.\<close>

lemma once_custom: "once p \<Longrightarrow> handlers p s = Custom \<Longrightarrow> handled p = 0 \<and> s = g_signumpara p"
  by (auto simp: once_def split: if_splits)

definition default_kill :: "proc \<Rightarrow> bool" where
  "default_kill p \<longleftrightarrow> g_thread_test p = 0 \<and> g_no_pass_again p = 0 \<and> default_of (g_signumpara p) = Terminate"

lemma killed_step:
  assumes "sig_step p q" "once p" "default_kill p"
    and "handled p = 1 \<Longrightarrow> status p = Killed (g_signumpara p)"
  shows "handled q = 1 \<Longrightarrow> status q = Killed (g_signumpara q)"
  using assms
proof (induction rule: sig_step.induct)
  case (main p ok)
  then show ?case by (simp add: main_step_def split: main_pc.splits if_splits)
next
  case (arrive p t s)
  then show ?case
    using once_custom [of p s]
    by (cases "handlers p s") (simp_all add: deliver_default deliver_effect default_kill_def)
next
  case (pending p s rest)
  then show ?case
    using once_custom [of p s]
    by (cases "handlers p s") (simp_all add: deliver_default deliver_effect default_kill_def)
qed simp_all

lemma default_kill_config: "config p = config q \<Longrightarrow> default_kill p = default_kill q"
  by (simp add: config_def default_kill_def)

lemma killed_runs:
  assumes "runs (signal_start argv) p" "default_kill (signal_start argv)"
  shows "handled p = 1 \<longrightarrow> status p = Killed (g_signumpara p)"
  using assms(1)
proof (induction rule: rtranclp_induct)
  case (step p q)
  then show ?case
    using killed_step [OF step(2) once_runs [OF step(1)]] assms(2)
      default_kill_config [OF config_runs [OF step(1)]] by blast
qed (simp add: start_frame)

text \<open>C20: without \<open>-t\<close> and \<open>-n\<close>, for a signal whose default action is to terminate the process, the run in
  which the handler has run is over: the process was killed by that signal, in every interleaving.\<close>

theorem default_kills:
  assumes "runs (signal_start argv) p" "default_kill (signal_start argv)" "handled p = 1"
  shows "status p = Killed (g_signumpara (signal_start argv))"
  using killed_runs [OF assms(1,2)] assms(3) signum_of_config [OF config_runs [OF assms(1)]] by simp

theorem default_kills_witness:
  "let p0 = signal_start [''signal'']; p = deliver Main 2 (main_step True p0)
   in runs p0 p \<and> default_kill p0 \<and> handled p = 1 \<and> status p = Killed 2"
proof -
  let ?p0 = "signal_start [''signal'']"
  have p0: "status ?p0 = Alive" "main_pc ?p0 = MSigaction" "g_signumpara ?p0 = 2" "handlers ?p0 = (\<lambda>_. SIG_DFL)"
      "default_kill ?p0" "handled ?p0 = 0"
    by (simp_all add: signal_start_def proc_init_def default_kill_def default_of_def)
  have "sig_step ?p0 (main_step True ?p0)"
    using p0 by (intro sig_step.main)
  moreover have p1: "status (main_step True ?p0) = Alive" "handlers (main_step True ?p0) 2 = Custom"
      "handled (main_step True ?p0) = 0"
    using p0 by (simp_all add: main_step_def sigaction_ok_def)
  then have "sig_step (main_step True ?p0) (deliver Main 2 (main_step True ?p0))"
    by (intro sig_step.arrive) (simp_all add: masked_def)
  ultimately have "runs ?p0 (deliver Main 2 (main_step True ?p0))"
    by (meson converse_rtranclp_into_rtranclp r_into_rtranclp)
  with default_kills [OF this p0(5)] p0 p1 show ?thesis
    by (simp add: Let_def)
qed


subsection \<open>The child in \<open>pause\<close>\<close>

definition pause_inv :: "proc \<Rightarrow> bool" where
  "pause_inv p \<longleftrightarrow>
    child_pc p \<in> {CNone, CStart, CPause, CPauseRet, CDone} \<and>
    (child_pc p \<in> {CPauseRet, CDone} \<longrightarrow> handled p = 1) \<and> (status p = Exited 0 \<longrightarrow> handled p = 1)"

lemma interrupted_pause:
  "child_pc p \<in> {CNone, CStart, CPause, CPauseRet, CDone} \<Longrightarrow>
    child_pc (interrupted t p) \<in> {child_pc p, CPauseRet} \<and> child_pc (interrupted t p) \<noteq> CNone \<or>
    child_pc (interrupted t p) = child_pc p"
  by (cases t; cases "child_pc p") (simp_all add: interrupted_def)

lemma status_deliver: "status p = Alive \<Longrightarrow> status (deliver t s p) \<noteq> Exited 0"
  by (simp add: deliver_def custom_signal_handler_def default_action_def Let_def
      split: disposition.split sigdefault.split)

lemma pause_deliver:
  assumes "pause_inv p" "once p" "status p = Alive"
  shows "pause_inv (deliver t s p)"
proof (cases "handlers p s")
  case SIG_DFL
  then show ?thesis
    using assms by (simp add: deliver_default pause_inv_def default_action_def split: sigdefault.split)
next
  case Custom
  then have "handled (deliver t s p) = 1"
    using once_custom [OF assms(2)] by simp
  moreover have "child_pc (deliver t s p) \<in> {CNone, CStart, CPause, CPauseRet, CDone}"
    using assms(1) Custom
      interrupted_pause [of "custom_signal_handler t s
        (p\<lparr>handlers := (handlers p)(s := SIG_DFL), handled := Suc (handled p)\<rparr>)" t]
    by (auto simp: deliver_def pause_inv_def)
  ultimately show ?thesis
    by (simp add: pause_inv_def)
qed

lemma pause_step:
  assumes "sig_step p q" "pause_inv p" "once p" "g_epoll_blocked p = 0xFF"
  shows "pause_inv q"
  using assms
proof (induction rule: sig_step.induct)
  case (main p ok)
  then show ?case
    by (simp add: pause_inv_def main_step_def split: main_pc.split) blast
next
  case (child p es)
  then show ?case
    by (auto simp: pause_inv_def child_step_def Let_def)
next
  case (arrive p t s)
  then show ?case by (simp add: pause_deliver)
next
  case (pending p s rest)
  then have "pause_inv (p\<lparr>child_pending := rest\<rparr>)" "once (p\<lparr>child_pending := rest\<rparr>)"
    by (simp_all add: pause_inv_def once_def)
  with pending(1) show ?case by (simp add: pause_deliver)
next
  case (continue p)
  then show ?case by (simp add: pause_inv_def)
qed

text \<open>When the child waits in \<open>pause\<close> the process exits with 0 only after the handler has run, and
  never without \<open>-t\<close> and \<open>-n\<close> for a terminating signal: then only a signal ends it.\<close>

theorem pause_exit_needs_handler:
  assumes "runs (signal_start argv) p" "g_epoll_blocked (signal_start argv) = 0xFF" "status p = Exited 0"
  shows "handled p = 1 \<and> \<not> default_kill (signal_start argv)"
proof -
  have "pause_inv p"
    using assms(1)
  proof (induction rule: rtranclp_induct)
    case (step p q)
    then show ?case
      using pause_step [OF step(2,3) once_runs [OF step(1)]] config_runs [OF step(1)] assms(2)
      by (simp add: config_def)
  qed (use start_frame [of argv] in \<open>auto simp: pause_inv_def\<close>)
  then show ?thesis
    using assms(3) killed_runs [OF assms(1)] by (auto simp: pause_inv_def)
qed

text \<open>A run as a list of steps, for examples.\<close>

datatype action = Run_main bool | Run_child epoll_setup | Arrive thread int

fun act :: "action \<Rightarrow> proc \<Rightarrow> proc" where
  "act (Run_main ok) p = main_step ok p"
| "act (Run_child es) p = child_step es p"
| "act (Arrive t s) p = deliver t s p"

fun enabled :: "action \<Rightarrow> proc \<Rightarrow> bool" where
  "enabled (Run_main ok) p = (status p = Alive)"
| "enabled (Run_child es) p = (status p = Alive \<and> child_pc p \<noteq> CNone)"
| "enabled (Arrive t s) p =
    (status p = Alive \<and> (t = Main \<or> child_pc p \<notin> {CNone, CDone}) \<and> \<not> masked t s p)"

fun all_enabled :: "action list \<Rightarrow> proc \<Rightarrow> bool" where
  "all_enabled [] p = True"
| "all_enabled (a # as) p = (enabled a p \<and> all_enabled as (act a p))"

lemma act_step: "enabled a p \<Longrightarrow> sig_step p (act a p)"
  by (cases a) (auto intro: sig_step.intros)

lemma runs_of_actions: "all_enabled as p \<Longrightarrow> runs p (fold act as p)"
proof (induction as arbitrary: p)
  case (Cons a as)
  then show ?case
    using act_step [of a p] by (auto intro: converse_rtranclp_into_rtranclp)
qed simp

lemmas run_simps = signal_start_def proc_init_def main_step_def child_step_def deliver_def masked_def
  custom_signal_handler_def interrupted_def sigaction_ok_def default_action_def default_of_def Let_def

theorem pause_exit_needs_handler_witness:
  "let p0 = signal_start [''signal'', ''-n''];
     p = fold act [Run_main True, Run_main True, Run_main True, Run_child SetupOk, Arrive Child 2,
       Run_child SetupOk, Run_main True] p0
   in runs p0 p \<and> status p = Exited 0 \<and> handled p = 1 \<and> \<not> default_kill p0"
proof -
  let ?p0 = "signal_start [''signal'', ''-n'']"
  let ?as = "[Run_main True, Run_main True, Run_main True, Run_child SetupOk, Arrive Child 2,
       Run_child SetupOk, Run_main True]"
  have "all_enabled ?as ?p0" "status (fold act ?as ?p0) = Exited 0" "g_epoll_blocked ?p0 = 0xFF"
    by (simp_all add: run_simps)
  then show ?thesis
    using pause_exit_needs_handler [OF runs_of_actions [of ?as ?p0]] runs_of_actions [of ?as ?p0]
    unfolding Let_def by blast
qed

subsection \<open>The thread test\<close>


end
