(* ===== verification/Sftp.thy ===== *)
theory Sftp
  imports CIO "HOL-Library.Sublist"
begin

text \<open>
  \<open>libssh2/sftpdir.c\<close>: a directory listing over SFTP.  The library libssh2 is a parameter: its functions
  are calls answered by the environment, pointers are numbers with 0 for \<open>NULL\<close>, and \<open>entry\<close> gives what
  \<open>libssh2_sftp_readdir_ex\<close> stored.  The order of the calls is a protocol, stated as a monitor.
\<close>

unbundle bit_operations_syntax

subsection \<open>Calls\<close>

datatype ssh_call =
    LibInit | LibExit
  | SshSocket | Connect int u16 bytes | SshClose int
  | SessionInit | Handshake int int | HostkeyHash int | UserauthList int string
  | AuthPassword int string string | AuthKbdint int string string
  | AuthPublickey int string string string string
  | SftpInit int | SetBlocking int int | Opendir int string | Readdir int | Closedir int
  | SftpShutdown int | Disconnect int string | SessionFree int

type_synonym ssh_os = "ssh_call os"
type_synonym 'a ssh_prog = "(ssh_call, 'a) prog"

record sftp_entry =
  e_mem :: string
  e_longentry :: string
  e_flags :: u64
  e_uid :: u64
  e_gid :: u64
  e_filesize :: u64

abbreviation (input) SFTP_ATTR_SIZE :: u64 where "SFTP_ATTR_SIZE \<equiv> 1"
abbreviation (input) SFTP_ATTR_UIDGID :: u64 where "SFTP_ATTR_UIDGID \<equiv> 2"
abbreviation (input) SFTP_ATTR_PERMISSIONS :: u64 where "SFTP_ATTR_PERMISSIONS \<equiv> 4"

definition text_of :: "bytes \<Rightarrow> string" where
  "text_of bs = map (\<lambda>b. char_of (unat b)) bs"

subsection \<open>The answer to a prompt\<close>

text \<open>\<open>kbd_callback\<close>: the responses as texts with their lengths.\<close>

definition kbd_callback :: "string \<Rightarrow> int \<Rightarrow> (string \<times> nat) list \<Rightarrow> (string \<times> nat) list" where
  "kbd_callback pass num_prompts responses =
    (if num_prompts = 1 then responses[0 := (pass, length pass)] else responses)"

subsection \<open>The authentication method\<close>

definition strstr :: "string \<Rightarrow> string \<Rightarrow> bool" where
  "strstr hay needle \<longleftrightarrow> sublist needle hay"

definition lower :: "char \<Rightarrow> nat" where
  "lower c = (let n = of_char c in if 65 \<le> n \<and> n \<le> 90 then n + 32 else n)"

definition strcasecmp_eq :: "string \<Rightarrow> string \<Rightarrow> bool" where
  "strcasecmp_eq a b \<longleftrightarrow> map lower a = map lower b"

text \<open>The bits of \<open>auth_pw\<close> from the list of the server, and from the fifth argument when there is one.\<close>

definition auth_offered :: "string \<Rightarrow> u32" where
  "auth_offered userauthlist =
    (if strstr userauthlist ''password'' then 1 else 0) OR
    (if strstr userauthlist ''keyboard-interactive'' then 2 else 0) OR
    (if strstr userauthlist ''publickey'' then 4 else 0)"

definition auth_option :: "string option \<Rightarrow> u32 \<Rightarrow> u32" where
  "auth_option arg5 auth_pw =
    (case arg5 of
       None \<Rightarrow> auth_pw
     | Some a \<Rightarrow>
         let auth_pw = (if auth_pw AND 1 \<noteq> 0 \<and> strcasecmp_eq a ''-p'' then 1 else auth_pw);
             auth_pw = (if auth_pw AND 2 \<noteq> 0 \<and> strcasecmp_eq a ''-i'' then 2 else auth_pw)
         in if auth_pw AND 4 \<noteq> 0 \<and> strcasecmp_eq a ''-k'' then 4 else auth_pw)"

datatype auth_method = ByPassword | ByKbdint | ByPublickey

definition auth_choice :: "u32 \<Rightarrow> auth_method option" where
  "auth_choice auth_pw =
    (if auth_pw AND 1 \<noteq> 0 then Some ByPassword
     else if auth_pw AND 2 \<noteq> 0 then Some ByKbdint
     else if auth_pw AND 4 \<noteq> 0 then Some ByPublickey
     else None)"

definition authenticate :: "ssh_os \<Rightarrow> int \<Rightarrow> string \<Rightarrow> string \<Rightarrow> u32 \<Rightarrow> bool ssh_prog" where
  "authenticate os session username password auth_pw =
    (case auth_choice auth_pw of
       Some ByPassword \<Rightarrow> do {
         r \<leftarrow> call os (AuthPassword session username password);
         (if sys_ret r \<noteq> 0 then eprintf (CHR 0x09 # ''Authentication by password failed!\<newline>'') []
          else eprintf (CHR 0x09 # ''Authentication by password succeeded.\<newline>'') []);
         exit_with (sys_ret r = 0)
       }
     | Some ByKbdint \<Rightarrow> do {
         r \<leftarrow> call os (AuthKbdint session username password);
         (if sys_ret r \<noteq> 0 then eprintf (CHR 0x09 # ''Authentication by keyboard-interactive failed!\<newline>'') []
          else eprintf (CHR 0x09 # ''Authentication by keyboard-interactive succeeded.\<newline>'') []);
         exit_with (sys_ret r = 0)
       }
     | Some ByPublickey \<Rightarrow> do {
         r \<leftarrow> call os (AuthPublickey session username ''~/.ssh/id_rsa.pub'' ''~/.ssh/id_rsa'' password);
         (if sys_ret r \<noteq> 0 then eprintf (CHR 0x09 # ''Authentication by public key failed!\<newline>'') []
          else eprintf (CHR 0x09 # ''Authentication by public key succeeded.\<newline>'') []);
         exit_with (sys_ret r = 0)
       }
     | None \<Rightarrow> do {
         eprintf ''No supported authentication methods found!\<newline>'' [];
         exit_with False
       })"

subsection \<open>The listing\<close>

definition print_entry :: "sftp_entry \<Rightarrow> unit ssh_prog" where
  "print_entry e =
    (if e_longentry e \<noteq> [] then printf ''%s\<newline>'' [ArgS (e_longentry e)]
     else do {
       (if e_flags e AND SFTP_ATTR_PERMISSIONS \<noteq> 0 then printf ''--fix----- '' []
        else printf ''---------- '' []);
       (if e_flags e AND SFTP_ATTR_UIDGID \<noteq> 0 then printf ''%4ld %4ld '' [ArgI (sint (e_uid e)), ArgI (sint (e_gid e))]
        else printf ''   -    - '' []);
       (if e_flags e AND SFTP_ATTR_SIZE \<noteq> 0 then printf ''%8lu '' [ArgI (uint (e_filesize e))]
        else exit_with ());
       printf ''%s\<newline>'' [ArgS (e_mem e)]
     })"

text \<open>The loop ends when \<open>libssh2_sftp_readdir_ex\<close> returns 0 or an error; \<open>fuel\<close> bounds the rounds.\<close>

fun readdir_loop :: "ssh_os \<Rightarrow> (sysret \<Rightarrow> sftp_entry) \<Rightarrow> int \<Rightarrow> nat \<Rightarrow> unit option ssh_prog" where
  "readdir_loop os entry sftp_handle 0 = exit_with None"
| "readdir_loop os entry sftp_handle (Suc fuel) = do {
     r \<leftarrow> call os (Readdir sftp_handle);
     if sys_ret r > 0 then do {
       print_entry (entry r);
       readdir_loop os entry sftp_handle fuel
     }
     else exit_with (Some ())
   }"

subsection \<open>\<open>main\<close>\<close>

definition ssh_shutdown :: "ssh_os \<Rightarrow> int \<Rightarrow> int \<Rightarrow> outcome ssh_prog" where
  "ssh_shutdown os session sock = do {
     call os (Disconnect session ''Normal Shutdown, Thank you for playing'');
     call os (SessionFree session);
     call os (SshClose sock);
     eprintf ''all done\<newline>'' [];
     call os LibExit;
     exit_with (Exit 0)
   }"

text \<open>From \<open>libssh2_sftp_init\<close> on, after the authentication.\<close>

definition sftp_list :: "ssh_os \<Rightarrow> (sysret \<Rightarrow> sftp_entry) \<Rightarrow> nat \<Rightarrow> int \<Rightarrow> int \<Rightarrow> string \<Rightarrow> outcome ssh_prog" where
  "sftp_list os entry fuel session sock sftppath = do {
     eprintf ''libssh2_sftp_init()!\<newline>'' [];
     sftp \<leftarrow> call os (SftpInit session);
     if sys_ret sftp = 0 then do {
       eprintf ''Unable to init SFTP session\<newline>'' [];
       ssh_shutdown os session sock
     }
     else do {
       call os (SetBlocking session 1);
       eprintf ''libssh2_sftp_opendir()!\<newline>'' [];
       handle \<leftarrow> call os (Opendir (sys_ret sftp) sftppath);
       if sys_ret handle = 0 then do {
         eprintf ''Unable to open dir with SFTP\<newline>'' [];
         ssh_shutdown os session sock
       }
       else do {
         eprintf ''libssh2_sftp_opendir() is done, now receive listing!\<newline>'' [];
         done \<leftarrow> readdir_loop os entry (sys_ret handle) fuel;
         case done of
           None \<Rightarrow> exit_with Running
         | Some _ \<Rightarrow> do {
             call os (Closedir (sys_ret handle));
             call os (SftpShutdown (sys_ret sftp));
             ssh_shutdown os session sock
           }
       }
     }
   }"

text \<open>After the handshake: fingerprint, methods, authentication.  A \<open>NULL\<close> fingerprint or list is used
  without a test.\<close>

definition ssh_session ::
    "ssh_os \<Rightarrow> (sysret \<Rightarrow> sftp_entry) \<Rightarrow> nat \<Rightarrow> int \<Rightarrow> int \<Rightarrow> string \<Rightarrow> string \<Rightarrow> string \<Rightarrow> string option \<Rightarrow>
      outcome ssh_prog" where
  "ssh_session os entry fuel session sock username password sftppath arg5 = do {
     fp \<leftarrow> call os (HostkeyHash session);
     eprintf ''Fingerprint: '' [];
     if sys_ret fp = 0 \<or> length (sys_data fp) < 20 then exit_with Undefined
     else do {
       eprintf (concat (replicate 20 ''%02X '')) (map (\<lambda>b. ArgI (uint b)) (take 20 (sys_data fp)));
       eprintf ''\<newline>'' [];
       lst \<leftarrow> call os (UserauthList session username);
       if sys_ret lst = 0 then exit_with Undefined
       else do {
         eprintf ''Authentication methods: %s\<newline>'' [ArgS (text_of (sys_data lst))];
         ok \<leftarrow> authenticate os session username password
                (auth_option arg5 (auth_offered (text_of (sys_data lst))));
         if ok then sftp_list os entry fuel session sock sftppath
         else ssh_shutdown os session sock
       }
     }
   }"

definition argv_or :: "string list \<Rightarrow> nat \<Rightarrow> string \<Rightarrow> string" where
  "argv_or argv i d = (if i < length argv then argv ! i else d)"

definition sftpdir_main ::
    "ssh_os \<Rightarrow> (string \<Rightarrow> bytes) \<Rightarrow> (sysret \<Rightarrow> sftp_entry) \<Rightarrow> nat \<Rightarrow> string list \<Rightarrow> outcome ssh_prog" where
  "sftpdir_main os inet_addr entry fuel argv = do {
     let hostaddr = (if 1 < length argv then inet_addr (argv ! 1) else [127, 0, 0, 1]);
     r \<leftarrow> call os LibInit;
     if sys_ret r \<noteq> 0 then do {
       eprintf ''libssh2 initialization failed (%d)\<newline>'' [ArgI (sys_ret r)];
       exit_with (Exit 1)
     }
     else do {
       r \<leftarrow> call os SshSocket;
       let sock = sys_ret r;
       r \<leftarrow> call os (Connect sock (htons 22) hostaddr);
       if sys_ret r \<noteq> 0 then do {
         eprintf ''failed to connect!\<newline>'' [];
         exit_with (Exit (- 1))
       }
       else do {
         r \<leftarrow> call os SessionInit;
         let session = sys_ret r;
         if session = 0 then exit_with (Exit (- 1))
         else do {
           r \<leftarrow> call os (Handshake session sock);
           if sys_ret r \<noteq> 0 then do {
             eprintf ''Failure establishing SSH session: %d\<newline>'' [ArgI (sys_ret r)];
             exit_with (Exit (- 1))
           }
           else ssh_session os entry fuel session sock (argv_or argv 2 ''username'')
             (argv_or argv 3 ''password'') (argv_or argv 4 ''/tmp/secretdir'')
             (if 5 < length argv then Some (argv ! 5) else None)
         }
       }
     }
   }"


subsection \<open>The protocol of the library\<close>

record ssh_state =
  st_lib :: bool
  st_sock :: "int option"
  st_session :: "int option"
  st_shaken :: bool
  st_auth :: bool
  st_sftp :: "int option"
  st_handle :: "int option"

definition ssh_idle :: ssh_state where
  "ssh_idle = \<lparr>st_lib = False, st_sock = None, st_session = None, st_shaken = False, st_auth = False,
     st_sftp = None, st_handle = None\<rparr>"

text \<open>
  Every object is used between its creation and its release; a session only after the handshake; SFTP only
  after a successful authentication; the socket is closed after the session that uses it is gone.
\<close>

fun ssh_step :: "ssh_call \<Rightarrow> sysret \<Rightarrow> ssh_state \<Rightarrow> ssh_state option" where
  "ssh_step LibInit r s = (if st_lib s then None else Some (s\<lparr>st_lib := (sys_ret r = 0)\<rparr>))"
| "ssh_step LibExit r s = (if st_lib s \<and> st_session s = None then Some (s\<lparr>st_lib := False\<rparr>) else None)"
| "ssh_step SshSocket r s = Some (s\<lparr>st_sock := (if sys_ret r < 0 then None else Some (sys_ret r))\<rparr>)"
| "ssh_step (Connect fd port a) r s = (if st_sock s = Some fd \<or> sys_ret r \<noteq> 0 then Some s else None)"
| "ssh_step (SshClose fd) r s =
    (if st_sock s = Some fd \<and> st_session s = None then Some (s\<lparr>st_sock := None\<rparr>) else None)"
| "ssh_step SessionInit r s =
    (if st_lib s then Some (s\<lparr>st_session := (if sys_ret r = 0 then None else Some (sys_ret r))\<rparr>) else None)"
| "ssh_step (Handshake x fd) r s =
    (if st_session s = Some x \<and> st_sock s = Some fd then Some (s\<lparr>st_shaken := (sys_ret r = 0)\<rparr>) else None)"
| "ssh_step (HostkeyHash x) r s = (if st_session s = Some x \<and> st_shaken s then Some s else None)"
| "ssh_step (UserauthList x u) r s = (if st_session s = Some x \<and> st_shaken s then Some s else None)"
| "ssh_step (AuthPassword x u p) r s =
    (if st_session s = Some x \<and> st_shaken s then Some (s\<lparr>st_auth := (sys_ret r = 0)\<rparr>) else None)"
| "ssh_step (AuthKbdint x u p) r s =
    (if st_session s = Some x \<and> st_shaken s then Some (s\<lparr>st_auth := (sys_ret r = 0)\<rparr>) else None)"
| "ssh_step (AuthPublickey x u k1 k2 p) r s =
    (if st_session s = Some x \<and> st_shaken s then Some (s\<lparr>st_auth := (sys_ret r = 0)\<rparr>) else None)"
| "ssh_step (SftpInit x) r s =
    (if st_session s = Some x \<and> st_auth s
     then Some (s\<lparr>st_sftp := (if sys_ret r = 0 then None else Some (sys_ret r))\<rparr>) else None)"
| "ssh_step (SetBlocking x b) r s = (if st_session s = Some x then Some s else None)"
| "ssh_step (Opendir f path) r s =
    (if st_sftp s = Some f then Some (s\<lparr>st_handle := (if sys_ret r = 0 then None else Some (sys_ret r))\<rparr>) else None)"
| "ssh_step (Readdir d) r s = (if st_handle s = Some d then Some s else None)"
| "ssh_step (Closedir d) r s = (if st_handle s = Some d then Some (s\<lparr>st_handle := None\<rparr>) else None)"
| "ssh_step (SftpShutdown f) r s =
    (if st_sftp s = Some f \<and> st_handle s = None then Some (s\<lparr>st_sftp := None\<rparr>) else None)"
| "ssh_step (Disconnect x msg) r s = (if st_session s = Some x then Some s else None)"
| "ssh_step (SessionFree x) r s =
    (if st_session s = Some x \<and> st_handle s = None
     then Some (s\<lparr>st_session := None, st_shaken := False, st_auth := False, st_sftp := None\<rparr>) else None)"

text \<open>\<open>connect\<close> on the result of a failed \<open>socket\<close> fails.\<close>

definition connect_law :: "ssh_os \<Rightarrow> bool" where
  "connect_law os \<longleftrightarrow> (\<forall>h fd port a. fd < 0 \<longrightarrow> sys_ret (os h (Connect fd port a)) \<noteq> 0)"

lemma wp_ssh_shutdown:
  assumes "st_session s = Some x" "st_sock s = Some fd" "st_handle s = None" "st_lib s" "Q (Exit 0) ssh_idle"
  shows "wp ssh_step (ssh_shutdown os x fd) Q s"
  unfolding ssh_shutdown_def using assms
  by (cases s) (intro wp_rules wp_call, simp add: ssh_idle_def wp_rules | intro wp_rules wp_call)+

lemma wp_authenticate:
  assumes "st_session s = Some x" "st_shaken s" "\<And>ok. Q ok (s\<lparr>st_auth := ok\<rparr>)" "Q False s"
  shows "wp ssh_step (authenticate os x u p auth_pw) Q s"
  unfolding authenticate_def using assms
  by (auto split: option.split auth_method.split intro!: wp_rules wp_call)

lemma wp_readdir_loop:
  assumes "st_handle s = Some d" "\<And>x. Q x s"
  shows "wp ssh_step (readdir_loop os entry d fuel) Q s"
proof (induction fuel)
  case (Suc fuel)
  then show ?case
    using assms by (auto simp: print_entry_def intro!: wp_rules wp_call)
qed (simp add: assms(2) wp_return)

lemma wp_sftp_list:
  assumes "st_session s = Some x" "st_sock s = Some fd" "st_handle s = None" "st_lib s" "st_auth s"
    and "Q (Exit 0) ssh_idle" "\<And>t. Q Running t"
  shows "wp ssh_step (sftp_list os entry fuel x fd path) Q s"
  unfolding sftp_list_def using assms
  by (auto intro!: wp_rules wp_call wp_ssh_shutdown wp_readdir_loop)

lemma wp_ssh_session:
  assumes "st_session s = Some x" "st_sock s = Some fd" "st_handle s = None" "st_lib s" "st_shaken s" "\<not> st_auth s"
    and "Q (Exit 0) ssh_idle" "\<And>t. Q Running t" "\<And>t. Q Undefined t"
  shows "wp ssh_step (ssh_session os entry fuel x fd u p path arg5) Q s"
  unfolding ssh_session_def using assms
  by (auto intro!: wp_rules wp_call wp_ssh_shutdown wp_sftp_list wp_authenticate)

text \<open>C8: whatever the library and the kernel answer, \<open>sftpdir\<close> keeps the protocol of libssh2: every object is
  used between its creation and its release, the session only after the handshake and SFTP only after a
  successful authentication.  When it exits with 0 everything is released; when it exits with -1 the
  library is left initialised.\<close>

theorem sftpdir_protocol:
  assumes "connect_law os"
  shows "\<exists>s. monitor ssh_step ssh_idle (final (sftpdir_main os inet_addr entry fuel argv) []) = Some s \<and>
    (result (sftpdir_main os inet_addr entry fuel argv) [] = Exit 0 \<longrightarrow> s = ssh_idle) \<and>
    (result (sftpdir_main os inet_addr entry fuel argv) [] = Exit (- 1) \<longrightarrow> st_lib s)"
proof -
  have connect: "wp ssh_step (call os (Connect fd port a)) Q s"
    if "\<And>r. sys_ret r \<noteq> 0 \<Longrightarrow> Q r s" "\<And>r. st_sock s = Some fd \<Longrightarrow> Q r s" "st_sock s = (if fd < 0 then None else Some fd)"
    for fd port a Q s
    using assms that
    by (intro wp_call_law [where L = "\<lambda>c r. case c of Connect fd _ _ \<Rightarrow> fd < 0 \<longrightarrow> sys_ret r \<noteq> 0 | _ \<Rightarrow> True"])
      (auto simp: connect_law_def split: if_splits)
  have "wp ssh_step (sftpdir_main os inet_addr entry fuel argv)
      (\<lambda>res s. (res = Exit 0 \<longrightarrow> s = ssh_idle) \<and> (res = Exit (- 1) \<longrightarrow> st_lib s)) ssh_idle"
    unfolding sftpdir_main_def
    by (intro wp_rules wp_call [where c = LibInit] wp_call [where c = SshSocket] wp_call [where c = SessionInit]
        wp_call [where c = "Handshake x fd" for x fd] connect wp_ssh_session; (simp add: ssh_idle_def)?)
      (auto simp: ssh_idle_def intro!: wp_rules wp_call [where c = SshSocket] wp_call [where c = SessionInit]
        wp_call [where c = "Handshake x fd" for x fd] connect wp_ssh_session)
  from wpD [OF this, of ssh_idle "[]"] show ?thesis
    by simp
qed


theorem sftpdir_protocol_witness:
  "let os = (\<lambda>h c. \<lparr>sys_ret = (case c of SshSocket \<Rightarrow> 3 | Connect fd _ _ \<Rightarrow> if fd < 0 then - 1 else 0 |
        SessionInit \<Rightarrow> 1 | Handshake _ _ \<Rightarrow> - 5 | _ \<Rightarrow> 0), sys_errno = 0, sys_data = [], sys_addr = []\<rparr>);
      p = sftpdir_main os (\<lambda>_. [127, 0, 0, 1]) (\<lambda>_. undefined) 1 [''sftpdir'']
   in connect_law os \<and> result p [] = Exit (- 1) \<and>
     (\<exists>s. monitor ssh_step ssh_idle (final p []) = Some s \<and> st_lib s)"
proof -
  define os :: ssh_os where "os = (\<lambda>h c. \<lparr>sys_ret = (case c of SshSocket \<Rightarrow> 3 | Connect fd _ _ \<Rightarrow> if fd < 0 then - 1 else 0 |
        SessionInit \<Rightarrow> 1 | Handshake _ _ \<Rightarrow> - 5 | _ \<Rightarrow> 0), sys_errno = 0, sys_data = [], sys_addr = []\<rparr>)"
  have law: "connect_law os"
    by (simp add: connect_law_def os_def)
  have "result (sftpdir_main os (\<lambda>_. [127, 0, 0, 1]) (\<lambda>_. undefined) 1 [''sftpdir'']) [] = Exit (- 1)"
    by (simp add: sftpdir_main_def result_bind final_bind os_def Let_def)
  with sftpdir_protocol [OF law, of "\<lambda>_. [127, 0, 0, 1]" "\<lambda>_. undefined" 1 "[''sftpdir'']"] law show ?thesis
    unfolding os_def [symmetric] Let_def by auto
qed

subsection \<open>The choice of the method\<close>

definition offers :: "string \<Rightarrow> auth_method \<Rightarrow> bool" where
  "offers userauthlist m \<longleftrightarrow> strstr userauthlist
    (case m of ByPassword \<Rightarrow> ''password'' | ByKbdint \<Rightarrow> ''keyboard-interactive'' | ByPublickey \<Rightarrow> ''publickey'')"

definition option_of :: "auth_method \<Rightarrow> string" where
  "option_of m = (case m of ByPassword \<Rightarrow> ''-p'' | ByKbdint \<Rightarrow> ''-i'' | ByPublickey \<Rightarrow> ''-k'')"

lemma auth_bits:
  "auth_offered l AND 1 \<noteq> 0 \<longleftrightarrow> offers l ByPassword"
  "auth_offered l AND 2 \<noteq> 0 \<longleftrightarrow> offers l ByKbdint"
  "auth_offered l AND 4 \<noteq> 0 \<longleftrightarrow> offers l ByPublickey"
  by (simp_all add: auth_offered_def offers_def)

lemma strcasecmp_options:
  "strcasecmp_eq a ''-p'' \<Longrightarrow> \<not> strcasecmp_eq a ''-i'' \<and> \<not> strcasecmp_eq a ''-k''"
  "strcasecmp_eq a ''-i'' \<Longrightarrow> \<not> strcasecmp_eq a ''-p'' \<and> \<not> strcasecmp_eq a ''-k''"
  "strcasecmp_eq a ''-k'' \<Longrightarrow> \<not> strcasecmp_eq a ''-p'' \<and> \<not> strcasecmp_eq a ''-i''"
  by (simp_all add: strcasecmp_eq_def lower_def)

text \<open>The preference among the methods a server offers, without an option.\<close>

definition preferred :: "string \<Rightarrow> auth_method option" where
  "preferred l = find (offers l) [ByPassword, ByKbdint, ByPublickey]"

lemma auth_choice_value:
  "auth_choice (auth_option arg5 (auth_offered l)) =
    (case find (\<lambda>m. offers l m \<and> (\<exists>a. arg5 = Some a \<and> strcasecmp_eq a (option_of m)))
       [ByPassword, ByKbdint, ByPublickey] of
       Some m \<Rightarrow> Some m
     | None \<Rightarrow> preferred l)"
proof (cases arg5)
  case None
  then show ?thesis
    by (simp add: auth_option_def auth_choice_def auth_bits preferred_def)
next
  case (Some a)
  note simps = Some auth_option_def auth_choice_def auth_bits preferred_def option_of_def Let_def
  consider "strcasecmp_eq a ''-p''" | "strcasecmp_eq a ''-i''" | "strcasecmp_eq a ''-k''"
    | "\<not> strcasecmp_eq a ''-p''" "\<not> strcasecmp_eq a ''-i''" "\<not> strcasecmp_eq a ''-k''"
    by blast
  then show ?thesis
  proof cases
    case 1
    with strcasecmp_options(1) [OF 1] show ?thesis by (simp add: simps)
  next
    case 2
    with strcasecmp_options(2) [OF 2] show ?thesis by (simp add: simps)
  next
    case 3
    with strcasecmp_options(3) [OF 3] show ?thesis by (simp add: simps)
  next
    case 4
    then show ?thesis by (simp add: simps)
  qed
qed

text \<open>The methods in the order of preference.\<close>

fun rank :: "auth_method \<Rightarrow> nat" where
  "rank ByPassword = 0"
| "rank ByKbdint = 1"
| "rank ByPublickey = 2"

instantiation auth_method :: linorder
begin

definition less_eq_auth_method :: "auth_method \<Rightarrow> auth_method \<Rightarrow> bool" where
  "less_eq_auth_method m n \<longleftrightarrow> rank m \<le> rank n"

definition less_auth_method :: "auth_method \<Rightarrow> auth_method \<Rightarrow> bool" where
  "less_auth_method m n \<longleftrightarrow> rank m < rank n"

instance
proof
  fix m n :: auth_method
  show "m \<le> n \<Longrightarrow> n \<le> m \<Longrightarrow> m = n"
    by (cases m; cases n) (simp_all add: less_eq_auth_method_def)
qed (auto simp: less_eq_auth_method_def less_auth_method_def)

end

lemma finite_methods: "finite S" for S :: "auth_method set"
  by (rule finite_subset [of _ "{ByPassword, ByKbdint, ByPublickey}"]) (auto intro: auth_method.exhaust)

lemma least_method: "P m \<Longrightarrow> (\<And>n. P n \<Longrightarrow> m \<le> n) \<Longrightarrow> {m. P m} \<noteq> {} \<and> Min {m. P m} = m" for m :: auth_method
  by (auto intro!: Min_eqI finite_methods)

lemma method_order: "ByPassword \<le> n" "n \<noteq> ByPassword \<Longrightarrow> ByKbdint \<le> n" "ByPublickey \<le> n \<longleftrightarrow> n = ByPublickey"
  by (cases n; simp add: less_eq_auth_method_def)+

lemma find_in_order:
  "find P [ByPassword, ByKbdint, ByPublickey] = (if {m. P m} = {} then None else Some (Min {m. P m}))"
proof -
  consider "P ByPassword" | "\<not> P ByPassword" "P ByKbdint" | "\<not> P ByPassword" "\<not> P ByKbdint" "P ByPublickey"
    | "\<And>m. \<not> P m"
    by (metis auth_method.exhaust)
  then show ?thesis
  proof cases
    case 1
    with least_method [of P ByPassword] show ?thesis
      by (simp add: method_order(1))
  next
    case 2
    have "P n \<Longrightarrow> ByKbdint \<le> n" for n
      using 2(1) by (intro method_order(2)) auto
    with least_method [of P ByKbdint] 2 show ?thesis
      by simp
  next
    case 3
    have "P n \<Longrightarrow> ByPublickey \<le> n" for n
      using 3 by (cases n) (simp_all add: method_order(3))
    with least_method [of P ByPublickey] 3 show ?thesis
      by simp
  qed simp
qed

text \<open>C33: \<open>sftpdir\<close> only tries a method that the server offers, and gives up exactly when it offers none of the
  three; an option for an offered method is honoured, in either case of letters, and otherwise it takes the first of the
  offered methods in the order password, keyboard-interactive, public key.\<close>

theorem auth_choice_correct:
  "auth_choice (auth_option arg5 (auth_offered l)) =
    (let offered = {m. offers l m}; wanted = {m \<in> offered. \<exists>a. arg5 = Some a \<and> strcasecmp_eq a (option_of m)} in
     if offered = {} then None else Some (Min (if wanted = {} then offered else wanted)))"
  unfolding auth_choice_value preferred_def find_in_order by (auto simp: Let_def)

end
