(* ===== verification/SftpListing.thy ===== *)
theory SftpListing
  imports Sftp
begin

text \<open>
  What \<open>libssh2/sftpdir.c\<close> lists: with a server that lets it in, the standard output is the text of the entries of
  the directory, in their order.
\<close>

text \<open>The standard output of a run, the oldest line first.\<close>

fun stdout :: "'c history \<Rightarrow> 'c event list" where
  "stdout [] = []"
| "stdout (Printf f as # h) = stdout h @ [Printf f as]"
| "stdout (_ # h) = stdout h"

text \<open>The text of an entry: its long form when the server sends one, and otherwise fields for the attributes that its
  flags announce.\<close>

definition entry_text :: "sftp_entry \<Rightarrow> ssh_call event list" where
  "entry_text e =
    (if e_longentry e \<noteq> [] then [Printf ''%s\<newline>'' [ArgS (e_longentry e)]]
     else [if e_flags e AND 4 \<noteq> 0 then Printf ''--fix----- '' [] else Printf ''---------- '' [],
           if e_flags e AND 2 \<noteq> 0 then Printf ''%4ld %4ld '' [ArgI (sint (e_uid e)), ArgI (sint (e_gid e))]
           else Printf ''   -    - '' []] @
          (if e_flags e AND 1 \<noteq> 0 then [Printf ''%8lu '' [ArgI (uint (e_filesize e))]] else []) @
          [Printf ''%s\<newline>'' [ArgS (e_mem e)]])"

lemma print_entry_text: "stdout (final (print_entry e) h) = stdout h @ entry_text e" "made c (final (print_entry e) h) = made c h"
  by (simp_all add: print_entry_def entry_text_def final_bind)

text \<open>The directory handle delivers the entries \<open>es\<close> and then a result that is not positive: the end or an error.\<close>

definition delivers_entries :: "ssh_os \<Rightarrow> (sysret \<Rightarrow> sftp_entry) \<Rightarrow> int \<Rightarrow> sftp_entry list \<Rightarrow> bool" where
  "delivers_entries os entry d es \<longleftrightarrow>
    (\<forall>h. if made (Readdir d) h < length es
         then 0 < sys_ret (os h (Readdir d)) \<and> entry (os h (Readdir d)) = es ! made (Readdir d) h
         else sys_ret (os h (Readdir d)) \<le> 0)"

lemma readdir_loop_lists:
  assumes "delivers_entries os entry d es"
  shows "length es < fuel + made (Readdir d) h \<Longrightarrow> made (Readdir d) h \<le> length es \<Longrightarrow>
    result (readdir_loop os entry d fuel) h = Some () \<and>
    stdout (final (readdir_loop os entry d fuel) h) = stdout h @ concat (map entry_text (drop (made (Readdir d) h) es))"
proof (induction fuel arbitrary: h)
  case (Suc fuel)
  let ?r = "os h (Readdir d)"
  show ?case
  proof (cases "made (Readdir d) h < length es")
    case True
    then have r: "0 < sys_ret ?r" "entry ?r = es ! made (Readdir d) h"
      using assms by (simp_all add: delivers_entries_def)
    have "drop (made (Readdir d) h) es = es ! made (Readdir d) h # drop (Suc (made (Readdir d) h)) es"
      using True by (simp add: Cons_nth_drop_Suc)
    then show ?thesis
      using Suc.IH [of "final (print_entry (entry ?r)) (Call (Readdir d) ?r # h)"] Suc.prems True r
      by (simp add: result_bind final_bind print_entry_text)
  next
    case False
    then have "sys_ret ?r \<le> 0"
      using assms by (simp add: delivers_entries_def)
    then show ?thesis
      using False Suc.prems by (simp add: result_bind final_bind)
  qed
qed simp

text \<open>A server and a library that let the program in, without a failure before the listing.\<close>

definition lets_in :: "ssh_os \<Rightarrow> bool" where
  "lets_in os \<longleftrightarrow>
    (\<forall>h. sys_ret (os h LibInit) = 0 \<and> (\<forall>fd port a. sys_ret (os h (Connect fd port a)) = 0) \<and> sys_ret (os h SessionInit) \<noteq> 0 \<and>
      (\<forall>x. (\<forall>fd. sys_ret (os h (Handshake x fd)) = 0) \<and>
        sys_ret (os h (HostkeyHash x)) \<noteq> 0 \<and> 20 \<le> length (sys_data (os h (HostkeyHash x))) \<and>
        (\<forall>u. sys_ret (os h (UserauthList x u)) \<noteq> 0 \<and> (\<exists>m. offers (text_of (sys_data (os h (UserauthList x u)))) m) \<and>
          (\<forall>p. sys_ret (os h (AuthPassword x u p)) = 0 \<and> sys_ret (os h (AuthKbdint x u p)) = 0 \<and>
            (\<forall>k l. sys_ret (os h (AuthPublickey x u k l p)) = 0))) \<and>
        sys_ret (os h (SftpInit x)) \<noteq> 0 \<and> (\<forall>path. sys_ret (os h (Opendir x path)) \<noteq> 0)))"

lemma auth_choice_offered: "offers l m \<Longrightarrow> auth_choice (auth_option arg5 (auth_offered l)) \<noteq> None"
  unfolding auth_choice_value preferred_def
  by (cases m) (auto split: option.splits)

lemma authenticate_lets_in:
  assumes "lets_in os" "auth_choice pw \<noteq> None"
  shows "result (authenticate os x u p pw) h" "stdout (final (authenticate os x u p pw) h) = stdout h"
    "made (Readdir d) (final (authenticate os x u p pw) h) = made (Readdir d) h"
  using assms by (auto simp: authenticate_def lets_in_def result_bind final_bind split: option.splits auth_method.splits)

lemma shutdown_quiet:
  "result (ssh_shutdown os x fd) h = Exit 0" "stdout (final (ssh_shutdown os x fd) h) = stdout h"
  by (simp_all add: ssh_shutdown_def result_bind final_bind)

lemma sftp_list_lists:
  assumes "lets_in os" "\<And>d. delivers_entries os entry d es" "length es < fuel" "\<And>d. made (Readdir d) h = 0"
  shows "result (sftp_list os entry fuel x fd path) h = Exit 0 \<and>
    stdout (final (sftp_list os entry fuel x fd path) h) = stdout h @ concat (map entry_text es)"
  using assms readdir_loop_lists [OF assms(2)]
  by (simp add: sftp_list_def result_bind final_bind shutdown_quiet lets_in_def)

lemma ssh_session_lists:
  assumes "lets_in os" "\<And>d. delivers_entries os entry d es" "length es < fuel" "\<And>d. made (Readdir d) h = 0"
  shows "result (ssh_session os entry fuel x fd u p path arg5) h = Exit 0 \<and>
    stdout (final (ssh_session os entry fuel x fd u p path arg5) h) = stdout h @ concat (map entry_text es)"
proof -
  let ?l = "\<lambda>h. os h (UserauthList x u)"
  have "auth_choice (auth_option arg5 (auth_offered (text_of (sys_data (?l h))))) \<noteq> None" for h
    using assms(1) auth_choice_offered by (fastforce simp: lets_in_def)
  note auth = authenticate_lets_in [OF assms(1) this]
  have r: "sys_ret (os h (HostkeyHash x)) \<noteq> 0" "\<not> length (sys_data (os h (HostkeyHash x))) < 20" "sys_ret (?l h) \<noteq> 0" for h
    using assms(1) by (simp_all add: lets_in_def not_less)
  show ?thesis
    using assms(4) sftp_list_lists [OF assms(1-3)]
    by (simp add: ssh_session_def result_bind final_bind r auth)
qed

text \<open>C11: when the server lets it in and delivers the entries of a directory, \<open>sftpdir\<close> writes exactly their texts to its
  standard output, in their order, and ends with 0, for all arguments.  A listing that the library breaks off with an
  error is not told from a complete one: the result is 0 as well, with the entries before the error.\<close>

theorem sftpdir_lists_directory:
  assumes "lets_in os" "\<And>d. delivers_entries os entry d es" "length es < fuel"
  shows "result (sftpdir_main os inet_addr entry fuel argv) [] = Exit 0 \<and>
    stdout (final (sftpdir_main os inet_addr entry fuel argv) []) = concat (map entry_text es)"
proof -
  have r: "sys_ret (os h LibInit) = 0" "sys_ret (os h (Connect fd port a)) = 0" "sys_ret (os h SessionInit) \<noteq> 0"
      "sys_ret (os h (Handshake x fd)) = 0" for h fd port a x
    using assms(1) by (simp_all add: lets_in_def)
  show ?thesis
    using ssh_session_lists [OF assms] by (simp add: sftpdir_main_def result_bind final_bind r Let_def)
qed

text \<open>A server for examples: it offers passwords and a directory with one file, of which it sends the size and no long
  entry.\<close>

definition example_entry :: "sysret \<Rightarrow> sftp_entry" where
  "example_entry r = \<lparr>e_mem = text_of (sys_data r), e_longentry = [], e_flags = 1, e_uid = 0, e_gid = 0, e_filesize = 7\<rparr>"

fun os_dir :: ssh_os where
  "os_dir h (Readdir d) = \<lparr>sys_ret = (if made (Readdir d) h = 0 then 1 else - 37), sys_errno = 0, sys_data = [97], sys_addr = []\<rparr>"
| "os_dir h (HostkeyHash x) = \<lparr>sys_ret = 1, sys_errno = 0, sys_data = replicate 20 0, sys_addr = []\<rparr>"
| "os_dir h (UserauthList x u) = \<lparr>sys_ret = 1, sys_errno = 0, sys_data = map of_char ''password'', sys_addr = []\<rparr>"
| "os_dir h SessionInit = os_const 1 h SessionInit"
| "os_dir h (SftpInit x) = os_const 1 h (SftpInit x)"
| "os_dir h (Opendir x path) = os_const 1 h (Opendir x path)"
| "os_dir h c = os_const 0 h c"

theorem sftpdir_lists_directory_witness:
  "result (sftpdir_main os_dir (\<lambda>_. [127, 0, 0, 1]) example_entry 2 [''sftpdir'']) [] = Exit 0 \<and>
   stdout (final (sftpdir_main os_dir (\<lambda>_. [127, 0, 0, 1]) example_entry 2 [''sftpdir'']) []) =
     [Printf ''---------- '' [], Printf ''   -    - '' [], Printf ''%8lu '' [ArgI 7], Printf ''%s\<newline>'' [ArgS ''a'']]"
proof -
  have "text_of (map of_char ''password'') = ''password''"
    unfolding text_of_def map_map comp_def char_of_byte by simp
  then have "offers (text_of (map of_char ''password'')) ByPassword"
    by (simp add: offers_def strstr_def)
  then have "lets_in os_dir"
    by (auto simp: lets_in_def os_const_def)
  moreover have "delivers_entries os_dir example_entry d [example_entry (os_dir [] (Readdir 0))]" for d
    by (simp add: delivers_entries_def example_entry_def)
  ultimately show ?thesis
    using sftpdir_lists_directory [of os_dir example_entry "[example_entry (os_dir [] (Readdir 0))]" 2]
    by (simp add: entry_text_def example_entry_def text_of_def char_of_def bit_0)
qed

end
