(* ===== verification/SftpStatus.thy ===== *)
theory SftpStatus
  imports Sftp
begin

text \<open>
  How \<open>libssh2/sftpdir.c\<close> ends.  The outcome of a run is read off its calls.
\<close>

text \<open>The outcome that an answered call decides, if it decides one: a failure before the session stands, a missing text that is
  used without a test, or the end of the library.\<close>

fun call_status :: "ssh_call \<Rightarrow> sysret \<Rightarrow> outcome option" where
  "call_status LibInit r = (if sys_ret r \<noteq> 0 then Some (Exit 1) else None)"
| "call_status (Connect fd port a) r = (if sys_ret r \<noteq> 0 then Some (Exit (- 1)) else None)"
| "call_status SessionInit r = (if sys_ret r = 0 then Some (Exit (- 1)) else None)"
| "call_status (Handshake x fd) r = (if sys_ret r \<noteq> 0 then Some (Exit (- 1)) else None)"
| "call_status (HostkeyHash x) r = (if sys_ret r = 0 \<or> length (sys_data r) < 20 then Some Undefined else None)"
| "call_status (UserauthList x u) r = (if sys_ret r = 0 then Some Undefined else None)"
| "call_status LibExit r = Some (Exit 0)"
| "call_status c r = None"

text \<open>The later failures: the server refuses the user, the channel for SFTP or the directory.\<close>

fun refused :: "ssh_call \<Rightarrow> sysret \<Rightarrow> bool" where
  "refused (AuthPassword x u p) r \<longleftrightarrow> sys_ret r \<noteq> 0"
| "refused (AuthKbdint x u p) r \<longleftrightarrow> sys_ret r \<noteq> 0"
| "refused (AuthPublickey x u k l p) r \<longleftrightarrow> sys_ret r \<noteq> 0"
| "refused (SftpInit x) r \<longleftrightarrow> sys_ret r = 0"
| "refused (Opendir x path) r \<longleftrightarrow> sys_ret r = 0"
| "refused c r \<longleftrightarrow> False"

text \<open>The monitor forbids every call after the one that decides.\<close>

fun status_step :: "ssh_call \<Rightarrow> sysret \<Rightarrow> bool \<times> outcome option \<Rightarrow> (bool \<times> outcome option) option" where
  "status_step c r (d, None) = Some (d \<or> refused c r, call_status c r)"
| "status_step c r (d, Some x) = None"

lemma run_status:
  "run_steps status_step log (d, None) = Some (d', s) \<Longrightarrow>
    list_all (\<lambda>(c, r). call_status c r = None) (butlast log) \<and>
    List.map_filter (case_prod call_status) log = (case s of None \<Rightarrow> [] | Some x \<Rightarrow> [x]) \<and>
    (d' \<longleftrightarrow> d \<or> list_ex (case_prod refused) log)"
proof (induction log arbitrary: d)
  case (Cons e log)
  obtain c r where e: "e = (c, r)"
    by force
  show ?case
  proof (cases "log = []")
    case True
    then show ?thesis
      using Cons.prems e by (auto split: option.split)
  next
    case False
    then obtain c' r' log' where "log = (c', r') # log'"
      by (metis list.exhaust surj_pair)
    then have "call_status c r = None"
      using Cons.prems e by (cases "call_status c r") auto
    then show ?thesis
      using Cons.IH [of "d \<or> refused c r"] Cons.prems False e by auto
  qed
qed auto

definition status_post :: "outcome \<Rightarrow> bool \<times> outcome option \<Rightarrow> bool" where
  "status_post res s \<longleftrightarrow> res = (case snd s of None \<Rightarrow> Running | Some x \<Rightarrow> x) \<and> (fst s \<longrightarrow> res = Exit 0)"

lemma wp_status: "s = None \<Longrightarrow> (\<And>r. Q r (d \<or> refused c r, call_status c r)) \<Longrightarrow> wp status_step (call os c) Q (d, s)"
  by (rule wp_call) simp

lemma wp_status_shutdown: "wp status_step (ssh_shutdown os x fd) status_post (d, None)"
  unfolding ssh_shutdown_def by (auto simp: status_post_def intro!: wp_rules wp_status)

lemma wp_status_authenticate:
  assumes "\<And>ok d. (ok \<Longrightarrow> \<not> d) \<Longrightarrow> Q ok (d, None)"
  shows "wp status_step (authenticate os x u p auth_pw) Q (False, None)"
  unfolding authenticate_def using assms
  by (auto split: option.split auth_method.split intro!: wp_rules wp_status)

lemma wp_status_readdir:
  assumes "\<And>x. Q x (False, None)"
  shows "wp status_step (readdir_loop os entry h fuel) Q (False, None)"
proof (induction fuel)
  case (Suc fuel)
  then show ?case
    using assms by (auto simp: print_entry_def intro!: wp_rules wp_status)
qed (simp add: assms wp_return)

lemma wp_status_list: "wp status_step (sftp_list os entry fuel x fd path) status_post (False, None)"
  unfolding sftp_list_def
  by (auto simp: status_post_def intro!: wp_rules wp_status wp_status_shutdown wp_status_readdir)

lemma wp_status_session: "wp status_step (ssh_session os entry fuel x fd u p path arg5) status_post (False, None)"
  unfolding ssh_session_def
  by (auto simp: status_post_def intro!: wp_rules wp_status wp_status_shutdown wp_status_list wp_status_authenticate)

lemma wp_status_main: "wp status_step (sftpdir_main os inet_addr entry fuel argv) status_post (False, None)"
  unfolding sftpdir_main_def
  by (auto simp: status_post_def intro!: wp_rules wp_status wp_status_session)

text \<open>C22: the outcome of \<open>sftpdir\<close>, whatever the library and the kernel answer, is decided by a single call and no call follows
  it: 1 when the library does not start, -1 when the connection, the session or the handshake fails, undefined behaviour
  when the fingerprint or the list of methods is \<open>NULL\<close>, and 0 when the library is ended; without such a call the listing is
  still running.  When the server refuses the user, SFTP or the directory, the program ends with 0 like after a listing.\<close>

theorem sftpdir_exit_status:
  "let run = sftpdir_main os inet_addr entry fuel argv; log = call_log (final run []) in
   list_all (\<lambda>(c, r). call_status c r = None) (butlast log) \<and>
   result run [] = (case List.map_filter (case_prod call_status) log of [] \<Rightarrow> Running | x # _ \<Rightarrow> x) \<and>
   (list_ex (case_prod refused) log \<longrightarrow> result run [] = Exit 0)"
proof -
  let ?run = "sftpdir_main os inet_addr entry fuel argv"
  from wpD [OF wp_status_main, of "(False, None)" "[]"] obtain d s where
    run: "run_steps status_step (call_log (final ?run [])) (False, None) = Some (d, s)" "status_post (result ?run []) (d, s)"
    unfolding monitor_run_steps by force
  from run_status [OF run(1)] run(2) show ?thesis
    by (auto simp: status_post_def Let_def split: option.splits)
qed

text \<open>A server that refuses the password.\<close>

theorem sftpdir_exit_status_witness:
  "let os = (\<lambda>h c. \<lparr>sys_ret = (case c of SshSocket \<Rightarrow> 3 | SessionInit \<Rightarrow> 1 | HostkeyHash _ \<Rightarrow> 1 | UserauthList _ _ \<Rightarrow> 1 |
        AuthPassword _ _ _ \<Rightarrow> - 18 | _ \<Rightarrow> 0), sys_errno = 0, sys_data = (case c of HostkeyHash _ \<Rightarrow> replicate 20 0 |
        UserauthList _ _ \<Rightarrow> map of_char ''password'' | _ \<Rightarrow> []), sys_addr = []\<rparr>);
      p = sftpdir_main os (\<lambda>_. [127, 0, 0, 1]) (\<lambda>_. undefined) 1 [''sftpdir'']
   in list_ex (case_prod refused) (call_log (final p [])) \<and> result p [] = Exit 0"
proof -
  define os :: ssh_os where "os = (\<lambda>h c. \<lparr>sys_ret = (case c of SshSocket \<Rightarrow> 3 | SessionInit \<Rightarrow> 1 | HostkeyHash _ \<Rightarrow> 1 |
        UserauthList _ _ \<Rightarrow> 1 | AuthPassword _ _ _ \<Rightarrow> - 18 | _ \<Rightarrow> 0), sys_errno = 0, sys_data = (case c of HostkeyHash _ \<Rightarrow>
        replicate 20 0 | UserauthList _ _ \<Rightarrow> map of_char ''password'' | _ \<Rightarrow> []), sys_addr = []\<rparr>)"
  have "text_of (map of_char ''password'') = ''password''"
    unfolding text_of_def map_map comp_def char_of_byte by simp
  then have "auth_choice (auth_option None (auth_offered (text_of (map of_char ''password'')))) = Some ByPassword"
    unfolding auth_choice_value by (simp add: preferred_def offers_def strstr_def)
  then have "list_ex (case_prod refused)
      (call_log (final (sftpdir_main os (\<lambda>_. [127, 0, 0, 1]) (\<lambda>_. undefined) 1 [''sftpdir'']) []))"
    by (simp add: sftpdir_main_def ssh_session_def authenticate_def ssh_shutdown_def final_bind result_bind os_def Let_def
        del: list.map)
  with sftpdir_exit_status [of os "\<lambda>_. [127, 0, 0, 1]" "\<lambda>_. undefined" 1 "[''sftpdir'']"] show ?thesis
    unfolding os_def [symmetric] Let_def by blast
qed

end
