(* ===== verification/LibsshApi.thy ===== *)
theory LibsshApi
  imports Sftp
begin

text \<open>
  The interface of libssh2 in \<open>libssh2/libssh2.h\<close>, \<open>libssh2/libssh2_sftp.h\<close> and \<open>libssh2/libssh2_publickey.h\<close>: the declared functions, the macros that call them, and the calls of \<open>libssh2/sftpdir.c\<close> as calls of these functions.
  A macro is a function from its arguments to the call it stands for.
\<close>

unbundle bit_operations_syntax

subsection \<open>Types and values\<close>

text \<open>Parameter types: the integer types, \<open>const char *\<close>, other pointers by the type they point to, and callbacks by the macro
  that declares them.  \<open>size_t\<close> and the 64-bit types are \<open>long\<close>, with or without sign, and \<open>libssh2_socket_t\<close> is \<open>int\<close>.\<close>

datatype ctype = IntT | UIntT | LongT | ULongT | CharT | UCharT | StrT | PtrT string | FunT string

datatype cval = VInt int | VStr string | VPtr string int | VNull | VFun string

type_synonym prototypes = "(string \<times> (string \<times> ctype) list) list"

datatype api_call = ApiCall string "cval list"

text \<open>The values of a type.  A string can be passed for a pointer to either character type; an integer argument out of the range of its type would be converted.\<close>

fun has_type :: "cval \<Rightarrow> ctype \<Rightarrow> bool" where
  "has_type (VInt n) t =
    (case t of IntT \<Rightarrow> - (2 ^ 31) \<le> n \<and> n < 2 ^ 31 | UIntT \<Rightarrow> 0 \<le> n \<and> n < 2 ^ 32 | LongT \<Rightarrow> - (2 ^ 63) \<le> n \<and> n < 2 ^ 63
     | ULongT \<Rightarrow> 0 \<le> n \<and> n < 2 ^ 64 | CharT \<Rightarrow> - (2 ^ 7) \<le> n \<and> n < 2 ^ 7 | UCharT \<Rightarrow> 0 \<le> n \<and> n < 2 ^ 8 | _ \<Rightarrow> False)"
| "has_type (VStr s) t = (t = StrT \<or> t = PtrT ''char'' \<or> t = PtrT ''unsigned char'')"
| "has_type (VPtr p n) t = (t = PtrT p)"
| "has_type VNull t = (case t of StrT \<Rightarrow> True | PtrT p \<Rightarrow> True | FunT f \<Rightarrow> True | _ \<Rightarrow> False)"
| "has_type (VFun f) t = (t = FunT f)"

subsection \<open>The declared functions\<close>

definition session_api :: prototypes where
  "session_api = [
     (''libssh2_init'', [(''flags'', IntT)]),
     (''libssh2_exit'', []),
     (''libssh2_free'', [(''session'', PtrT ''LIBSSH2_SESSION''), (''ptr'', PtrT ''void'')]),
     (''libssh2_session_supported_algs'', [(''session'', PtrT ''LIBSSH2_SESSION''), (''method_type'', IntT),
        (''algs'', PtrT ''char **'')]),
     (''libssh2_session_init_ex'', [(''my_alloc'', FunT ''LIBSSH2_ALLOC_FUNC''),
        (''my_free'', FunT ''LIBSSH2_FREE_FUNC''), (''my_realloc'', FunT ''LIBSSH2_REALLOC_FUNC''),
        (''abstract'', PtrT ''void'')]),
     (''libssh2_session_abstract'', [(''session'', PtrT ''LIBSSH2_SESSION'')]),
     (''libssh2_session_callback_set'', [(''session'', PtrT ''LIBSSH2_SESSION''), (''cbtype'', IntT),
        (''callback'', PtrT ''void'')]),
     (''libssh2_session_banner_set'', [(''session'', PtrT ''LIBSSH2_SESSION''), (''banner'', StrT)]),
     (''libssh2_banner_set'', [(''session'', PtrT ''LIBSSH2_SESSION''), (''banner'', StrT)]),
     (''libssh2_session_startup'', [(''session'', PtrT ''LIBSSH2_SESSION''), (''sock'', IntT)]),
     (''libssh2_session_handshake'', [(''session'', PtrT ''LIBSSH2_SESSION''), (''sock'', IntT)]),
     (''libssh2_session_disconnect_ex'', [(''session'', PtrT ''LIBSSH2_SESSION''), (''reason'', IntT),
        (''description'', StrT), (''lang'', StrT)]),
     (''libssh2_session_free'', [(''session'', PtrT ''LIBSSH2_SESSION'')]),
     (''libssh2_hostkey_hash'', [(''session'', PtrT ''LIBSSH2_SESSION''), (''hash_type'', IntT)]),
     (''libssh2_session_hostkey'', [(''session'', PtrT ''LIBSSH2_SESSION''), (''len'', PtrT ''size_t''),
        (''type'', PtrT ''int'')]),
     (''libssh2_session_method_pref'', [(''session'', PtrT ''LIBSSH2_SESSION''), (''method_type'', IntT),
        (''prefs'', StrT)]),
     (''libssh2_session_methods'', [(''session'', PtrT ''LIBSSH2_SESSION''), (''method_type'', IntT)]),
     (''libssh2_session_last_error'', [(''session'', PtrT ''LIBSSH2_SESSION''), (''errmsg'', PtrT ''char *''),
        (''errmsg_len'', PtrT ''int''), (''want_buf'', IntT)]),
     (''libssh2_session_last_errno'', [(''session'', PtrT ''LIBSSH2_SESSION'')]),
     (''libssh2_session_set_last_error'', [(''session'', PtrT ''LIBSSH2_SESSION''), (''errcode'', IntT),
        (''errmsg'', StrT)]),
     (''libssh2_session_block_directions'', [(''session'', PtrT ''LIBSSH2_SESSION'')]),
     (''libssh2_session_flag'', [(''session'', PtrT ''LIBSSH2_SESSION''), (''flag'', IntT), (''value'', IntT)]),
     (''libssh2_session_banner_get'', [(''session'', PtrT ''LIBSSH2_SESSION'')])]"

definition userauth_api :: prototypes where
  "userauth_api = [
     (''libssh2_userauth_list'', [(''session'', PtrT ''LIBSSH2_SESSION''), (''username'', StrT),
        (''username_len'', UIntT)]),
     (''libssh2_userauth_authenticated'', [(''session'', PtrT ''LIBSSH2_SESSION'')]),
     (''libssh2_userauth_password_ex'', [(''session'', PtrT ''LIBSSH2_SESSION''), (''username'', StrT),
        (''username_len'', UIntT), (''password'', StrT), (''password_len'', UIntT),
        (''passwd_change_cb'', FunT ''LIBSSH2_PASSWD_CHANGEREQ_FUNC'')]),
     (''libssh2_userauth_publickey_fromfile_ex'', [(''session'', PtrT ''LIBSSH2_SESSION''), (''username'', StrT),
        (''username_len'', UIntT), (''publickey'', StrT), (''privatekey'', StrT), (''passphrase'', StrT)]),
     (''libssh2_userauth_publickey'', [(''session'', PtrT ''LIBSSH2_SESSION''), (''username'', StrT),
        (''pubkeydata'', PtrT ''unsigned char''), (''pubkeydata_len'', ULongT),
        (''sign_callback'', FunT ''LIBSSH2_USERAUTH_PUBLICKEY_SIGN_FUNC''), (''abstract'', PtrT ''void *'')]),
     (''libssh2_userauth_hostbased_fromfile_ex'', [(''session'', PtrT ''LIBSSH2_SESSION''), (''username'', StrT),
        (''username_len'', UIntT), (''publickey'', StrT), (''privatekey'', StrT), (''passphrase'', StrT),
        (''hostname'', StrT), (''hostname_len'', UIntT), (''local_username'', StrT), (''local_username_len'', UIntT)]),
     (''libssh2_userauth_publickey_frommemory'', [(''session'', PtrT ''LIBSSH2_SESSION''), (''username'', StrT),
        (''username_len'', ULongT), (''publickeyfiledata'', StrT), (''publickeyfiledata_len'', ULongT),
        (''privatekeyfiledata'', StrT), (''privatekeyfiledata_len'', ULongT), (''passphrase'', StrT)]),
     (''libssh2_userauth_keyboard_interactive_ex'', [(''session'', PtrT ''LIBSSH2_SESSION''), (''username'', StrT),
        (''username_len'', UIntT), (''response_callback'', FunT ''LIBSSH2_USERAUTH_KBDINT_RESPONSE_FUNC'')]),
     (''libssh2_poll'', [(''fds'', PtrT ''LIBSSH2_POLLFD''), (''nfds'', UIntT), (''timeout'', LongT)])]"

definition channel_api :: prototypes where
  "channel_api = [
     (''libssh2_channel_open_ex'', [(''session'', PtrT ''LIBSSH2_SESSION''), (''channel_type'', StrT),
        (''channel_type_len'', UIntT), (''window_size'', UIntT), (''packet_size'', UIntT), (''message'', StrT),
        (''message_len'', UIntT)]),
     (''libssh2_channel_direct_tcpip_ex'', [(''session'', PtrT ''LIBSSH2_SESSION''), (''host'', StrT),
        (''port'', IntT), (''shost'', StrT), (''sport'', IntT)]),
     (''libssh2_channel_forward_listen_ex'', [(''session'', PtrT ''LIBSSH2_SESSION''), (''host'', StrT),
        (''port'', IntT), (''bound_port'', PtrT ''int''), (''queue_maxsize'', IntT)]),
     (''libssh2_channel_forward_cancel'', [(''listener'', PtrT ''LIBSSH2_LISTENER'')]),
     (''libssh2_channel_forward_accept'', [(''listener'', PtrT ''LIBSSH2_LISTENER'')]),
     (''libssh2_channel_setenv_ex'', [(''channel'', PtrT ''LIBSSH2_CHANNEL''), (''varname'', StrT),
        (''varname_len'', UIntT), (''value'', StrT), (''value_len'', UIntT)]),
     (''libssh2_channel_request_pty_ex'', [(''channel'', PtrT ''LIBSSH2_CHANNEL''), (''term'', StrT),
        (''term_len'', UIntT), (''modes'', StrT), (''modes_len'', UIntT), (''width'', IntT), (''height'', IntT),
        (''width_px'', IntT), (''height_px'', IntT)]),
     (''libssh2_channel_request_pty_size_ex'', [(''channel'', PtrT ''LIBSSH2_CHANNEL''), (''width'', IntT),
        (''height'', IntT), (''width_px'', IntT), (''height_px'', IntT)]),
     (''libssh2_channel_x11_req_ex'', [(''channel'', PtrT ''LIBSSH2_CHANNEL''), (''single_connection'', IntT),
        (''auth_proto'', StrT), (''auth_cookie'', StrT), (''screen_number'', IntT)]),
     (''libssh2_channel_process_startup'', [(''channel'', PtrT ''LIBSSH2_CHANNEL''), (''request'', StrT),
        (''request_len'', UIntT), (''message'', StrT), (''message_len'', UIntT)]),
     (''libssh2_channel_read_ex'', [(''channel'', PtrT ''LIBSSH2_CHANNEL''), (''stream_id'', IntT),
        (''buf'', PtrT ''char''), (''buflen'', ULongT)]),
     (''libssh2_poll_channel_read'', [(''channel'', PtrT ''LIBSSH2_CHANNEL''), (''extended'', IntT)]),
     (''libssh2_channel_window_read_ex'', [(''channel'', PtrT ''LIBSSH2_CHANNEL''),
        (''read_avail'', PtrT ''unsigned long''), (''window_size_initial'', PtrT ''unsigned long'')]),
     (''libssh2_channel_receive_window_adjust'', [(''channel'', PtrT ''LIBSSH2_CHANNEL''), (''adjustment'', ULongT),
        (''force'', UCharT)]),
     (''libssh2_channel_receive_window_adjust2'', [(''channel'', PtrT ''LIBSSH2_CHANNEL''), (''adjustment'', ULongT),
        (''force'', UCharT), (''storewindow'', PtrT ''unsigned int'')]),
     (''libssh2_channel_write_ex'', [(''channel'', PtrT ''LIBSSH2_CHANNEL''), (''stream_id'', IntT), (''buf'', StrT),
        (''buflen'', ULongT)]),
     (''libssh2_channel_window_write_ex'', [(''channel'', PtrT ''LIBSSH2_CHANNEL''),
        (''window_size_initial'', PtrT ''unsigned long'')]),
     (''libssh2_session_set_blocking'', [(''session'', PtrT ''LIBSSH2_SESSION''), (''blocking'', IntT)]),
     (''libssh2_session_get_blocking'', [(''session'', PtrT ''LIBSSH2_SESSION'')]),
     (''libssh2_channel_set_blocking'', [(''channel'', PtrT ''LIBSSH2_CHANNEL''), (''blocking'', IntT)]),
     (''libssh2_session_set_timeout'', [(''session'', PtrT ''LIBSSH2_SESSION''), (''timeout'', LongT)]),
     (''libssh2_session_get_timeout'', [(''session'', PtrT ''LIBSSH2_SESSION'')]),
     (''libssh2_channel_handle_extended_data'', [(''channel'', PtrT ''LIBSSH2_CHANNEL''), (''ignore_mode'', IntT)]),
     (''libssh2_channel_handle_extended_data2'', [(''channel'', PtrT ''LIBSSH2_CHANNEL''), (''ignore_mode'', IntT)]),
     (''libssh2_channel_flush_ex'', [(''channel'', PtrT ''LIBSSH2_CHANNEL''), (''streamid'', IntT)]),
     (''libssh2_channel_get_exit_status'', [(''channel'', PtrT ''LIBSSH2_CHANNEL'')]),
     (''libssh2_channel_get_exit_signal'', [(''channel'', PtrT ''LIBSSH2_CHANNEL''),
        (''exitsignal'', PtrT ''char *''), (''exitsignal_len'', PtrT ''size_t''), (''errmsg'', PtrT ''char *''),
        (''errmsg_len'', PtrT ''size_t''), (''langtag'', PtrT ''char *''), (''langtag_len'', PtrT ''size_t'')]),
     (''libssh2_channel_send_eof'', [(''channel'', PtrT ''LIBSSH2_CHANNEL'')]),
     (''libssh2_channel_eof'', [(''channel'', PtrT ''LIBSSH2_CHANNEL'')]),
     (''libssh2_channel_wait_eof'', [(''channel'', PtrT ''LIBSSH2_CHANNEL'')]),
     (''libssh2_channel_close'', [(''channel'', PtrT ''LIBSSH2_CHANNEL'')]),
     (''libssh2_channel_wait_closed'', [(''channel'', PtrT ''LIBSSH2_CHANNEL'')]),
     (''libssh2_channel_free'', [(''channel'', PtrT ''LIBSSH2_CHANNEL'')])]"

definition scp_api :: prototypes where
  "scp_api = [
     (''libssh2_scp_recv'', [(''session'', PtrT ''LIBSSH2_SESSION''), (''path'', StrT),
        (''sb'', PtrT ''struct stat'')]),
     (''libssh2_scp_recv2'', [(''session'', PtrT ''LIBSSH2_SESSION''), (''path'', StrT),
        (''sb'', PtrT ''libssh2_struct_stat'')]),
     (''libssh2_scp_send_ex'', [(''session'', PtrT ''LIBSSH2_SESSION''), (''path'', StrT), (''mode'', IntT),
        (''size'', ULongT), (''mtime'', LongT), (''atime'', LongT)]),
     (''libssh2_scp_send64'', [(''session'', PtrT ''LIBSSH2_SESSION''), (''path'', StrT), (''mode'', IntT),
        (''size'', LongT), (''mtime'', LongT), (''atime'', LongT)]),
     (''libssh2_base64_decode'', [(''session'', PtrT ''LIBSSH2_SESSION''), (''dest'', PtrT ''char *''),
        (''dest_len'', PtrT ''unsigned int''), (''src'', StrT), (''src_len'', UIntT)]),
     (''libssh2_version'', [(''req_version_num'', IntT)])]"

definition sftp_api :: prototypes where
  "sftp_api = [
     (''libssh2_sftp_init'', [(''session'', PtrT ''LIBSSH2_SESSION'')]),
     (''libssh2_sftp_shutdown'', [(''sftp'', PtrT ''LIBSSH2_SFTP'')]),
     (''libssh2_sftp_last_error'', [(''sftp'', PtrT ''LIBSSH2_SFTP'')]),
     (''libssh2_sftp_get_channel'', [(''sftp'', PtrT ''LIBSSH2_SFTP'')]),
     (''libssh2_sftp_open_ex'', [(''sftp'', PtrT ''LIBSSH2_SFTP''), (''filename'', StrT), (''filename_len'', UIntT),
        (''flags'', ULongT), (''mode'', LongT), (''open_type'', IntT)]),
     (''libssh2_sftp_read'', [(''handle'', PtrT ''LIBSSH2_SFTP_HANDLE''), (''buffer'', PtrT ''char''),
        (''buffer_maxlen'', ULongT)]),
     (''libssh2_sftp_readdir_ex'', [(''handle'', PtrT ''LIBSSH2_SFTP_HANDLE''), (''buffer'', PtrT ''char''),
        (''buffer_maxlen'', ULongT), (''longentry'', PtrT ''char''), (''longentry_maxlen'', ULongT),
        (''attrs'', PtrT ''LIBSSH2_SFTP_ATTRIBUTES'')]),
     (''libssh2_sftp_write'', [(''handle'', PtrT ''LIBSSH2_SFTP_HANDLE''), (''buffer'', StrT), (''count'', ULongT)]),
     (''libssh2_sftp_fsync'', [(''handle'', PtrT ''LIBSSH2_SFTP_HANDLE'')]),
     (''libssh2_sftp_close_handle'', [(''handle'', PtrT ''LIBSSH2_SFTP_HANDLE'')]),
     (''libssh2_sftp_seek'', [(''handle'', PtrT ''LIBSSH2_SFTP_HANDLE''), (''offset'', ULongT)]),
     (''libssh2_sftp_seek64'', [(''handle'', PtrT ''LIBSSH2_SFTP_HANDLE''), (''offset'', ULongT)]),
     (''libssh2_sftp_tell'', [(''handle'', PtrT ''LIBSSH2_SFTP_HANDLE'')]),
     (''libssh2_sftp_tell64'', [(''handle'', PtrT ''LIBSSH2_SFTP_HANDLE'')]),
     (''libssh2_sftp_fstat_ex'', [(''handle'', PtrT ''LIBSSH2_SFTP_HANDLE''),
        (''attrs'', PtrT ''LIBSSH2_SFTP_ATTRIBUTES''), (''setstat'', IntT)]),
     (''libssh2_sftp_rename_ex'', [(''sftp'', PtrT ''LIBSSH2_SFTP''), (''source_filename'', StrT),
        (''srouce_filename_len'', UIntT), (''dest_filename'', StrT), (''dest_filename_len'', UIntT),
        (''flags'', LongT)]),
     (''libssh2_sftp_unlink_ex'', [(''sftp'', PtrT ''LIBSSH2_SFTP''), (''filename'', StrT),
        (''filename_len'', UIntT)]),
     (''libssh2_sftp_fstatvfs'', [(''handle'', PtrT ''LIBSSH2_SFTP_HANDLE''),
        (''st'', PtrT ''LIBSSH2_SFTP_STATVFS'')]),
     (''libssh2_sftp_statvfs'', [(''sftp'', PtrT ''LIBSSH2_SFTP''), (''path'', StrT), (''path_len'', ULongT),
        (''st'', PtrT ''LIBSSH2_SFTP_STATVFS'')]),
     (''libssh2_sftp_mkdir_ex'', [(''sftp'', PtrT ''LIBSSH2_SFTP''), (''path'', StrT), (''path_len'', UIntT),
        (''mode'', LongT)]),
     (''libssh2_sftp_rmdir_ex'', [(''sftp'', PtrT ''LIBSSH2_SFTP''), (''path'', StrT), (''path_len'', UIntT)]),
     (''libssh2_sftp_stat_ex'', [(''sftp'', PtrT ''LIBSSH2_SFTP''), (''path'', StrT), (''path_len'', UIntT),
        (''stat_type'', IntT), (''attrs'', PtrT ''LIBSSH2_SFTP_ATTRIBUTES'')]),
     (''libssh2_sftp_symlink_ex'', [(''sftp'', PtrT ''LIBSSH2_SFTP''), (''path'', StrT), (''path_len'', UIntT),
        (''target'', PtrT ''char''), (''target_len'', UIntT), (''link_type'', IntT)])]"

definition knownhost_api :: prototypes where
  "knownhost_api = [
     (''libssh2_knownhost_init'', [(''session'', PtrT ''LIBSSH2_SESSION'')]),
     (''libssh2_knownhost_add'', [(''hosts'', PtrT ''LIBSSH2_KNOWNHOSTS''), (''host'', StrT), (''salt'', StrT), (''key'', StrT),
        (''keylen'', ULongT), (''typemask'', IntT), (''store'', PtrT ''struct libssh2_knownhost *'')]),
     (''libssh2_knownhost_addc'', [(''hosts'', PtrT ''LIBSSH2_KNOWNHOSTS''), (''host'', StrT), (''salt'', StrT), (''key'', StrT),
        (''keylen'', ULongT), (''comment'', StrT), (''commentlen'', ULongT), (''typemask'', IntT),
        (''store'', PtrT ''struct libssh2_knownhost *'')]),
     (''libssh2_knownhost_check'', [(''hosts'', PtrT ''LIBSSH2_KNOWNHOSTS''), (''host'', StrT), (''key'', StrT),
        (''keylen'', ULongT), (''typemask'', IntT), (''knownhost'', PtrT ''struct libssh2_knownhost *'')]),
     (''libssh2_knownhost_checkp'', [(''hosts'', PtrT ''LIBSSH2_KNOWNHOSTS''), (''host'', StrT), (''port'', IntT), (''key'', StrT),
        (''keylen'', ULongT), (''typemask'', IntT), (''knownhost'', PtrT ''struct libssh2_knownhost *'')]),
     (''libssh2_knownhost_del'', [(''hosts'', PtrT ''LIBSSH2_KNOWNHOSTS''), (''entry'', PtrT ''struct libssh2_knownhost'')]),
     (''libssh2_knownhost_free'', [(''hosts'', PtrT ''LIBSSH2_KNOWNHOSTS'')]),
     (''libssh2_knownhost_readline'', [(''hosts'', PtrT ''LIBSSH2_KNOWNHOSTS''), (''line'', StrT), (''len'', ULongT),
        (''type'', IntT)]),
     (''libssh2_knownhost_readfile'', [(''hosts'', PtrT ''LIBSSH2_KNOWNHOSTS''), (''filename'', StrT), (''type'', IntT)]),
     (''libssh2_knownhost_writeline'', [(''hosts'', PtrT ''LIBSSH2_KNOWNHOSTS''), (''known'', PtrT ''struct libssh2_knownhost''),
        (''buffer'', PtrT ''char''), (''buflen'', ULongT), (''outlen'', PtrT ''size_t''), (''type'', IntT)]),
     (''libssh2_knownhost_writefile'', [(''hosts'', PtrT ''LIBSSH2_KNOWNHOSTS''), (''filename'', StrT), (''type'', IntT)]),
     (''libssh2_knownhost_get'', [(''hosts'', PtrT ''LIBSSH2_KNOWNHOSTS''), (''store'', PtrT ''struct libssh2_knownhost *''),
        (''prev'', PtrT ''struct libssh2_knownhost'')])]"

definition agent_api :: prototypes where
  "agent_api = [
     (''libssh2_agent_init'', [(''session'', PtrT ''LIBSSH2_SESSION'')]),
     (''libssh2_agent_connect'', [(''agent'', PtrT ''LIBSSH2_AGENT'')]),
     (''libssh2_agent_list_identities'', [(''agent'', PtrT ''LIBSSH2_AGENT'')]),
     (''libssh2_agent_get_identity'', [(''agent'', PtrT ''LIBSSH2_AGENT''),
        (''store'', PtrT ''struct libssh2_agent_publickey *''), (''prev'', PtrT ''struct libssh2_agent_publickey'')]),
     (''libssh2_agent_userauth'', [(''agent'', PtrT ''LIBSSH2_AGENT''), (''username'', StrT),
        (''identity'', PtrT ''struct libssh2_agent_publickey'')]),
     (''libssh2_agent_disconnect'', [(''agent'', PtrT ''LIBSSH2_AGENT'')]),
     (''libssh2_agent_free'', [(''agent'', PtrT ''LIBSSH2_AGENT'')])]"

definition keepalive_api :: prototypes where
  "keepalive_api = [
     (''libssh2_keepalive_config'', [(''session'', PtrT ''LIBSSH2_SESSION''), (''want_reply'', IntT), (''interval'', UIntT)]),
     (''libssh2_keepalive_send'', [(''session'', PtrT ''LIBSSH2_SESSION''), (''seconds_to_next'', PtrT ''int'')]),
     (''libssh2_trace'', [(''session'', PtrT ''LIBSSH2_SESSION''), (''bitmask'', IntT)]),
     (''libssh2_trace_sethandler'', [(''session'', PtrT ''LIBSSH2_SESSION''), (''context'', PtrT ''void''),
        (''callback'', FunT ''libssh2_trace_handler_func'')])]"

definition publickey_api :: prototypes where
  "publickey_api = [
     (''libssh2_publickey_init'', [(''session'', PtrT ''LIBSSH2_SESSION'')]),
     (''libssh2_publickey_add_ex'', [(''pkey'', PtrT ''LIBSSH2_PUBLICKEY''), (''name'', PtrT ''unsigned char''),
        (''name_len'', ULongT), (''blob'', PtrT ''unsigned char''), (''blob_len'', ULongT), (''overwrite'', CharT),
        (''num_attrs'', ULongT), (''attrs'', PtrT ''libssh2_publickey_attribute'')]),
     (''libssh2_publickey_remove_ex'', [(''pkey'', PtrT ''LIBSSH2_PUBLICKEY''), (''name'', PtrT ''unsigned char''),
        (''name_len'', ULongT), (''blob'', PtrT ''unsigned char''), (''blob_len'', ULongT)]),
     (''libssh2_publickey_list_fetch'', [(''pkey'', PtrT ''LIBSSH2_PUBLICKEY''), (''num_keys'', PtrT ''unsigned long''),
        (''pkey_list'', PtrT ''libssh2_publickey_list *'')]),
     (''libssh2_publickey_list_free'', [(''pkey'', PtrT ''LIBSSH2_PUBLICKEY''),
        (''pkey_list'', PtrT ''libssh2_publickey_list'')]),
     (''libssh2_publickey_shutdown'', [(''pkey'', PtrT ''LIBSSH2_PUBLICKEY'')])]"

definition api :: prototypes where
  "api = session_api @ userauth_api @ channel_api @ scp_api @ sftp_api @ publickey_api @ knownhost_api @ agent_api @ keepalive_api"

text \<open>The parameters of the callbacks.\<close>

definition callback_types :: prototypes where
  "callback_types = [
     (''LIBSSH2_ALLOC_FUNC'', [(''count'', ULongT), (''abstract'', PtrT ''void *'')]),
     (''LIBSSH2_REALLOC_FUNC'', [(''ptr'', PtrT ''void''), (''count'', ULongT), (''abstract'', PtrT ''void *'')]),
     (''LIBSSH2_FREE_FUNC'', [(''ptr'', PtrT ''void''), (''abstract'', PtrT ''void *'')]),
     (''LIBSSH2_USERAUTH_PUBLICKEY_SIGN_FUNC'', [(''session'', PtrT ''LIBSSH2_SESSION''), (''sig'', PtrT ''unsigned char *''),
        (''sig_len'', PtrT ''size_t''), (''data'', PtrT ''unsigned char''), (''data_len'', ULongT), (''abstract'', PtrT ''void *'')]),
     (''LIBSSH2_USERAUTH_KBDINT_RESPONSE_FUNC'', [(''name'', StrT), (''name_len'', IntT), (''instruction'', StrT),
        (''instruction_len'', IntT), (''num_prompts'', IntT), (''prompts'', PtrT ''LIBSSH2_USERAUTH_KBDINT_PROMPT''),
        (''responses'', PtrT ''LIBSSH2_USERAUTH_KBDINT_RESPONSE''), (''abstract'', PtrT ''void *'')]),
     (''LIBSSH2_IGNORE_FUNC'', [(''session'', PtrT ''LIBSSH2_SESSION''), (''message'', StrT), (''message_len'', IntT),
        (''abstract'', PtrT ''void *'')]),
     (''LIBSSH2_DEBUG_FUNC'', [(''session'', PtrT ''LIBSSH2_SESSION''), (''always_display'', IntT), (''message'', StrT),
        (''message_len'', IntT), (''language'', StrT), (''language_len'', IntT), (''abstract'', PtrT ''void *'')]),
     (''LIBSSH2_DISCONNECT_FUNC'', [(''session'', PtrT ''LIBSSH2_SESSION''), (''reason'', IntT), (''message'', StrT),
        (''message_len'', IntT), (''language'', StrT), (''language_len'', IntT), (''abstract'', PtrT ''void *'')]),
     (''LIBSSH2_PASSWD_CHANGEREQ_FUNC'', [(''session'', PtrT ''LIBSSH2_SESSION''), (''newpw'', PtrT ''char *''),
        (''newpw_len'', PtrT ''int''), (''abstract'', PtrT ''void *'')]),
     (''LIBSSH2_MACERROR_FUNC'', [(''session'', PtrT ''LIBSSH2_SESSION''), (''packet'', StrT), (''packet_len'', IntT),
        (''abstract'', PtrT ''void *'')]),
     (''LIBSSH2_X11_OPEN_FUNC'', [(''session'', PtrT ''LIBSSH2_SESSION''), (''channel'', PtrT ''LIBSSH2_CHANNEL''),
        (''shost'', StrT), (''sport'', IntT), (''abstract'', PtrT ''void *'')]),
     (''LIBSSH2_CHANNEL_CLOSE_FUNC'', [(''session'', PtrT ''LIBSSH2_SESSION''), (''session_abstract'', PtrT ''void *''),
        (''channel'', PtrT ''LIBSSH2_CHANNEL''), (''channel_abstract'', PtrT ''void *'')]),
     (''LIBSSH2_RECV_FUNC'', [(''socket'', IntT), (''buffer'', PtrT ''void''), (''length'', ULongT), (''flags'', IntT),
        (''abstract'', PtrT ''void *'')]),
     (''LIBSSH2_SEND_FUNC'', [(''socket'', IntT), (''buffer'', PtrT ''void''), (''length'', ULongT), (''flags'', IntT),
        (''abstract'', PtrT ''void *'')]),
     (''libssh2_trace_handler_func'', [([], PtrT ''LIBSSH2_SESSION''), ([], PtrT ''void''), ([], StrT), ([], ULongT)])]"

text \<open>The parameters of \<open>kbd_callback\<close> in \<open>libssh2/sftpdir.c\<close>, which it passes as a callback.\<close>

definition kbd_callback_params :: "(string \<times> ctype) list" where
  "kbd_callback_params = [(''name'', StrT), (''name_len'', IntT), (''instruction'', StrT), (''instruction_len'', IntT),
     (''num_prompts'', IntT), (''prompts'', PtrT ''LIBSSH2_USERAUTH_KBDINT_PROMPT''),
     (''responses'', PtrT ''LIBSSH2_USERAUTH_KBDINT_RESPONSE''), (''abstract'', PtrT ''void *'')]"

subsection \<open>The macros\<close>

text \<open>The macros with their arguments: strings where the macro takes the length, words for the integer types, numbers for the
  handles.  \<open>strlen\<close> is converted to the type \<open>unsigned int\<close> of the parameter.\<close>

datatype session_call = Session_init | Session_disconnect int string

datatype userauth_call =
    Userauth_password int string string
  | Userauth_publickey_fromfile int string string string string
  | Userauth_hostbased_fromfile int string string string string string
  | Userauth_keyboard_interactive int string

datatype channel_call =
    Channel_open_session int | Channel_direct_tcpip int string "32 word" | Channel_forward_listen int "32 word"
  | Channel_setenv int string string | Channel_request_pty int string | Channel_request_pty_size int "32 word" "32 word"
  | Channel_x11_req int "32 word" | Channel_shell int | Channel_exec int string | Channel_subsystem int string
  | Channel_read int int u64 | Channel_read_stderr int int u64 | Channel_window_read int
  | Channel_write int string u64 | Channel_write_stderr int string u64 | Channel_window_write int
  | Channel_ignore_extended_data int bool | Channel_flush int | Channel_flush_stderr int

datatype scp_call = Scp_send int string "32 word" u64

datatype sftp_call =
    Sftp_open int string u64 u64 | Sftp_opendir int string | Sftp_readdir int int u64 int
  | Sftp_close int | Sftp_closedir int | Sftp_rewind int | Sftp_fstat int int | Sftp_fsetstat int int
  | Sftp_rename int string string | Sftp_unlink int string | Sftp_mkdir int string u64 | Sftp_rmdir int string
  | Sftp_stat int string int | Sftp_lstat int string int | Sftp_setstat int string int
  | Sftp_symlink int string string | Sftp_readlink int string int u32 | Sftp_realpath int string int u32

text \<open>The name of a key is a string; its blob is a pointer with the length that the caller gives.\<close>

datatype publickey_call =
    Publickey_add int string int u64 "8 word" u64 int
  | Publickey_remove int string int u64

definition strlen_ui :: "string \<Rightarrow> cval" where
  "strlen_ui s = VInt (int (length s) mod 2 ^ 32)"

text \<open>\<open>strlen\<close> where the parameter is an \<open>unsigned long\<close>, as wide as \<open>size_t\<close>.\<close>

definition strlen_ul :: "string \<Rightarrow> cval" where
  "strlen_ul s = VInt (int (length s) mod 2 ^ 64)"

text \<open>\<open>sizeof(literal) - 1\<close>.\<close>

definition literal_len :: "string \<Rightarrow> cval" where
  "literal_len s = VInt (int (length s))"

abbreviation (input) session_ptr :: "int \<Rightarrow> cval" where "session_ptr \<equiv> VPtr ''LIBSSH2_SESSION''"
abbreviation (input) channel_ptr :: "int \<Rightarrow> cval" where "channel_ptr \<equiv> VPtr ''LIBSSH2_CHANNEL''"
abbreviation (input) sftp_ptr :: "int \<Rightarrow> cval" where "sftp_ptr \<equiv> VPtr ''LIBSSH2_SFTP''"
abbreviation (input) handle_ptr :: "int \<Rightarrow> cval" where "handle_ptr \<equiv> VPtr ''LIBSSH2_SFTP_HANDLE''"
abbreviation (input) attrs_ptr :: "int \<Rightarrow> cval" where "attrs_ptr \<equiv> VPtr ''LIBSSH2_SFTP_ATTRIBUTES''"

fun session_macro :: "session_call \<Rightarrow> api_call" where
  "session_macro Session_init = ApiCall ''libssh2_session_init_ex'' [VNull, VNull, VNull, VNull]"
| "session_macro (Session_disconnect s description) =
    ApiCall ''libssh2_session_disconnect_ex'' [session_ptr s, VInt 11, VStr description, VStr []]"

fun userauth_macro :: "userauth_call \<Rightarrow> api_call" where
  "userauth_macro (Userauth_password s username password) =
    ApiCall ''libssh2_userauth_password_ex''
      [session_ptr s, VStr username, strlen_ui username, VStr password, strlen_ui password, VNull]"
| "userauth_macro (Userauth_publickey_fromfile s username publickey privatekey passphrase) =
    ApiCall ''libssh2_userauth_publickey_fromfile_ex''
      [session_ptr s, VStr username, strlen_ui username, VStr publickey, VStr privatekey, VStr passphrase]"
| "userauth_macro (Userauth_hostbased_fromfile s username publickey privatekey passphrase hostname) =
    ApiCall ''libssh2_userauth_hostbased_fromfile_ex''
      [session_ptr s, VStr username, strlen_ui username, VStr publickey, VStr privatekey, VStr passphrase,
       VStr hostname, strlen_ui hostname, VStr username, strlen_ui username]"
| "userauth_macro (Userauth_keyboard_interactive s username) =
    ApiCall ''libssh2_userauth_keyboard_interactive_ex''
      [session_ptr s, VStr username, strlen_ui username, VFun ''LIBSSH2_USERAUTH_KBDINT_RESPONSE_FUNC'']"

fun channel_macro :: "channel_call \<Rightarrow> api_call" where
  "channel_macro (Channel_open_session s) =
    ApiCall ''libssh2_channel_open_ex''
      [session_ptr s, VStr ''session'', literal_len ''session'', VInt (2 * 1024 * 1024), VInt 32768, VNull, VInt 0]"
| "channel_macro (Channel_direct_tcpip s host port) =
    ApiCall ''libssh2_channel_direct_tcpip_ex'' [session_ptr s, VStr host, VInt (sint port), VStr ''127.0.0.1'', VInt 22]"
| "channel_macro (Channel_forward_listen s port) =
    ApiCall ''libssh2_channel_forward_listen_ex'' [session_ptr s, VNull, VInt (sint port), VNull, VInt 16]"
| "channel_macro (Channel_setenv c varname val) =
    ApiCall ''libssh2_channel_setenv_ex'' [channel_ptr c, VStr varname, strlen_ui varname, VStr val, strlen_ui val]"
| "channel_macro (Channel_request_pty c trm) =
    ApiCall ''libssh2_channel_request_pty_ex''
      [channel_ptr c, VStr trm, strlen_ui trm, VNull, VInt 0, VInt 80, VInt 24, VInt 0, VInt 0]"
| "channel_macro (Channel_request_pty_size c width height) =
    ApiCall ''libssh2_channel_request_pty_size_ex'' [channel_ptr c, VInt (sint width), VInt (sint height), VInt 0, VInt 0]"
| "channel_macro (Channel_x11_req c screen_number) =
    ApiCall ''libssh2_channel_x11_req_ex'' [channel_ptr c, VInt 0, VNull, VNull, VInt (sint screen_number)]"
| "channel_macro (Channel_shell c) =
    ApiCall ''libssh2_channel_process_startup'' [channel_ptr c, VStr ''shell'', literal_len ''shell'', VNull, VInt 0]"
| "channel_macro (Channel_exec c command) =
    ApiCall ''libssh2_channel_process_startup''
      [channel_ptr c, VStr ''exec'', literal_len ''exec'', VStr command, strlen_ui command]"
| "channel_macro (Channel_subsystem c subsystem) =
    ApiCall ''libssh2_channel_process_startup''
      [channel_ptr c, VStr ''subsystem'', literal_len ''subsystem'', VStr subsystem, strlen_ui subsystem]"
| "channel_macro (Channel_read c buf buflen) =
    ApiCall ''libssh2_channel_read_ex'' [channel_ptr c, VInt 0, VPtr ''char'' buf, VInt (uint buflen)]"
| "channel_macro (Channel_read_stderr c buf buflen) =
    ApiCall ''libssh2_channel_read_ex'' [channel_ptr c, VInt 1, VPtr ''char'' buf, VInt (uint buflen)]"
| "channel_macro (Channel_window_read c) = ApiCall ''libssh2_channel_window_read_ex'' [channel_ptr c, VNull, VNull]"
| "channel_macro (Channel_write c buf buflen) =
    ApiCall ''libssh2_channel_write_ex'' [channel_ptr c, VInt 0, VStr buf, VInt (uint buflen)]"
| "channel_macro (Channel_write_stderr c buf buflen) =
    ApiCall ''libssh2_channel_write_ex'' [channel_ptr c, VInt 1, VStr buf, VInt (uint buflen)]"
| "channel_macro (Channel_window_write c) = ApiCall ''libssh2_channel_window_write_ex'' [channel_ptr c, VNull]"
| "channel_macro (Channel_ignore_extended_data c ignore) =
    ApiCall ''libssh2_channel_handle_extended_data'' [channel_ptr c, VInt (if ignore then 1 else 0)]"
| "channel_macro (Channel_flush c) = ApiCall ''libssh2_channel_flush_ex'' [channel_ptr c, VInt 0]"
| "channel_macro (Channel_flush_stderr c) = ApiCall ''libssh2_channel_flush_ex'' [channel_ptr c, VInt 1]"

fun scp_macro :: "scp_call \<Rightarrow> api_call" where
  "scp_macro (Scp_send s path mode sz) =
    ApiCall ''libssh2_scp_send_ex'' [session_ptr s, VStr path, VInt (sint mode), VInt (uint sz), VInt 0, VInt 0]"

fun sftp_macro :: "sftp_call \<Rightarrow> api_call" where
  "sftp_macro (Sftp_open f filename flags mode) =
    ApiCall ''libssh2_sftp_open_ex''
      [sftp_ptr f, VStr filename, strlen_ui filename, VInt (uint flags), VInt (sint mode), VInt 0]"
| "sftp_macro (Sftp_opendir f path) =
    ApiCall ''libssh2_sftp_open_ex'' [sftp_ptr f, VStr path, strlen_ui path, VInt 0, VInt 0, VInt 1]"
| "sftp_macro (Sftp_readdir h buffer buffer_maxlen attrs) =
    ApiCall ''libssh2_sftp_readdir_ex''
      [handle_ptr h, VPtr ''char'' buffer, VInt (uint buffer_maxlen), VNull, VInt 0, attrs_ptr attrs]"
| "sftp_macro (Sftp_close h) = ApiCall ''libssh2_sftp_close_handle'' [handle_ptr h]"
| "sftp_macro (Sftp_closedir h) = ApiCall ''libssh2_sftp_close_handle'' [handle_ptr h]"
| "sftp_macro (Sftp_rewind h) = ApiCall ''libssh2_sftp_seek64'' [handle_ptr h, VInt 0]"
| "sftp_macro (Sftp_fstat h attrs) = ApiCall ''libssh2_sftp_fstat_ex'' [handle_ptr h, attrs_ptr attrs, VInt 0]"
| "sftp_macro (Sftp_fsetstat h attrs) = ApiCall ''libssh2_sftp_fstat_ex'' [handle_ptr h, attrs_ptr attrs, VInt 1]"
| "sftp_macro (Sftp_rename f sourcefile destfile) =
    ApiCall ''libssh2_sftp_rename_ex''
      [sftp_ptr f, VStr sourcefile, strlen_ui sourcefile, VStr destfile, strlen_ui destfile, VInt (1 OR 2 OR 4)]"
| "sftp_macro (Sftp_unlink f filename) =
    ApiCall ''libssh2_sftp_unlink_ex'' [sftp_ptr f, VStr filename, strlen_ui filename]"
| "sftp_macro (Sftp_mkdir f path mode) =
    ApiCall ''libssh2_sftp_mkdir_ex'' [sftp_ptr f, VStr path, strlen_ui path, VInt (sint mode)]"
| "sftp_macro (Sftp_rmdir f path) = ApiCall ''libssh2_sftp_rmdir_ex'' [sftp_ptr f, VStr path, strlen_ui path]"
| "sftp_macro (Sftp_stat f path attrs) =
    ApiCall ''libssh2_sftp_stat_ex'' [sftp_ptr f, VStr path, strlen_ui path, VInt 0, attrs_ptr attrs]"
| "sftp_macro (Sftp_lstat f path attrs) =
    ApiCall ''libssh2_sftp_stat_ex'' [sftp_ptr f, VStr path, strlen_ui path, VInt 1, attrs_ptr attrs]"
| "sftp_macro (Sftp_setstat f path attrs) =
    ApiCall ''libssh2_sftp_stat_ex'' [sftp_ptr f, VStr path, strlen_ui path, VInt 2, attrs_ptr attrs]"
| "sftp_macro (Sftp_symlink f orig linkpath) =
    ApiCall ''libssh2_sftp_symlink_ex''
      [sftp_ptr f, VStr orig, strlen_ui orig, VStr linkpath, strlen_ui linkpath, VInt 0]"
| "sftp_macro (Sftp_readlink f path target maxlen) =
    ApiCall ''libssh2_sftp_symlink_ex''
      [sftp_ptr f, VStr path, strlen_ui path, VPtr ''char'' target, VInt (uint maxlen), VInt 1]"
| "sftp_macro (Sftp_realpath f path target maxlen) =
    ApiCall ''libssh2_sftp_symlink_ex''
      [sftp_ptr f, VStr path, strlen_ui path, VPtr ''char'' target, VInt (uint maxlen), VInt 2]"

fun publickey_macro :: "publickey_call \<Rightarrow> api_call" where
  "publickey_macro (Publickey_add p name blob blob_len overwrite num_attrs attrs) =
    ApiCall ''libssh2_publickey_add_ex''
      [VPtr ''LIBSSH2_PUBLICKEY'' p, VStr name, strlen_ul name, VPtr ''unsigned char'' blob, VInt (uint blob_len),
       VInt (sint overwrite), VInt (uint num_attrs), VPtr ''libssh2_publickey_attribute'' attrs]"
| "publickey_macro (Publickey_remove p name blob blob_len) =
    ApiCall ''libssh2_publickey_remove_ex''
      [VPtr ''LIBSSH2_PUBLICKEY'' p, VStr name, strlen_ul name, VPtr ''unsigned char'' blob, VInt (uint blob_len)]"

datatype macro_call = SessionM session_call | UserauthM userauth_call | ChannelM channel_call | ScpM scp_call | SftpM sftp_call | PublickeyM publickey_call

fun expand_macro :: "macro_call \<Rightarrow> api_call" where
  "expand_macro (SessionM m) = session_macro m"
| "expand_macro (UserauthM m) = userauth_macro m"
| "expand_macro (ChannelM m) = channel_macro m"
| "expand_macro (ScpM m) = scp_macro m"
| "expand_macro (SftpM m) = sftp_macro m"
| "expand_macro (PublickeyM m) = publickey_macro m"

subsection \<open>The calls of \<open>sftpdir\<close>\<close>

text \<open>A call of \<open>libssh2/sftpdir.c\<close> as the call of the interface that its source makes, through a macro or directly; the calls of
  the socket library have none.  \<open>mem\<close>, \<open>longentry\<close> and \<open>attrs\<close> are the local buffers of 512 bytes and the attributes.\<close>

fun api_of :: "int \<times> int \<times> int \<Rightarrow> ssh_call \<Rightarrow> api_call option" where
  "api_of bufs LibInit = Some (ApiCall ''libssh2_init'' [VInt 0])"
| "api_of bufs LibExit = Some (ApiCall ''libssh2_exit'' [])"
| "api_of bufs SshSocket = None"
| "api_of bufs (Connect fd port a) = None"
| "api_of bufs (SshClose fd) = None"
| "api_of bufs SessionInit = Some (session_macro Session_init)"
| "api_of bufs (Handshake x fd) = Some (ApiCall ''libssh2_session_handshake'' [session_ptr x, VInt fd])"
| "api_of bufs (HostkeyHash x) = Some (ApiCall ''libssh2_hostkey_hash'' [session_ptr x, VInt 2])"
| "api_of bufs (UserauthList x u) = Some (ApiCall ''libssh2_userauth_list'' [session_ptr x, VStr u, strlen_ui u])"
| "api_of bufs (AuthPassword x u p) = Some (userauth_macro (Userauth_password x u p))"
| "api_of bufs (AuthKbdint x u p) = Some (userauth_macro (Userauth_keyboard_interactive x u))"
| "api_of bufs (AuthPublickey x u k l p) = Some (userauth_macro (Userauth_publickey_fromfile x u k l p))"
| "api_of bufs (SftpInit x) = Some (ApiCall ''libssh2_sftp_init'' [session_ptr x])"
| "api_of bufs (SetBlocking x b) = Some (ApiCall ''libssh2_session_set_blocking'' [session_ptr x, VInt b])"
| "api_of bufs (Opendir f path) = Some (sftp_macro (Sftp_opendir f path))"
| "api_of (mem, longentry, attrs) (Readdir d) =
    Some (ApiCall ''libssh2_sftp_readdir_ex''
      [handle_ptr d, VPtr ''char'' mem, VInt 512, VPtr ''char'' longentry, VInt 512, attrs_ptr attrs])"
| "api_of bufs (Closedir d) = Some (sftp_macro (Sftp_closedir d))"
| "api_of bufs (SftpShutdown f) = Some (ApiCall ''libssh2_sftp_shutdown'' [sftp_ptr f])"
| "api_of bufs (Disconnect x msg) = Some (session_macro (Session_disconnect x msg))"
| "api_of bufs (SessionFree x) = Some (ApiCall ''libssh2_session_free'' [session_ptr x])"

subsection \<open>Types\<close>

text \<open>A call is well typed when it is a call of a declared function with a value of its type for every parameter.  It is
  measured when every parameter that is named for the length of the string before it has the length of this string, modulo
  the size of the type, and a null pointer has length 0.\<close>

definition well_typed :: "api_call \<Rightarrow> bool" where
  "well_typed c = (case c of ApiCall f args \<Rightarrow>
    list_ex (\<lambda>(g, params). g = f \<and> list_all2 has_type args (map snd params)) api)"

definition is_length_of :: "string \<Rightarrow> string \<Rightarrow> bool" where
  "is_length_of p q \<longleftrightarrow> drop (length p - 4) p = ''_len'' \<and> length q = length p - 4"

fun measured_args :: "(string \<times> ctype) list \<Rightarrow> cval list \<Rightarrow> bool" where
  "measured_args ((q, tq) # (p, tp) # ps) (a # b # as) \<longleftrightarrow>
    (is_length_of p q \<longrightarrow>
      (case a of VStr s \<Rightarrow> b = VInt (int (length s) mod (if tp = ULongT then 2 ^ 64 else 2 ^ 32)) | VNull \<Rightarrow> b = VInt 0 | _ \<Rightarrow> True)) \<and>
    measured_args ((p, tp) # ps) (b # as)"
| "measured_args _ _ \<longleftrightarrow> True"

definition measured :: "api_call \<Rightarrow> bool" where
  "measured c = (case c of ApiCall f args \<Rightarrow> list_ex (\<lambda>(g, params). g = f \<and> measured_args params args) api)"

text \<open>A call fits the row of its function in one of the tables.\<close>

lemma api_rowI:
  assumes "(f, params) \<in> set api" "list_all2 has_type args (map snd params)" "measured_args params args"
  shows "well_typed (ApiCall f args) \<and> measured (ApiCall f args)"
  using assms by (force simp: well_typed_def measured_def list_ex_iff)

lemma in_api:
  "r \<in> set session_api \<Longrightarrow> r \<in> set api"
  "r \<in> set userauth_api \<Longrightarrow> r \<in> set api"
  "r \<in> set channel_api \<Longrightarrow> r \<in> set api"
  "r \<in> set scp_api \<Longrightarrow> r \<in> set api"
  "r \<in> set sftp_api \<Longrightarrow> r \<in> set api"
  "r \<in> set publickey_api \<Longrightarrow> r \<in> set api"
  by (simp_all add: api_def)

lemmas session_rowI = api_rowI [OF in_api(1)]
lemmas userauth_rowI = api_rowI [OF in_api(2)]
lemmas channel_rowI = api_rowI [OF in_api(3)]
lemmas scp_rowI = api_rowI [OF in_api(4)]
lemmas sftp_rowI = api_rowI [OF in_api(5)]
lemmas publickey_rowI = api_rowI [OF in_api(6)]

lemma word_ranges:
  "- 2147483648 \<le> sint (x :: 32 word)" "sint (x :: 32 word) < 2147483648"
  "- 9223372036854775808 \<le> sint (y :: 64 word)" "sint (y :: 64 word) < 9223372036854775808"
  "uint (y :: 64 word) < 18446744073709551616" "uint (x :: 32 word) < 4294967296"
  "- 128 \<le> sint (z :: 8 word)" "sint (z :: 8 word) < 128"
  using sint_ge [of x] sint_lt [of x] sint_ge [of y] sint_lt [of y] sint_ge [of z] sint_lt [of z] uint_lt2p [of y] uint_lt2p [of x] by simp_all

lemma strlen_ui_type: "has_type (strlen_ui s) UIntT"
  by (simp add: strlen_ui_def)

lemma strlen_ul_type: "has_type (strlen_ul s) ULongT"
  by (simp add: strlen_ul_def)

lemma session_typed: "well_typed (session_macro m) \<and> measured (session_macro m)"
  by (cases m; hypsubst; unfold session_macro.simps;
    (rule session_rowI, unfold session_api_def, (rule list.set_intros)+, simp, simp add: is_length_of_def))

lemma userauth_typed: "well_typed (userauth_macro m) \<and> measured (userauth_macro m)"
  by (cases m; hypsubst; unfold userauth_macro.simps;
    (rule userauth_rowI, unfold userauth_api_def, (rule list.set_intros)+, simp add: strlen_ui_type,
      simp add: is_length_of_def strlen_ui_def))

lemma channel_typed: "well_typed (channel_macro m) \<and> measured (channel_macro m)"
  by (cases m; hypsubst; unfold channel_macro.simps;
    (rule channel_rowI, unfold channel_api_def, (rule list.set_intros)+,
      simp add: strlen_ui_type literal_len_def word_ranges, simp add: is_length_of_def strlen_ui_def literal_len_def))

lemma scp_typed: "well_typed (scp_macro m) \<and> measured (scp_macro m)"
  by (cases m; hypsubst; unfold scp_macro.simps;
    (rule scp_rowI, unfold scp_api_def, (rule list.set_intros)+, simp add: word_ranges, simp add: is_length_of_def))

lemma sftp_typed: "well_typed (sftp_macro m) \<and> measured (sftp_macro m)"
  by (cases m; hypsubst; unfold sftp_macro.simps;
    (rule sftp_rowI, unfold sftp_api_def, (rule list.set_intros)+, simp add: strlen_ui_type word_ranges,
      simp add: is_length_of_def strlen_ui_def))

lemma publickey_typed: "well_typed (publickey_macro m) \<and> measured (publickey_macro m)"
  by (cases m; hypsubst; unfold publickey_macro.simps;
    (rule publickey_rowI, unfold publickey_api_def, (rule list.set_intros)+, simp add: strlen_ul_type word_ranges,
      simp add: is_length_of_def strlen_ul_def))

lemma macro_typed: "well_typed (expand_macro m) \<and> measured (expand_macro m)"
  by (cases m) (simp_all add: session_typed userauth_typed channel_typed scp_typed sftp_typed publickey_typed)

text \<open>The calls of \<open>sftpdir\<close> that are not made of words: the descriptor and the flag have to be numbers of type \<open>int\<close>.\<close>

fun int_args :: "ssh_call \<Rightarrow> bool" where
  "int_args (Handshake x fd) \<longleftrightarrow> - (2 ^ 31) \<le> fd \<and> fd < 2 ^ 31"
| "int_args (SetBlocking x b) \<longleftrightarrow> - (2 ^ 31) \<le> b \<and> b < 2 ^ 31"
| "int_args _ \<longleftrightarrow> True"

definition declared :: "int \<times> int \<times> int \<Rightarrow> ssh_call \<Rightarrow> bool" where
  "declared bufs c = (case api_of bufs c of None \<Rightarrow> True | Some a \<Rightarrow> well_typed a \<and> measured a)"

lemma session_direct_typed:
  "well_typed (ApiCall ''libssh2_init'' [VInt 0]) \<and> measured (ApiCall ''libssh2_init'' [VInt 0])"
  "well_typed (ApiCall ''libssh2_exit'' []) \<and> measured (ApiCall ''libssh2_exit'' [])"
  "well_typed (ApiCall ''libssh2_hostkey_hash'' [session_ptr x, VInt 2]) \<and>
   measured (ApiCall ''libssh2_hostkey_hash'' [session_ptr x, VInt 2])"
  "well_typed (ApiCall ''libssh2_session_free'' [session_ptr x]) \<and> measured (ApiCall ''libssh2_session_free'' [session_ptr x])"
  "- (2 ^ 31) \<le> n \<and> n < 2 ^ 31 \<Longrightarrow> well_typed (ApiCall ''libssh2_session_handshake'' [session_ptr x, VInt n]) \<and>
   measured (ApiCall ''libssh2_session_handshake'' [session_ptr x, VInt n])"
  by (rule session_rowI, unfold session_api_def, (rule list.set_intros)+, simp, simp add: is_length_of_def)+

lemma userauth_direct_typed:
  "well_typed (ApiCall ''libssh2_userauth_list'' [session_ptr x, VStr u, strlen_ui u]) \<and>
   measured (ApiCall ''libssh2_userauth_list'' [session_ptr x, VStr u, strlen_ui u])"
  by (rule userauth_rowI, unfold userauth_api_def, (rule list.set_intros)+, simp add: strlen_ui_type,
      simp add: is_length_of_def strlen_ui_def)

lemma channel_direct_typed:
  "- (2 ^ 31) \<le> n \<and> n < 2 ^ 31 \<Longrightarrow> well_typed (ApiCall ''libssh2_session_set_blocking'' [session_ptr x, VInt n]) \<and>
   measured (ApiCall ''libssh2_session_set_blocking'' [session_ptr x, VInt n])"
  by (rule channel_rowI, unfold channel_api_def, (rule list.set_intros)+, simp, simp add: is_length_of_def)

lemma sftp_direct_typed:
  "well_typed (ApiCall ''libssh2_sftp_init'' [session_ptr x]) \<and> measured (ApiCall ''libssh2_sftp_init'' [session_ptr x])"
  "well_typed (ApiCall ''libssh2_sftp_shutdown'' [sftp_ptr x]) \<and> measured (ApiCall ''libssh2_sftp_shutdown'' [sftp_ptr x])"
  "well_typed (ApiCall ''libssh2_sftp_readdir_ex''
      [handle_ptr d, VPtr ''char'' m, VInt 512, VPtr ''char'' l, VInt 512, attrs_ptr a]) \<and>
   measured (ApiCall ''libssh2_sftp_readdir_ex''
      [handle_ptr d, VPtr ''char'' m, VInt 512, VPtr ''char'' l, VInt 512, attrs_ptr a])"
  by (rule sftp_rowI, unfold sftp_api_def, (rule list.set_intros)+, simp, simp add: is_length_of_def)+

lemmas direct_typed = session_direct_typed userauth_direct_typed channel_direct_typed sftp_direct_typed

lemma api_of_declared:
  assumes "int_args c"
  shows "declared bufs c"
  using assms session_typed userauth_typed sftp_typed direct_typed
  by (cases bufs; cases c)
    (simp_all add: declared_def del: session_macro.simps userauth_macro.simps sftp_macro.simps)

subsection \<open>The calls of a run\<close>

definition typed_step :: "int \<times> int \<times> int \<Rightarrow> ssh_call \<Rightarrow> sysret \<Rightarrow> unit \<Rightarrow> unit option" where
  "typed_step bufs c r s = (if declared bufs c then Some s else None)"

lemma typed_call: "int_args c \<Longrightarrow> (\<And>r. Q r ()) \<Longrightarrow> wp (typed_step bufs) (call os c) Q ()"
  by (rule wp_call) (simp add: typed_step_def api_of_declared)

lemma typed_shutdown: "(\<And>x. Q x ()) \<Longrightarrow> wp (typed_step bufs) (ssh_shutdown os x fd) Q ()"
  unfolding ssh_shutdown_def by (intro wp_rules typed_call) simp_all

lemma typed_authenticate: "(\<And>x. Q x ()) \<Longrightarrow> wp (typed_step bufs) (authenticate os x u p pw) Q ()"
  unfolding authenticate_def by (auto split: option.split auth_method.split intro!: wp_rules typed_call)

lemma typed_readdir: "(\<And>x. Q x ()) \<Longrightarrow> wp (typed_step bufs) (readdir_loop os entry d fuel) Q ()"
  by (induction fuel) (auto simp: print_entry_def intro!: wp_rules typed_call)

lemma typed_list: "(\<And>x. Q x ()) \<Longrightarrow> wp (typed_step bufs) (sftp_list os entry fuel x fd path) Q ()"
  unfolding sftp_list_def by (auto intro!: wp_rules typed_call typed_shutdown typed_readdir)

lemma typed_session: "(\<And>x. Q x ()) \<Longrightarrow> wp (typed_step bufs) (ssh_session os entry fuel x fd u p path arg5) Q ()"
  unfolding ssh_session_def by (auto intro!: wp_rules typed_call typed_shutdown typed_list typed_authenticate)

lemma typed_main:
  assumes "\<And>h. - (2 ^ 31) \<le> sys_ret (os h SshSocket) \<and> sys_ret (os h SshSocket) < 2 ^ 31"
  shows "wp (typed_step bufs) (sftpdir_main os inet_addr entry fuel argv) (\<lambda>_ _. True) ()"
proof -
  have sock: "wp (typed_step bufs) (call os SshSocket) Q ()"
    if "\<And>r. - (2 ^ 31) \<le> sys_ret r \<Longrightarrow> sys_ret r < 2 ^ 31 \<Longrightarrow> Q r ()" for Q
    by (rule wp_call_law [where L = "\<lambda>c r. - (2 ^ 31) \<le> sys_ret r \<and> sys_ret r < 2 ^ 31"])
      (use assms that api_of_declared [of SshSocket bufs] in \<open>auto simp: typed_step_def\<close>)
  show ?thesis
    unfolding sftpdir_main_def
    by (auto intro!: wp_rules sock typed_session typed_call)
qed

lemma typed_monitor: "monitor (typed_step bufs) () h = Some () \<Longrightarrow> c \<in> set (calls h) \<Longrightarrow> declared bufs c"
  by (induction h rule: calls.induct) (auto simp: typed_step_def split: option.splits if_splits)

text \<open>C40: every macro of the headers expands to a call of a declared function with an argument of the declared type for each of its
  parameters, and every call of the library that a run of \<open>sftpdir\<close> makes, through a macro or directly, is such a call;
  each parameter for the length of a string gets the length of the string before it (modulo the 32 or 64 bits of the parameter, and 0 for a
  null pointer).  \<open>kbd_callback\<close> has the parameters of the callback it is passed for.  The descriptor that \<open>socket\<close> returns is taken to be an \<open>int\<close>.\<close>

theorem library_calls_declared:
  assumes "\<And>h. - (2 ^ 31) \<le> sys_ret (os h SshSocket) \<and> sys_ret (os h SshSocket) < 2 ^ 31"
  shows "(\<forall>m. well_typed (expand_macro m) \<and> measured (expand_macro m)) \<and>
    (\<forall>c \<in> set (calls (final (sftpdir_main os inet_addr entry fuel argv) [])).
      case api_of bufs c of None \<Rightarrow> c \<in> {SshSocket} \<union> range SshClose \<union> {Connect fd port a | fd port a. True}
      | Some a \<Rightarrow> well_typed a \<and> measured a) \<and>
    (\<exists>params. (''LIBSSH2_USERAUTH_KBDINT_RESPONSE_FUNC'', params) \<in> set callback_types \<and>
      map snd params = map snd kbd_callback_params)"
proof -
  have "monitor (typed_step bufs) () (final (sftpdir_main os inet_addr entry fuel argv) []) = Some ()"
    using wpD [OF typed_main [of os bufs inet_addr entry fuel argv, OF assms], of "()" "[]"] by simp
  then have decl: "declared bufs c" if "c \<in> set (calls (final (sftpdir_main os inet_addr entry fuel argv) []))" for c
    using typed_monitor that by blast
  have socket: "c \<in> {SshSocket} \<union> range SshClose \<union> {Connect fd port a | fd port a. True}" if "api_of bufs c = None" for c
    using that by (cases bufs; cases c) auto
  have "case api_of bufs c of None \<Rightarrow> c \<in> {SshSocket} \<union> range SshClose \<union> {Connect fd port a | fd port a. True}
      | Some a \<Rightarrow> well_typed a \<and> measured a" if "declared bufs c" for c
    using that socket [of c] unfolding declared_def by (cases "api_of bufs c") simp_all
  moreover have "\<exists>params. (''LIBSSH2_USERAUTH_KBDINT_RESPONSE_FUNC'', params) \<in> set callback_types \<and>
      map snd params = map snd kbd_callback_params"
    by (rule exI, rule conjI, unfold callback_types_def, (rule list.set_intros)+, simp add: kbd_callback_params_def)
  ultimately show ?thesis
    using macro_typed decl by blast
qed

theorem library_calls_declared_witness:
  "let os = (\<lambda>h c. \<lparr>sys_ret = (case c of SshSocket \<Rightarrow> 3 | SessionInit \<Rightarrow> 1 | Handshake _ _ \<Rightarrow> - 5 | _ \<Rightarrow> 0),
        sys_errno = 0, sys_data = [], sys_addr = []\<rparr>)
   in Handshake 1 3 \<in> set (calls (final (sftpdir_main os (\<lambda>_. []) (\<lambda>_. undefined) 1 [''sftpdir'']) [])) \<and>
      well_typed (ApiCall ''libssh2_session_handshake'' [session_ptr 1, VInt 3]) \<and>
      measured (expand_macro (ChannelM (Channel_exec 1 ''ls'')))"
proof -
  define os :: ssh_os where "os = (\<lambda>h c. \<lparr>sys_ret = (case c of SshSocket \<Rightarrow> 3 | SessionInit \<Rightarrow> 1 | Handshake _ _ \<Rightarrow> - 5 | _ \<Rightarrow> 0),
        sys_errno = 0, sys_data = [], sys_addr = []\<rparr>)"
  let ?run = "final (sftpdir_main os (\<lambda>_. []) (\<lambda>_. undefined) 1 [''sftpdir'']) []"
  have called: "Handshake 1 3 \<in> set (calls ?run)"
    by (simp add: sftpdir_main_def final_bind os_def Let_def)
  have sock: "\<And>h. - (2 ^ 31) \<le> sys_ret (os h SshSocket) \<and> sys_ret (os h SshSocket) < 2 ^ 31"
    by (simp add: os_def)
  note run_typed = library_calls_declared [where os = os and bufs = "(0, 0, 0)" and inet_addr = "\<lambda>_. []" and entry = "\<lambda>_. undefined"
      and fuel = 1 and argv = "[''sftpdir'']", OF sock]
  have "well_typed (ApiCall ''libssh2_session_handshake'' [session_ptr 1, VInt 3])"
    using bspec [OF conjunct1 [OF conjunct2 [OF run_typed]] called] by (simp only: api_of.simps option.case)
  moreover have "measured (expand_macro (ChannelM (Channel_exec 1 ''ls'')))"
    using spec [OF conjunct1 [OF run_typed]] by blast
  ultimately show ?thesis
    using called unfolding os_def [symmetric] Let_def by blast
qed

end
