(* ===== verification/Conditionals.thy ===== *)
theory Conditionals
  imports CIO
begin

text \<open>
  Files for the C preprocessor: definitions of macros, inclusion of files and conditional groups.  What is
  processed is a state of the macros that are defined and of the pieces of the program that are kept.
\<close>

subsection \<open>Conditions\<close>

text \<open>The defined macros with their replacement text; that of a function-like macro plays no role for conditions.\<close>

type_synonym defs = "string \<rightharpoonup> string"

datatype condition =
    Defined string | Truth string | Equals string int | AtLeast string int
  | Not condition | And condition condition | Or condition condition

text \<open>A name that is not defined has the value 0 in a condition.\<close>

definition macro_value :: "defs \<Rightarrow> string \<Rightarrow> int" where
  "macro_value D x = (case D x of None \<Rightarrow> 0 | Some t \<Rightarrow> digits_value 0 t)"

fun holds :: "defs \<Rightarrow> condition \<Rightarrow> bool" where
  "holds D (Defined x) \<longleftrightarrow> D x \<noteq> None"
| "holds D (Truth x) \<longleftrightarrow> macro_value D x \<noteq> 0"
| "holds D (Equals x n) \<longleftrightarrow> macro_value D x = n"
| "holds D (AtLeast x n) \<longleftrightarrow> n \<le> macro_value D x"
| "holds D (Not c) \<longleftrightarrow> \<not> holds D c"
| "holds D (And c d) \<longleftrightarrow> holds D c \<and> holds D d"
| "holds D (Or c d) \<longleftrightarrow> holds D c \<or> holds D d"

subsection \<open>Files\<close>

text \<open>What is kept: declarations, by name, with the type or the members, other text, and the inclusion of a system header.\<close>

datatype piece = Typedef string string | Struct string "(string \<times> string) list" | Func string | Text string | Header string

datatype directive =
    Define string string | DefineFn string "string list" | Undef string | Include string
  | Emit piece | Group condition "directive list" "directive list"

type_synonym files = "string \<rightharpoonup> directive list"

text \<open>The macros that a system header defines.\<close>

type_synonym headers = "string \<Rightarrow> (string \<times> string) list"

fun define_macros :: "(string \<times> string) list \<Rightarrow> defs \<Rightarrow> defs" where
  "define_macros [] D = D"
| "define_macros ((x, t) # ms) D = define_macros ms (D(x \<mapsto> t))"

text \<open>An inclusion is that of a file, when there is one of this name, and otherwise that of a system header.  \<open>depth\<close> is the
  number of files that may be open inside each other; \<open>None\<close> is a deeper inclusion.\<close>

function process :: "files \<Rightarrow> headers \<Rightarrow> nat \<Rightarrow> directive list \<Rightarrow> defs \<times> piece list \<Rightarrow> (defs \<times> piece list) option" where
  "process fs sys depth [] s = Some s"
| "process fs sys depth (Define x t # ds) (D, out) = process fs sys depth ds (D(x \<mapsto> t), out)"
| "process fs sys depth (DefineFn x ps # ds) (D, out) = process fs sys depth ds (D(x \<mapsto> []), out)"
| "process fs sys depth (Undef x # ds) (D, out) = process fs sys depth ds (D(x := None), out)"
| "process fs sys depth (Emit p # ds) (D, out) = process fs sys depth ds (D, out @ [p])"
| "process fs sys depth (Group c yes no # ds) (D, out) =
    (case process fs sys depth (if holds D c then yes else no) (D, out) of
       None \<Rightarrow> None
     | Some s \<Rightarrow> process fs sys depth ds s)"
| "process fs sys depth (Include f # ds) (D, out) =
    (case fs f of
       None \<Rightarrow> process fs sys depth ds (define_macros (sys f) D, out @ [Header f])
     | Some body \<Rightarrow>
         (case depth of
            0 \<Rightarrow> None
          | Suc n \<Rightarrow> (case process fs sys n body (D, out) of None \<Rightarrow> None | Some s \<Rightarrow> process fs sys depth ds s)))"
  by pat_completeness auto
termination
  by (relation "measures [\<lambda>(fs, sys, depth, ds, s). depth, \<lambda>(fs, sys, depth, ds, s). size_list size ds]")
    (auto simp: less_Suc_eq_le)

lemma process_append:
  "process fs sys depth (ds @ es) s = (case process fs sys depth ds s of None \<Rightarrow> None | Some t \<Rightarrow> process fs sys depth es t)"
  by (induction fs sys depth ds s rule: process.induct) (auto split: option.split nat.split)

subsection \<open>Lines without conditions\<close>

text \<open>A stretch of definitions and declarations; the names it defines and the pieces it keeps.\<close>

fun plain :: "directive \<Rightarrow> bool" where
  "plain (Define x t) = True"
| "plain (DefineFn x ps) = True"
| "plain (Emit p) = True"
| "plain _ = False"

fun defined_by :: "directive list \<Rightarrow> string list" where
  "defined_by [] = []"
| "defined_by (Define x t # ds) = x # defined_by ds"
| "defined_by (DefineFn x ps # ds) = x # defined_by ds"
| "defined_by (_ # ds) = defined_by ds"

fun kept :: "directive list \<Rightarrow> piece list" where
  "kept [] = []"
| "kept (Emit p # ds) = p # kept ds"
| "kept (_ # ds) = kept ds"

fun define_plain :: "directive list \<Rightarrow> defs \<Rightarrow> defs" where
  "define_plain [] D = D"
| "define_plain (Define x t # ds) D = define_plain ds (D(x \<mapsto> t))"
| "define_plain (DefineFn x ps # ds) D = define_plain ds (D(x \<mapsto> []))"
| "define_plain (_ # ds) D = define_plain ds D"

lemma process_plain:
  "list_all plain ds \<Longrightarrow> process fs sys depth ds (D, out) = Some (define_plain ds D, out @ kept ds)"
  by (induction ds D arbitrary: out rule: define_plain.induct) simp_all

lemma define_plain_other: "x \<notin> set (defined_by ds) \<Longrightarrow> define_plain ds D x = D x"
  by (induction ds D rule: define_plain.induct) simp_all

lemma define_plain_keeps: "D x \<noteq> None \<Longrightarrow> define_plain ds D x \<noteq> None"
  by (induction ds D rule: define_plain.induct) (auto split: if_splits)

lemma define_macros_other: "x \<notin> fst ` set ms \<Longrightarrow> define_macros ms D x = D x"
  by (induction ms D rule: define_macros.induct) auto

lemma define_macros_keeps: "D x \<noteq> None \<Longrightarrow> define_macros ms D x \<noteq> None"
  by (induction ms D rule: define_macros.induct) auto

end
