(* ===== verification/LibsshFiles.thy ===== *)
theory LibsshFiles
  imports Conditionals
begin

text \<open>
  The headers \<open>libssh2/libssh2_config.h\<close>, \<open>libssh2/libssh2.h\<close>, \<open>libssh2/libssh2_sftp.h\<close> and
  \<open>libssh2/libssh2_publickey.h\<close>, and the directives of \<open>libssh2/sftpdir.c\<close>, as files for the preprocessor, line by line.
  A declared function is given by its name and a function-like macro by its name and parameters; their types and bodies
  are in \<open>LibsshApi\<close>.
\<close>

subsection \<open>\<open>libssh2_config.h\<close>\<close>

definition config_features :: "directive list" where
  "config_features = [
     Define ''HAVE_ALLOCA'' ''1'', Define ''HAVE_ALLOCA_H'' ''1'', Define ''HAVE_ARPA_INET_H'' ''1'',
     Define ''HAVE_DLFCN_H'' ''1'', Define ''HAVE_ERRNO_H'' ''1'', Define ''HAVE_EVP_AES_128_CTR'' ''1'',
     Define ''HAVE_FCNTL_H'' ''1'', Define ''HAVE_GETTIMEOFDAY'' ''1'', Define ''HAVE_INTTYPES_H'' ''1'',
     Define ''HAVE_LIBSSL'' ''1'', Define ''HAVE_LIBZ'' ''1'', Define ''HAVE_LONGLONG'' ''1'',
     Define ''HAVE_MEMORY_H'' ''1'', Define ''HAVE_NETINET_IN_H'' ''1'', Define ''HAVE_O_NONBLOCK'' ''1'',
     Define ''HAVE_POLL'' ''1'', Define ''HAVE_SELECT'' ''1'', Define ''HAVE_STDINT_H'' ''1'',
     Define ''HAVE_STDIO_H'' ''1'', Define ''HAVE_STDLIB_H'' ''1'', Define ''HAVE_STRINGS_H'' ''1'',
     Define ''HAVE_STRING_H'' ''1'', Define ''HAVE_STRTOLL'' ''1'', Define ''HAVE_SYS_IOCTL_H'' ''1'',
     Define ''HAVE_SYS_SELECT_H'' ''1'', Define ''HAVE_SYS_SOCKET_H'' ''1'', Define ''HAVE_SYS_STAT_H'' ''1'',
     Define ''HAVE_SYS_TIME_H'' ''1'', Define ''HAVE_SYS_TYPES_H'' ''1'', Define ''HAVE_SYS_UIO_H'' ''1'',
     Define ''HAVE_SYS_UN_H'' ''1'', Define ''HAVE_UNISTD_H'' ''1'']"

definition config_package :: "directive list" where
  "config_package = [
     Define ''LIBSSH2_DH_GEX_NEW'' ''1'', Define ''LIBSSH2_HAVE_ZLIB'' ''1'', Define ''LIBSSH2_OPENSSL'' ''1'',
     Define ''LT_OBJDIR'' ''\".libs/\"'', Define ''PACKAGE'' ''\"libssh2\"'',
     Define ''PACKAGE_BUGREPORT'' ''\"libssh2-devel@cool.haxx.se\"'', Define ''PACKAGE_NAME'' ''\"libssh2\"'',
     Define ''PACKAGE_STRING'' ''\"libssh2 -\"'', Define ''PACKAGE_TARNAME'' ''\"libssh2\"'',
     Define ''PACKAGE_URL'' ''\"\"'', Define ''PACKAGE_VERSION'' ''\"-\"'', Define ''STDC_HEADERS'' ''1'']"

definition config_system :: "directive list" where
  "config_system = [
     Define ''VERSION'' ''\"-\"'',
     Group (Defined ''AC_APPLE_UNIVERSAL_BUILD'') [
       Group (Defined ''__BIG_ENDIAN__'') [
         Define ''WORDS_BIGENDIAN'' ''1''] []] [
       Group (Not (Defined ''WORDS_BIGENDIAN'')) [] []],
     Group (Not (Defined ''_DARWIN_USE_64_BIT_INODE'')) [
       Define ''_DARWIN_USE_64_BIT_INODE'' ''1''] [],
     Group (Not (Defined ''__cplusplus'')) [] []]"

definition libssh2_config_h :: "directive list" where
  "libssh2_config_h = config_features @ config_package @ config_system"

subsection \<open>\<open>libssh2.h\<close>\<close>

definition h_version :: "directive list" where
  "h_version = [
     Define ''LIBSSH2_COPYRIGHT'' ''\"2004-2016 The libssh2 project and its contributors.\"'',
     Define ''LIBSSH2_VERSION'' ''\"1.7.0_DEV\"'', Define ''LIBSSH2_VERSION_MAJOR'' ''1'',
     Define ''LIBSSH2_VERSION_MINOR'' ''7'', Define ''LIBSSH2_VERSION_PATCH'' ''0'',
     Define ''LIBSSH2_VERSION_NUM'' ''0x010700'', Define ''LIBSSH2_TIMESTAMP'' ''\"DEV\"'']"

definition h_api :: "directive list" where
  "h_api = [
     Group (Defined ''__cplusplus'') [
       Emit (Text ''extern \"C\" {'')] [],
     Group (Defined ''_WIN32'') [
       Include ''basetsd.h'', Include ''winsock2.h''] [],
     Include ''stddef.h'', Include ''string.h'', Include ''sys/stat.h'', Include ''sys/types.h'',
     Group (Not (Defined ''LIBSSH2_API'')) [
       Group (Defined ''LIBSSH2_WIN32'') [
         Group (Defined ''_WINDLL'') [
           Group (Defined ''LIBSSH2_LIBRARY'') [
             Define ''LIBSSH2_API'' ''__declspec(dllexport)''] [
             Define ''LIBSSH2_API'' ''__declspec(dllimport)'']] [
           Define ''LIBSSH2_API'' []]] [
         Define ''LIBSSH2_API'' []]] [],
     Group (Defined ''HAVE_SYS_UIO_H'') [
       Include ''sys/uio.h''] []]"

definition h_types :: "directive list" where
  "h_types = [
     Group (And (Defined ''NETWARE'') (Not (Defined ''__NOVELL_LIBC__''))) [
       Include ''sys/bsdskt.h'', Emit (Typedef ''uint8_t'' ''unsigned char''), Emit (Typedef ''uint32_t'' ''unsigned int'')] [],
     Group (Defined ''_MSC_VER'') [
       Emit (Typedef ''uint8_t'' ''unsigned char''), Emit (Typedef ''uint32_t'' ''unsigned int''),
       Emit (Typedef ''libssh2_uint64_t'' ''unsigned __int64''), Emit (Typedef ''libssh2_int64_t'' ''__int64''),
       Group (Not (Defined ''ssize_t'')) [
         Emit (Typedef ''ssize_t'' ''SSIZE_T'')] []] [
       Emit (Typedef ''libssh2_uint64_t'' ''unsigned long long''), Emit (Typedef ''libssh2_int64_t'' ''long long'')],
     Group (Defined ''WIN32'') [
       Emit (Typedef ''libssh2_socket_t'' ''SOCKET''), Define ''LIBSSH2_INVALID_SOCKET'' ''INVALID_SOCKET''] [
       Emit (Typedef ''libssh2_socket_t'' ''int''), Define ''LIBSSH2_INVALID_SOCKET'' ''-1'']]"

definition h_file_flags :: "directive list" where
  "h_file_flags = [
     Group (And (Defined ''_MSC_VER'') (Not (Defined ''_WIN32_WCE''))) [
       Group (And (AtLeast ''_MSC_VER'' 900) (AtLeast ''_INTEGRAL_MAX_BITS'' 64)) [
         Define ''LIBSSH2_USE_WIN32_LARGE_FILES'' []] [
         Define ''LIBSSH2_USE_WIN32_SMALL_FILES'' []]] [],
     Group (And (Defined ''__MINGW32__'') (Not (Defined ''LIBSSH2_USE_WIN32_LARGE_FILES''))) [
       Define ''LIBSSH2_USE_WIN32_LARGE_FILES'' []] [],
     Group (And (Defined ''__WATCOMC__'') (Not (Defined ''LIBSSH2_USE_WIN32_LARGE_FILES''))) [
       Define ''LIBSSH2_USE_WIN32_LARGE_FILES'' []] [],
     Group (Defined ''__POCC__'') [
       Undef ''LIBSSH2_USE_WIN32_LARGE_FILES''] [],
     Group (And (And (Defined ''_WIN32'') (Not (Defined ''LIBSSH2_USE_WIN32_LARGE_FILES''))) (Not (Defined ''LIBSSH2_USE_WIN32_SMALL_FILES''))) [
       Define ''LIBSSH2_USE_WIN32_SMALL_FILES'' []] []]"

definition h_stat :: "directive list" where
  "h_stat = [
     Group (Defined ''LIBSSH2_USE_WIN32_LARGE_FILES'') [
       Include ''io.h'', Include ''sys/types.h'', Include ''sys/stat.h'',
       Define ''LIBSSH2_STRUCT_STAT_SIZE_FORMAT'' ''\"%I64d\"'', Emit (Typedef ''libssh2_struct_stat'' ''struct _stati64''),
       Emit (Typedef ''libssh2_struct_stat_size'' ''__int64'')] [],
     Group (Defined ''LIBSSH2_USE_WIN32_SMALL_FILES'') [
       Include ''sys/types.h'', Include ''sys/stat.h'',
       Group (Not (Defined ''_WIN32_WCE'')) [
         Define ''LIBSSH2_STRUCT_STAT_SIZE_FORMAT'' ''\"%d\"'', Emit (Typedef ''libssh2_struct_stat'' ''struct _stat''),
         Emit (Typedef ''libssh2_struct_stat_size'' ''off_t'')] []] [],
     Group (Not (Defined ''LIBSSH2_STRUCT_STAT_SIZE_FORMAT'')) [
       Group (Defined ''__VMS'') [
         Group (Or (Truth ''__USE_OFF64_T'') (Truth ''__USING_STD_STAT'')) [
           Define ''LIBSSH2_STRUCT_STAT_SIZE_FORMAT'' ''\"%Ld\"''] [
           Define ''LIBSSH2_STRUCT_STAT_SIZE_FORMAT'' ''\"%d\"'']] [
         Define ''LIBSSH2_STRUCT_STAT_SIZE_FORMAT'' ''\"%zd\"''],
       Emit (Typedef ''libssh2_struct_stat'' ''struct stat''), Emit (Typedef ''libssh2_struct_stat_size'' ''off_t'')] []]"

definition h_defaults :: "directive list" where
  "h_defaults = [
     Define ''LIBSSH2_SSH_BANNER'' ''\"SSH-2.0-libssh2_\" LIBSSH2_VERSION'',
     Define ''LIBSSH2_SSH_DEFAULT_BANNER'' ''LIBSSH2_SSH_BANNER'',
     Define ''LIBSSH2_SSH_DEFAULT_BANNER_WITH_CRLF'' (''LIBSSH2_SSH_DEFAULT_BANNER \"'' @ [CHR 0x5C] @ ''r'' @ [CHR 0x5C] @ ''n\"''),
     Define ''LIBSSH2_DH_GEX_MINGROUP'' ''1024'', Define ''LIBSSH2_DH_GEX_OPTGROUP'' ''1536'',
     Define ''LIBSSH2_DH_GEX_MAXGROUP'' ''2048'', Define ''LIBSSH2_TERM_WIDTH'' ''80'',
     Define ''LIBSSH2_TERM_HEIGHT'' ''24'', Define ''LIBSSH2_TERM_WIDTH_PX'' ''0'', Define ''LIBSSH2_TERM_HEIGHT_PX'' ''0'',
     Define ''LIBSSH2_SOCKET_POLL_UDELAY'' ''250000'', Define ''LIBSSH2_SOCKET_POLL_MAXLOOPS'' ''120'',
     Define ''LIBSSH2_PACKET_MAXCOMP'' ''32000'', Define ''LIBSSH2_PACKET_MAXDECOMP'' ''40000'',
     Define ''LIBSSH2_PACKET_MAXPAYLOAD'' ''40000'', DefineFn ''LIBSSH2_ALLOC_FUNC'' [''name''],
     DefineFn ''LIBSSH2_REALLOC_FUNC'' [''name''], DefineFn ''LIBSSH2_FREE_FUNC'' [''name''],
     Emit (Struct ''LIBSSH2_USERAUTH_KBDINT_PROMPT'' [(''text'', ''char *''), (''length'', ''unsigned int''),
       (''echo'', ''unsigned char'')]),
     Emit (Struct ''LIBSSH2_USERAUTH_KBDINT_RESPONSE'' [(''text'', ''char *''), (''length'', ''unsigned int'')]),
     DefineFn ''LIBSSH2_USERAUTH_PUBLICKEY_SIGN_FUNC'' [''name''],
     DefineFn ''LIBSSH2_USERAUTH_KBDINT_RESPONSE_FUNC'' [''name_''], DefineFn ''LIBSSH2_IGNORE_FUNC'' [''name''],
     DefineFn ''LIBSSH2_DEBUG_FUNC'' [''name''], DefineFn ''LIBSSH2_DISCONNECT_FUNC'' [''name''],
     DefineFn ''LIBSSH2_PASSWD_CHANGEREQ_FUNC'' [''name''], DefineFn ''LIBSSH2_MACERROR_FUNC'' [''name''],
     DefineFn ''LIBSSH2_X11_OPEN_FUNC'' [''name''], DefineFn ''LIBSSH2_CHANNEL_CLOSE_FUNC'' [''name''],
     DefineFn ''LIBSSH2_RECV_FUNC'' [''name''], DefineFn ''LIBSSH2_SEND_FUNC'' [''name'']]"

definition h_poll :: "directive list" where
  "h_poll = [
     Define ''LIBSSH2_CALLBACK_IGNORE'' ''0'', Define ''LIBSSH2_CALLBACK_DEBUG'' ''1'',
     Define ''LIBSSH2_CALLBACK_DISCONNECT'' ''2'', Define ''LIBSSH2_CALLBACK_MACERROR'' ''3'',
     Define ''LIBSSH2_CALLBACK_X11'' ''4'', Define ''LIBSSH2_CALLBACK_SEND'' ''5'', Define ''LIBSSH2_CALLBACK_RECV'' ''6'',
     Define ''LIBSSH2_METHOD_KEX'' ''0'', Define ''LIBSSH2_METHOD_HOSTKEY'' ''1'', Define ''LIBSSH2_METHOD_CRYPT_CS'' ''2'',
     Define ''LIBSSH2_METHOD_CRYPT_SC'' ''3'', Define ''LIBSSH2_METHOD_MAC_CS'' ''4'',
     Define ''LIBSSH2_METHOD_MAC_SC'' ''5'', Define ''LIBSSH2_METHOD_COMP_CS'' ''6'',
     Define ''LIBSSH2_METHOD_COMP_SC'' ''7'', Define ''LIBSSH2_METHOD_LANG_CS'' ''8'',
     Define ''LIBSSH2_METHOD_LANG_SC'' ''9'', Define ''LIBSSH2_FLAG_SIGPIPE'' ''1'', Define ''LIBSSH2_FLAG_COMPRESS'' ''2'',
     Emit (Typedef ''LIBSSH2_SESSION'' ''struct _LIBSSH2_SESSION''),
     Emit (Typedef ''LIBSSH2_CHANNEL'' ''struct _LIBSSH2_CHANNEL''),
     Emit (Typedef ''LIBSSH2_LISTENER'' ''struct _LIBSSH2_LISTENER''),
     Emit (Typedef ''LIBSSH2_KNOWNHOSTS'' ''struct _LIBSSH2_KNOWNHOSTS''),
     Emit (Typedef ''LIBSSH2_AGENT'' ''struct _LIBSSH2_AGENT''),
     Emit (Struct ''LIBSSH2_POLLFD'' [(''type'', ''unsigned char''),
       (''fd'', ''union { libssh2_socket_t socket; LIBSSH2_CHANNEL *channel; LIBSSH2_LISTENER *listener; }''),
       (''events'', ''unsigned long''), (''revents'', ''unsigned long'')]),
     Define ''LIBSSH2_POLLFD_SOCKET'' ''1'', Define ''LIBSSH2_POLLFD_CHANNEL'' ''2'',
     Define ''LIBSSH2_POLLFD_LISTENER'' ''3'', Define ''LIBSSH2_POLLFD_POLLIN'' ''0x0001'',
     Define ''LIBSSH2_POLLFD_POLLPRI'' ''0x0002'', Define ''LIBSSH2_POLLFD_POLLEXT'' ''0x0002'',
     Define ''LIBSSH2_POLLFD_POLLOUT'' ''0x0004'', Define ''LIBSSH2_POLLFD_POLLERR'' ''0x0008'',
     Define ''LIBSSH2_POLLFD_POLLHUP'' ''0x0010'', Define ''LIBSSH2_POLLFD_SESSION_CLOSED'' ''0x0010'',
     Define ''LIBSSH2_POLLFD_POLLNVAL'' ''0x0020'', Define ''LIBSSH2_POLLFD_POLLEX'' ''0x0040'',
     Define ''LIBSSH2_POLLFD_CHANNEL_CLOSED'' ''0x0080'', Define ''LIBSSH2_POLLFD_LISTENER_CLOSED'' ''0x0080'',
     Define ''HAVE_LIBSSH2_SESSION_BLOCK_DIRECTION'' [], Define ''LIBSSH2_SESSION_BLOCK_INBOUND'' ''0x0001'',
     Define ''LIBSSH2_SESSION_BLOCK_OUTBOUND'' ''0x0002'', Define ''LIBSSH2_HOSTKEY_HASH_MD5'' ''1'',
     Define ''LIBSSH2_HOSTKEY_HASH_SHA1'' ''2'', Define ''LIBSSH2_HOSTKEY_TYPE_UNKNOWN'' ''0'',
     Define ''LIBSSH2_HOSTKEY_TYPE_RSA'' ''1'', Define ''LIBSSH2_HOSTKEY_TYPE_DSS'' ''2'']"

definition h_codes :: "directive list" where
  "h_codes = [
     Define ''SSH_DISCONNECT_HOST_NOT_ALLOWED_TO_CONNECT'' ''1'', Define ''SSH_DISCONNECT_PROTOCOL_ERROR'' ''2'',
     Define ''SSH_DISCONNECT_KEY_EXCHANGE_FAILED'' ''3'', Define ''SSH_DISCONNECT_RESERVED'' ''4'',
     Define ''SSH_DISCONNECT_MAC_ERROR'' ''5'', Define ''SSH_DISCONNECT_COMPRESSION_ERROR'' ''6'',
     Define ''SSH_DISCONNECT_SERVICE_NOT_AVAILABLE'' ''7'', Define ''SSH_DISCONNECT_PROTOCOL_VERSION_NOT_SUPPORTED'' ''8'',
     Define ''SSH_DISCONNECT_HOST_KEY_NOT_VERIFIABLE'' ''9'', Define ''SSH_DISCONNECT_CONNECTION_LOST'' ''10'',
     Define ''SSH_DISCONNECT_BY_APPLICATION'' ''11'', Define ''SSH_DISCONNECT_TOO_MANY_CONNECTIONS'' ''12'',
     Define ''SSH_DISCONNECT_AUTH_CANCELLED_BY_USER'' ''13'',
     Define ''SSH_DISCONNECT_NO_MORE_AUTH_METHODS_AVAILABLE'' ''14'', Define ''SSH_DISCONNECT_ILLEGAL_USER_NAME'' ''15'',
     Define ''LIBSSH2_ERROR_NONE'' ''0'', Define ''LIBSSH2_ERROR_SOCKET_NONE'' ''-1'',
     Define ''LIBSSH2_ERROR_BANNER_RECV'' ''-2'', Define ''LIBSSH2_ERROR_BANNER_SEND'' ''-3'',
     Define ''LIBSSH2_ERROR_INVALID_MAC'' ''-4'', Define ''LIBSSH2_ERROR_KEX_FAILURE'' ''-5'',
     Define ''LIBSSH2_ERROR_ALLOC'' ''-6'', Define ''LIBSSH2_ERROR_SOCKET_SEND'' ''-7'',
     Define ''LIBSSH2_ERROR_KEY_EXCHANGE_FAILURE'' ''-8'', Define ''LIBSSH2_ERROR_TIMEOUT'' ''-9'',
     Define ''LIBSSH2_ERROR_HOSTKEY_INIT'' ''-10'', Define ''LIBSSH2_ERROR_HOSTKEY_SIGN'' ''-11'',
     Define ''LIBSSH2_ERROR_DECRYPT'' ''-12'', Define ''LIBSSH2_ERROR_SOCKET_DISCONNECT'' ''-13'',
     Define ''LIBSSH2_ERROR_PROTO'' ''-14'', Define ''LIBSSH2_ERROR_PASSWORD_EXPIRED'' ''-15'',
     Define ''LIBSSH2_ERROR_FILE'' ''-16'', Define ''LIBSSH2_ERROR_METHOD_NONE'' ''-17'',
     Define ''LIBSSH2_ERROR_AUTHENTICATION_FAILED'' ''-18'',
     Define ''LIBSSH2_ERROR_PUBLICKEY_UNRECOGNIZED'' ''LIBSSH2_ERROR_AUTHENTICATION_FAILED'',
     Define ''LIBSSH2_ERROR_PUBLICKEY_UNVERIFIED'' ''-19'', Define ''LIBSSH2_ERROR_CHANNEL_OUTOFORDER'' ''-20'',
     Define ''LIBSSH2_ERROR_CHANNEL_FAILURE'' ''-21'', Define ''LIBSSH2_ERROR_CHANNEL_REQUEST_DENIED'' ''-22'',
     Define ''LIBSSH2_ERROR_CHANNEL_UNKNOWN'' ''-23'', Define ''LIBSSH2_ERROR_CHANNEL_WINDOW_EXCEEDED'' ''-24'',
     Define ''LIBSSH2_ERROR_CHANNEL_PACKET_EXCEEDED'' ''-25'', Define ''LIBSSH2_ERROR_CHANNEL_CLOSED'' ''-26'',
     Define ''LIBSSH2_ERROR_CHANNEL_EOF_SENT'' ''-27'', Define ''LIBSSH2_ERROR_SCP_PROTOCOL'' ''-28'',
     Define ''LIBSSH2_ERROR_ZLIB'' ''-29'', Define ''LIBSSH2_ERROR_SOCKET_TIMEOUT'' ''-30'',
     Define ''LIBSSH2_ERROR_SFTP_PROTOCOL'' ''-31'', Define ''LIBSSH2_ERROR_REQUEST_DENIED'' ''-32'',
     Define ''LIBSSH2_ERROR_METHOD_NOT_SUPPORTED'' ''-33'', Define ''LIBSSH2_ERROR_INVAL'' ''-34'',
     Define ''LIBSSH2_ERROR_INVALID_POLL_TYPE'' ''-35'', Define ''LIBSSH2_ERROR_PUBLICKEY_PROTOCOL'' ''-36'',
     Define ''LIBSSH2_ERROR_EAGAIN'' ''-37'', Define ''LIBSSH2_ERROR_BUFFER_TOO_SMALL'' ''-38'',
     Define ''LIBSSH2_ERROR_BAD_USE'' ''-39'', Define ''LIBSSH2_ERROR_COMPRESS'' ''-40'',
     Define ''LIBSSH2_ERROR_OUT_OF_BOUNDARY'' ''-41'', Define ''LIBSSH2_ERROR_AGENT_PROTOCOL'' ''-42'',
     Define ''LIBSSH2_ERROR_SOCKET_RECV'' ''-43'', Define ''LIBSSH2_ERROR_ENCRYPT'' ''-44'',
     Define ''LIBSSH2_ERROR_BAD_SOCKET'' ''-45'', Define ''LIBSSH2_ERROR_KNOWN_HOSTS'' ''-46'',
     Define ''LIBSSH2_ERROR_BANNER_NONE'' ''LIBSSH2_ERROR_BANNER_RECV'', Define ''LIBSSH2_INIT_NO_CRYPTO'' ''0x0001'']"

definition h_session :: "directive list" where
  "h_session = [
     Emit (Func ''libssh2_init''), Emit (Func ''libssh2_exit''), Emit (Func ''libssh2_free''),
     Emit (Func ''libssh2_session_supported_algs''), Emit (Func ''libssh2_session_init_ex''),
     DefineFn ''libssh2_session_init'' [], Emit (Func ''libssh2_session_abstract''),
     Emit (Func ''libssh2_session_callback_set''), Emit (Func ''libssh2_session_banner_set''),
     Emit (Func ''libssh2_banner_set''), Emit (Func ''libssh2_session_startup''), Emit (Func ''libssh2_session_handshake''),
     Emit (Func ''libssh2_session_disconnect_ex''), DefineFn ''libssh2_session_disconnect'' [''session'', ''description''],
     Emit (Func ''libssh2_session_free''), Emit (Func ''libssh2_hostkey_hash''), Emit (Func ''libssh2_session_hostkey''),
     Emit (Func ''libssh2_session_method_pref''), Emit (Func ''libssh2_session_methods''),
     Emit (Func ''libssh2_session_last_error''), Emit (Func ''libssh2_session_last_errno''),
     Emit (Func ''libssh2_session_set_last_error''), Emit (Func ''libssh2_session_block_directions''),
     Emit (Func ''libssh2_session_flag''), Emit (Func ''libssh2_session_banner_get'')]"

definition h_userauth :: "directive list" where
  "h_userauth = [
     Emit (Func ''libssh2_userauth_list''), Emit (Func ''libssh2_userauth_authenticated''),
     Emit (Func ''libssh2_userauth_password_ex''),
     DefineFn ''libssh2_userauth_password'' [''session'', ''username'', ''password''],
     Emit (Func ''libssh2_userauth_publickey_fromfile_ex''),
     DefineFn ''libssh2_userauth_publickey_fromfile'' [''session'', ''username'', ''publickey'', ''privatekey'', ''passphrase''],
     Emit (Func ''libssh2_userauth_publickey''), Emit (Func ''libssh2_userauth_hostbased_fromfile_ex''),
     DefineFn ''libssh2_userauth_hostbased_fromfile'' [''session'', ''username'', ''publickey'', ''privatekey'', ''passphrase'', ''hostname''],
     Emit (Func ''libssh2_userauth_publickey_frommemory''), Emit (Func ''libssh2_userauth_keyboard_interactive_ex''),
     DefineFn ''libssh2_userauth_keyboard_interactive'' [''session'', ''username'', ''response_callback''],
     Emit (Func ''libssh2_poll'')]"

definition h_channel :: "directive list" where
  "h_channel = [
     Define ''LIBSSH2_CHANNEL_WINDOW_DEFAULT'' ''(2 * 1024 * 1024)'', Define ''LIBSSH2_CHANNEL_PACKET_DEFAULT'' ''32768'',
     Define ''LIBSSH2_CHANNEL_MINADJUST'' ''1024'', Define ''LIBSSH2_CHANNEL_EXTENDED_DATA_NORMAL'' ''0'',
     Define ''LIBSSH2_CHANNEL_EXTENDED_DATA_IGNORE'' ''1'', Define ''LIBSSH2_CHANNEL_EXTENDED_DATA_MERGE'' ''2'',
     Define ''SSH_EXTENDED_DATA_STDERR'' ''1'', Define ''LIBSSH2CHANNEL_EAGAIN'' ''LIBSSH2_ERROR_EAGAIN'',
     Emit (Func ''libssh2_channel_open_ex''), DefineFn ''libssh2_channel_open_session'' [''session''],
     Emit (Func ''libssh2_channel_direct_tcpip_ex''),
     DefineFn ''libssh2_channel_direct_tcpip'' [''session'', ''host'', ''port''],
     Emit (Func ''libssh2_channel_forward_listen_ex''), DefineFn ''libssh2_channel_forward_listen'' [''session'', ''port''],
     Emit (Func ''libssh2_channel_forward_cancel''), Emit (Func ''libssh2_channel_forward_accept''),
     Emit (Func ''libssh2_channel_setenv_ex''), DefineFn ''libssh2_channel_setenv'' [''channel'', ''varname'', ''value''],
     Emit (Func ''libssh2_channel_request_pty_ex''), DefineFn ''libssh2_channel_request_pty'' [''channel'', ''term''],
     Emit (Func ''libssh2_channel_request_pty_size_ex''),
     DefineFn ''libssh2_channel_request_pty_size'' [''channel'', ''width'', ''height''],
     Emit (Func ''libssh2_channel_x11_req_ex''), DefineFn ''libssh2_channel_x11_req'' [''channel'', ''screen_number''],
     Emit (Func ''libssh2_channel_process_startup''), DefineFn ''libssh2_channel_shell'' [''channel''],
     DefineFn ''libssh2_channel_exec'' [''channel'', ''command''],
     DefineFn ''libssh2_channel_subsystem'' [''channel'', ''subsystem'']]"

definition h_stream :: "directive list" where
  "h_stream = [
     Emit (Func ''libssh2_channel_read_ex''), DefineFn ''libssh2_channel_read'' [''channel'', ''buf'', ''buflen''],
     DefineFn ''libssh2_channel_read_stderr'' [''channel'', ''buf'', ''buflen''], Emit (Func ''libssh2_poll_channel_read''),
     Emit (Func ''libssh2_channel_window_read_ex''), DefineFn ''libssh2_channel_window_read'' [''channel''],
     Emit (Func ''libssh2_channel_receive_window_adjust''), Emit (Func ''libssh2_channel_receive_window_adjust2''),
     Emit (Func ''libssh2_channel_write_ex''), DefineFn ''libssh2_channel_write'' [''channel'', ''buf'', ''buflen''],
     DefineFn ''libssh2_channel_write_stderr'' [''channel'', ''buf'', ''buflen''],
     Emit (Func ''libssh2_channel_window_write_ex''), DefineFn ''libssh2_channel_window_write'' [''channel''],
     Emit (Func ''libssh2_session_set_blocking''), Emit (Func ''libssh2_session_get_blocking''),
     Emit (Func ''libssh2_channel_set_blocking''), Emit (Func ''libssh2_session_set_timeout''),
     Emit (Func ''libssh2_session_get_timeout''), Emit (Func ''libssh2_channel_handle_extended_data''),
     Emit (Func ''libssh2_channel_handle_extended_data2''),
     DefineFn ''libssh2_channel_ignore_extended_data'' [''channel'', ''ignore''],
     Define ''LIBSSH2_CHANNEL_FLUSH_EXTENDED_DATA'' ''-1'', Define ''LIBSSH2_CHANNEL_FLUSH_ALL'' ''-2'',
     Emit (Func ''libssh2_channel_flush_ex''), DefineFn ''libssh2_channel_flush'' [''channel''],
     DefineFn ''libssh2_channel_flush_stderr'' [''channel''], Emit (Func ''libssh2_channel_get_exit_status''),
     Emit (Func ''libssh2_channel_get_exit_signal''), Emit (Func ''libssh2_channel_send_eof''),
     Emit (Func ''libssh2_channel_eof''), Emit (Func ''libssh2_channel_wait_eof''), Emit (Func ''libssh2_channel_close''),
     Emit (Func ''libssh2_channel_wait_closed''), Emit (Func ''libssh2_channel_free'')]"

definition h_scp :: "directive list" where
  "h_scp = [
     Emit (Func ''libssh2_scp_recv''), Emit (Func ''libssh2_scp_recv2''), Emit (Func ''libssh2_scp_send_ex''),
     Emit (Func ''libssh2_scp_send64''), DefineFn ''libssh2_scp_send'' [''session'', ''path'', ''mode'', ''size''],
     Emit (Func ''libssh2_base64_decode''), Emit (Func ''libssh2_version'')]"

definition h_knownhost :: "directive list" where
  "h_knownhost = [
     Define ''HAVE_LIBSSH2_KNOWNHOST_API'' ''0x010101'', Define ''HAVE_LIBSSH2_VERSION_API'' ''0x010100'',
     Emit (Struct ''struct libssh2_knownhost'' [(''magic'', ''unsigned int''), (''node'', ''void *''),
       (''name'', ''char *''), (''key'', ''char *''), (''typemask'', ''int'')]),
     Emit (Func ''libssh2_knownhost_init''), Define ''LIBSSH2_KNOWNHOST_TYPE_MASK'' ''0xffff'',
     Define ''LIBSSH2_KNOWNHOST_TYPE_PLAIN'' ''1'', Define ''LIBSSH2_KNOWNHOST_TYPE_SHA1'' ''2'',
     Define ''LIBSSH2_KNOWNHOST_TYPE_CUSTOM'' ''3'', Define ''LIBSSH2_KNOWNHOST_KEYENC_MASK'' ''(3 << 16)'',
     Define ''LIBSSH2_KNOWNHOST_KEYENC_RAW'' ''(1 << 16)'', Define ''LIBSSH2_KNOWNHOST_KEYENC_BASE64'' ''(2 << 16)'',
     Define ''LIBSSH2_KNOWNHOST_KEY_MASK'' ''(7 << 18)'', Define ''LIBSSH2_KNOWNHOST_KEY_SHIFT'' ''18'',
     Define ''LIBSSH2_KNOWNHOST_KEY_RSA1'' ''(1 << 18)'', Define ''LIBSSH2_KNOWNHOST_KEY_SSHRSA'' ''(2 << 18)'',
     Define ''LIBSSH2_KNOWNHOST_KEY_SSHDSS'' ''(3 << 18)'', Define ''LIBSSH2_KNOWNHOST_KEY_UNKNOWN'' ''(7 << 18)'',
     Emit (Func ''libssh2_knownhost_add''), Emit (Func ''libssh2_knownhost_addc''),
     Define ''LIBSSH2_KNOWNHOST_CHECK_MATCH'' ''0'', Define ''LIBSSH2_KNOWNHOST_CHECK_MISMATCH'' ''1'',
     Define ''LIBSSH2_KNOWNHOST_CHECK_NOTFOUND'' ''2'', Define ''LIBSSH2_KNOWNHOST_CHECK_FAILURE'' ''3'',
     Emit (Func ''libssh2_knownhost_check''), Emit (Func ''libssh2_knownhost_checkp'')]"

definition h_known_file :: "directive list" where
  "h_known_file = [
     Emit (Func ''libssh2_knownhost_del''), Emit (Func ''libssh2_knownhost_free''),
     Emit (Func ''libssh2_knownhost_readline''), Define ''LIBSSH2_KNOWNHOST_FILE_OPENSSH'' ''1'',
     Emit (Func ''libssh2_knownhost_readfile''), Emit (Func ''libssh2_knownhost_writeline''),
     Emit (Func ''libssh2_knownhost_writefile''), Emit (Func ''libssh2_knownhost_get'')]"

definition h_agent :: "directive list" where
  "h_agent = [
     Define ''HAVE_LIBSSH2_AGENT_API'' ''0x010202'',
     Emit (Struct ''struct libssh2_agent_publickey'' [(''magic'', ''unsigned int''), (''node'', ''void *''),
       (''blob'', ''unsigned char *''), (''blob_len'', ''size_t''), (''comment'', ''char *'')]),
     Emit (Func ''libssh2_agent_init''), Emit (Func ''libssh2_agent_connect''),
     Emit (Func ''libssh2_agent_list_identities''), Emit (Func ''libssh2_agent_get_identity''),
     Emit (Func ''libssh2_agent_userauth''), Emit (Func ''libssh2_agent_disconnect''), Emit (Func ''libssh2_agent_free'')]"

definition h_keepalive :: "directive list" where
  "h_keepalive = [
     Emit (Func ''libssh2_keepalive_config''), Emit (Func ''libssh2_keepalive_send''), Emit (Func ''libssh2_trace''),
     Define ''LIBSSH2_TRACE_TRANS'' ''(1 << 1)'', Define ''LIBSSH2_TRACE_KEX'' ''(1 << 2)'',
     Define ''LIBSSH2_TRACE_AUTH'' ''(1 << 3)'', Define ''LIBSSH2_TRACE_CONN'' ''(1 << 4)'',
     Define ''LIBSSH2_TRACE_SCP'' ''(1 << 5)'', Define ''LIBSSH2_TRACE_SFTP'' ''(1 << 6)'',
     Define ''LIBSSH2_TRACE_ERROR'' ''(1 << 7)'', Define ''LIBSSH2_TRACE_PUBLICKEY'' ''(1 << 8)'',
     Define ''LIBSSH2_TRACE_SOCKET'' ''(1 << 9)'',
     Emit (Typedef ''libssh2_trace_handler_func'' ''void (*)(LIBSSH2_SESSION *, void *, const char *, size_t)''),
     Emit (Func ''libssh2_trace_sethandler'')]"

definition h_end :: "directive list" where
  "h_end = [Group (Defined ''__cplusplus'') [Emit (Text ''}'')] []]"

definition libssh2_h :: "directive list" where
  "libssh2_h = [
     Group (Not (Defined ''LIBSSH2_H'')) (
       Define ''LIBSSH2_H'' ''1'' # h_version @ [
       Group (Not (Defined ''RC_INVOKED'')) (
         h_api @ h_types @ h_file_flags @ h_stat @ h_defaults @ h_poll @ h_codes @ h_session @ h_userauth @
         h_channel @ h_stream @ h_scp @ h_knownhost @ h_known_file @ h_agent @ h_keepalive @ h_end) []]) []]"

subsection \<open>\<open>libssh2_sftp.h\<close>\<close>

definition sftp_types :: "directive list" where
  "sftp_types = [
     Define ''LIBSSH2_SFTP_VERSION'' ''3'', Emit (Typedef ''LIBSSH2_SFTP'' ''struct _LIBSSH2_SFTP''),
     Emit (Typedef ''LIBSSH2_SFTP_HANDLE'' ''struct _LIBSSH2_SFTP_HANDLE''),
     Emit (Typedef ''LIBSSH2_SFTP_ATTRIBUTES'' ''struct _LIBSSH2_SFTP_ATTRIBUTES''),
     Emit (Typedef ''LIBSSH2_SFTP_STATVFS'' ''struct _LIBSSH2_SFTP_STATVFS''), Define ''LIBSSH2_SFTP_OPENFILE'' ''0'',
     Define ''LIBSSH2_SFTP_OPENDIR'' ''1'', Define ''LIBSSH2_SFTP_RENAME_OVERWRITE'' ''0x00000001'',
     Define ''LIBSSH2_SFTP_RENAME_ATOMIC'' ''0x00000002'', Define ''LIBSSH2_SFTP_RENAME_NATIVE'' ''0x00000004'',
     Define ''LIBSSH2_SFTP_STAT'' ''0'', Define ''LIBSSH2_SFTP_LSTAT'' ''1'', Define ''LIBSSH2_SFTP_SETSTAT'' ''2'',
     Define ''LIBSSH2_SFTP_SYMLINK'' ''0'', Define ''LIBSSH2_SFTP_READLINK'' ''1'', Define ''LIBSSH2_SFTP_REALPATH'' ''2'',
     Define ''LIBSSH2_SFTP_ATTR_SIZE'' ''0x00000001'', Define ''LIBSSH2_SFTP_ATTR_UIDGID'' ''0x00000002'',
     Define ''LIBSSH2_SFTP_ATTR_PERMISSIONS'' ''0x00000004'', Define ''LIBSSH2_SFTP_ATTR_ACMODTIME'' ''0x00000008'',
     Define ''LIBSSH2_SFTP_ATTR_EXTENDED'' ''0x80000000'', Define ''LIBSSH2_SFTP_ST_RDONLY'' ''0x00000001'',
     Define ''LIBSSH2_SFTP_ST_NOSUID'' ''0x00000002'',
     Emit (Struct ''struct _LIBSSH2_SFTP_ATTRIBUTES'' [(''flags'', ''unsigned long''),
       (''filesize'', ''libssh2_uint64_t''), (''uid'', ''unsigned long''), (''gid'', ''unsigned long''),
       (''permissions'', ''unsigned long''), (''atime'', ''unsigned long''), (''mtime'', ''unsigned long'')]),
     Emit (Struct ''struct _LIBSSH2_SFTP_STATVFS'' [(''f_bsize'', ''libssh2_uint64_t''),
       (''f_frsize'', ''libssh2_uint64_t''), (''f_blocks'', ''libssh2_uint64_t''), (''f_bfree'', ''libssh2_uint64_t''),
       (''f_bavail'', ''libssh2_uint64_t''), (''f_files'', ''libssh2_uint64_t''), (''f_ffree'', ''libssh2_uint64_t''),
       (''f_favail'', ''libssh2_uint64_t''), (''f_fsid'', ''libssh2_uint64_t''), (''f_flag'', ''libssh2_uint64_t''),
       (''f_namemax'', ''libssh2_uint64_t'')])]"

definition sftp_modes :: "directive list" where
  "sftp_modes = [
     Define ''LIBSSH2_SFTP_TYPE_REGULAR'' ''1'', Define ''LIBSSH2_SFTP_TYPE_DIRECTORY'' ''2'',
     Define ''LIBSSH2_SFTP_TYPE_SYMLINK'' ''3'', Define ''LIBSSH2_SFTP_TYPE_SPECIAL'' ''4'',
     Define ''LIBSSH2_SFTP_TYPE_UNKNOWN'' ''5'', Define ''LIBSSH2_SFTP_TYPE_SOCKET'' ''6'',
     Define ''LIBSSH2_SFTP_TYPE_CHAR_DEVICE'' ''7'', Define ''LIBSSH2_SFTP_TYPE_BLOCK_DEVICE'' ''8'',
     Define ''LIBSSH2_SFTP_TYPE_FIFO'' ''9'', Define ''LIBSSH2_SFTP_S_IFMT'' ''0170000'',
     Define ''LIBSSH2_SFTP_S_IFIFO'' ''0010000'', Define ''LIBSSH2_SFTP_S_IFCHR'' ''0020000'',
     Define ''LIBSSH2_SFTP_S_IFDIR'' ''0040000'', Define ''LIBSSH2_SFTP_S_IFBLK'' ''0060000'',
     Define ''LIBSSH2_SFTP_S_IFREG'' ''0100000'', Define ''LIBSSH2_SFTP_S_IFLNK'' ''0120000'',
     Define ''LIBSSH2_SFTP_S_IFSOCK'' ''0140000'', Define ''LIBSSH2_SFTP_S_IRWXU'' ''0000700'',
     Define ''LIBSSH2_SFTP_S_IRUSR'' ''0000400'', Define ''LIBSSH2_SFTP_S_IWUSR'' ''0000200'',
     Define ''LIBSSH2_SFTP_S_IXUSR'' ''0000100'', Define ''LIBSSH2_SFTP_S_IRWXG'' ''0000070'',
     Define ''LIBSSH2_SFTP_S_IRGRP'' ''0000040'', Define ''LIBSSH2_SFTP_S_IWGRP'' ''0000020'',
     Define ''LIBSSH2_SFTP_S_IXGRP'' ''0000010'', Define ''LIBSSH2_SFTP_S_IRWXO'' ''0000007'',
     Define ''LIBSSH2_SFTP_S_IROTH'' ''0000004'', Define ''LIBSSH2_SFTP_S_IWOTH'' ''0000002'',
     Define ''LIBSSH2_SFTP_S_IXOTH'' ''0000001'', DefineFn ''LIBSSH2_SFTP_S_ISLNK'' [''m''],
     DefineFn ''LIBSSH2_SFTP_S_ISREG'' [''m''], DefineFn ''LIBSSH2_SFTP_S_ISDIR'' [''m''],
     DefineFn ''LIBSSH2_SFTP_S_ISCHR'' [''m''], DefineFn ''LIBSSH2_SFTP_S_ISBLK'' [''m''],
     DefineFn ''LIBSSH2_SFTP_S_ISFIFO'' [''m''], DefineFn ''LIBSSH2_SFTP_S_ISSOCK'' [''m''],
     Define ''LIBSSH2_FXF_READ'' ''0x00000001'', Define ''LIBSSH2_FXF_WRITE'' ''0x00000002'',
     Define ''LIBSSH2_FXF_APPEND'' ''0x00000004'', Define ''LIBSSH2_FXF_CREAT'' ''0x00000008'',
     Define ''LIBSSH2_FXF_TRUNC'' ''0x00000010'', Define ''LIBSSH2_FXF_EXCL'' ''0x00000020'',
     Define ''LIBSSH2_FX_OK'' ''0'', Define ''LIBSSH2_FX_EOF'' ''1'', Define ''LIBSSH2_FX_NO_SUCH_FILE'' ''2'',
     Define ''LIBSSH2_FX_PERMISSION_DENIED'' ''3'', Define ''LIBSSH2_FX_FAILURE'' ''4'',
     Define ''LIBSSH2_FX_BAD_MESSAGE'' ''5'', Define ''LIBSSH2_FX_NO_CONNECTION'' ''6'',
     Define ''LIBSSH2_FX_CONNECTION_LOST'' ''7'', Define ''LIBSSH2_FX_OP_UNSUPPORTED'' ''8'',
     Define ''LIBSSH2_FX_INVALID_HANDLE'' ''9'', Define ''LIBSSH2_FX_NO_SUCH_PATH'' ''10'',
     Define ''LIBSSH2_FX_FILE_ALREADY_EXISTS'' ''11'', Define ''LIBSSH2_FX_WRITE_PROTECT'' ''12'',
     Define ''LIBSSH2_FX_NO_MEDIA'' ''13'', Define ''LIBSSH2_FX_NO_SPACE_ON_FILESYSTEM'' ''14'',
     Define ''LIBSSH2_FX_QUOTA_EXCEEDED'' ''15'', Define ''LIBSSH2_FX_UNKNOWN_PRINCIPLE'' ''16'',
     Define ''LIBSSH2_FX_UNKNOWN_PRINCIPAL'' ''16'', Define ''LIBSSH2_FX_LOCK_CONFlICT'' ''17'',
     Define ''LIBSSH2_FX_LOCK_CONFLICT'' ''17'', Define ''LIBSSH2_FX_DIR_NOT_EMPTY'' ''18'',
     Define ''LIBSSH2_FX_NOT_A_DIRECTORY'' ''19'', Define ''LIBSSH2_FX_INVALID_FILENAME'' ''20'',
     Define ''LIBSSH2_FX_LINK_LOOP'' ''21'', Define ''LIBSSH2SFTP_EAGAIN'' ''LIBSSH2_ERROR_EAGAIN'']"

definition sftp_functions :: "directive list" where
  "sftp_functions = [
     Emit (Func ''libssh2_sftp_init''), Emit (Func ''libssh2_sftp_shutdown''), Emit (Func ''libssh2_sftp_last_error''),
     Emit (Func ''libssh2_sftp_get_channel''), Emit (Func ''libssh2_sftp_open_ex''),
     DefineFn ''libssh2_sftp_open'' [''sftp'', ''filename'', ''flags'', ''mode''],
     DefineFn ''libssh2_sftp_opendir'' [''sftp'', ''path''], Emit (Func ''libssh2_sftp_read''),
     Emit (Func ''libssh2_sftp_readdir_ex''),
     DefineFn ''libssh2_sftp_readdir'' [''handle'', ''buffer'', ''buffer_maxlen'', ''attrs''],
     Emit (Func ''libssh2_sftp_write''), Emit (Func ''libssh2_sftp_fsync''), Emit (Func ''libssh2_sftp_close_handle''),
     DefineFn ''libssh2_sftp_close'' [''handle''], DefineFn ''libssh2_sftp_closedir'' [''handle''],
     Emit (Func ''libssh2_sftp_seek''), Emit (Func ''libssh2_sftp_seek64''), DefineFn ''libssh2_sftp_rewind'' [''handle''],
     Emit (Func ''libssh2_sftp_tell''), Emit (Func ''libssh2_sftp_tell64''), Emit (Func ''libssh2_sftp_fstat_ex''),
     DefineFn ''libssh2_sftp_fstat'' [''handle'', ''attrs''], DefineFn ''libssh2_sftp_fsetstat'' [''handle'', ''attrs''],
     Emit (Func ''libssh2_sftp_rename_ex''), DefineFn ''libssh2_sftp_rename'' [''sftp'', ''sourcefile'', ''destfile''],
     Emit (Func ''libssh2_sftp_unlink_ex''), DefineFn ''libssh2_sftp_unlink'' [''sftp'', ''filename''],
     Emit (Func ''libssh2_sftp_fstatvfs''), Emit (Func ''libssh2_sftp_statvfs''), Emit (Func ''libssh2_sftp_mkdir_ex''),
     DefineFn ''libssh2_sftp_mkdir'' [''sftp'', ''path'', ''mode''], Emit (Func ''libssh2_sftp_rmdir_ex''),
     DefineFn ''libssh2_sftp_rmdir'' [''sftp'', ''path''], Emit (Func ''libssh2_sftp_stat_ex''),
     DefineFn ''libssh2_sftp_stat'' [''sftp'', ''path'', ''attrs''],
     DefineFn ''libssh2_sftp_lstat'' [''sftp'', ''path'', ''attrs''],
     DefineFn ''libssh2_sftp_setstat'' [''sftp'', ''path'', ''attrs''], Emit (Func ''libssh2_sftp_symlink_ex''),
     DefineFn ''libssh2_sftp_symlink'' [''sftp'', ''orig'', ''linkpath''],
     DefineFn ''libssh2_sftp_readlink'' [''sftp'', ''path'', ''target'', ''maxlen''],
     DefineFn ''libssh2_sftp_realpath'' [''sftp'', ''path'', ''target'', ''maxlen'']]"

definition libssh2_sftp_h :: "directive list" where
  "libssh2_sftp_h = [
     Group (Not (Defined ''LIBSSH2_SFTP_H'')) ([
       Define ''LIBSSH2_SFTP_H'' ''1'', Include ''libssh2.h'', Group (Not (Defined ''WIN32'')) [Include ''unistd.h''] [],
       Group (Defined ''__cplusplus'') [Emit (Text ''extern \"C\" {'')] []] @
       sftp_types @ sftp_modes @ sftp_functions @ h_end) []]"

subsection \<open>\<open>libssh2_publickey.h\<close>\<close>

definition publickey_types :: "directive list" where
  "publickey_types = [
     Emit (Typedef ''LIBSSH2_PUBLICKEY'' ''struct _LIBSSH2_PUBLICKEY''),
     Emit (Struct ''libssh2_publickey_attribute'' [(''name'', ''const char *''), (''name_len'', ''unsigned long''),
       (''value'', ''const char *''), (''value_len'', ''unsigned long''), (''mandatory'', ''char'')]),
     Emit (Struct ''libssh2_publickey_list'' [(''packet'', ''unsigned char *''), (''name'', ''const unsigned char *''),
       (''name_len'', ''unsigned long''), (''blob'', ''const unsigned char *''), (''blob_len'', ''unsigned long''),
       (''num_attrs'', ''unsigned long''), (''attrs'', ''libssh2_publickey_attribute *'')]),
     DefineFn ''libssh2_publickey_attribute'' [''name'', ''value'', ''mandatory''],
     DefineFn ''libssh2_publickey_attribute_fast'' [''name'', ''value'', ''mandatory'']]"

definition publickey_functions :: "directive list" where
  "publickey_functions = [
     Emit (Func ''libssh2_publickey_init''), Emit (Func ''libssh2_publickey_add_ex''),
     DefineFn ''libssh2_publickey_add'' [''pkey'', ''name'', ''blob'', ''blob_len'', ''overwrite'', ''num_attrs'', ''attrs''],
     Emit (Func ''libssh2_publickey_remove_ex''),
     DefineFn ''libssh2_publickey_remove'' [''pkey'', ''name'', ''blob'', ''blob_len''],
     Emit (Func ''libssh2_publickey_list_fetch''), Emit (Func ''libssh2_publickey_list_free''),
     Emit (Func ''libssh2_publickey_shutdown'')]"

definition libssh2_publickey_h :: "directive list" where
  "libssh2_publickey_h = [
     Group (Not (Defined ''LIBSSH2_PUBLICKEY_H'')) ([
       Define ''LIBSSH2_PUBLICKEY_H'' ''1'', Include ''libssh2.h''] @ publickey_types @ [
       Group (Defined ''__cplusplus'') [Emit (Text ''extern \"C\" {'')] []] @ publickey_functions @ h_end) []]"

subsection \<open>\<open>sftpdir.c\<close>\<close>

definition sftpdir_includes :: "directive list" where
  "sftpdir_includes = [
     Include ''libssh2_config.h'', Include ''libssh2.h'', Include ''libssh2_sftp.h'',
     Group (Defined ''HAVE_WINSOCK2_H'') [
       Include ''winsock2.h''] [],
     Group (Defined ''HAVE_SYS_SOCKET_H'') [
       Include ''sys/socket.h''] [],
     Group (Defined ''HAVE_NETINET_IN_H'') [
       Include ''netinet/in.h''] [],
     Group (Defined ''HAVE_UNISTD_H'') [
       Include ''unistd.h''] [],
     Group (Defined ''HAVE_ARPA_INET_H'') [
       Include ''arpa/inet.h''] [],
     Group (Defined ''HAVE_INTTYPES_H'') [
       Include ''inttypes.h''] [],
     Include ''sys/types.h'', Include ''fcntl.h'', Include ''errno.h'', Include ''stdio.h'', Include ''ctype.h'']"

definition sftpdir_format :: "directive list" where
  "sftpdir_format = [
     Group (Not (Defined ''__PRI64_PREFIX'')) [
       Group (Defined ''WIN32'') [
         Define ''__PRI64_PREFIX'' ''\"I64\"''] [
         Group (Equals ''__WORDSIZE'' 64) [
           Define ''__PRI64_PREFIX'' ''\"l\"''] [
           Define ''__PRI64_PREFIX'' ''\"ll\"'']]] [],
     Group (Not (Defined ''PRIu64'')) [
       Define ''PRIu64'' ''__PRI64_PREFIX \"u\"''] []]"

text \<open>The parts of \<open>main\<close> that depend on the system.\<close>

definition sftpdir_start :: "directive list" where
  "sftpdir_start = [Group (Defined ''WIN32'') [
     Emit (Text ''WSADATA wsadata;''), Emit (Text ''int err;''), Emit (Text ''err = WSAStartup(MAKEWORD(2, 0), &wsadata);''),
     Emit (Text ''if (err != 0) {''), Emit (Text (''fprintf(stderr, \"WSAStartup failed with error: %d'' @ [CHR 0x5C] @ ''n\", err);'')),
     Emit (Text ''return 1;''), Emit (Text ''}'')] []]"

definition sftpdir_close :: "directive list" where
  "sftpdir_close = [Group (Defined ''WIN32'') [Emit (Text ''closesocket(sock);'')] [Emit (Text ''close(sock);'')]]"

definition sftpdir_c :: "directive list" where
  "sftpdir_c = sftpdir_includes @ sftpdir_format @ sftpdir_start @ sftpdir_close"

text \<open>The files of the directory, by the names with which they are included.\<close>

definition libssh2_files :: files where
  "libssh2_files = [''libssh2_config.h'' \<mapsto> libssh2_config_h, ''libssh2.h'' \<mapsto> libssh2_h, ''libssh2_sftp.h'' \<mapsto> libssh2_sftp_h,
     ''libssh2_publickey.h'' \<mapsto> libssh2_publickey_h]"

end
