(* ===== verification/LibsshModes.thy ===== *)
theory LibsshModes
  imports CPrelude
begin

text \<open>
  Constants of the libssh2 headers: the modes of files in \<open>libssh2/libssh2_sftp.h\<close> with the macros that test them, and the
  type masks of known hosts, the version and the codes of errors in \<open>libssh2/libssh2.h\<close>.
\<close>

unbundle bit_operations_syntax

subsection \<open>Modes of files\<close>

text \<open>The type of a file in the permissions of \<open>LIBSSH2_SFTP_ATTRIBUTES\<close>, and the macros that test it.\<close>

datatype file_type = FIFO | CHR_DEVICE | DIRECTORY | BLK_DEVICE | REGULAR | SYMLINK | SOCKET

definition S_IFMT :: u64 where
  "S_IFMT = 0xF000"

fun S_IF :: "file_type \<Rightarrow> u64" where
  "S_IF FIFO = 0x1000"
| "S_IF CHR_DEVICE = 0x2000"
| "S_IF DIRECTORY = 0x4000"
| "S_IF BLK_DEVICE = 0x6000"
| "S_IF REGULAR = 0x8000"
| "S_IF SYMLINK = 0xA000"
| "S_IF SOCKET = 0xC000"

definition S_IS :: "file_type \<Rightarrow> u64 \<Rightarrow> bool" where
  "S_IS t m \<longleftrightarrow> m AND S_IFMT = S_IF t"

text \<open>The bits to read, write and execute for the owner, the group and the others, and the mask of the three.\<close>

datatype who = Owner | Group | Others

fun who_shift :: "who \<Rightarrow> nat" where
  "who_shift Owner = 6"
| "who_shift Group = 3"
| "who_shift Others = 0"

definition S_IR :: "who \<Rightarrow> u64" where "S_IR w = push_bit (who_shift w) 4"
definition S_IW :: "who \<Rightarrow> u64" where "S_IW w = push_bit (who_shift w) 2"
definition S_IX :: "who \<Rightarrow> u64" where "S_IX w = push_bit (who_shift w) 1"
definition S_IRWX :: "who \<Rightarrow> u64" where "S_IRWX w = push_bit (who_shift w) 7"

lemma S_IRWX_bits: "S_IRWX w = S_IR w OR S_IW w OR S_IX w"
  by (cases w) (simp_all add: S_IRWX_def S_IR_def S_IW_def S_IX_def push_bit_eq_mult)

lemma S_IRWX_disjoint: "v \<noteq> w \<Longrightarrow> S_IRWX v AND S_IRWX w = 0" "S_IRWX v AND S_IFMT = 0"
  by (cases v; cases w; simp add: S_IRWX_def S_IFMT_def push_bit_eq_mult)+

lemma S_IS_unique: "S_IS t m \<Longrightarrow> S_IS u m \<Longrightarrow> t = u"
  by (cases t; cases u) (simp_all add: S_IS_def)

text \<open>A mode that is made of a type and of permissions has exactly this type.\<close>

lemma S_IS_made: "S_IS u (S_IF t OR (p AND NOT S_IFMT)) \<longleftrightarrow> u = t"
proof -
  have "(S_IF t OR (p AND NOT S_IFMT)) AND S_IFMT = S_IF t AND S_IFMT"
    by (simp add: bit_eq_iff bit_simps) blast
  also have "\<dots> = S_IF t"
    by (cases t) (simp_all add: S_IFMT_def)
  finally show ?thesis
    by (cases t; cases u) (simp_all add: S_IS_def)
qed

subsection \<open>Type masks of known hosts\<close>

definition KNOWNHOST_TYPE_MASK :: u32 where "KNOWNHOST_TYPE_MASK = 0xffff"
definition KNOWNHOST_KEYENC_MASK :: u32 where "KNOWNHOST_KEYENC_MASK = push_bit 16 3"
definition KNOWNHOST_KEY_MASK :: u32 where "KNOWNHOST_KEY_MASK = push_bit 18 7"

datatype host_format = TYPE_PLAIN | TYPE_SHA1 | TYPE_CUSTOM
datatype key_encoding = KEYENC_RAW | KEYENC_BASE64
datatype key_type = KEY_RSA1 | KEY_SSHRSA | KEY_SSHDSS | KEY_UNKNOWN

fun host_format_bits :: "host_format \<Rightarrow> u32" where
  "host_format_bits TYPE_PLAIN = 1"
| "host_format_bits TYPE_SHA1 = 2"
| "host_format_bits TYPE_CUSTOM = 3"

fun key_encoding_bits :: "key_encoding \<Rightarrow> u32" where
  "key_encoding_bits KEYENC_RAW = push_bit 16 1"
| "key_encoding_bits KEYENC_BASE64 = push_bit 16 2"

fun key_type_bits :: "key_type \<Rightarrow> u32" where
  "key_type_bits KEY_RSA1 = push_bit 18 1"
| "key_type_bits KEY_SSHRSA = push_bit 18 2"
| "key_type_bits KEY_SSHDSS = push_bit 18 3"
| "key_type_bits KEY_UNKNOWN = push_bit 18 7"

text \<open>The fields do not overlap, so a type mask made of the three parts gives them back.\<close>

lemma typemask_fields:
  defines "m f e k \<equiv> host_format_bits f OR key_encoding_bits e OR key_type_bits k"
  shows "m f e k AND KNOWNHOST_TYPE_MASK = host_format_bits f" "m f e k AND KNOWNHOST_KEYENC_MASK = key_encoding_bits e"
    "m f e k AND KNOWNHOST_KEY_MASK = key_type_bits k"
  unfolding m_def
  by (cases f; cases e; cases k; simp add: KNOWNHOST_TYPE_MASK_def KNOWNHOST_KEYENC_MASK_def KNOWNHOST_KEY_MASK_def push_bit_eq_mult)+

subsection \<open>Versions and codes\<close>

text \<open>\<open>LIBSSH2_VERSION_NUM\<close> is made of the three numbers of the version, with two hexadecimal digits each.\<close>

definition LIBSSH2_VERSION_MAJOR :: nat where "LIBSSH2_VERSION_MAJOR = 1"
definition LIBSSH2_VERSION_MINOR :: nat where "LIBSSH2_VERSION_MINOR = 7"
definition LIBSSH2_VERSION_PATCH :: nat where "LIBSSH2_VERSION_PATCH = 0"
definition LIBSSH2_VERSION_NUM :: nat where "LIBSSH2_VERSION_NUM = 0x010700"
definition HAVE_LIBSSH2_KNOWNHOST_API :: nat where "HAVE_LIBSSH2_KNOWNHOST_API = 0x010101"
definition HAVE_LIBSSH2_VERSION_API :: nat where "HAVE_LIBSSH2_VERSION_API = 0x010100"
definition HAVE_LIBSSH2_AGENT_API :: nat where "HAVE_LIBSSH2_AGENT_API = 0x010202"

definition version_num :: "nat \<times> nat \<times> nat \<Rightarrow> nat" where
  "version_num v = (case v of (major, minor, patch) \<Rightarrow> 0x10000 * major + 0x100 * minor + patch)"

fun earlier :: "nat \<times> nat \<times> nat \<Rightarrow> nat \<times> nat \<times> nat \<Rightarrow> bool" where
  "earlier (a, b, c) (x, y, z) \<longleftrightarrow> a < x \<or> (a = x \<and> (b < y \<or> (b = y \<and> c < z)))"

text \<open>The numbers in the header are those of its version and of the versions that its comments name, and the
  number of a later version is greater, as the comment promises for components of 8 bits.\<close>

lemma version_nums:
  "LIBSSH2_VERSION_NUM = version_num (LIBSSH2_VERSION_MAJOR, LIBSSH2_VERSION_MINOR, LIBSSH2_VERSION_PATCH)"
  "HAVE_LIBSSH2_KNOWNHOST_API = version_num (1, 1, 1)" "HAVE_LIBSSH2_VERSION_API = version_num (1, 1, 0)"
  "HAVE_LIBSSH2_AGENT_API = version_num (1, 2, 2)"
  by (simp_all add: version_num_def LIBSSH2_VERSION_NUM_def LIBSSH2_VERSION_MAJOR_def LIBSSH2_VERSION_MINOR_def
      LIBSSH2_VERSION_PATCH_def HAVE_LIBSSH2_KNOWNHOST_API_def HAVE_LIBSSH2_VERSION_API_def HAVE_LIBSSH2_AGENT_API_def)

lemma version_order:
  assumes "b < 256" "c < 256" "y < 256" "z < 256"
  shows "version_num (a, b, c) < version_num (x, y, z) \<longleftrightarrow> earlier (a, b, c) (x, y, z)"
  using assms by (auto simp: version_num_def)

text \<open>The codes of errors, without the two names that stand for the code of another one, and those of a disconnection.\<close>

definition LIBSSH2_ERROR :: "(string \<times> int) list" where
  "LIBSSH2_ERROR = [
     (''NONE'', 0), (''SOCKET_NONE'', - 1), (''BANNER_RECV'', - 2), (''BANNER_SEND'', - 3), (''INVALID_MAC'', - 4),
     (''KEX_FAILURE'', - 5), (''ALLOC'', - 6), (''SOCKET_SEND'', - 7), (''KEY_EXCHANGE_FAILURE'', - 8), (''TIMEOUT'', - 9),
     (''HOSTKEY_INIT'', - 10), (''HOSTKEY_SIGN'', - 11), (''DECRYPT'', - 12), (''SOCKET_DISCONNECT'', - 13),
     (''PROTO'', - 14), (''PASSWORD_EXPIRED'', - 15), (''FILE'', - 16), (''METHOD_NONE'', - 17),
     (''AUTHENTICATION_FAILED'', - 18), (''PUBLICKEY_UNVERIFIED'', - 19), (''CHANNEL_OUTOFORDER'', - 20),
     (''CHANNEL_FAILURE'', - 21), (''CHANNEL_REQUEST_DENIED'', - 22), (''CHANNEL_UNKNOWN'', - 23),
     (''CHANNEL_WINDOW_EXCEEDED'', - 24), (''CHANNEL_PACKET_EXCEEDED'', - 25), (''CHANNEL_CLOSED'', - 26),
     (''CHANNEL_EOF_SENT'', - 27), (''SCP_PROTOCOL'', - 28), (''ZLIB'', - 29), (''SOCKET_TIMEOUT'', - 30),
     (''SFTP_PROTOCOL'', - 31), (''REQUEST_DENIED'', - 32), (''METHOD_NOT_SUPPORTED'', - 33), (''INVAL'', - 34),
     (''INVALID_POLL_TYPE'', - 35), (''PUBLICKEY_PROTOCOL'', - 36), (''EAGAIN'', - 37), (''BUFFER_TOO_SMALL'', - 38),
     (''BAD_USE'', - 39), (''COMPRESS'', - 40), (''OUT_OF_BOUNDARY'', - 41), (''AGENT_PROTOCOL'', - 42),
     (''SOCKET_RECV'', - 43), (''ENCRYPT'', - 44), (''BAD_SOCKET'', - 45), (''KNOWN_HOSTS'', - 46)]"

definition SSH_DISCONNECT :: "(string \<times> int) list" where
  "SSH_DISCONNECT = [
     (''HOST_NOT_ALLOWED_TO_CONNECT'', 1), (''PROTOCOL_ERROR'', 2), (''KEY_EXCHANGE_FAILED'', 3), (''RESERVED'', 4),
     (''MAC_ERROR'', 5), (''COMPRESSION_ERROR'', 6), (''SERVICE_NOT_AVAILABLE'', 7),
     (''PROTOCOL_VERSION_NOT_SUPPORTED'', 8), (''HOST_KEY_NOT_VERIFIABLE'', 9), (''CONNECTION_LOST'', 10),
     (''BY_APPLICATION'', 11), (''TOO_MANY_CONNECTIONS'', 12), (''AUTH_CANCELLED_BY_USER'', 13),
     (''NO_MORE_AUTH_METHODS_AVAILABLE'', 14), (''ILLEGAL_USER_NAME'', 15)]"

text \<open>The error codes are the numbers from 0 down, and those of SSH the numbers from 1 up, in the order of the header.\<close>

lemma error_codes:
  "map snd LIBSSH2_ERROR = map (\<lambda>n. - int n) [0..<length LIBSSH2_ERROR]"
  "map snd SSH_DISCONNECT = map (\<lambda>n. int n + 1) [0..<length SSH_DISCONNECT]"
  by (simp_all add: LIBSSH2_ERROR_def SSH_DISCONNECT_def upt_conv_Cons)

lemma error_codes_distinct: "inj_on snd (set LIBSSH2_ERROR)" "distinct (map snd LIBSSH2_ERROR)"
proof -
  show d: "distinct (map snd LIBSSH2_ERROR)"
    unfolding error_codes(1) by (simp add: distinct_map inj_on_def)
  then show "inj_on snd (set LIBSSH2_ERROR)"
    by (simp add: distinct_map)
qed

end
