(* ===== verification/LibsshConstants.thy ===== *)
theory LibsshConstants
  imports LibsshFiles LibsshModes
begin

text \<open>
  The constants of \<open>LibsshModes\<close> are the values of the macros in the files of \<open>LibsshFiles\<close>.
\<close>

fun macro_text :: "string \<Rightarrow> directive list \<Rightarrow> string option" where
  "macro_text x [] = None"
| "macro_text x (Define y t # ds) = (if x = y then Some t else macro_text x ds)"
| "macro_text x (d # ds) = macro_text x ds"

definition octal :: "string \<Rightarrow> u64" where
  "octal t = foldl (\<lambda>n c. 8 * n + (of_char c - 48)) 0 t"

definition decimal :: "string \<Rightarrow> int" where
  "decimal t = foldl (\<lambda>n c. 10 * n + (of_char c - 48)) 0 t"

text \<open>The macros whose names start with \<open>p\<close> and whose text is a number, in the order of the file.\<close>

fun numbered :: "string \<Rightarrow> directive list \<Rightarrow> (string \<times> int) list" where
  "numbered p (Define y (c # t) # ds) =
    (if take (length p) y \<noteq> p then numbered p ds
     else if c = CHR ''-'' then (drop (length p) y, - decimal t) # numbered p ds
     else if c \<in> set ''0123456789'' then (drop (length p) y, decimal (c # t)) # numbered p ds
     else numbered p ds)"
| "numbered p (d # ds) = numbered p ds"
| "numbered p [] = []"

lemma octal_modes:
  "map (\<lambda>x. map_option octal (macro_text (''LIBSSH2_SFTP_S_'' @ x) sftp_modes))
     [''IFMT'', ''IFIFO'', ''IFCHR'', ''IFDIR'', ''IFBLK'', ''IFREG'', ''IFLNK'', ''IFSOCK''] =
   map Some (S_IFMT # map S_IF [FIFO, CHR_DEVICE, DIRECTORY, BLK_DEVICE, REGULAR, SYMLINK, SOCKET])"
  by (simp add: sftp_modes_def octal_def S_IFMT_def of_char_def)

lemma error_macros:
  "numbered ''LIBSSH2_ERROR_'' h_codes = LIBSSH2_ERROR" "numbered ''SSH_DISCONNECT_'' h_codes = SSH_DISCONNECT"
  by (simp_all add: h_codes_def decimal_def LIBSSH2_ERROR_def SSH_DISCONNECT_def of_char_def)

end
