(* ===== verification/LibsshTypes.thy ===== *)
theory LibsshTypes
  imports LibsshFiles
begin

text \<open>
  The types that the libssh2 headers define on every system, whatever macros its compiler predefines.
\<close>

subsection \<open>Pieces\<close>

fun functions_of :: "piece list \<Rightarrow> string list" where
  "functions_of [] = []"
| "functions_of (Func f # ps) = f # functions_of ps"
| "functions_of (_ # ps) = functions_of ps"

fun headers_of :: "piece list \<Rightarrow> string list" where
  "headers_of [] = []"
| "headers_of (Header f # ps) = f # headers_of ps"
| "headers_of (_ # ps) = headers_of ps"

fun types_of :: "string \<Rightarrow> piece list \<Rightarrow> string list" where
  "types_of x [] = []"
| "types_of x (Typedef y t # ps) = (if x = y then t # types_of x ps else types_of x ps)"
| "types_of x (_ # ps) = types_of x ps"

lemma functions_of_append [simp]: "functions_of (ps @ qs) = functions_of ps @ functions_of qs"
  by (induction ps rule: functions_of.induct) simp_all

lemma headers_of_append [simp]: "headers_of (ps @ qs) = headers_of ps @ headers_of qs"
  by (induction ps rule: headers_of.induct) simp_all

lemma types_of_append [simp]: "types_of x (ps @ qs) = types_of x ps @ types_of x qs"
  by (induction x ps rule: types_of.induct) simp_all

subsection \<open>System headers\<close>

text \<open>The names that the files test and that neither a system header nor the configuration defines on Linux.\<close>

definition tested :: "string list" where
  "tested = [''LIBSSH2_H'', ''LIBSSH2_SFTP_H'', ''RC_INVOKED'', ''__cplusplus'', ''_WIN32'', ''WIN32'', ''LIBSSH2_API'',
     ''LIBSSH2_WIN32'', ''_WINDLL'', ''LIBSSH2_LIBRARY'', ''NETWARE'', ''__NOVELL_LIBC__'', ''_MSC_VER'', ''ssize_t'', ''_WIN32_WCE'',
     ''_INTEGRAL_MAX_BITS'', ''__MINGW32__'', ''__WATCOMC__'', ''__POCC__'', ''LIBSSH2_USE_WIN32_LARGE_FILES'',
     ''LIBSSH2_USE_WIN32_SMALL_FILES'', ''LIBSSH2_STRUCT_STAT_SIZE_FORMAT'', ''__VMS'', ''AC_APPLE_UNIVERSAL_BUILD'',
     ''__BIG_ENDIAN__'', ''HAVE_WINSOCK2_H'']"

definition configured :: "string list" where
  "configured = [''HAVE_SYS_UIO_H'', ''HAVE_SYS_SOCKET_H'', ''HAVE_NETINET_IN_H'', ''HAVE_UNISTD_H'', ''HAVE_ARPA_INET_H'', ''HAVE_INTTYPES_H'']"

definition quiet :: "headers \<Rightarrow> bool" where
  "quiet sys \<longleftrightarrow> (\<forall>f. \<forall>(x, t) \<in> set (sys f). x \<notin> set tested \<and> x \<notin> set configured)"

fun include_all :: "headers \<Rightarrow> string list \<Rightarrow> defs \<Rightarrow> defs" where
  "include_all sys [] D = D"
| "include_all sys (f # fs) D = include_all sys fs (define_macros (sys f) D)"

lemma quiet_other:
  assumes "quiet sys" "x \<in> set tested \<or> x \<in> set configured"
  shows "define_macros (sys f) D x = D x"
  using assms unfolding quiet_def by (intro define_macros_other) force

subsection \<open>Agreement on names\<close>

definition agree :: "string list \<Rightarrow> defs \<Rightarrow> defs \<Rightarrow> bool" where
  "agree X D E \<longleftrightarrow> (\<forall>x \<in> set X. D x = E x)"

lemma agree_refl: "agree X D D"
  by (simp add: agree_def)

lemma agree_upd: "x \<notin> set X \<Longrightarrow> agree X D E \<Longrightarrow> agree X (D(x := v)) E"
  by (auto simp: agree_def)

lemma agree_plain: "list_all (\<lambda>x. x \<notin> set X) (defined_by ds) \<Longrightarrow> agree X D E \<Longrightarrow> agree X (define_plain ds D) E"
  by (auto simp: agree_def list_all_iff intro: define_plain_other [THEN trans])

lemma agree_macros: "agree X D E \<Longrightarrow> agree X (define_macros ms D) (define_macros ms E)"
proof (induction ms arbitrary: D E)
  case (Cons m ms)
  then show ?case
    by (cases m) (auto simp: agree_def)
qed simp

subsection \<open>The types on every system\<close>

lemma types_run:
  assumes "quiet sys"
  shows "\<exists>D' ps. process libssh2_files sys depth h_types (D, out) = Some (D', out @ ps) \<and>
    types_of ''libssh2_socket_t'' ps = [if D ''WIN32'' = None then ''int'' else ''SOCKET''] \<and>
    types_of ''libssh2_uint64_t'' ps = [if D ''_MSC_VER'' = None then ''unsigned long long'' else ''unsigned __int64''] \<and>
    types_of ''libssh2_int64_t'' ps = [if D ''_MSC_VER'' = None then ''long long'' else ''__int64''] \<and>
    types_of ''libssh2_struct_stat'' ps = [] \<and>
    (\<forall>x. x \<noteq> ''LIBSSH2_INVALID_SOCKET'' \<and> (x \<in> set tested \<or> x \<in> set configured) \<longrightarrow> D' x = D x)"
proof -
  have "\<exists>E ps. process libssh2_files sys depth [Group (And (Defined ''NETWARE'') (Not (Defined ''__NOVELL_LIBC__''))) [
       Include ''sys/bsdskt.h'', Emit (Typedef ''uint8_t'' ''unsigned char''), Emit (Typedef ''uint32_t'' ''unsigned int'')] []] (D, out) =
      Some (E, out @ ps) \<and> types_of ''libssh2_socket_t'' ps = [] \<and> types_of ''libssh2_uint64_t'' ps = [] \<and>
      types_of ''libssh2_int64_t'' ps = [] \<and> types_of ''libssh2_struct_stat'' ps = [] \<and>
      (\<forall>x. x \<in> set tested \<or> x \<in> set configured \<longrightarrow> E x = D x)"
    using quiet_other [OF assms]
    by (cases "holds D (And (Defined ''NETWARE'') (Not (Defined ''__NOVELL_LIBC__'')))") (simp_all add: libssh2_files_def del: holds.simps)
  then obtain E ps where E: "process libssh2_files sys depth [Group (And (Defined ''NETWARE'') (Not (Defined ''__NOVELL_LIBC__''))) [
       Include ''sys/bsdskt.h'', Emit (Typedef ''uint8_t'' ''unsigned char''), Emit (Typedef ''uint32_t'' ''unsigned int'')] []] (D, out) =
      Some (E, out @ ps)" "types_of ''libssh2_socket_t'' ps = []" "types_of ''libssh2_uint64_t'' ps = []"
      "types_of ''libssh2_int64_t'' ps = []" "types_of ''libssh2_struct_stat'' ps = []"
      "\<And>x. x \<in> set tested \<or> x \<in> set configured \<Longrightarrow> E x = D x"
    by blast
  have same: "E ''WIN32'' = D ''WIN32''" "E ''_MSC_VER'' = D ''_MSC_VER''"
    by (simp_all add: E(6) tested_def)
  define rest where "rest = tl h_types"
  have "\<exists>E' qs. process libssh2_files sys depth rest (E, out @ ps) = Some (E', (out @ ps) @ qs) \<and>
    types_of ''libssh2_socket_t'' qs = [if E ''WIN32'' = None then ''int'' else ''SOCKET''] \<and>
    types_of ''libssh2_uint64_t'' qs = [if E ''_MSC_VER'' = None then ''unsigned long long'' else ''unsigned __int64''] \<and>
    types_of ''libssh2_int64_t'' qs = [if E ''_MSC_VER'' = None then ''long long'' else ''__int64''] \<and>
    types_of ''libssh2_struct_stat'' qs = [] \<and> (\<forall>x. x \<noteq> ''LIBSSH2_INVALID_SOCKET'' \<longrightarrow> E' x = E x)"
    by (cases "E ''WIN32''"; cases "E ''_MSC_VER''"; cases "E ''ssize_t''") (simp_all add: rest_def h_types_def)
  then obtain E' qs where E': "process libssh2_files sys depth rest (E, out @ ps) = Some (E', (out @ ps) @ qs)"
    "types_of ''libssh2_socket_t'' qs = [if E ''WIN32'' = None then ''int'' else ''SOCKET'']"
    "types_of ''libssh2_uint64_t'' qs = [if E ''_MSC_VER'' = None then ''unsigned long long'' else ''unsigned __int64'']"
    "types_of ''libssh2_int64_t'' qs = [if E ''_MSC_VER'' = None then ''long long'' else ''__int64'']"
    "types_of ''libssh2_struct_stat'' qs = []" "\<And>x. x \<noteq> ''LIBSSH2_INVALID_SOCKET'' \<Longrightarrow> E' x = E x"
    by blast
  have parts: "h_types = [Group (And (Defined ''NETWARE'') (Not (Defined ''__NOVELL_LIBC__''))) [
       Include ''sys/bsdskt.h'', Emit (Typedef ''uint8_t'' ''unsigned char''), Emit (Typedef ''uint32_t'' ''unsigned int'')] []] @ rest"
    by (simp add: rest_def h_types_def)
  have "process libssh2_files sys depth h_types (D, out) = Some (E', (out @ ps) @ qs)"
    by (simp only: parts process_append E(1) E'(1) option.case)
  then show ?thesis
    using E(2-6) E'(2-6) same by (intro exI [of _ E'] exI [of _ "ps @ qs"]) simp
qed

text \<open>The two macros for the files of Windows.\<close>

definition msc_files :: "defs \<Rightarrow> bool" where
  "msc_files D \<longleftrightarrow> D ''_MSC_VER'' \<noteq> None \<and> D ''_WIN32_WCE'' = None"

definition msc_large :: "defs \<Rightarrow> bool" where
  "msc_large D \<longleftrightarrow> 900 \<le> macro_value D ''_MSC_VER'' \<and> 64 \<le> macro_value D ''_INTEGRAL_MAX_BITS''"

definition large_files :: "defs \<Rightarrow> bool" where
  "large_files D \<longleftrightarrow> (msc_files D \<and> msc_large D \<or> D ''__MINGW32__'' \<noteq> None \<or> D ''__WATCOMC__'' \<noteq> None) \<and> D ''__POCC__'' = None"

definition small_files :: "defs \<Rightarrow> bool" where
  "small_files D \<longleftrightarrow> msc_files D \<and> \<not> msc_large D \<or> D ''_WIN32'' \<noteq> None \<and> \<not> large_files D"

text \<open>A group that only defines or removes a macro.\<close>

lemma process_group:
  "process fs sys depth (Group c [Define x t] [] # ds) (D, out) = process fs sys depth ds (if holds D c then D(x \<mapsto> t) else D, out)"
  "process fs sys depth (Group c [Undef x] [] # ds) (D, out) = process fs sys depth ds (if holds D c then D(x := None) else D, out)"
  "process fs sys depth (Group c [Group d [Define x t] [Define y u]] [] # ds) (D, out) =
    process fs sys depth ds (if holds D c then (if holds D d then D(x \<mapsto> t) else D(y \<mapsto> u)) else D, out)"
  by simp_all

lemma flags_run:
  assumes "D ''LIBSSH2_USE_WIN32_LARGE_FILES'' = None" "D ''LIBSSH2_USE_WIN32_SMALL_FILES'' = None"
  shows "\<exists>D'. process fs sys depth h_file_flags (D, out) = Some (D', out) \<and>
    (D' ''LIBSSH2_USE_WIN32_LARGE_FILES'' \<noteq> None \<longleftrightarrow> large_files D) \<and>
    (D' ''LIBSSH2_USE_WIN32_SMALL_FILES'' \<noteq> None \<longleftrightarrow> small_files D) \<and>
    (\<forall>x. x \<noteq> ''LIBSSH2_USE_WIN32_LARGE_FILES'' \<and> x \<noteq> ''LIBSSH2_USE_WIN32_SMALL_FILES'' \<longrightarrow> D' x = D x)"
proof -
  let ?L = "''LIBSSH2_USE_WIN32_LARGE_FILES''" and ?S = "''LIBSSH2_USE_WIN32_SMALL_FILES''"
  define D1 where "D1 = (if msc_files D then (if msc_large D then D(?L \<mapsto> []) else D(?S \<mapsto> [])) else D)"
  define D2 where "D2 = (if D1 ''__MINGW32__'' \<noteq> None \<and> D1 ?L = None then D1(?L \<mapsto> []) else D1)"
  define D3 where "D3 = (if D2 ''__WATCOMC__'' \<noteq> None \<and> D2 ?L = None then D2(?L \<mapsto> []) else D2)"
  define D4 where "D4 = (if D3 ''__POCC__'' \<noteq> None then D3(?L := None) else D3)"
  define D5 where "D5 = (if (D4 ''_WIN32'' \<noteq> None \<and> D4 ?L = None) \<and> D4 ?S = None then D4(?S \<mapsto> []) else D4)"
  have run: "process fs sys depth h_file_flags (D, out) = Some (D5, out)"
    unfolding h_file_flags_def process_group process.simps(1) holds.simps D5_def D4_def D3_def D2_def D1_def msc_files_def msc_large_def
    by (simp only: not_not)
  have o1: "D1 x = D x" if "x \<noteq> ?L" "x \<noteq> ?S" for x using that by (simp add: D1_def)
  have o2: "D2 x = D1 x" if "x \<noteq> ?L" for x using that by (simp add: D2_def)
  have o3: "D3 x = D2 x" if "x \<noteq> ?L" for x using that by (simp add: D3_def)
  have o4: "D4 x = D3 x" if "x \<noteq> ?L" for x using that by (simp add: D4_def)
  have o5: "D5 x = D4 x" if "x \<noteq> ?S" for x using that by (simp add: D5_def)
  have l1: "D1 ?L \<noteq> None \<longleftrightarrow> msc_files D \<and> msc_large D" and s1: "D1 ?S \<noteq> None \<longleftrightarrow> msc_files D \<and> \<not> msc_large D"
    using assms by (simp_all add: D1_def)
  have l2: "D2 ?L \<noteq> None \<longleftrightarrow> msc_files D \<and> msc_large D \<or> D ''__MINGW32__'' \<noteq> None"
    using l1 o1 [of "''__MINGW32__''"] by (auto simp: D2_def)
  have l3: "D3 ?L \<noteq> None \<longleftrightarrow> msc_files D \<and> msc_large D \<or> D ''__MINGW32__'' \<noteq> None \<or> D ''__WATCOMC__'' \<noteq> None"
    using l2 o1 [of "''__WATCOMC__''"] o2 [of "''__WATCOMC__''"] by (auto simp: D3_def)
  have l4: "D4 ?L \<noteq> None \<longleftrightarrow> large_files D"
    using l3 o1 [of "''__POCC__''"] o2 [of "''__POCC__''"] o3 [of "''__POCC__''"] by (auto simp: D4_def large_files_def)
  have s4: "D4 ?S \<noteq> None \<longleftrightarrow> msc_files D \<and> \<not> msc_large D"
    using s1 o2 [of ?S] o3 [of ?S] o4 [of ?S] by simp
  have w: "D4 ''_WIN32'' = D ''_WIN32''"
    using o1 [of "''_WIN32''"] o2 [of "''_WIN32''"] o3 [of "''_WIN32''"] o4 [of "''_WIN32''"] by simp
  have "D5 ?L \<noteq> None \<longleftrightarrow> large_files D"
    using l4 o5 [of ?L] by simp
  moreover have "D5 ?S \<noteq> None \<longleftrightarrow> small_files D"
    using l4 s4 w by (auto simp: D5_def small_files_def)
  moreover have "D5 x = D x" if "x \<noteq> ?L" "x \<noteq> ?S" for x
    using that o1 [of x] o2 [of x] o3 [of x] o4 [of x] o5 [of x] by simp
  ultimately show ?thesis
    using run by blast
qed

lemma stat_run:
  assumes "quiet sys" "D ''LIBSSH2_STRUCT_STAT_SIZE_FORMAT'' = None"
  shows "\<exists>D' ps. process libssh2_files sys depth h_stat (D, out) = Some (D', out @ ps) \<and>
    types_of ''libssh2_struct_stat'' ps =
      (if D ''LIBSSH2_USE_WIN32_LARGE_FILES'' \<noteq> None then [''struct _stati64''] else []) @
      (if D ''LIBSSH2_USE_WIN32_SMALL_FILES'' \<noteq> None \<and> D ''_WIN32_WCE'' = None then [''struct _stat''] else []) @
      (if D ''LIBSSH2_USE_WIN32_LARGE_FILES'' \<noteq> None \<or> D ''LIBSSH2_USE_WIN32_SMALL_FILES'' \<noteq> None \<and> D ''_WIN32_WCE'' = None
       then [] else [''struct stat'']) \<and>
    types_of ''libssh2_socket_t'' ps = [] \<and> types_of ''libssh2_uint64_t'' ps = [] \<and> types_of ''libssh2_int64_t'' ps = []"
proof -
  have inner: "process fs sys depth (Group c [Group d [Define x t] [Define x u]] [Define x v] # ds) (E, ps) =
      process fs sys depth ds (E(x \<mapsto> if holds E c then if holds E d then t else u else v), ps)" for fs c d x t u v ds E ps
    by simp
  show ?thesis
    using assms(2) quiet_other [OF assms(1)]
    by (cases "D ''LIBSSH2_USE_WIN32_LARGE_FILES''"; cases "D ''LIBSSH2_USE_WIN32_SMALL_FILES''"; cases "D ''_WIN32_WCE''")
      (simp_all add: h_stat_def libssh2_files_def tested_def inner del: holds.simps(2,7))
qed

text \<open>Directives that define at most the names \<open>X\<close>, include only system headers and declare no types.\<close>

fun touches_only :: "string list \<Rightarrow> files \<Rightarrow> directive list \<Rightarrow> bool" where
  "touches_only X fs [] \<longleftrightarrow> True"
| "touches_only X fs (Define x t # ds) \<longleftrightarrow> x \<in> set X \<and> touches_only X fs ds"
| "touches_only X fs (DefineFn x ps # ds) \<longleftrightarrow> x \<in> set X \<and> touches_only X fs ds"
| "touches_only X fs (Undef x # ds) \<longleftrightarrow> x \<in> set X \<and> touches_only X fs ds"
| "touches_only X fs (Emit p # ds) \<longleftrightarrow> (\<forall>y. types_of y [p] = []) \<and> touches_only X fs ds"
| "touches_only X fs (Group c yes no # ds) \<longleftrightarrow> touches_only X fs yes \<and> touches_only X fs no \<and> touches_only X fs ds"
| "touches_only X fs (Include f # ds) \<longleftrightarrow> fs f = None \<and> touches_only X fs ds"

lemma process_frame:
  assumes "quiet sys"
  shows "touches_only X fs ds \<Longrightarrow> \<exists>D' ps. process fs sys depth ds (D, out) = Some (D', out @ ps) \<and> (\<forall>y. types_of y ps = []) \<and>
    (\<forall>x. x \<notin> set X \<and> (x \<in> set tested \<or> x \<in> set configured) \<longrightarrow> D' x = D x)"
proof (induction X fs ds arbitrary: D out rule: touches_only.induct)
  case (2 X fs x t ds)
  then show ?case
    using "2.IH" [of "D(x \<mapsto> t)" out] by fastforce
next
  case (3 X fs x ps ds)
  then show ?case
    using "3.IH" [of "D(x \<mapsto> [])" out] by fastforce
next
  case (4 X fs x ds)
  then show ?case
    using "4.IH" [of "D(x := None)" out] by fastforce
next
  case (5 X fs p ds)
  then obtain D' ps where "process fs sys depth ds (D, out @ [p]) = Some (D', (out @ [p]) @ ps)" "\<forall>y. types_of y ps = []"
      "\<forall>x. x \<notin> set X \<and> (x \<in> set tested \<or> x \<in> set configured) \<longrightarrow> D' x = D x"
    by fastforce
  moreover have "types_of y (p # ps) = []" for y
    using 5 types_of_append [of y "[p]" ps] \<open>\<forall>y. types_of y ps = []\<close> by simp
  ultimately show ?case
    by (intro exI [of _ D'] exI [of _ "p # ps"]) simp
next
  case (6 X fs c yes no ds)
  let ?b = "if holds D c then yes else no"
  have "\<exists>D1 ps. process fs sys depth ?b (D, out) = Some (D1, out @ ps) \<and> (\<forall>y. types_of y ps = []) \<and>
    (\<forall>x. x \<notin> set X \<and> (x \<in> set tested \<or> x \<in> set configured) \<longrightarrow> D1 x = D x)"
    using "6.IH"(1,2) [of D out] "6.prems" by (cases "holds D c") simp_all
  then obtain D1 ps where 1: "process fs sys depth ?b (D, out) = Some (D1, out @ ps)" "\<forall>y. types_of y ps = []"
      "\<forall>x. x \<notin> set X \<and> (x \<in> set tested \<or> x \<in> set configured) \<longrightarrow> D1 x = D x"
    by blast
  have "touches_only X fs ds"
    using "6.prems" by simp
  from "6.IH"(3) [OF this, of D1 "out @ ps"]
  obtain D2 qs where 2: "process fs sys depth ds (D1, out @ ps) = Some (D2, (out @ ps) @ qs)" "\<forall>y. types_of y qs = []"
      "\<forall>x. x \<notin> set X \<and> (x \<in> set tested \<or> x \<in> set configured) \<longrightarrow> D2 x = D1 x"
    by blast
  have "process fs sys depth (Group c yes no # ds) (D, out) = Some (D2, out @ ps @ qs)"
    using 1(1) 2(1) by (simp only: process.simps option.case append_assoc)
  then show ?case
    using 1(2,3) 2(2,3) by (intro exI [of _ D2] exI [of _ "ps @ qs"]) simp
next
  case (7 X fs f ds)
  have "touches_only X fs ds" and f: "fs f = None"
    using "7.prems" by simp_all
  from "7.IH" [OF this(1), of "define_macros (sys f) D" "out @ [Header f]"]
  obtain D' ps where 1: "process fs sys depth ds (define_macros (sys f) D, out @ [Header f]) = Some (D', (out @ [Header f]) @ ps)"
      "\<forall>y. types_of y ps = []"
      "\<forall>x. x \<notin> set X \<and> (x \<in> set tested \<or> x \<in> set configured) \<longrightarrow> D' x = define_macros (sys f) D x"
    by blast
  have "process fs sys depth (Include f # ds) (D, out) = Some (D', out @ Header f # ps)"
    using 1(1) f by simp
  then show ?case
    using 1(2,3) quiet_other [OF assms, of _ f D] by (intro exI [of _ D'] exI [of _ "Header f # ps"]) simp
qed simp

lemma api_touches: "touches_only [''LIBSSH2_API''] libssh2_files h_api"
  by (simp add: h_api_def libssh2_files_def)

text \<open>The rest of \<open>libssh2.h\<close> has no conditions, and defines none of the tested names.\<close>

definition h_rest :: "directive list" where
  "h_rest = h_defaults @ h_poll @ h_codes @ h_session @ h_userauth @ h_channel @ h_stream @ h_scp @ h_knownhost @
     h_known_file @ h_agent @ h_keepalive"

lemmas h_rest_defs = h_rest_def h_defaults_def h_poll_def h_codes_def h_session_def h_userauth_def h_channel_def h_stream_def
  h_scp_def h_knownhost_def h_known_file_def h_agent_def h_keepalive_def

lemma libssh2_h_parts:
  "libssh2_h = [Group (Not (Defined ''LIBSSH2_H'')) (Define ''LIBSSH2_H'' ''1'' # h_version @ [
     Group (Not (Defined ''RC_INVOKED'')) (h_api @ (h_types @ h_file_flags @ h_stat) @ h_rest @ h_end) []]) []]"
  by (simp add: libssh2_h_def h_rest_def)

lemma rest_plain: "list_all plain h_rest" "list_all plain h_version"
  by (simp_all add: h_rest_defs h_version_def)

lemma rest_types:
  "types_of ''libssh2_socket_t'' (kept h_rest) = []" "types_of ''libssh2_uint64_t'' (kept h_rest) = []"
  "types_of ''libssh2_int64_t'' (kept h_rest) = []" "types_of ''libssh2_struct_stat'' (kept h_rest) = []"
  by (simp_all add: h_rest_defs)

lemma version_other:
  "list_all (\<lambda>x. x \<notin> set tested \<and> x \<notin> set configured) (defined_by h_version)" "kept h_version = []"
  by (simp_all add: h_version_def tested_def configured_def)

text \<open>The types after \<open>LIBSSH2_API\<close>, for the macros \<open>D\<close> there.\<close>

lemma types_all:
  assumes "quiet sys" "D ''LIBSSH2_USE_WIN32_LARGE_FILES'' = None" "D ''LIBSSH2_USE_WIN32_SMALL_FILES'' = None"
    "D ''LIBSSH2_STRUCT_STAT_SIZE_FORMAT'' = None"
  shows "\<exists>D' ps. process libssh2_files sys depth (h_types @ h_file_flags @ h_stat) (D, out) = Some (D', out @ ps) \<and>
    types_of ''libssh2_socket_t'' ps = [if D ''WIN32'' = None then ''int'' else ''SOCKET''] \<and>
    types_of ''libssh2_uint64_t'' ps = [if D ''_MSC_VER'' = None then ''unsigned long long'' else ''unsigned __int64''] \<and>
    types_of ''libssh2_int64_t'' ps = [if D ''_MSC_VER'' = None then ''long long'' else ''__int64''] \<and>
    types_of ''libssh2_struct_stat'' ps =
      (if large_files D then [''struct _stati64''] else []) @
      (if small_files D \<and> D ''_WIN32_WCE'' = None then [''struct _stat''] else []) @
      (if large_files D \<or> small_files D \<and> D ''_WIN32_WCE'' = None then [] else [''struct stat''])"
proof -
  obtain D1 ps where 1: "process libssh2_files sys depth h_types (D, out) = Some (D1, out @ ps)"
      "types_of ''libssh2_socket_t'' ps = [if D ''WIN32'' = None then ''int'' else ''SOCKET'']"
      "types_of ''libssh2_uint64_t'' ps = [if D ''_MSC_VER'' = None then ''unsigned long long'' else ''unsigned __int64'']"
      "types_of ''libssh2_int64_t'' ps = [if D ''_MSC_VER'' = None then ''long long'' else ''__int64'']"
      "types_of ''libssh2_struct_stat'' ps = []"
      "\<And>x. x \<noteq> ''LIBSSH2_INVALID_SOCKET'' \<and> (x \<in> set tested \<or> x \<in> set configured) \<Longrightarrow> D1 x = D x"
    using types_run [OF assms(1), of depth D out] by blast
  have same: "D1 x = D x" if "x \<in> set tested" for x
    using that by (intro 1(6)) (auto simp: tested_def)
  have cond: "large_files D1 = large_files D" "small_files D1 = small_files D" "D1 ''_WIN32_WCE'' = D ''_WIN32_WCE''"
    by (simp_all add: large_files_def small_files_def msc_files_def msc_large_def macro_value_def same tested_def)
  have "D1 ''LIBSSH2_USE_WIN32_LARGE_FILES'' = None" "D1 ''LIBSSH2_USE_WIN32_SMALL_FILES'' = None"
      "D1 ''LIBSSH2_STRUCT_STAT_SIZE_FORMAT'' = None"
    using assms(2-4) by (simp_all add: same tested_def)
  moreover from flags_run [where D = D1, OF this(1,2), of libssh2_files sys depth "out @ ps"] obtain D2 where
    2: "process libssh2_files sys depth h_file_flags (D1, out @ ps) = Some (D2, out @ ps)"
      "D2 ''LIBSSH2_USE_WIN32_LARGE_FILES'' \<noteq> None \<longleftrightarrow> large_files D"
      "D2 ''LIBSSH2_USE_WIN32_SMALL_FILES'' \<noteq> None \<longleftrightarrow> small_files D"
      "\<And>x. x \<noteq> ''LIBSSH2_USE_WIN32_LARGE_FILES'' \<and> x \<noteq> ''LIBSSH2_USE_WIN32_SMALL_FILES'' \<Longrightarrow> D2 x = D1 x"
    unfolding cond by blast
  ultimately have "D2 ''LIBSSH2_STRUCT_STAT_SIZE_FORMAT'' = None" and wce: "D2 ''_WIN32_WCE'' = D ''_WIN32_WCE''"
    using 2(4) [of "''LIBSSH2_STRUCT_STAT_SIZE_FORMAT''"] 2(4) [of "''_WIN32_WCE''"] cond(3) by simp_all
  from stat_run [where D = D2, OF assms(1) this(1), of depth "out @ ps"] obtain D3 qs where
    3: "process libssh2_files sys depth h_stat (D2, out @ ps) = Some (D3, (out @ ps) @ qs)"
      "types_of ''libssh2_socket_t'' qs = []" "types_of ''libssh2_uint64_t'' qs = []" "types_of ''libssh2_int64_t'' qs = []"
      "types_of ''libssh2_struct_stat'' qs =
        (if large_files D then [''struct _stati64''] else []) @
        (if small_files D \<and> D ''_WIN32_WCE'' = None then [''struct _stat''] else []) @
        (if large_files D \<or> small_files D \<and> D ''_WIN32_WCE'' = None then [] else [''struct stat''])"
    unfolding 2(2,3) wce by blast
  show ?thesis
    by (intro exI [of _ D3] exI [of _ "ps @ qs"]) (simp only: process_append 1 2(1) 3 option.case types_of_append append_assoc append_Nil append_Nil2 simp_thms)
qed




end
