(* ===== verification/LibsshBuild.thy ===== *)
theory LibsshBuild
  imports LibsshTypes LibsshApi
begin

text \<open>
  What the compiler sees of \<open>libssh2/sftpdir.c\<close> on Linux, with the configuration and the headers of libssh2 in its directory.
\<close>

fun texts_of :: "piece list \<Rightarrow> string list" where
  "texts_of [] = []"
| "texts_of (Text t # ps) = t # texts_of ps"
| "texts_of (_ # ps) = texts_of ps"

lemma texts_of_append [simp]: "texts_of (ps @ qs) = texts_of ps @ texts_of qs"
  by (induction ps rule: texts_of.induct) simp_all

text \<open>The names that decide about the rest of \<open>sftpdir.c\<close> behind the header.\<close>

definition watched :: "string list" where
  "watched = ''LIBSSH2_SFTP_H'' # [''__cplusplus'', ''WIN32'', ''HAVE_WINSOCK2_H'', ''__PRI64_PREFIX'', ''PRIu64'', ''__WORDSIZE''] @ configured"

definition linux :: "defs \<Rightarrow> bool" where
  "linux D \<longleftrightarrow> (\<forall>x \<in> set tested. D x = None)"

lemma linuxD: "linux D \<Longrightarrow> x \<in> set tested \<Longrightarrow> D x = None"
  by (simp add: linux_def)

lemma linux_macros: "quiet sys \<Longrightarrow> linux D \<Longrightarrow> linux (define_macros (sys f) D)"
  by (simp add: linux_def quiet_other)

lemma linux_none:
  assumes "linux D"
  shows "D ''LIBSSH2_H'' = None" "D ''LIBSSH2_SFTP_H'' = None" "D ''RC_INVOKED'' = None" "D ''__cplusplus'' = None" "D ''_WIN32'' = None"
    "D ''WIN32'' = None" "D ''LIBSSH2_API'' = None" "D ''LIBSSH2_WIN32'' = None" "D ''NETWARE'' = None" "D ''_MSC_VER'' = None"
    "D ''__MINGW32__'' = None" "D ''__WATCOMC__'' = None" "D ''__POCC__'' = None" "D ''LIBSSH2_USE_WIN32_LARGE_FILES'' = None"
    "D ''LIBSSH2_USE_WIN32_SMALL_FILES'' = None" "D ''LIBSSH2_STRUCT_STAT_SIZE_FORMAT'' = None" "D ''__VMS'' = None"
    "D ''AC_APPLE_UNIVERSAL_BUILD'' = None" "D ''HAVE_WINSOCK2_H'' = None"
  using assms by (simp_all add: linux_def tested_def)

lemma watched_rest:
  "list_all (\<lambda>x. x \<notin> set watched) (defined_by h_rest)" "list_all (\<lambda>x. x \<notin> set watched) (defined_by h_version)"
  by (simp_all add: h_rest_defs h_version_def watched_def configured_def)

lemma kept_rest: "headers_of (kept h_rest) = []" "texts_of (kept h_rest) = []"
  by (simp_all add: h_rest_defs)

subsection \<open>\<open>libssh2.h\<close>\<close>

lemma linux_api:
  assumes "quiet sys" "D ''__cplusplus'' = None" "D ''_WIN32'' = None" "D ''LIBSSH2_API'' = None" "D ''LIBSSH2_WIN32'' = None"
    "D ''HAVE_SYS_UIO_H'' \<noteq> None"
  shows "process libssh2_files sys depth h_api (D, out) =
    Some (define_macros (sys ''sys/uio.h'')
       ((include_all sys [''stddef.h'', ''string.h'', ''sys/stat.h'', ''sys/types.h''] D)(''LIBSSH2_API'' \<mapsto> [])),
      out @ map Header [''stddef.h'', ''string.h'', ''sys/stat.h'', ''sys/types.h'', ''sys/uio.h''])"
  using assms(2-) quiet_other [OF assms(1)]
  by (simp add: h_api_def libssh2_files_def tested_def configured_def)

lemma linux_types:
  assumes "quiet sys" "D ''NETWARE'' = None" "D ''_MSC_VER'' = None" "D ''WIN32'' = None" "D ''_WIN32'' = None" "D ''__MINGW32__'' = None"
    "D ''__WATCOMC__'' = None" "D ''__POCC__'' = None" "D ''LIBSSH2_USE_WIN32_LARGE_FILES'' = None"
    "D ''LIBSSH2_USE_WIN32_SMALL_FILES'' = None" "D ''LIBSSH2_STRUCT_STAT_SIZE_FORMAT'' = None" "D ''__VMS'' = None"
  shows "process libssh2_files sys depth (h_types @ h_file_flags @ h_stat) (D, out) =
    Some (D(''LIBSSH2_INVALID_SOCKET'' \<mapsto> ''-1'', ''LIBSSH2_STRUCT_STAT_SIZE_FORMAT'' \<mapsto> [CHR 0x22] @ ''%zd'' @ [CHR 0x22]),
      out @ [Typedef ''libssh2_uint64_t'' ''unsigned long long'', Typedef ''libssh2_int64_t'' ''long long'',
        Typedef ''libssh2_socket_t'' ''int'', Typedef ''libssh2_struct_stat'' ''struct stat'',
        Typedef ''libssh2_struct_stat_size'' ''off_t''])"
  using assms(2-) by (simp add: h_types_def h_file_flags_def h_stat_def libssh2_files_def)

lemma agree_include:
  "agree X D E \<Longrightarrow> agree X (include_all sys fs D) (include_all sys fs E)"
  by (induction fs arbitrary: D E) (simp_all add: agree_macros)

lemma linux_header:
  assumes "quiet sys" "linux D" "D ''HAVE_SYS_UIO_H'' \<noteq> None"
  shows "\<exists>D' ps. process libssh2_files sys depth libssh2_h (D, out) = Some (D', out @ ps) \<and> D' ''LIBSSH2_H'' \<noteq> None \<and>
    agree watched D' (include_all sys [''stddef.h'', ''string.h'', ''sys/stat.h'', ''sys/types.h'', ''sys/uio.h''] D) \<and>
    headers_of ps = [''stddef.h'', ''string.h'', ''sys/stat.h'', ''sys/types.h'', ''sys/uio.h''] \<and>
    functions_of ps = functions_of (kept h_rest) \<and> texts_of ps = []"
proof -
  define D0 where "D0 = define_plain h_version (D(''LIBSSH2_H'' \<mapsto> ''1''))"
  have D0: "D0 x = D x" if "x \<in> set tested \<or> x \<in> set configured" "x \<noteq> ''LIBSSH2_H''" for x
    using that version_other(1) define_plain_other [of x h_version] unfolding D0_def list_all_iff by auto
  define D1 where "D1 = define_macros (sys ''sys/uio.h'')
      ((include_all sys [''stddef.h'', ''string.h'', ''sys/stat.h'', ''sys/types.h''] D0)(''LIBSSH2_API'' \<mapsto> []))"
  define hs where "hs = map Header [''stddef.h'', ''string.h'', ''sys/stat.h'', ''sys/types.h'', ''sys/uio.h'']"
  have 1: "process libssh2_files sys depth h_api (D0, out) = Some (D1, out @ hs)"
    unfolding D1_def hs_def using assms by (intro linux_api) (simp_all add: D0 linux_none tested_def configured_def)
  have D1: "D1 x = D x" if "x \<in> set tested" "x \<noteq> ''LIBSSH2_H''" "x \<noteq> ''LIBSSH2_API''" for x
    using that D0 [of x] quiet_other [OF assms(1), of x] by (simp add: D1_def)
  define mid where "mid = h_types @ h_file_flags @ h_stat"
  define ts where "ts = [Typedef ''libssh2_uint64_t'' ''unsigned long long'', Typedef ''libssh2_int64_t'' ''long long'',
        Typedef ''libssh2_socket_t'' ''int'', Typedef ''libssh2_struct_stat'' ''struct stat'',
        Typedef ''libssh2_struct_stat_size'' ''off_t'']"
  define D2 where "D2 = D1(''LIBSSH2_INVALID_SOCKET'' \<mapsto> ''-1'', ''LIBSSH2_STRUCT_STAT_SIZE_FORMAT'' \<mapsto> [CHR 0x22] @ ''%zd'' @ [CHR 0x22])"
  have 2: "process libssh2_files sys depth mid (D1, out @ hs) = Some (D2, (out @ hs) @ ts)"
    unfolding mid_def D2_def ts_def using assms by (intro linux_types) (simp_all add: D1 linux_none tested_def)
  have near: "agree watched D2 (include_all sys [''stddef.h'', ''string.h'', ''sys/stat.h'', ''sys/types.h'', ''sys/uio.h''] D)"
    unfolding D2_def D1_def D0_def include_all.simps
    by (intro agree_upd agree_macros agree_plain watched_rest agree_refl) (simp_all add: watched_def configured_def)
  have D3: "define_plain h_rest D2 ''__cplusplus'' = None"
    using linux_none(4) [OF assms(2)] D1 [of "''__cplusplus''"] define_plain_other [of "''__cplusplus''" h_rest D2] watched_rest(1)
    by (auto simp: D2_def tested_def watched_def list_all_iff)
  have 3: "process libssh2_files sys depth h_end (define_plain h_rest D2, X) = Some (define_plain h_rest D2, X)" for X
    using D3 by (simp add: h_end_def)
  have rc: "D0 ''RC_INVOKED'' = None"
    using linux_none(3) [OF assms(2)] D0 [of "''RC_INVOKED''"] by (simp add: tested_def)
  have "process libssh2_files sys depth (Define ''LIBSSH2_H'' ''1'' # h_version @ [
      Group (Not (Defined ''RC_INVOKED'')) (h_api @ mid @ h_rest @ h_end) []]) (D, out) =
    Some (define_plain h_rest D2, ((out @ hs) @ ts) @ kept h_rest)"
    by (simp only: process.simps process_append process_plain [OF rest_plain(1)] process_plain [OF rest_plain(2)] version_other(2)
        append_Nil append_Nil2 D0_def [symmetric] rc holds.simps simp_thms if_True option.case 1 2 3)
  then have run: "process libssh2_files sys depth libssh2_h (D, out) = Some (define_plain h_rest D2, out @ hs @ ts @ kept h_rest)"
    using linux_none(1) [OF assms(2)] by (simp add: libssh2_h_parts mid_def)
  have "D2 ''LIBSSH2_H'' \<noteq> None"
    unfolding D2_def D1_def D0_def include_all.simps fun_upd_apply
    by (simp add: define_macros_keeps define_plain_keeps)
  then have "define_plain h_rest D2 ''LIBSSH2_H'' \<noteq> None"
    by (rule define_plain_keeps)
  moreover have "agree watched (define_plain h_rest D2)
      (include_all sys [''stddef.h'', ''string.h'', ''sys/stat.h'', ''sys/types.h'', ''sys/uio.h''] D)"
    by (intro agree_plain watched_rest near)
  moreover have "functions_of hs = []" "functions_of ts = []" "headers_of ts = []" "texts_of hs = []" "texts_of ts = []"
      "headers_of hs = [''stddef.h'', ''string.h'', ''sys/stat.h'', ''sys/types.h'', ''sys/uio.h'']"
    by (simp_all add: hs_def ts_def)
  ultimately show ?thesis
    using run by (intro exI [of _ "define_plain h_rest D2"] exI [of _ "hs @ ts @ kept h_rest"]) (simp add: kept_rest)
qed

text \<open>A second inclusion finds the guard.\<close>

lemma header_again: "D ''LIBSSH2_H'' \<noteq> None \<Longrightarrow> process fs sys depth libssh2_h (D, out) = Some (D, out)"
  by (auto simp: libssh2_h_def)

subsection \<open>\<open>libssh2_sftp.h\<close> and the configuration\<close>

lemma sftp_plain: "list_all plain (sftp_types @ sftp_modes @ sftp_functions)"
  by (simp add: sftp_types_def sftp_modes_def sftp_functions_def)

lemma sftp_other: "list_all (\<lambda>x. x \<notin> set (tl watched)) (defined_by (sftp_types @ sftp_modes @ sftp_functions))"
  by (simp add: sftp_types_def sftp_modes_def sftp_functions_def watched_def configured_def)

lemma kept_sftp:
  "headers_of (kept (sftp_types @ sftp_modes @ sftp_functions)) = []"
  "texts_of (kept (sftp_types @ sftp_modes @ sftp_functions)) = []"
  by (simp_all add: sftp_types_def sftp_modes_def sftp_functions_def)

lemma linux_sftp_header:
  assumes "quiet sys" "D ''LIBSSH2_H'' \<noteq> None" "D ''LIBSSH2_SFTP_H'' = None" "D ''WIN32'' = None" "D ''__cplusplus'' = None"
  shows "\<exists>D' ps. process libssh2_files sys (Suc depth) libssh2_sftp_h (D, out) = Some (D', out @ ps) \<and>
    agree (tl watched) D' (define_macros (sys ''unistd.h'') D) \<and> headers_of ps = [''unistd.h''] \<and>
    functions_of ps = functions_of (kept (sftp_types @ sftp_modes @ sftp_functions)) \<and> texts_of ps = []"
proof -
  define body where "body = sftp_types @ sftp_modes @ sftp_functions"
  define D1 where "D1 = define_macros (sys ''unistd.h'') (D(''LIBSSH2_SFTP_H'' \<mapsto> ''1''))"
  have D1: "D1 ''__cplusplus'' = None"
    using assms(5) quiet_other [OF assms(1), of "''__cplusplus''"] by (simp add: D1_def tested_def)
  then have D2: "define_plain body D1 ''__cplusplus'' = None"
    using define_plain_other [of "''__cplusplus''" body D1] sftp_other by (auto simp: body_def watched_def list_all_iff)
  have parts: "libssh2_sftp_h = [Group (Not (Defined ''LIBSSH2_SFTP_H'')) ([
       Define ''LIBSSH2_SFTP_H'' ''1'', Include ''libssh2.h'', Group (Not (Defined ''WIN32'')) [Include ''unistd.h''] [],
       Group (Defined ''__cplusplus'') [Emit (Text (''extern '' @ [CHR 0x22] @ ''C'' @ [CHR 0x22] @ '' {''))] []] @ body @ h_end) []]"
    by (simp add: libssh2_sftp_h_def body_def)
  have "libssh2_files ''libssh2.h'' = Some libssh2_h" "libssh2_files ''unistd.h'' = None"
    by (simp_all add: libssh2_files_def)
  moreover have "process libssh2_files sys depth libssh2_h (D(''LIBSSH2_SFTP_H'' \<mapsto> ''1''), out) = Some (D(''LIBSSH2_SFTP_H'' \<mapsto> ''1''), out)"
    using assms(2) by (intro header_again) simp
  moreover have "process libssh2_files sys (Suc depth) h_end (define_plain body D1, X) = Some (define_plain body D1, X)" for X
    using D2 by (simp add: h_end_def)
  moreover have "list_all plain body"
    using sftp_plain by (simp add: body_def)
  ultimately have "process libssh2_files sys (Suc depth) libssh2_sftp_h (D, out) =
      Some (define_plain body D1, (out @ [Header ''unistd.h'']) @ kept body)"
    using assms(3,4,5) D1 unfolding parts by (simp add: process_append process_plain D1_def)
  moreover have "agree (tl watched) (define_plain body D1) (define_macros (sys ''unistd.h'') D)"
    unfolding D1_def body_def
    by (intro agree_plain sftp_other agree_macros agree_upd agree_refl) (simp add: watched_def configured_def)
  ultimately show ?thesis
    using kept_sftp
    by (intro exI [of _ "define_plain body D1"] exI [of _ "Header ''unistd.h'' # kept body"]) (simp add: body_def)
qed

lemma linux_config:
  assumes "linux D"
  shows "\<exists>D'. process libssh2_files sys depth libssh2_config_h (D, out) = Some (D', out) \<and> linux D' \<and>
    (\<forall>x \<in> set configured. D' x \<noteq> None) \<and> agree [''__PRI64_PREFIX'', ''PRIu64'', ''__WORDSIZE'', ''WIN32''] D' D"
proof -
  define ds where "ds = config_features @ config_package @ [Define ''VERSION'' ([CHR 0x22] @ ''-'' @ [CHR 0x22])]"
  have plain: "list_all plain ds" and kept: "kept ds = []"
    by (simp_all add: ds_def config_features_def config_package_def)
  have other: "list_all (\<lambda>x. x \<notin> set tested \<and> x \<notin> set [''__PRI64_PREFIX'', ''PRIu64'', ''__WORDSIZE'', ''WIN32'']) (defined_by ds)"
    by (simp add: ds_def config_features_def config_package_def tested_def)
  have conf: "define_plain ds D x \<noteq> None" if "x \<in> set configured" for x
    using that by (auto simp: configured_def ds_def config_features_def config_package_def)
  have same: "define_plain ds D x = D x" if "x \<in> set tested" for x
    using that other by (intro define_plain_other) (auto simp: list_all_iff)
  have ap: "define_plain ds D ''AC_APPLE_UNIVERSAL_BUILD'' = None"
    using assms same by (simp add: linux_def tested_def)
  define D' where "D' = (if define_plain ds D ''_DARWIN_USE_64_BIT_INODE'' = None
      then (define_plain ds D)(''_DARWIN_USE_64_BIT_INODE'' \<mapsto> ''1'') else define_plain ds D)"
  have parts: "libssh2_config_h = ds @ tl config_system"
    by (simp add: libssh2_config_h_def ds_def config_system_def)
  have "process libssh2_files sys depth libssh2_config_h (D, out) = Some (D', out)"
    using ap unfolding parts by (simp add: process_append process_plain [OF plain] kept config_system_def D'_def)
  moreover have "linux D'"
    using assms same by (auto simp: linux_def D'_def tested_def)
  moreover have "\<forall>x \<in> set configured. D' x \<noteq> None"
    using conf by (auto simp: D'_def)
  moreover have "agree [''__PRI64_PREFIX'', ''PRIu64'', ''__WORDSIZE'', ''WIN32''] D' D"
    using other define_plain_other [of _ ds D] by (auto simp: agree_def D'_def list_all_iff)
  ultimately show ?thesis
    by blast
qed

subsection \<open>\<open>sftpdir.c\<close>\<close>

text \<open>The declarations of the files are the functions of the interface.\<close>

lemma declared_functions:
  "functions_of (kept h_rest) =
    map fst (session_api @ userauth_api @ channel_api @ scp_api @ knownhost_api @ agent_api @ keepalive_api)"
  "functions_of (kept (sftp_types @ sftp_modes @ sftp_functions)) = map fst sftp_api"
  "functions_of (kept publickey_functions) = map fst publickey_api"
  by (simp_all add: h_rest_defs sftp_types_def sftp_modes_def sftp_functions_def publickey_functions_def session_api_def
      userauth_api_def channel_api_def scp_api_def knownhost_api_def agent_api_def keepalive_api_def sftp_api_def publickey_api_def)

lemma agree_at: "agree X D E \<Longrightarrow> x \<in> set X \<Longrightarrow> D x = E x"
  by (simp add: agree_def)

lemma agree_trans: "agree X D E \<Longrightarrow> agree X E F \<Longrightarrow> agree X D F"
  by (simp add: agree_def)

lemma agree_less: "agree X D E \<Longrightarrow> set Y \<subseteq> set X \<Longrightarrow> agree Y D E"
  by (auto simp: agree_def)

lemma include_other:
  assumes "quiet sys" "x \<in> set tested \<or> x \<in> set configured"
  shows "include_all sys fs D x = D x"
  by (induction fs arbitrary: D) (simp_all add: quiet_other [OF assms])

lemma include_append: "include_all sys (fs @ gs) D = include_all sys gs (include_all sys fs D)"
  by (induction fs arbitrary: D) simp_all

abbreviation (input) linux_headers :: "string list" where
  "linux_headers \<equiv> [''stddef.h'', ''string.h'', ''sys/stat.h'', ''sys/types.h'', ''sys/uio.h'', ''unistd.h'', ''sys/socket.h'',
     ''netinet/in.h'', ''unistd.h'', ''arpa/inet.h'', ''inttypes.h'', ''sys/types.h'', ''fcntl.h'', ''errno.h'', ''stdio.h'', ''ctype.h'']"

text \<open>The inclusions: the three headers of libssh2, and then those of the system.\<close>

lemma linux_libssh_headers:
  assumes "quiet sys" "linux D"
  shows "\<exists>D' ps. process libssh2_files sys (Suc (Suc depth)) (take 3 sftpdir_includes) (D, []) = Some (D', ps) \<and>
    agree [''__PRI64_PREFIX'', ''PRIu64'', ''__WORDSIZE'', ''WIN32''] D' (include_all sys (take 6 linux_headers) D) \<and>
    (\<forall>x \<in> set configured. D' x \<noteq> None) \<and> D' ''HAVE_WINSOCK2_H'' = None \<and> headers_of ps = take 6 linux_headers \<and>
    texts_of ps = [] \<and>
    functions_of ps = map fst (session_api @ userauth_api @ channel_api @ scp_api @ knownhost_api @ agent_api @ keepalive_api @ sftp_api)"
proof -
  let ?W = "[''__PRI64_PREFIX'', ''PRIu64'', ''__WORDSIZE'', ''WIN32'']"
  obtain D1 where 1: "process libssh2_files sys (Suc depth) libssh2_config_h (D, []) = Some (D1, [])" "linux D1"
      "\<And>x. x \<in> set configured \<Longrightarrow> D1 x \<noteq> None" "agree ?W D1 D"
    using linux_config [OF assms(2), of sys "Suc depth" "[]"] by blast
  have "D1 ''HAVE_SYS_UIO_H'' \<noteq> None"
    by (intro 1(3)) (simp add: configured_def)
  from linux_header [where D = D1, OF assms(1) 1(2) this, of "Suc depth" "[]"] obtain D2 ps where
    2: "process libssh2_files sys (Suc depth) libssh2_h (D1, []) = Some (D2, ps)" "D2 ''LIBSSH2_H'' \<noteq> None"
      "agree watched D2 (include_all sys (take 5 linux_headers) D1)" "headers_of ps = take 5 linux_headers"
      "functions_of ps = functions_of (kept h_rest)" "texts_of ps = []"
    by auto
  have watch: "D2 x = D1 x" if "x \<in> set watched" "x \<in> set tested \<or> x \<in> set configured" for x
    using agree_at [OF 2(3) that(1)] include_other [OF assms(1) that(2)] by (rule trans)
  have "D2 ''LIBSSH2_SFTP_H'' = None" "D2 ''WIN32'' = None" "D2 ''__cplusplus'' = None"
    using linux_none [OF 1(2)] by (simp_all add: watch watched_def tested_def)
  from linux_sftp_header [where D = D2, OF assms(1) 2(2) this, of depth ps] obtain D3 qs where
    3: "process libssh2_files sys (Suc depth) libssh2_sftp_h (D2, ps) = Some (D3, ps @ qs)"
      "agree (tl watched) D3 (define_macros (sys ''unistd.h'') D2)" "headers_of qs = [''unistd.h'']"
      "functions_of qs = functions_of (kept (sftp_types @ sftp_modes @ sftp_functions))" "texts_of qs = []"
    by blast
  have same: "D3 x = D1 x" if "x \<in> set (tl watched)" "x \<in> set tested \<or> x \<in> set configured" for x
    using agree_at [OF 3(2) that(1)] quiet_other [OF assms(1) that(2)] watch [of x] that by (simp add: watched_def)
  have "\<forall>x \<in> set configured. D3 x \<noteq> None" "D3 ''HAVE_WINSOCK2_H'' = None"
    using 1(3) linux_none(19) [OF 1(2)] by (auto simp: same watched_def tested_def)
  moreover have "libssh2_files ''libssh2_config.h'' = Some libssh2_config_h" "libssh2_files ''libssh2.h'' = Some libssh2_h"
      "libssh2_files ''libssh2_sftp.h'' = Some libssh2_sftp_h"
      "take 3 sftpdir_includes = [Include ''libssh2_config.h'', Include ''libssh2.h'', Include ''libssh2_sftp.h'']"
    by (simp_all add: libssh2_files_def sftpdir_includes_def)
  then have "process libssh2_files sys (Suc (Suc depth)) (take 3 sftpdir_includes) (D, []) = Some (D3, ps @ qs)"
    by (simp only: process.simps 1(1) 2(1) 3(1) option.case nat.case)
  moreover have "agree ?W D2 (include_all sys (take 5 linux_headers) D)"
    using agree_less [OF 2(3)] agree_include [OF 1(4)] by (rule agree_trans) (simp add: watched_def)
  then have "agree ?W D3 (include_all sys (take 6 linux_headers) D)"
    using agree_less [OF 3(2), of ?W] by (auto simp: watched_def intro: agree_trans agree_macros)
  ultimately show ?thesis
    using 2(4-6) 3(3-5) by (intro exI [of _ D3] exI [of _ "ps @ qs"]) (simp add: declared_functions)
qed

lemma linux_system_headers:
  assumes "quiet sys" "\<forall>x \<in> set configured. D x \<noteq> None" "D ''HAVE_WINSOCK2_H'' = None"
  shows "process libssh2_files sys depth (drop 3 sftpdir_includes) (D, out) =
      Some (include_all sys (drop 6 linux_headers) D, out @ map Header (drop 6 linux_headers))"
  using assms(2,3) quiet_other [OF assms(1)]
  by (auto simp: sftpdir_includes_def libssh2_files_def tested_def configured_def)

lemma linux_includes:
  assumes "quiet sys" "linux D"
  shows "\<exists>D' ps. process libssh2_files sys (Suc (Suc depth)) sftpdir_includes (D, []) = Some (D', ps) \<and>
    agree [''__PRI64_PREFIX'', ''PRIu64'', ''__WORDSIZE'', ''WIN32''] D' (include_all sys linux_headers D) \<and> headers_of ps = linux_headers \<and> texts_of ps = [] \<and>
    functions_of ps = map fst (session_api @ userauth_api @ channel_api @ scp_api @ knownhost_api @ agent_api @ keepalive_api @ sftp_api)"
proof -
  from linux_libssh_headers [OF assms, of depth] obtain D3 ps where
    1: "process libssh2_files sys (Suc (Suc depth)) (take 3 sftpdir_includes) (D, []) = Some (D3, ps)"
      "agree [''__PRI64_PREFIX'', ''PRIu64'', ''__WORDSIZE'', ''WIN32''] D3 (include_all sys (take 6 linux_headers) D)"
      "\<forall>x \<in> set configured. D3 x \<noteq> None" "D3 ''HAVE_WINSOCK2_H'' = None" "headers_of ps = take 6 linux_headers" "texts_of ps = []"
      "functions_of ps = map fst (session_api @ userauth_api @ channel_api @ scp_api @ knownhost_api @ agent_api @ keepalive_api @ sftp_api)"
    by blast
  note 2 = linux_system_headers [OF assms(1) 1(3,4), of "Suc (Suc depth)" ps]
  define hs where "hs = map Header (drop 6 linux_headers)"
  have "process libssh2_files sys (Suc (Suc depth)) (take 3 sftpdir_includes @ drop 3 sftpdir_includes) (D, []) =
      Some (include_all sys (drop 6 linux_headers) D3, ps @ hs)"
    by (simp only: process_append 1(1) 2 option.case hs_def)
  then have run: "process libssh2_files sys (Suc (Suc depth)) sftpdir_includes (D, []) =
      Some (include_all sys (drop 6 linux_headers) D3, ps @ hs)"
    by (simp only: append_take_drop_id)
  have "agree [''__PRI64_PREFIX'', ''PRIu64'', ''__WORDSIZE'', ''WIN32''] (include_all sys (drop 6 linux_headers) D3)
      (include_all sys (drop 6 linux_headers) (include_all sys (take 6 linux_headers) D))"
    by (rule agree_include [OF 1(2)])
  then have near: "agree [''__PRI64_PREFIX'', ''PRIu64'', ''__WORDSIZE'', ''WIN32''] (include_all sys (drop 6 linux_headers) D3) (include_all sys linux_headers D)"
    by (simp only: include_append [symmetric] append_take_drop_id)
  show ?thesis
  proof (intro exI conjI)
    show "process libssh2_files sys (Suc (Suc depth)) sftpdir_includes (D, []) =
        Some (include_all sys (drop 6 linux_headers) D3, ps @ hs)"
      by (rule run)
  qed (use near 1(5-7) in \<open>simp_all add: hs_def\<close>)
qed

text \<open>C23: On Linux, with the configuration and the headers beside \<open>sftpdir.c\<close>, and whatever the system headers define apart from the
  names that libssh2 tests, the preprocessor gets through all inclusions, two levels deep.  The system headers are included in
  the order of the configuration; the functions of \<open>libssh2.h\<close> and \<open>libssh2_sftp.h\<close> are declared once although
  \<open>libssh2_sftp.h\<close> includes \<open>libssh2.h\<close> again; \<open>main\<close> neither starts Winsock nor closes with \<open>closesocket\<close>.  Where the system
  headers leave \<open>PRIu64\<close> or its prefix undefined, the file completes them by the word size, and never overrides them.\<close>

theorem sftpdir_on_linux:
  assumes "quiet sys" "linux D"
  shows "\<exists>D' out. process libssh2_files sys (Suc (Suc depth)) sftpdir_c (D, []) = Some (D', out) \<and>
    headers_of out = linux_headers \<and> texts_of out = [''close(sock);''] \<and>
    functions_of out = map fst (session_api @ userauth_api @ channel_api @ scp_api @ knownhost_api @ agent_api @ keepalive_api @ sftp_api) \<and>
    (let E = include_all sys linux_headers D in
       D' ''__PRI64_PREFIX'' = Some (case E ''__PRI64_PREFIX'' of Some t \<Rightarrow> t
         | None \<Rightarrow> if macro_value E ''__WORDSIZE'' = 64 then ''\"l\"'' else ''\"ll\"'') \<and>
       D' ''PRIu64'' = Some (case E ''PRIu64'' of Some t \<Rightarrow> t | None \<Rightarrow> ''__PRI64_PREFIX \"u\"''))"
proof -
  define E where "E = include_all sys linux_headers D"
  from linux_includes [OF assms, of depth] obtain D1 ps where
    1: "process libssh2_files sys (Suc (Suc depth)) sftpdir_includes (D, []) = Some (D1, ps)"
      "agree [''__PRI64_PREFIX'', ''PRIu64'', ''__WORDSIZE'', ''WIN32''] D1 E" "headers_of ps = linux_headers" "texts_of ps = []"
      "functions_of ps = map fst (session_api @ userauth_api @ channel_api @ scp_api @ knownhost_api @ agent_api @ keepalive_api @ sftp_api)"
    unfolding E_def by blast
  have "E ''WIN32'' = D ''WIN32''"
    unfolding E_def by (rule include_other [OF assms(1)]) (simp add: tested_def)
  then have eqs: "D1 ''WIN32'' = None" "D1 ''__PRI64_PREFIX'' = E ''__PRI64_PREFIX''" "D1 ''PRIu64'' = E ''PRIu64''"
      "macro_value D1 ''__WORDSIZE'' = macro_value E ''__WORDSIZE''"
    using 1(2) linux_none(6) [OF assms(2)] by (simp_all add: agree_def macro_value_def)
  have "\<exists>D'. process libssh2_files sys (Suc (Suc depth)) (sftpdir_format @ sftpdir_start @ sftpdir_close) (D1, ps) =
      Some (D', ps @ [Text ''close(sock);'']) \<and>
      D' ''__PRI64_PREFIX'' = Some (case E ''__PRI64_PREFIX'' of Some t \<Rightarrow> t
         | None \<Rightarrow> if macro_value E ''__WORDSIZE'' = 64 then ''\"l\"'' else ''\"ll\"'') \<and>
      D' ''PRIu64'' = Some (case E ''PRIu64'' of Some t \<Rightarrow> t | None \<Rightarrow> ''__PRI64_PREFIX \"u\"'')"
    by (cases "E ''__PRI64_PREFIX''"; cases "E ''PRIu64''")
      (simp_all add: sftpdir_format_def sftpdir_start_def sftpdir_close_def eqs)
  then obtain D' where D': "process libssh2_files sys (Suc (Suc depth)) (sftpdir_format @ sftpdir_start @ sftpdir_close) (D1, ps) =
      Some (D', ps @ [Text ''close(sock);''])"
      "D' ''__PRI64_PREFIX'' = Some (case E ''__PRI64_PREFIX'' of Some t \<Rightarrow> t
         | None \<Rightarrow> if macro_value E ''__WORDSIZE'' = 64 then ''\"l\"'' else ''\"ll\"'')"
      "D' ''PRIu64'' = Some (case E ''PRIu64'' of Some t \<Rightarrow> t | None \<Rightarrow> ''__PRI64_PREFIX \"u\"'')"
    by blast
  show ?thesis
  proof (intro exI conjI)
    show "process libssh2_files sys (Suc (Suc depth)) sftpdir_c (D, []) = Some (D', ps @ [Text ''close(sock);''])"
      unfolding sftpdir_c_def process_append [of _ _ _ sftpdir_includes] using 1(1) D'(1) by simp
    show "functions_of (ps @ [Text ''close(sock);'']) =
        map fst (session_api @ userauth_api @ channel_api @ scp_api @ knownhost_api @ agent_api @ keepalive_api @ sftp_api)"
      using 1(5) by simp
  qed (use 1(3,4) D'(2,3) in \<open>simp_all only: headers_of_append texts_of_append headers_of.simps texts_of.simps append_Nil append_Nil2 Let_def E_def [symmetric] simp_thms\<close>)
qed

theorem sftpdir_on_linux_witness:
  "\<exists>D' out. process libssh2_files (\<lambda>_. []) 2 sftpdir_c ([''__WORDSIZE'' \<mapsto> ''64''], []) = Some (D', out) \<and>
    texts_of out = [''close(sock);''] \<and> length (headers_of out) = 16 \<and>
    D' ''__PRI64_PREFIX'' = Some ''\"l\"'' \<and> D' ''PRIu64'' = Some ''__PRI64_PREFIX \"u\"''"
proof -
  have "quiet (\<lambda>_. [])" "linux [''__WORDSIZE'' \<mapsto> ''64'']"
    by (simp_all add: quiet_def linux_def tested_def)
  note run = sftpdir_on_linux [OF this, of 0]
  have "digits_value 0 ''64'' = 64"
    by code_simp
  then have "macro_value [''__WORDSIZE'' \<mapsto> ''64''] ''__WORDSIZE'' = 64"
    by (simp add: macro_value_def)
  with run show ?thesis
    by (auto simp: numeral_2_eq_2)
qed

end
