(* ===== verification/Processes.thy ===== *)
theory Processes
  imports CIO
begin

text \<open>
  Programs about processes and their resources: \<open>ambient/main.c\<close> raises ambient capabilities and executes a
  program, \<open>filefds/main.c\<close> counts open descriptors, \<open>malloc/main.c\<close> fills a large block,
  \<open>sched/sched.c\<close> runs under a scheduling policy until a signal, \<open>setrlimit/main.c\<close> changes a limit.
\<close>

datatype pcall =
    Realloc nat | CapngGet | CapngUpdate int | CapngApply | PrctlAmbient int | Execv string "string list"
  | Getrlimit | Setrlimit u64 u64 | OpendirFd int | Readdir | Closedir | FcntlGetfd int
  | Getchar | Malloc nat | Free int | PSleep int
  | Sigaction int | PGetPid | SchedGet int | SchedSet int int int | ReadExit | SystemStatus int

type_synonym p_os = "pcall os"
type_synonym 'a p_prog = "(pcall, 'a) prog"

subsection \<open>\<open>ambient\<close>\<close>

text \<open>\<open>strtok\<close> with a comma: the maximal pieces without a comma.\<close>

fun tokens_from :: "string \<Rightarrow> string \<Rightarrow> string list" where
  "tokens_from tok [] = (if tok = [] then [] else [tok])"
| "tokens_from tok (c # cs) =
    (if c = CHR '','' then (if tok = [] then tokens_from [] cs else tok # tokens_from [] cs)
     else tokens_from (tok @ [c]) cs)"

definition strtok_tokens :: "string \<Rightarrow> string list" where
  "strtok_tokens s = tokens_from [] s"

text \<open>The loop of \<open>get_caplist\<close>: \<open>list\<close> is empty for \<open>NULL\<close> and else ends with -1; \<open>None\<close> is the exit after a
  failed \<open>realloc\<close>.\<close>

fun get_caplist_loop :: "p_os \<Rightarrow> string list \<Rightarrow> int list \<Rightarrow> int list option p_prog" where
  "get_caplist_loop os [] lst = exit_with (Some lst)"
| "get_caplist_loop os (tok # toks) lst = do {
     let i = max 1 (length lst);
     r \<leftarrow> call os (Realloc ((i + 1) * 4));
     if sys_ret r = 0 then do {
       perror ''out of memory'' r;
       exit_with None
     }
     else get_caplist_loop os toks (take (i - 1) lst @ [atoi tok, - 1])
   }"

definition get_caplist :: "p_os \<Rightarrow> string \<Rightarrow> int list option p_prog" where
  "get_caplist os arg = get_caplist_loop os (strtok_tokens arg) []"

definition default_caplist :: "int list" where
  "default_caplist = [13, 12, 23, - 1]"

text \<open>\<open>Some code\<close> is a call of \<open>exit\<close>.\<close>

definition set_ambient_cap :: "p_os \<Rightarrow> int \<Rightarrow> int option p_prog" where
  "set_ambient_cap os cap = do {
     call os CapngGet;
     r \<leftarrow> call os (CapngUpdate cap);
     if sys_ret r \<noteq> 0 then do {
       printf ''Cannot add inheritable cap\<newline>'' [];
       exit_with (Some 2)
     }
     else do {
       call os CapngApply;
       r \<leftarrow> call os (PrctlAmbient cap);
       if sys_ret r \<noteq> 0 then do {
         perror ''Cannot set ambient cap'' r;
         exit_with (Some 1)
       }
       else exit_with None
     }
   }"

datatype caps_end = CapsDone | CapsExit int | CapsPastEnd

fun ambient_caps :: "p_os \<Rightarrow> int list \<Rightarrow> caps_end p_prog" where
  "ambient_caps os [] = exit_with CapsPastEnd"
| "ambient_caps os (c # cs) =
    (if c = - 1 then exit_with CapsDone
     else do {
       printf ''adding %d to ambient list\<newline>'' [ArgI c];
       r \<leftarrow> set_ambient_cap os c;
       case r of
         Some code \<Rightarrow> exit_with (CapsExit code)
       | None \<Rightarrow> ambient_caps os cs
     })"

definition ambient_usage :: "string \<Rightarrow> outcome p_prog" where
  "ambient_usage me = do {
     printf ''Usage: %s [-c caps] new-program [new-args]\<newline>'' [ArgS me];
     exit_with (Exit 1)
   }"

definition ambient_exec :: "p_os \<Rightarrow> string list \<Rightarrow> int list \<Rightarrow> outcome p_prog" where
  "ambient_exec os cmd caplist = do {
     e \<leftarrow> ambient_caps os caplist;
     case e of
       CapsPastEnd \<Rightarrow> exit_with Undefined
     | CapsExit code \<Rightarrow> exit_with (Exit code)
     | CapsDone \<Rightarrow> do {
         printf ''Ambient forking shell\<newline>'' [];
         r \<leftarrow> call os (Execv (hd cmd) cmd);
         (if sys_ret r \<noteq> 0 then perror ''Cannot exec new-program'' r else exit_with ());
         exit_with (Exit 0)
       }
   }"

definition ambient_main :: "p_os \<Rightarrow> string list \<Rightarrow> outcome p_prog" where
  "ambient_main os argv =
    (if length argv < 2 then ambient_usage (hd argv)
     else if argv ! 1 = ''-c'' then
       (if length argv \<le> 3 then ambient_usage (hd argv)
        else do {
          caps \<leftarrow> get_caplist os (argv ! 2);
          case caps of
            None \<Rightarrow> exit_with (Exit 1)
          | Some lst \<Rightarrow> ambient_exec os (drop 3 argv) (if lst = [] then default_caplist else lst)
        })
     else ambient_exec os (drop 1 argv) default_caplist)"

subsection \<open>\<open>filefds\<close>\<close>

text \<open>The loop over the directory counts the entries whose name does not begin with a point; the name is what
  \<open>readdir\<close> stored.  \<open>fuel\<close> bounds the entries.\<close>

definition d_name :: "sysret \<Rightarrow> string" where
  "d_name r = map (\<lambda>b. char_of (unat b)) (sys_data r)"

fun count_entries :: "p_os \<Rightarrow> int \<Rightarrow> nat \<Rightarrow> int \<Rightarrow> int option p_prog" where
  "count_entries os pid 0 count = exit_with None"
| "count_entries os pid (Suc fuel) count = do {
     r \<leftarrow> call os Readdir;
     if sys_ret r = 0 then exit_with (Some count)
     else if d_name r \<noteq> [] \<and> hd (d_name r) = CHR ''.'' then count_entries os pid fuel count
     else do {
       printf ''Process %d has opend %s file descriptor\<newline>'' [ArgI pid, ArgS (d_name r)];
       count_entries os pid fuel (count + 1)
     }
   }"

text \<open>The two 64-bit numbers that \<open>getrlimit\<close> stores.\<close>

definition rlim_cur :: "sysret \<Rightarrow> u64" where
  "rlim_cur r = word_rcat (rev (take 8 (sys_data r)))"

definition rlim_max :: "sysret \<Rightarrow> u64" where
  "rlim_max r = word_rcat (rev (take 8 (drop 8 (sys_data r))))"

definition count_open_files :: "p_os \<Rightarrow> nat \<Rightarrow> int \<Rightarrow> int option p_prog" where
  "count_open_files os fuel pid = do {
     r \<leftarrow> call os Getrlimit;
     (if sys_ret r = 0 then printf ''Current process file descriptor limits: soft=%lld, hard=%lld\<newline>''
        [ArgI (sint (rlim_cur r)), ArgI (sint (rlim_max r))]
      else perror ''getrlimit failed'' r);
     r \<leftarrow> call os (OpendirFd pid);
     if sys_ret r = 0 then do {
       perror ''opendir failed'' r;
       exit_with (Some (- 1))
     }
     else do {
       count \<leftarrow> count_entries os pid fuel 0;
       case count of
         None \<Rightarrow> exit_with None
       | Some n \<Rightarrow> do {
           call os Closedir;
           exit_with (Some n)
         }
     }
   }"

text \<open>\<open>count_open_files_by_fcntl\<close>: the count and what it stores in \<open>*maxfds\<close>, \<open>None\<close> for a null pointer.  The loop
  runs over the descriptors from \<open>fd\<close>, with \<open>n\<close> left.\<close>

fun fcntl_loop :: "p_os \<Rightarrow> int \<Rightarrow> nat \<Rightarrow> int \<Rightarrow> int p_prog" where
  "fcntl_loop os fd 0 count = exit_with count"
| "fcntl_loop os fd (Suc n) count = do {
     r \<leftarrow> call os (FcntlGetfd fd);
     fcntl_loop os (fd + 1) n (if sys_ret r \<noteq> - 1 \<or> sys_errno r \<noteq> 9 then count + 1 else count)
   }"

definition count_open_files_by_fcntl :: "p_os \<Rightarrow> bool \<Rightarrow> (int \<times> int option) p_prog" where
  "count_open_files_by_fcntl os has_maxfds = do {
     r \<leftarrow> call os Getrlimit;
     if sys_ret r = - 1 then exit_with (0xFFFFF, if has_maxfds then Some 0xFFFFF else None)
     else do {
       let limit = sint (ucast (rlim_cur r) :: u32);
       count \<leftarrow> fcntl_loop os 0 (nat limit) 0;
       exit_with (count, if has_maxfds then Some limit else None)
     }
   }"


subsection \<open>\<open>malloc\<close>\<close>

text \<open>\<open>readAnyKey\<close> reads up to a newline or the end of the input; \<open>fuel\<close> bounds the characters.\<close>

fun readAnyKey :: "p_os \<Rightarrow> nat \<Rightarrow> bool p_prog" where
  "readAnyKey os 0 = exit_with False"
| "readAnyKey os (Suc fuel) = do {
     r \<leftarrow> call os Getchar;
     if sys_ret r \<noteq> 10 \<and> sys_ret r \<noteq> - 1 then readAnyKey os fuel else exit_with True
   }"

definition nBigSize :: nat where
  "nBigSize = 1 * 1024 * 1024 * 1024"

definition chunk :: nat where
  "chunk = 100 * 1024 * 1024"

text \<open>The inner loop on a block of \<open>size\<close> bytes: \<open>cursor\<close> is an offset in the block and \<open>mem\<close> its contents.\<close>

function fill_chunk :: "nat \<Rightarrow> nat \<Rightarrow> nat \<Rightarrow> (nat \<Rightarrow> u8) \<Rightarrow> nat \<times> (nat \<Rightarrow> u8)" where
  "fill_chunk sz i cursor mem =
    (if i < chunk \<and> cursor < sz then fill_chunk sz (i + 1) (cursor + 1) (mem(cursor := of_nat i))
     else (cursor, mem))"
  by pat_completeness auto
termination
  by (relation "measure (\<lambda>(sz, i, cursor, mem). sz - cursor)") auto

declare fill_chunk.simps [simp del]

lemma fill_chunk_cursor: "i \<le> chunk \<Longrightarrow> cursor \<le> sz \<Longrightarrow>
    fst (fill_chunk sz i cursor mem) = min (cursor + (chunk - i)) sz"
  by (induction sz i cursor mem rule: fill_chunk.induct) (subst fill_chunk.simps, auto)

lemma fill_progress: "cursor < sz \<Longrightarrow> cursor < fst (fill_chunk sz 0 cursor mem)"
  by (simp add: fill_chunk_cursor) (simp add: chunk_def)

function fill_loop ::
    "p_os \<Rightarrow> int \<Rightarrow> int \<Rightarrow> nat \<Rightarrow> nat \<Rightarrow> (nat \<Rightarrow> u8) \<Rightarrow> (nat \<Rightarrow> u8) p_prog" where
  "fill_loop os pbBigMem sleeptime sz cursor mem =
    (let (cursor', mem) = fill_chunk sz 0 cursor mem in do {
       printf ''The RES statistic is changed after the memory is really scaned one by one, cursor: %p\<newline>''
         [ArgI (pbBigMem + int cursor')];
       call os (PSleep sleeptime);
       if cursor' < sz then fill_loop os pbBigMem sleeptime sz cursor' mem else exit_with mem
     })"
  by pat_completeness auto
termination
proof (relation "measure (\<lambda>(os, p, t, sz, cursor, mem). sz - cursor)", goal_cases)
  case (2 os p t sz cursor mem x cursor' mem')
  then have fst: "cursor' = fst (fill_chunk sz 0 cursor mem)"
    by (metis fst_conv)
  have "cursor < sz"
    using 2(3) unfolding fst by (rule contrapos_pp) (simp add: fill_chunk.simps [of sz 0 cursor])
  then show ?case
    using 2(3) fill_progress [of cursor sz mem] by (simp flip: fst)
qed simp

declare fill_loop.simps [simp del]

definition malloc_main :: "p_os \<Rightarrow> nat \<Rightarrow> (nat \<Rightarrow> u8) \<Rightarrow> string list \<Rightarrow> outcome p_prog" where
  "malloc_main os fuel mem argv = do {
     printf ''Hello world!\<newline>To see the `top` command memory statistics!\<newline>\<newline>'' [];
     let sleeptime = (if length argv > 1 then atoi (argv ! 1) else 3);
     printf ''Using sleeptime: %d argument to watch the incresing RES(physical) statistic\<newline>But the VIRT statistic keeps unchanged after malloc\<newline>\<newline>'' [ArgI sleeptime];
     printf ''You can see the program's VIRT&RES&%%MEM statistics using `top` command\<newline>\<newline>The initial VIRT&RES statistics must be small\<newline>Enter any key to continue to malloc a big memory area ...\<newline>'' [];
     ok \<leftarrow> readAnyKey os fuel;
     if \<not> ok then exit_with Running
     else do {
       r \<leftarrow> call os (Malloc nBigSize);
       if sys_ret r = 0 then do {
         perror ''Malloc a big memory'' r;
         exit_with (Exit (- 1))
       }
       else do {
         printf ''\<newline>The VIRT statistic is changed after malloc\<newline>'' [];
         mem \<leftarrow> fill_loop os (sys_ret r) sleeptime nBigSize 0 mem;
         call os (Free (sys_ret r));
         printf ''You can see the program's VIRT&RES statistics changed after big memroy freed\<newline>Enter any key to exit ...\<newline>'' [];
         ok \<leftarrow> readAnyKey os fuel;
         if \<not> ok then exit_with Running
         else do {
           printf ''\<newline>\<newline>Exit from program !\<newline>'' [];
           exit_with (Exit 0)
         }
       }
     }
   }"

subsection \<open>\<open>sched\<close>\<close>

text \<open>\<open>g_exit\<close> is set by the handler of \<open>SIGINT\<close> and \<open>SIGTERM\<close>: a read of it is answered by the environment.  The
  loop counts in 64 bits; \<open>fuel\<close> bounds its rounds.\<close>

fun sched_options :: "string \<Rightarrow> optres list \<Rightarrow> int \<Rightarrow> int option p_prog" where
  "sched_options argv0 [] policy = exit_with (Some policy)"
| "sched_options argv0 (OptErr # opts) policy = do {
     eprintf ''Usage: %s [-r --SCHED_RR] [-b --SCHED_BATCH] \<newline>'' [ArgS argv0];
     exit_with None
   }"
| "sched_options argv0 (Opt c optarg # opts) policy =
    (if c = CHR ''r'' then sched_options argv0 opts 2
     else if c = CHR ''b'' then sched_options argv0 opts 3
     else do {
       eprintf ''Usage: %s [-r --SCHED_RR] [-b --SCHED_BATCH] \<newline>'' [ArgS argv0];
       exit_with None
     })"

fun sched_spin :: "p_os \<Rightarrow> nat \<Rightarrow> u64 \<Rightarrow> u64 option p_prog" where
  "sched_spin os 0 count = exit_with None"
| "sched_spin os (Suc fuel) count = do {
     r \<leftarrow> call os ReadExit;
     if sys_ret r = 0 then sched_spin os fuel (count + 1) else exit_with (Some count)
   }"

definition sched_main :: "p_os \<Rightarrow> nat \<Rightarrow> string list \<Rightarrow> outcome p_prog" where
  "sched_main os fuel argv = do {
     call os (Sigaction 2);
     call os (Sigaction 15);
     r \<leftarrow> call os PGetPid;
     let pid = sys_ret r;
     pol \<leftarrow> call os (SchedGet pid);
     printf ''pid: %d, policy: %d\<newline>'' [ArgI pid, ArgI (sys_ret pol)];
     parsed \<leftarrow> sched_options (hd argv) (fst (getopt ''rb'' (tl argv))) (- 1);
     case parsed of
       None \<Rightarrow> exit_with (Exit 1)
     | Some policy \<Rightarrow> do {
         (if policy \<noteq> - 1 then do {
            r \<leftarrow> call os (SchedSet pid policy (if policy = 2 then 1 else 0));
            if sys_ret r < 0 then
              eprintf ''sched_setscheduler fail, errno: %d, %s'' [ArgI (sys_errno r), ArgErr (sys_errno r)]
            else do {
              pol \<leftarrow> call os (SchedGet pid);
              printf ''after set thread policy: %d\<newline>'' [ArgI (sys_ret pol)]
            }
          }
          else exit_with ());
         printf ''can see cat /proc/%d/status to see the context switch\<newline>'' [ArgI pid];
         count \<leftarrow> sched_spin os fuel 0;
         case count of
           None \<Rightarrow> exit_with Running
         | Some _ \<Rightarrow> do {
             printf ''cat cat /proc/%d/status to see the context switch result\<newline>'' [ArgI pid];
             call os (SystemStatus pid);
             exit_with (Exit 0)
           }
       }
   }"

subsection \<open>\<open>setrlimit\<close>\<close>

definition setrlimit_main :: "p_os \<Rightarrow> outcome p_prog" where
  "setrlimit_main os = do {
     r \<leftarrow> call os Getrlimit;
     if sys_ret r = - 1 then do { perror ''getrlimit'' r; exit_with (Exit 1) }
     else do {
       printf ''soft limit: %ld\<newline>'' [ArgI (sint (rlim_cur r))];
       printf ''hard limit: %ld\<newline>'' [ArgI (sint (rlim_max r))];
       r \<leftarrow> call os (Setrlimit 7024 65535);
       if sys_ret r = - 1 then do { perror ''setrlimit'' r; exit_with (Exit 1) }
       else do {
         r \<leftarrow> call os Getrlimit;
         if sys_ret r = - 1 then do { perror ''getrlimit'' r; exit_with (Exit 1) }
         else do {
           printf ''after setted, soft limit: %ld\<newline>'' [ArgI (sint (rlim_cur r))];
           printf ''after setted, hard limit: %ld\<newline>'' [ArgI (sint (rlim_max r))];
           exit_with (Exit 0)
         }
       }
     }
   }"


subsection \<open>Ambient capabilities\<close>

text \<open>
  The monitor of the capabilities: they are raised in the order of \<open>caps\<close>, each once, and the program is
  executed only after all of them.
\<close>

fun amb_step :: "int list \<Rightarrow> pcall \<Rightarrow> sysret \<Rightarrow> nat \<Rightarrow> nat option" where
  "amb_step caps (PrctlAmbient c) r k = (if k < length caps \<and> caps ! k = c then Some (Suc k) else None)"
| "amb_step caps (Execv path args) r k = (if k = length caps then Some k else None)"
| "amb_step caps c r k = Some k"

definition caps_of :: "string list \<Rightarrow> int list" where
  "caps_of argv =
    (let toks = (if 3 < length argv \<and> argv ! 1 = ''-c'' then strtok_tokens (argv ! 2) else [])
     in if toks = [] then [13, 12, 23] else takeWhile (\<lambda>c. c \<noteq> - 1) (map atoi toks))"

text \<open>\<open>get_caplist\<close> returns the numbers of the tokens and the terminator.\<close>

lemma wp_get_caplist_loop:
  assumes "\<And>k. Q None k"
    and "toks = [] \<Longrightarrow> Q (Some lst) k"
    and "toks \<noteq> [] \<Longrightarrow> Q (Some (take (max 1 (length lst) - 1) lst @ map atoi toks @ [- 1])) k"
  shows "wp (amb_step caps) (get_caplist_loop os toks lst) Q k"
  using assms
proof (induction toks arbitrary: lst)
  case Nil
  then show ?case by (simp add: wp_return)
next
  case (Cons tok toks)
  let ?lst = "take (max 1 (length lst) - 1) lst @ [atoi tok, - 1]"
  have "take (max 1 (length ?lst) - 1) ?lst = take (max 1 (length lst) - 1) lst @ [atoi tok]"
    by auto
  then have "wp (amb_step caps) (get_caplist_loop os toks ?lst) Q k"
    using Cons.prems by (intro Cons.IH) auto
  then show ?case
    unfolding get_caplist_loop.simps Let_def
    by (intro wp_rules wp_call) (auto intro!: wp_rules Cons.prems(1))
qed

lemma wp_set_ambient_cap:
  assumes "k < length caps" "caps ! k = c" "\<And>code j. Q (Some code) j" "Q None (Suc k)"
  shows "wp (amb_step caps) (set_ambient_cap os c) Q k"
  unfolding set_ambient_cap_def using assms by (auto intro!: wp_rules wp_call)

lemma wp_ambient_caps:
  assumes "drop k caps = takeWhile (\<lambda>c. c \<noteq> - 1) cs" "- 1 \<in> set cs" "k \<le> length caps"
    and "Q CapsDone (length caps)" "\<And>code j. Q (CapsExit code) j"
  shows "wp (amb_step caps) (ambient_caps os cs) Q k"
  using assms(1-3)
proof (induction cs arbitrary: k)
  case (Cons c cs)
  show ?case
  proof (cases "c = - 1")
    case True
    then show ?thesis
      using Cons.prems assms(4) by (simp add: wp_return)
  next
    case False
    with Cons.prems have "drop k caps = c # takeWhile (\<lambda>c. c \<noteq> - 1) cs"
      by simp
    then have k: "k < length caps" "caps ! k = c" "drop (Suc k) caps = takeWhile (\<lambda>c. c \<noteq> - 1) cs"
      using Cons.prems(3) by (auto simp: drop_Suc drop_tl intro!: le_neq_implies_less)
        (metis nth_via_drop)
    then have "wp (amb_step caps) (ambient_caps os cs) Q (Suc k)"
      using Cons.prems(2) False by (intro Cons.IH) auto
    then show ?thesis
      using False k assms(5) by (auto intro!: wp_rules wp_set_ambient_cap)
  qed
qed simp

lemma wp_ambient_exec:
  assumes "caps = takeWhile (\<lambda>c. c \<noteq> - 1) cs" "- 1 \<in> set cs" "\<And>code j. Q (Exit code) j"
  shows "wp (amb_step caps) (ambient_exec os cmd cs) Q 0"
  unfolding ambient_exec_def
  by (intro wp_bind wp_ambient_caps) (use assms in \<open>auto intro!: wp_rules wp_call\<close>)



subsection \<open>Open descriptors\<close>

text \<open>What \<open>fcntl(fd, F_GETFD)\<close> is documented to tell: it fails with \<open>EBADF\<close> exactly on descriptors that are not
  open.\<close>

definition fcntl_law :: "p_os \<Rightarrow> int set \<Rightarrow> bool" where
  "fcntl_law os fds \<longleftrightarrow>
    (\<forall>h fd. (sys_ret (os h (FcntlGetfd fd)) = - 1 \<and> sys_errno (os h (FcntlGetfd fd)) = 9) \<longleftrightarrow> fd \<notin> fds)"

lemma fcntl_loop_counts:
  assumes "fcntl_law os fds"
  shows "result (fcntl_loop os fd n c) h = c + int (card (fds \<inter> {fd..<fd + int n}))"
proof (induction n arbitrary: fd c h)
  case (Suc n)
  have "{fd..<fd + int (Suc n)} = insert fd {fd + 1..<fd + 1 + int n}"
    by auto
  then have cut: "fds \<inter> {fd..<fd + int (Suc n)} =
      (if fd \<in> fds then insert fd (fds \<inter> {fd + 1..<fd + 1 + int n}) else fds \<inter> {fd + 1..<fd + 1 + int n})"
    by (simp only: Int_insert_right)
  have "sys_ret (os h (FcntlGetfd fd)) \<noteq> - 1 \<or> sys_errno (os h (FcntlGetfd fd)) \<noteq> 9 \<longleftrightarrow> fd \<in> fds"
    using assms unfolding fcntl_law_def by blast
  then show ?case
    by (simp add: result_bind Suc cut del: of_nat_Suc)
qed simp

text \<open>\<open>count_open_files_by_fcntl\<close> returns the number of open descriptors below the soft limit and stores the
  limit, both as \<open>int\<close>; when the limit cannot be read both are 0xFFFFF.\<close>

theorem fcntl_count:
  assumes "fcntl_law os fds"
  shows "result (count_open_files_by_fcntl os p) h =
    (let r = os h Getrlimit; limit = sint (ucast (rlim_cur r) :: u32)
     in if sys_ret r = - 1 then (0xFFFFF, if p then Some 0xFFFFF else None)
        else (int (card (fds \<inter> {0..<limit})), if p then Some limit else None))"
  unfolding count_open_files_by_fcntl_def
  by (simp add: result_bind final_bind fcntl_loop_counts [OF assms] Let_def)

theorem fcntl_count_witness:
  "let os = (\<lambda>h c. \<lparr>sys_ret = (case c of FcntlGetfd fd \<Rightarrow> if fd \<in> {0, 1, 2} then 0 else - 1 | _ \<Rightarrow> 0),
       sys_errno = 9, sys_data = [16, 0, 0, 0, 0, 0, 0, 0], sys_addr = []\<rparr>)
   in fcntl_law os {0, 1, 2} \<and> result (count_open_files_by_fcntl os True) [] = (3, Some 16)"
proof -
  define os :: p_os where "os = (\<lambda>h c. \<lparr>sys_ret = (case c of FcntlGetfd fd \<Rightarrow> if fd \<in> {0, 1, 2} then 0 else - 1 | _ \<Rightarrow> 0),
       sys_errno = 9, sys_data = [16, 0, 0, 0, 0, 0, 0, 0], sys_addr = []\<rparr>)"
  have law: "fcntl_law os {0, 1, 2}"
    by (simp add: fcntl_law_def os_def)
  have limit: "sint (ucast (rlim_cur (os [] Getrlimit)) :: u32) = 16"
    by (simp add: rlim_cur_def os_def word_rcat_def)
  have "({0, 1, 2} \<inter> {0..<16} :: int set) = {0, 1, 2}"
    by auto
  then have "result (count_open_files_by_fcntl os True) [] = (3, Some 16)"
    unfolding fcntl_count [OF law] Let_def limit by (simp add: os_def)
  with law show ?thesis
    unfolding os_def by (simp add: Let_def)
qed

subsection \<open>The filled block\<close>

text \<open>A round fills the block from the cursor on, beginning with 0.\<close>

lemma fill_chunk_mem:
  "i \<le> chunk \<Longrightarrow> cursor \<le> sz \<Longrightarrow>
    snd (fill_chunk sz i cursor mem) x =
      (if cursor \<le> x \<and> x < min (cursor + (chunk - i)) sz then of_nat (i + (x - cursor)) else mem x)"
  by (induction sz i cursor mem rule: fill_chunk.induct) (subst fill_chunk.simps, auto)

fun sleep_step :: "pcall \<Rightarrow> sysret \<Rightarrow> nat \<Rightarrow> nat option" where
  "sleep_step (PSleep t) r k = Some (Suc k)"
| "sleep_step c r k = Some k"

lemma chunk_pos [simp]: "0 < chunk"
  by (simp add: chunk_def)

definition rounds :: "nat \<Rightarrow> nat" where
  "rounds n = (n + chunk - 1) div chunk"

lemma rounds_step:
  "cursor + chunk < sz \<Longrightarrow> rounds (sz - cursor) = Suc (rounds (sz - (cursor + chunk)))"
  "cursor < sz \<Longrightarrow> sz \<le> cursor + chunk \<Longrightarrow> rounds (sz - cursor) = 1"
proof -
  assume less: "cursor + chunk < sz"
  have "sz - cursor + chunk - 1 = (sz - (cursor + chunk) + chunk - 1) + chunk"
    using less chunk_pos by linarith
  then show "rounds (sz - cursor) = Suc (rounds (sz - (cursor + chunk)))"
    unfolding rounds_def
    by (simp only: div_add_self2 [OF less_imp_neq [OF chunk_pos, symmetric]] Suc_eq_plus1)
next
  assume "cursor < sz" "sz \<le> cursor + chunk"
  then have "chunk * 1 \<le> sz - cursor + chunk - 1" "sz - cursor + chunk - 1 < chunk * Suc 1"
    using chunk_pos by simp_all
  then show "rounds (sz - cursor) = 1"
    unfolding rounds_def by (rule div_nat_eqI)
qed

lemma wp_fill_loop:
  assumes "cursor < sz"
  shows "wp sleep_step (fill_loop os p t sz cursor mem)
    (\<lambda>mem' k'. (\<forall>x. mem' x = (if cursor \<le> x \<and> x < sz then of_nat ((x - cursor) mod chunk) else mem x)) \<and>
      k' = k + rounds (sz - cursor)) k"
  using assms
proof (induction "sz - cursor" arbitrary: cursor mem k rule: less_induct)
  case less
  obtain mem1 where chunk: "fill_chunk sz 0 cursor mem = (min (cursor + chunk) sz, mem1)"
    using fill_chunk_cursor [of 0 cursor sz mem] less.prems by (metis diff_zero le0 less_imp_le prod.collapse)
  have mem: "mem1 x = (if cursor \<le> x \<and> x < min (cursor + chunk) sz then of_nat (x - cursor) else mem x)" for x
    using less.prems fill_chunk_mem [of 0 cursor sz mem x] by (simp add: chunk)
  have sleep: "wp sleep_step (call os (PSleep t)) Q k" if "\<And>r. Q r (Suc k)" for Q
    using that by (intro wp_call) simp
  show ?case
  proof (cases "cursor + chunk < sz")
    case True
    then have "wp sleep_step (fill_loop os p t sz (cursor + chunk) mem1)
      (\<lambda>mem' k'. (\<forall>x. mem' x = (if cursor + chunk \<le> x \<and> x < sz then of_nat ((x - (cursor + chunk)) mod chunk) else mem1 x)) \<and>
        k' = Suc k + rounds (sz - (cursor + chunk))) (Suc k)"
      using chunk_pos by (intro less.hyps diff_less_mono2) simp_all
    then have "wp sleep_step (fill_loop os p t sz (cursor + chunk) mem1)
      (\<lambda>mem' k'. (\<forall>x. mem' x = (if cursor \<le> x \<and> x < sz then of_nat ((x - cursor) mod chunk) else mem x)) \<and>
        k' = k + rounds (sz - cursor)) (Suc k)"
      by (rule wp_mono) (use True in \<open>auto simp: rounds_step(1) mem le_mod_geq [of chunk]\<close>)
    then show ?thesis
      using True by (subst fill_loop.simps) (simp add: chunk split del: if_split, intro wp_rules sleep, assumption)
  next
    case False
    then show ?thesis
      using less.prems rounds_step(2) [of cursor sz]
      by (subst fill_loop.simps) (simp add: chunk, intro wp_rules sleep, auto simp: mem)
  qed
qed

text \<open>The loop of \<open>malloc\<close> ends after 11 rounds, each with one sleep; it has then written every byte of the block
  and nothing else, each with the low bits of its index in its round.\<close>

theorem malloc_fills_block:
  "\<exists>mem'. result (fill_loop os p t nBigSize 0 mem) [] = mem' \<and>
    (\<forall>x. mem' x = (if x < nBigSize then of_nat (x mod chunk) else mem x)) \<and>
    monitor sleep_step 0 (final (fill_loop os p t nBigSize 0 mem) []) = Some 11"
proof -
  have rounds: "rounds (nBigSize - 0) = 11" "0 < nBigSize"
    by (simp_all add: rounds_def nBigSize_def chunk_def)
  from wpD [OF wp_fill_loop [OF rounds(2), of os p t mem 0], of 0 "[]"] show ?thesis
    unfolding rounds(1) by simp
qed

lemma sched_ends:
  assumes "\<And>h. n \<le> length (filter (\<lambda>c. c = ReadExit) (calls h)) \<Longrightarrow> sys_ret (os h ReadExit) \<noteq> 0"
  shows "n < fuel + length (filter (\<lambda>c. c = ReadExit) (calls h)) \<Longrightarrow> 0 < fuel \<Longrightarrow>
    result (sched_spin os fuel count) h \<noteq> None"
proof (induction fuel arbitrary: h count)
  case (Suc fuel)
  show ?case
  proof (cases "sys_ret (os h ReadExit) = 0")
    case True
    then have "length (filter (\<lambda>c. c = ReadExit) (calls h)) < n"
      using assms [of h] by (meson not_less)
    with Suc.prems True show ?thesis
      by (simp add: result_bind Suc.IH)
  qed (simp add: result_bind)
qed simp

end
