(* ===== verification/Layout.thy ===== *)
theory Layout
  imports CIO
begin

text \<open>
  Objects in memory: \<open>struct/main.c\<close> (a message header with a flexible tail), \<open>aligned/main.c\<close> (the same
  members packed and not) and \<open>void/voidptr.c\<close> (a packed struct passed in the bytes of a pointer).
  Members have a size and an alignment; a struct is laid out as gcc does on x86-64.
\<close>

unbundle bit_operations_syntax

subsection \<open>Layout of a struct\<close>

type_synonym members = "(string \<times> nat \<times> nat) list"

definition align_up :: "nat \<Rightarrow> nat \<Rightarrow> nat" where
  "align_up a n = (n + a - 1) div a * a"

text \<open>Offsets from \<open>off\<close> on; \<open>pack\<close> bounds the alignment, as \<open>#pragma pack\<close> does.\<close>

fun offsets :: "nat \<Rightarrow> nat \<Rightarrow> members \<Rightarrow> (string \<times> nat) list \<times> nat" where
  "offsets pack off [] = ([], off)"
| "offsets pack off ((n, sz, al) # ms) =
    (let o' = align_up (min al pack) off; (os, e) = offsets pack (o' + sz) ms in ((n, o') # os, e))"

definition struct_align :: "nat \<Rightarrow> members \<Rightarrow> nat" where
  "struct_align pack ms = foldr (\<lambda>(_, _, al). max (min al pack)) ms 1"

definition struct_size :: "nat \<Rightarrow> members \<Rightarrow> nat" where
  "struct_size pack ms = align_up (struct_align pack ms) (snd (offsets pack 0 ms))"

definition member_offset :: "nat \<Rightarrow> members \<Rightarrow> string \<Rightarrow> nat option" where
  "member_offset pack ms n = map_of (fst (offsets pack 0 ms)) n"

abbreviation (input) no_pack :: nat where "no_pack \<equiv> 16"

lemma align_up_props:
  assumes "0 < a"
  shows "n \<le> align_up a n" "a dvd align_up a n" "align_up a n < n + a"
proof -
  have "(n + a - 1) div a * a = n + a - 1 - (n + a - 1) mod a"
    by (simp add: minus_mod_eq_div_mult)
  moreover have "(n + a - 1) mod a < a"
    using assms by simp
  ultimately show "n \<le> align_up a n" "align_up a n < n + a"
    using assms unfolding align_up_def by linarith+
qed (simp add: align_up_def)

text \<open>The members of a laid out struct are aligned, in order, and do not overlap.\<close>

lemma offsets_ordered:
  assumes "\<And>n sz al. (n, sz, al) \<in> set ms \<Longrightarrow> 0 < al" "0 < pack"
  shows "off \<le> snd (offsets pack off ms) \<and>
    list_all2 (\<lambda>(n, sz, al) (n', o'). n' = n \<and> min al pack dvd o' \<and> off \<le> o' \<and> o' + sz \<le> snd (offsets pack off ms))
      ms (fst (offsets pack off ms))"
  using assms(1)
proof (induction ms arbitrary: off)
  case (Cons m ms)
  obtain n sz al where m: "m = (n, sz, al)"
    by (cases m)
  have al: "0 < min al pack"
    using Cons.prems [of n sz al] assms(2) by (simp add: m)
  note up = align_up_props [OF al, of off]
  let ?o = "align_up (min al pack) off"
  have IH: "?o + sz \<le> snd (offsets pack (?o + sz) ms) \<and>
    list_all2 (\<lambda>(n, sz', al) (n', o'). n' = n \<and> min al pack dvd o' \<and> ?o + sz \<le> o' \<and>
      o' + sz' \<le> snd (offsets pack (?o + sz) ms)) ms (fst (offsets pack (?o + sz) ms))"
    by (rule Cons.IH) (use Cons.prems in auto)
  then have "list_all2 (\<lambda>(n, sz', al) (n', o'). n' = n \<and> min al pack dvd o' \<and> off \<le> o' \<and>
      o' + sz' \<le> snd (offsets pack (?o + sz) ms)) ms (fst (offsets pack (?o + sz) ms))"
    using up(1) by (auto elim!: list_all2_mono)
  then show ?case
    using IH up unfolding split_beta' by (simp add: m Let_def split_beta')
qed simp

subsection \<open>\<open>struct\<close>\<close>

definition struct_A :: members where
  "struct_A = [(''type'', 4, 4), (''len'', 4, 4), (''u32StartupID'', 4, 4), (''u32SetupID'', 4, 4),
     (''u32DestroyID'', 4, 4), (''data'', 0, 1)]"

definition struct_B :: members where
  "struct_B = [(''head'', struct_size no_pack struct_A, struct_align no_pack struct_A),
     (''i'', 4, 4), (''j'', 4, 4), (''k'', 4, 4)]"

definition struct_C :: members where
  "struct_C = [(''head'', struct_size no_pack struct_A, struct_align no_pack struct_A),
     (''h'', 4, 4), (''m'', 4, 4), (''n'', 4, 4)]"

text \<open>\<open>union\<close> of the three in \<open>struct Msgs\<close>.\<close>

definition Msgs_size :: nat where
  "Msgs_size = Max (set (map (struct_size no_pack) [struct_A, struct_B, struct_C]))"

definition hello_bytes :: bytes where
  "hello_bytes = map (\<lambda>c. of_nat (of_char c)) ''Hello World!'' @ [0]"

definition m1_bytes :: bytes where
  "m1_bytes = replicate 4 0xFF"

text \<open>What \<open>main\<close> stores in \<open>encodeBuf\<close>: the timer identifiers, the type, and the text twice at the same place, as
  the data of \<open>A\<close> and as the data of the head of \<open>B\<close>; \<open>None\<close> is a store outside the buffer.\<close>

definition struct_encode :: "bytes \<Rightarrow> bytes option" where
  "struct_encode encodeBuf = do {
     m \<leftarrow> store_bytes encodeBuf (the (member_offset no_pack struct_A ''u32StartupID'')) m1_bytes;
     m \<leftarrow> store_bytes m (the (member_offset no_pack struct_A ''u32SetupID'')) m1_bytes;
     m \<leftarrow> store_bytes m (the (member_offset no_pack struct_A ''u32DestroyID'')) m1_bytes;
     m \<leftarrow> store_bytes m (the (member_offset no_pack struct_A ''type'')) [1, 0, 0, 0];
     m \<leftarrow> store_bytes m (the (member_offset no_pack struct_A ''data'')) hello_bytes;
     store_bytes m (the (member_offset no_pack struct_B ''head'') +
       the (member_offset no_pack struct_A ''data'')) hello_bytes
   }"

text \<open>The output of \<open>main\<close> with \<open>f1\<close>, \<open>f2\<close> and \<open>f3\<close>: the types 1, 2 and 3 and the sizes.\<close>

definition struct_main :: "(unit, outcome) prog" where
  "struct_main = do {
     printf ''\<newline>sizeof(A)=%zu, sizeof(A.data)=%zu'' [ArgI (int (struct_size no_pack struct_A)), ArgI 0];
     printf ''Using struct pointer arg type: %u\<newline>'' [ArgI 1];
     printf ''Using struct pointer arg type: %u\<newline>'' [ArgI 2];
     printf ''Using complex struct pointer arg type: %u\<newline>'' [ArgI 3];
     printf ''\<newline>sizeof(B.head)=%zu, sizeof(B)=%zu\<newline>''
       [ArgI (int (struct_size no_pack struct_A)), ArgI (int (struct_size no_pack struct_B))];
     printf ''\<newline>'' [];
     exit_with (Exit 0)
   }"


text \<open>\<open>f4\<close>, which nothing calls: it assigns a zero struct to the first element of its array; \<open>None\<close> is a store
  outside the array.\<close>

definition struct_f4 :: "bytes \<Rightarrow> (unit, bytes option) prog" where
  "struct_f4 atC = do {
     printf ''Using array argument to test struct assignment\<newline>'' [];
     exit_with (store_bytes atC 0 (replicate (struct_size no_pack struct_C) 0))
   }"

text \<open>The stores stay in a buffer of 2048 bytes; the text behind the head of \<open>B\<close> lies over its members.\<close>

lemma struct_layout:
  "struct_size no_pack struct_A = 20" "struct_size no_pack struct_B = 32" "Msgs_size = 32"
  "member_offset no_pack struct_A ''data'' = Some 20" "member_offset no_pack struct_B ''i'' = Some 20"
  by (simp_all add: struct_size_def struct_align_def member_offset_def struct_A_def struct_B_def struct_C_def
      Msgs_size_def align_up_def)

lemma struct_encode_defined:
  assumes "length encodeBuf = 2048"
  shows "\<exists>m. struct_encode encodeBuf = Some m \<and> load_bytes m 20 13 = Some hello_bytes"
proof -
  have offs: "member_offset no_pack struct_A ''u32StartupID'' = Some 8" "member_offset no_pack struct_A ''u32SetupID'' = Some 12"
      "member_offset no_pack struct_A ''u32DestroyID'' = Some 16" "member_offset no_pack struct_A ''type'' = Some 0"
      "member_offset no_pack struct_A ''data'' = Some 20" "member_offset no_pack struct_B ''head'' = Some 0"
    by (simp_all add: struct_size_def struct_align_def member_offset_def struct_A_def struct_B_def align_up_def)
  show ?thesis
    using assms
    by (simp add: struct_encode_def offs store_bytes_def load_bytes_def m1_bytes_def hello_bytes_def)
qed

subsection \<open>\<open>aligned\<close>\<close>

definition aligned_members :: members where
  "aligned_members = [(''u8'', 1, 1), (''u64'', 8, 8)]"

text \<open>The loop on the two members, whatever their place; the argument counts the rounds left.\<close>

fun aligned_loop :: "nat \<Rightarrow> u8 \<times> u64 \<Rightarrow> u8 \<times> u64" where
  "aligned_loop 0 s = s"
| "aligned_loop (Suc i) (u8, u64) = aligned_loop i (u8 + 1, u64 + ucast u8)"

definition aligned_count :: nat where
  "aligned_count = 100000000"

text \<open>The integer part of \<open>getDiff\<close>: microseconds as \<open>unsigned long\<close>.\<close>

definition getDiff_usec :: "int \<times> int \<Rightarrow> int \<times> int \<Rightarrow> u64" where
  "getDiff_usec t0 t1 = word_of_int ((fst t1 - fst t0) * 1000000 + (snd t1 - snd t0))"

lemma aligned_loop_sum:
  "aligned_loop n (b, s) = (b + of_nat n, s + (\<Sum>i<n. ucast (b + of_nat i)))"
proof (induction n arbitrary: b s)
  case (Suc n)
  have "(\<Sum>i<Suc n. ucast (b + of_nat i) :: u64) = ucast b + (\<Sum>i<n. ucast (b + 1 + of_nat i))"
    by (simp add: sum.lessThan_Suc_shift add.assoc del: sum.lessThan_Suc)
  then show ?case
    by (simp add: Suc.IH add.assoc del: sum.lessThan_Suc)
qed simp

lemma sum_mod_256: "(\<Sum>i<256 * q. i mod 256) = q * (32640 :: nat)"
proof (induction q)
  case (Suc q)
  have "(\<Sum>i<256 * Suc q. i mod 256) = (\<Sum>i<256 * q. i mod 256) + (\<Sum>i = 256 * q..<256 * q + 256. i mod 256)"
    by (simp add: sum.atLeastLessThan_concat lessThan_atLeast0 add.commute)
  also have "(\<Sum>i = 256 * q..<256 * q + 256. i mod 256) = (\<Sum>i = 0..<256. (i + 256 * q) mod 256)"
    using sum.shift_bounds_nat_ivl [of "\<lambda>i. i mod 256" 0 "256 * q" 256] by (simp add: add.commute)
  also have "\<dots> = (\<Sum>i = 0..<256. i)"
    by (intro sum.cong) auto
  also have "\<dots> = 32640"
    by (simp add: Sum_Ico_nat)
  finally show ?case
    using Suc by simp
qed simp

text \<open>Packing changes the layout of the two members and not what the loop computes: the struct takes 16 bytes by
  default and 9 packed, its members lie at 0 and 8, and at 0 and 1, and the hundred million rounds leave 0
  in the 8-bit member, which wraps, and 12750000000 in the 64-bit one.\<close>

theorem aligned_result:
  "struct_size no_pack aligned_members = 16 \<and> struct_size 1 aligned_members = 9 \<and>
   fst (offsets no_pack 0 aligned_members) = [(''u8'', 0), (''u64'', 8)] \<and>
   fst (offsets 1 0 aligned_members) = [(''u8'', 0), (''u64'', 1)] \<and>
   aligned_loop aligned_count (0, 0) = (0, 12750000000)"
proof -
  have "(\<Sum>i<aligned_count. ucast (of_nat i :: u8) :: u64) = of_nat (\<Sum>i<aligned_count. i mod 256)"
    unfolding of_nat_sum
    by (intro sum.cong refl word_eq_of_natI) (simp add: unat_ucast_up unat_of_nat)
  also have "(\<Sum>i<aligned_count. i mod 256) = 390625 * 32640"
    using sum_mod_256 [of 390625] by (simp add: aligned_count_def)
  finally have "(\<Sum>i<aligned_count. ucast (of_nat i :: u8) :: u64) = 12750000000"
    by simp
  then have "aligned_loop aligned_count (0, 0) = (0, 12750000000)"
    by (simp add: aligned_loop_sum) (simp add: aligned_count_def)
  then show ?thesis
    by (simp add: struct_size_def struct_align_def aligned_members_def align_up_def)
qed


subsection \<open>\<open>voidptr\<close>\<close>

text \<open>\<open>T_KeyInfo\<close> is packed: a byte, a 16-bit length and a union of five data bytes.  Its eight bytes fill a pointer,
  whose value is the little-endian number of its bytes.\<close>

record T_KeyInfo =
  bType :: u8
  wLen :: u16
  data :: bytes

definition KeyInfo_members :: members where
  "KeyInfo_members = [(''bType'', 1, 1), (''wLen'', 2, 2), (''data'', 5, 4)]"

definition KeyInfo_bytes :: "T_KeyInfo \<Rightarrow> bytes" where
  "KeyInfo_bytes k = [bType k] @ le16 (wLen k) @ data k"

definition KeyInfo_of :: "bytes \<Rightarrow> T_KeyInfo" where
  "KeyInfo_of bs = \<lparr>bType = bs ! 0, wLen = of_le16 (bs ! 1) (bs ! 2), data = take 5 (drop 3 bs)\<rparr>"

definition wData :: "T_KeyInfo \<Rightarrow> u16" where
  "wData k = of_le16 (data k ! 0) (data k ! 1)"

definition set_wData :: "u16 \<Rightarrow> T_KeyInfo \<Rightarrow> T_KeyInfo" where
  "set_wData w k = k\<lparr>data := le16 w @ drop 2 (data k)\<rparr>"

fun pointer_of :: "bytes \<Rightarrow> u64" where
  "pointer_of [] = 0"
| "pointer_of (b # bs) = ucast b OR push_bit 8 (pointer_of bs)"

definition pointer_bytes :: "u64 \<Rightarrow> bytes" where
  "pointer_bytes p = map (\<lambda>i. ucast (drop_bit (8 * i) p)) [0..<8]"

definition voidptr_f :: "u64 \<Rightarrow> (unit, int) prog" where
  "voidptr_f arg = do {
     let tKeyInfo = KeyInfo_of (pointer_bytes arg);
     printf ''Passed arg info: bType: %u, wLen: %u, wData: %u\<newline>''
       [ArgI (uint (bType tKeyInfo)), ArgI (uint (wLen tKeyInfo)), ArgI (uint (wData tKeyInfo))];
     exit_with 0
   }"

text \<open>\<open>f2\<close> has no return statement; its value is stored and not used.\<close>

definition voidptr_main :: "(unit, outcome) prog" where
  "voidptr_main = do {
     printf ''Hello world !\<newline>'' [];
     printf ''Cannot convert to a pointer type from struct type!\<newline>'' [];
     let tKeyInfo = set_wData 60000 \<lparr>bType = 100, wLen = 2, data = replicate 5 0\<rparr>;
     voidptr_f (pointer_of (KeyInfo_bytes tKeyInfo));
     printf ''test no return \<newline>'' [];
     printf ''Exit from program !\<newline>'' [];
     exit_with (Exit 0)
   }"

lemma bit_pointer_of:
  "bit (pointer_of bs) n \<longleftrightarrow> n < 64 \<and> n div 8 < length bs \<and> bit (bs ! (n div 8)) (n mod 8)"
proof (induction bs arbitrary: n)
  case (Cons b bs)
  show ?case
  proof (cases "n < 8")
    case True
    then show ?thesis
      by (auto simp: bit_simps)
  next
    case False
    then have "n div 8 = Suc ((n - 8) div 8)" "n mod 8 = (n - 8) mod 8"
      by (simp_all add: le_div_geq le_mod_geq)
    moreover have "\<not> bit b n"
      using False bit_imp_le_length [of b n] by auto
    ultimately show ?thesis
      using False Cons.IH [of "n - 8"] by (auto simp: bit_simps dest: bit_imp_le_length)
  qed
qed simp

lemma pointer_roundtrip: "length bs = 8 \<Longrightarrow> pointer_bytes (pointer_of bs) = bs"
proof (rule nth_equalityI)
  fix i assume len: "length bs = 8" and "i < length (pointer_bytes (pointer_of bs))"
  then have i: "i < 8"
    by (simp add: pointer_bytes_def)
  show "pointer_bytes (pointer_of bs) ! i = bs ! i"
  proof (rule bit_word_eqI)
    fix j assume "j < LENGTH(8)"
    then have "(8 * i + j) div 8 = i" "(8 * i + j) mod 8 = j" "8 * i + j < 64"
      using i by auto
    then show "bit (pointer_bytes (pointer_of bs) ! i) j = bit (bs ! i) j"
      using i len \<open>j < LENGTH(8)\<close> by (simp add: pointer_bytes_def bit_simps bit_pointer_of)
  qed
qed (simp add: pointer_bytes_def)



end
