(* ===== verification/Doubles.thy ===== *)
theory Doubles
  imports CPrelude "HOL-Library.Log_Nat"
begin

text \<open>
  The \<open>double\<close> of IEEE 754, as far as the programs use it: a number is rational, infinite or not a number, and an
  operation rounds its exact result to 53 binary digits, to the nearest number and in the middle to the even one.
  The numbers of the programs are far from the smallest and the largest exponent, which are left out.
\<close>

datatype double = Fin rat | Inf bool | NaN

subsection \<open>Rounding\<close>

definition round_even :: "rat \<Rightarrow> int" where
  "round_even x =
    (let f = \<lfloor>x\<rfloor>; r = x - of_int f
     in if r < 1 / 2 then f else if r > 1 / 2 then f + 1 else if even f then f else f + 1)"

lemma round_even_near: "\<bar>of_int (round_even x) - x\<bar> \<le> 1 / 2"
proof -
  have "of_int \<lfloor>x\<rfloor> \<le> x" "x < of_int \<lfloor>x\<rfloor> + 1"
    by linarith+
  then show ?thesis
    by (auto simp: round_even_def Let_def abs_le_iff)
qed

lemma round_even_of_int [simp]: "round_even (of_int n) = n"
  by (simp add: round_even_def)

lemma round_even_unique:
  assumes "\<bar>x - of_int n\<bar> < 1 / 2"
  shows "round_even x = n"
proof -
  have "\<bar>of_int (round_even x) - of_int n :: rat\<bar> < 1"
    using round_even_near [of x] assms by linarith
  then show ?thesis
    by linarith
qed

text \<open>The binary exponent of a positive number.\<close>

definition exponent :: "rat \<Rightarrow> int" where
  "exponent q =
    (let (n, d) = quotient_of q; e = int (floorlog 2 (nat n)) - int (floorlog 2 (nat d))
     in if 2 powi e \<le> q then e else e - 1)"

lemma powi_nat: "(2 :: rat) powi int n = 2 ^ n"
  by (simp add: power_int_def)

lemma exponent_bounds:
  assumes "0 < q"
  shows "2 powi exponent q \<le> q" "q < 2 powi (exponent q + 1)"
proof -
  obtain n d where nd: "quotient_of q = (n, d)"
    by force
  then have q: "q = of_int n / of_int d" "0 < d"
    using quotient_of_div quotient_of_denom_pos by blast+
  then have n: "0 < n"
    using assms by (simp add: zero_less_divide_iff)
  define a b where "a = floorlog 2 (nat n)" and "b = floorlog 2 (nat d)"
  have fl: "2 ^ (a - 1) \<le> nat n" "nat n < 2 ^ a" "2 ^ (b - 1) \<le> nat d" "nat d < 2 ^ b"
    using floorlog_bounds [of "nat n" 2] floorlog_bounds [of "nat d" 2] n q(2) by (simp_all add: a_def b_def)
  have pos: "0 < a" "0 < b"
    using n q(2) by (simp_all add: a_def b_def floorlog_def)
  have "(2 :: int) ^ (a - 1) \<le> n" "n < 2 ^ a" "(2 :: int) ^ (b - 1) \<le> d" "d < 2 ^ b"
    using fl n q(2) by (simp_all add: nat_less_iff le_nat_iff)
  then have r: "(2 :: rat) ^ (a - 1) \<le> of_int n" "of_int n < (2 :: rat) ^ a" "(2 :: rat) ^ (b - 1) \<le> of_int d" "of_int d < (2 :: rat) ^ b"
    by (metis of_int_le_iff of_int_less_iff of_int_numeral of_int_power)+
  have e: "2 powi (int a - int b) = (2 :: rat) ^ a / 2 ^ b"
    by (simp add: power_int_diff powi_nat)
  have half: "(2 :: rat) ^ a = 2 * 2 ^ (a - 1)" "(2 :: rat) ^ b = 2 * 2 ^ (b - 1)"
    using pos by (simp_all add: power_Suc [symmetric] del: power_Suc)
  have up: "q < 2 * 2 powi (int a - int b)"
  proof -
    have "q * 2 ^ (b - 1) \<le> of_int n"
      using mult_left_mono [OF r(3), of q] assms q by simp
    then have "q * 2 ^ (b - 1) < 2 ^ a"
      using r(2) by linarith
    then show ?thesis
      using half(2) by (simp add: e field_simps)
  qed
  have low: "2 powi (int a - int b) / 2 \<le> q"
  proof -
    have "of_int n < q * 2 ^ b"
      using mult_strict_left_mono [OF r(4) assms] q by simp
    then have "2 ^ (a - 1) \<le> q * 2 ^ b"
      using r(1) by linarith
    then show ?thesis
      using half(1) by (simp add: e field_simps)
  qed
  have ex: "exponent q = (if 2 powi (int a - int b) \<le> q then int a - int b else int a - int b - 1)"
    by (simp add: exponent_def nd a_def b_def)
  have pw: "(2 :: rat) powi (int a - int b + 1) = 2 * 2 powi (int a - int b)"
    "(2 :: rat) powi (int a - int b - 1) = 2 powi (int a - int b) / 2"
    by (simp_all add: power_int_add power_int_diff)
  have "2 powi exponent q \<le> q \<and> q < 2 powi (exponent q + 1)"
  proof (cases "2 powi (int a - int b) \<le> q")
    case True
    then show ?thesis
      using up by (simp only: ex pw if_True)
  next
    case False
    then have "exponent q = int a - int b - 1" "exponent q + 1 = int a - int b"
      by (simp_all add: ex)
    then show ?thesis
      using False low pw(2) by (simp only: not_le simp_thms)
  qed
  then show "2 powi exponent q \<le> q" "q < 2 powi (exponent q + 1)"
    by blast+
qed

text \<open>The quantum of a positive number is the value of the last of its 53 digits.\<close>

definition quantum :: "rat \<Rightarrow> rat" where
  "quantum q = 2 powi (exponent q - 52)"

definition round_double :: "rat \<Rightarrow> rat" where
  "round_double q = (if q = 0 then 0 else sgn q * of_int (round_even (\<bar>q\<bar> / quantum \<bar>q\<bar>)) * quantum \<bar>q\<bar>)"

lemma quantum_bounds:
  assumes "0 < q"
  shows "0 < quantum q" "quantum q * 2 ^ 52 \<le> q"
  using exponent_bounds(1) [OF assms] by (simp_all add: quantum_def power_int_diff powi_nat)

text \<open>The relative error is at most \<open>2 ^ -53\<close>.\<close>

lemma round_double_near:
  assumes "0 < q"
  shows "\<bar>round_double q - q\<bar> \<le> q / 2 ^ 53"
proof -
  note u = quantum_bounds [OF assms]
  have "\<bar>of_int (round_even (q / quantum q)) - q / quantum q\<bar> * quantum q \<le> 1 / 2 * quantum q"
    using round_even_near u(1) by (intro mult_right_mono) simp_all
  then have "\<bar>of_int (round_even (q / quantum q)) * quantum q - q\<bar> \<le> 1 / 2 * quantum q"
    using u(1) by (simp add: abs_mult_pos left_diff_distrib)
  moreover have "1 / 2 * quantum q \<le> q / 2 ^ 53"
    using u(2) by simp
  ultimately show ?thesis
    using assms by (simp add: round_double_def)
qed

lemma round_double_pos:
  assumes "0 < q"
  shows "0 < round_double q"
proof -
  have "q / 2 ^ 53 < q"
    using assms by simp
  then show ?thesis
    using round_double_near [OF assms] by linarith
qed

lemma round_double_neg: "round_double (- q) = - round_double q"
  by (simp add: round_double_def)

lemma round_double_sgn: "sgn (round_double q) = sgn q"
proof (cases q "0 :: rat" rule: linorder_cases)
  case less
  then show ?thesis
    using round_double_pos [of "- q"] by (simp add: round_double_neg)
next
  case greater
  then show ?thesis
    using round_double_pos [of q] by simp
qed (simp add: round_double_def)

text \<open>An integer of at most 53 digits is exact.\<close>

lemma round_double_int:
  assumes "n < 2 ^ 53"
  shows "round_double (of_nat n) = of_nat n"
proof (cases "n = 0")
  case False
  then have pos: "(0 :: rat) < of_nat n"
    by simp
  note e = exponent_bounds [OF pos]
  have "exponent (of_nat n) \<le> 52"
  proof (rule ccontr)
    assume "\<not> exponent (of_nat n) \<le> 52"
    then have "(2 :: rat) powi 53 \<le> 2 powi exponent (of_nat n)"
      by (intro power_int_increasing) simp_all
    then have "(2 :: rat) ^ 53 \<le> of_nat n"
      using e(1) powi_nat [of 53] by simp
    then have "(2 :: nat) ^ 53 \<le> n"
      by (metis of_nat_le_iff of_nat_numeral of_nat_power)
    then show False
      using assms by simp
  qed
  then obtain k where k: "exponent (of_nat n) = 52 - int k"
    by (metis diff_diff_eq2 diff_ge_0_iff_ge zero_le_imp_eq_int add_diff_cancel_left' diff_add_cancel)
  have quantum: "quantum (of_nat n) = 1 / 2 ^ k"
    by (simp add: quantum_def k power_int_minus powi_nat divide_inverse)
  have "(of_nat n / quantum (of_nat n) :: rat) = of_int (int n * 2 ^ k)"
    by (simp add: quantum)
  then show ?thesis
    using pos by (simp only: round_double_def abs_of_pos round_even_of_int) (simp add: quantum)
qed (simp add: round_double_def)

subsection \<open>Operations\<close>

text \<open>An infinity is marked with its sign; a zero divisor is taken as a positive zero.  The programs apply the operations
  to finite numbers only.\<close>

definition double_of_nat :: "nat \<Rightarrow> double" where
  "double_of_nat n = Fin (round_double (of_nat n))"

fun double_divide :: "double \<Rightarrow> double \<Rightarrow> double" where
  "double_divide (Fin a) (Fin b) =
    (if b \<noteq> 0 then Fin (round_double (a / b)) else if a = 0 then NaN else Inf (a < 0))"
| "double_divide _ _ = NaN"

fun double_minus :: "double \<Rightarrow> double \<Rightarrow> double" where
  "double_minus (Fin a) (Fin b) = Fin (round_double (a - b))"
| "double_minus _ _ = NaN"

fun double_times :: "double \<Rightarrow> double \<Rightarrow> double" where
  "double_times (Fin a) (Fin b) = Fin (round_double (a * b))"
| "double_times _ _ = NaN"

text \<open>The conversion \<open>%lf\<close> shows six digits after the point: the number of millionths, rounded.\<close>

fun millionths :: "double \<Rightarrow> int option" where
  "millionths (Fin a) = Some (round_even (a * 1000000))"
| "millionths _ = None"

text \<open>Microseconds as a number of seconds: they come back when the quotient is shown with six digits.\<close>

lemma seconds_exact:
  assumes "n < 2 ^ 52"
  shows "millionths (double_divide (double_of_nat n) (Fin 1000000)) = Some (int n)"
proof (cases "n = 0")
  case False
  define q where "q = (of_nat n / 1000000 :: rat)"
  have q: "0 < q" and n: "q * 1000000 = of_int (int n)"
    using False by (simp_all add: q_def)
  have "of_nat n < (2 :: rat) ^ 52"
    using assms by (metis of_nat_less_iff of_nat_numeral of_nat_power)
  then have small: "q / 2 ^ 53 * 1000000 < 1 / 2"
    by (simp add: q_def)
  have "\<bar>round_double q * 1000000 - q * 1000000\<bar> = \<bar>round_double q - q\<bar> * 1000000"
    by (metis abs_mult abs_numeral left_diff_distrib)
  also have "\<dots> \<le> q / 2 ^ 53 * 1000000"
    using round_double_near [OF q] by (rule mult_right_mono) simp
  also note small
  finally have "round_even (round_double q * 1000000) = int n"
    unfolding n by (rule round_even_unique)
  moreover have "round_double (of_nat n) = of_nat n"
    using assms by (intro round_double_int) simp
  ultimately show ?thesis
    unfolding double_of_nat_def q_def by simp
qed (simp add: double_of_nat_def round_double_def round_even_def)

end
