(* ===== verification/Timing.thy ===== *)
theory Timing
  imports Layout Doubles
begin

text \<open>
  \<open>main\<close> of \<open>aligned/main.c\<close>: the time of the two loops as a \<open>double\<close> number of seconds and the percentage.
\<close>

datatype time_call = GetTimeOfDay

type_synonym time_os = "time_call os"

text \<open>The \<open>struct timeval\<close> that \<open>gettimeofday\<close> stores: seconds and microseconds.\<close>

definition timeval_of :: "sysret \<Rightarrow> int \<times> int" where
  "timeval_of r = (sint (pointer_of (take 8 (sys_data r))), sint (pointer_of (take 8 (drop 8 (sys_data r)))))"

definition getDiff :: "int \<times> int \<Rightarrow> int \<times> int \<Rightarrow> double" where
  "getDiff t0 t1 = double_divide (double_of_nat (unat (getDiff_usec t0 t1))) (Fin 1000000)"

text \<open>The text that \<open>%lf\<close>, or \<open>%6lf\<close>, makes of a number: six digits after the point.  A double argument is recorded as its
  text.  A value that is not a number has its sign set on x86-64.\<close>

definition six_digits :: "nat \<Rightarrow> string" where
  "six_digits n = replicate (6 - length (decimal n)) (CHR ''0'') @ decimal n"

fun lf_text :: "double \<Rightarrow> string" where
  "lf_text (Fin a) =
    (let m = nat (round_even (\<bar>a\<bar> * 1000000))
     in (if a < 0 then ''-'' else []) @ decimal (m div 1000000) @ ''.'' @ six_digits (m mod 1000000))"
| "lf_text (Inf neg) = (if neg then ''-inf'' else ''inf'')"
| "lf_text NaN = ''-nan''"

definition lf :: "double \<Rightarrow> arg" where
  "lf d = ArgS (lf_text d)"

definition diff_percent :: "double \<Rightarrow> double \<Rightarrow> double" where
  "diff_percent smalldiff bigdiff = double_divide (double_times (double_minus bigdiff smalldiff) (Fin 100)) bigdiff"

definition aligned_main :: "time_os \<Rightarrow> (time_call, outcome) prog" where
  "aligned_main os = do {
     printf ''Sizeof(A): %2zu in default\<newline>Sizeof(B): %2zu with pack(1)\<newline>Sizeof(C): %2zu afer pack setting switch\<newline>''
       [ArgI (int (struct_size no_pack aligned_members)), ArgI (int (struct_size 1 aligned_members)),
        ArgI (int (struct_size no_pack aligned_members))];
     let a = (0 :: u8, 0 :: u64);
     let b = (0 :: u8, 0 :: u64);
     printf ''\<newline>The asm code framewrok is the same, but the consumed time is different.\<newline>'' [];
     printf ''Access A member: %lu to see its asm code\<newline>'' [ArgI (uint (snd a))];
     printf ''Access B member: %lu to see its asm code\<newline>'' [ArgI (uint (snd b))];
     printf ''\<newline>Access struct member in default pack setting\<newline>'' [];
     start \<leftarrow> call os GetTimeOfDay;
     let a = aligned_loop aligned_count a;
     stop \<leftarrow> call os GetTimeOfDay;
     let smalldiff = getDiff (timeval_of start) (timeval_of stop);
     printf ''End time: %ld.%ld, diff: %6lf in pack(default) setting\<newline>''
       [ArgI (fst (timeval_of stop)), ArgI (snd (timeval_of stop)), lf (getDiff (timeval_of start) (timeval_of stop))];
     start \<leftarrow> call os GetTimeOfDay;
     let b = aligned_loop aligned_count b;
     stop \<leftarrow> call os GetTimeOfDay;
     let bigdiff = getDiff (timeval_of start) (timeval_of stop);
     printf ''End time: %ld.%ld, diff: %6lf in pack(1) setting\<newline>''
       [ArgI (fst (timeval_of stop)), ArgI (snd (timeval_of stop)), lf (getDiff (timeval_of start) (timeval_of stop))];
     printf ''Diff Percent: %lf%%\<newline>'' [lf (diff_percent smalldiff bigdiff)];
     exit_with (Exit 0)
   }"

text \<open>Microseconds since the epoch.\<close>

definition usecs :: "int \<times> int \<Rightarrow> int" where
  "usecs t = fst t * 1000000 + snd t"

lemma getDiff_usec_value:
  assumes "usecs t0 \<le> usecs t1" "usecs t1 - usecs t0 < 2 ^ 52"
  shows "unat (getDiff_usec t0 t1) = nat (usecs t1 - usecs t0)"
proof -
  have "getDiff_usec t0 t1 = word_of_nat (nat (usecs t1 - usecs t0))"
    using assms(1) by (simp add: getDiff_usec_def usecs_def algebra_simps)
  moreover have "nat (usecs t1 - usecs t0) < 2 ^ 52"
    using assms by (simp add: nat_less_iff)
  ultimately show ?thesis
    by (simp add: unat_of_nat)
qed

lemma getDiff_exact:
  assumes "usecs t0 \<le> usecs t1" "usecs t1 - usecs t0 < 2 ^ 52"
  shows "\<exists>a \<ge> 0. getDiff t0 t1 = Fin a \<and> round_even (a * 1000000) = usecs t1 - usecs t0"
proof -
  have "nat (usecs t1 - usecs t0) < 2 ^ 52"
    using assms by (simp add: nat_less_iff)
  moreover have "0 \<le> round_double q" if "0 \<le> q" for q
    using round_double_pos [of q] that by (cases "q = 0") (simp_all add: round_double_def)
  ultimately show ?thesis
    using seconds_exact [of "nat (usecs t1 - usecs t0)"] getDiff_usec_value [OF assms] assms(1)
    by (simp add: getDiff_def double_of_nat_def)
qed

definition seconds_text :: "int \<Rightarrow> string" where
  "seconds_text n = decimal (nat n div 1000000) @ ''.'' @ six_digits (nat n mod 1000000)"

lemma getDiff_text:
  assumes "usecs t0 \<le> usecs t1" "usecs t1 - usecs t0 < 2 ^ 52"
  shows "lf (getDiff t0 t1) = ArgS (seconds_text (usecs t1 - usecs t0))"
proof -
  obtain a where a: "0 \<le> a" "getDiff t0 t1 = Fin a" "round_even (a * 1000000) = usecs t1 - usecs t0"
    using getDiff_exact [OF assms] by (elim exE conjE) (rule that)
  have abs: "\<bar>a\<bar> = a" and sign: "(if a < 0 then ''-'' else []) = []"
    using a(1) by simp_all
  show ?thesis
    unfolding a(2) lf_def lf_text.simps Let_def abs a(3) sign seconds_text_def append_Nil by (rule refl)
qed

lemma percent_finite:
  "(\<exists>q. diff_percent (getDiff s0 s1) (getDiff t0 t1) = Fin q) \<longleftrightarrow> getDiff_usec t0 t1 \<noteq> 0"
proof -
  have zero: "round_double q = 0 \<longleftrightarrow> q = 0" for q
    using round_double_sgn [of q] by (metis sgn_0_0)
  define x where "x = round_double (round_double (of_nat (unat (getDiff_usec s0 s1))) / 1000000)"
  define y where "y = round_double (round_double (of_nat (unat (getDiff_usec t0 t1))) / 1000000)"
  have diffs: "getDiff s0 s1 = Fin x" "getDiff t0 t1 = Fin y"
    by (simp_all add: getDiff_def double_of_nat_def x_def y_def)
  have "y = 0 \<longleftrightarrow> unat (getDiff_usec t0 t1) = 0"
    unfolding y_def zero by (simp only: zero divide_eq_0_iff of_nat_eq_0_iff) simp
  then have "y = 0 \<longleftrightarrow> getDiff_usec t0 t1 = 0"
    by (simp only: unat_eq_zero)
  moreover have "(\<exists>q. diff_percent (Fin x) (Fin y) = Fin q) \<longleftrightarrow> y \<noteq> 0"
    by (simp add: diff_percent_def)
  ultimately show ?thesis
    unfolding diffs by simp
qed

lemma getDiff_usec_zero:
  assumes "usecs t0 \<le> usecs t1" "usecs t1 - usecs t0 < 2 ^ 52"
  shows "getDiff_usec t0 t1 = 0 \<longleftrightarrow> usecs t0 = usecs t1"
  using getDiff_usec_value [OF assms] assms(1) unat_eq_zero [of "getDiff_usec t0 t1"] by auto

lemma aligned_main_run:
  "\<exists>r0 r1 r2 r3 f1 a1 f2 a2 f3 a3 f4 a4 f5 a5. final (aligned_main os) [] =
    [Printf ''Diff Percent: %lf%%\<newline>''
       [lf (diff_percent (getDiff (timeval_of r0) (timeval_of r1)) (getDiff (timeval_of r2) (timeval_of r3)))],
     Printf ''End time: %ld.%ld, diff: %6lf in pack(1) setting\<newline>''
       [ArgI (fst (timeval_of r3)), ArgI (snd (timeval_of r3)), lf (getDiff (timeval_of r2) (timeval_of r3))],
     Call GetTimeOfDay r3, Call GetTimeOfDay r2,
     Printf ''End time: %ld.%ld, diff: %6lf in pack(default) setting\<newline>''
       [ArgI (fst (timeval_of r1)), ArgI (snd (timeval_of r1)), lf (getDiff (timeval_of r0) (timeval_of r1))],
     Call GetTimeOfDay r1, Call GetTimeOfDay r0,
     Printf f5 a5, Printf f4 a4, Printf f3 a3, Printf f2 a2, Printf f1 a1]"
  unfolding aligned_main_def Let_def final_bind result_bind final_simps result_simps
  by (intro exI) (rule refl)

text \<open>C39: the times that \<open>aligned\<close> shows.  Whatever the clock says, as long as it does not go back and a loop takes less than
  \<open>2 ^ 52\<close> microseconds, the six digits that \<open>%6lf\<close> shows of a difference are exactly the microseconds between the two
  readings, although the division by a million rounds; the percentage is a number exactly when the second difference is not
  zero.  The program ends with 0.\<close>

theorem aligned_times_exact:
  fixes os :: time_os
  defines "ts \<equiv> map (\<lambda>(c, r). timeval_of r) (call_log (final (aligned_main os) []))"
  assumes "usecs (ts ! 0) \<le> usecs (ts ! 1)" "usecs (ts ! 1) - usecs (ts ! 0) < 2 ^ 52"
    and "usecs (ts ! 2) \<le> usecs (ts ! 3)" "usecs (ts ! 3) - usecs (ts ! 2) < 2 ^ 52"
  shows "result (aligned_main os) [] = Exit 0 \<and> length ts = 4 \<and>
    (let out = set (final (aligned_main os) []); p = diff_percent (getDiff (ts ! 0) (ts ! 1)) (getDiff (ts ! 2) (ts ! 3))
     in Printf ''End time: %ld.%ld, diff: %6lf in pack(default) setting\<newline>''
          [ArgI (fst (ts ! 1)), ArgI (snd (ts ! 1)), ArgS (seconds_text (usecs (ts ! 1) - usecs (ts ! 0)))] \<in> out \<and>
        Printf ''End time: %ld.%ld, diff: %6lf in pack(1) setting\<newline>''
          [ArgI (fst (ts ! 3)), ArgI (snd (ts ! 3)), ArgS (seconds_text (usecs (ts ! 3) - usecs (ts ! 2)))] \<in> out \<and>
        Printf ''Diff Percent: %lf%%\<newline>'' [lf p] \<in> out \<and>
        ((\<exists>q. p = Fin q) \<longleftrightarrow> usecs (ts ! 2) \<noteq> usecs (ts ! 3)))"
proof -
  from aligned_main_run [of os] obtain r0 r1 r2 r3 f1 a1 f2 a2 f3 a3 f4 a4 f5 a5 where run: "final (aligned_main os) [] =
    [Printf ''Diff Percent: %lf%%\<newline>''
       [lf (diff_percent (getDiff (timeval_of r0) (timeval_of r1)) (getDiff (timeval_of r2) (timeval_of r3)))],
     Printf ''End time: %ld.%ld, diff: %6lf in pack(1) setting\<newline>''
       [ArgI (fst (timeval_of r3)), ArgI (snd (timeval_of r3)), lf (getDiff (timeval_of r2) (timeval_of r3))],
     Call GetTimeOfDay r3, Call GetTimeOfDay r2,
     Printf ''End time: %ld.%ld, diff: %6lf in pack(default) setting\<newline>''
       [ArgI (fst (timeval_of r1)), ArgI (snd (timeval_of r1)), lf (getDiff (timeval_of r0) (timeval_of r1))],
     Call GetTimeOfDay r1, Call GetTimeOfDay r0,
     Printf f5 a5, Printf f4 a4, Printf f3 a3, Printf f2 a2, Printf f1 a1]"
    by blast
  have "ts = map timeval_of [r0, r1, r2, r3]"
    by (simp add: ts_def run)
  then have t: "ts ! 0 = timeval_of r0" "ts ! 1 = timeval_of r1" "ts ! 2 = timeval_of r2" "ts ! 3 = timeval_of r3" "length ts = 4"
    by simp_all
  have "result (aligned_main os) [] = Exit 0"
    by (simp add: aligned_main_def result_bind Let_def)
  then show ?thesis
    using assms(2-5) unfolding t Let_def run
    by (simp add: getDiff_text percent_finite getDiff_usec_zero)
qed

text \<open>A clock for examples: the number of the reading in seconds.\<close>

definition os_clock :: time_os where
  "os_clock h c = \<lparr>sys_ret = 0, sys_errno = 0,
     sys_data = [word_of_nat (made GetTimeOfDay h), 0, 0, 0, 0, 0, 0, 0, 0, 0, 0, 0, 0, 0, 0, 0], sys_addr = []\<rparr>"

lemma os_clock_times: "map (\<lambda>(c, r). timeval_of r) (call_log (final (aligned_main os_clock) [])) = [(0, 0), (1, 0), (2, 0), (3, 0)]"
  unfolding aligned_main_def Let_def final_bind result_bind final_simps result_simps
  by (simp add: os_clock_def timeval_of_def)

theorem aligned_times_exact_witness:
  "result (aligned_main os_clock) [] = Exit 0 \<and>
   Printf ''End time: %ld.%ld, diff: %6lf in pack(1) setting\<newline>'' [ArgI 3, ArgI 0, ArgS ''1.000000'']
     \<in> set (final (aligned_main os_clock) [])"
proof -
  have dec: "decimal 1 = ''1''" "decimal 0 = ''0''"
    by (simp_all add: decimal.simps [of "Suc 0"] decimal.simps [of 0] digit_def char_of_def bit_0)
  then have "six_digits 0 = ''000000''"
    by (simp add: six_digits_def eval_nat_numeral)
  then have "seconds_text 1000000 = ''1.000000''"
    using dec by (simp add: seconds_text_def)
  then show ?thesis
    using aligned_times_exact [of os_clock] by (simp add: os_clock_times usecs_def Let_def)
qed

end
