(* ===== verification/Children.thy ===== *)
theory Children
  imports CIO
begin

text \<open>
  Programs with a child process: \<open>fgets/main.c\<close>, which reads the output of a child through a pipe, and
  \<open>cap/main.c\<close>, in which parent and child try to open a raw socket.  \<open>fork\<close> is a call that returns in both
  processes: 0 in the child and another number in the parent.
\<close>

unbundle bit_operations_syntax

datatype ccall =
    Pipe | Fork | PrctlDeathsig int | Setpgid int int | Open string int | Dup2 int int | CSleep int
  | Fflush int | ExitNow int | CClose int | FcntlGetfl int | FcntlSetfl int int | Fdopen int | Fgets nat
  | Waitpid int int | Fclose int | CSocket int int int | CGetchar

type_synonym c_os = "ccall os"
type_synonym 'a c_prog = "(ccall, 'a) prog"

subsection \<open>\<open>fgets\<close>: the child\<close>

text \<open>The two descriptors that \<open>pipe\<close> stores.\<close>

definition pipefds :: "sysret \<Rightarrow> nat \<Rightarrow> int" where
  "pipefds r i = sint (word_rcat (rev (take 4 (drop (4 * i) (sys_data r)))) :: u32)"

definition fgets_child :: "c_os \<Rightarrow> int \<Rightarrow> outcome c_prog" where
  "fgets_child os w = do {
     printf ''Child process must exit when parent process exited\<newline>'' [];
     call os (PrctlDeathsig 15);
     printf ''Child process set self to be the leader of process group\<newline>'' [];
     call os (Setpgid 0 0);
     r \<leftarrow> call os (Open ''/dev/null'' 0x80002);
     if sys_ret r < 0 then exit_with (Exit (- 1))
     else do {
       call os (Dup2 (sys_ret r) 0);
       printf ''Redirect the standard out and standard err\<newline>'' [];
       call os (Dup2 w 1);
       call os (Dup2 w 2);
       printf ''Sleep a while to watch the blocking status of fgets API\<newline>'' [];
       call os (CSleep 10);
       printf ''fflush the output streams if any\<newline>'' [];
       call os (Fflush 1);
       call os (Fflush 2);
       call os (ExitNow 0);
       exit_with (Exit 0)
     }
   }"

subsection \<open>\<open>fgets\<close>: the parent\<close>

text \<open>The status that \<open>waitpid\<close> stored, when it stored one: a failing call, and one that found the child
  running, leave the variable as it was.\<close>

definition wait_status :: "sysret \<Rightarrow> u32 \<Rightarrow> u32" where
  "wait_status r status = (if sys_ret r \<le> 0 then status else word_rcat (rev (take 4 (sys_data r))))"

definition WIFEXITED :: "u32 \<Rightarrow> bool" where
  "WIFEXITED status \<longleftrightarrow> status AND 0x7f = 0"

definition WTERMSIG :: "u32 \<Rightarrow> int" where
  "WTERMSIG status = sint (status AND 0x7f)"

text \<open>\<open>((signed char) ((status & 0x7f) + 1) >> 1) > 0\<close>\<close>

definition WIFSIGNALED :: "u32 \<Rightarrow> bool" where
  "WIFSIGNALED status \<longleftrightarrow> 0 < sint (ucast ((status AND 0x7f) + 1) :: u8) div 2"

text \<open>\<open>WNOHANG\<close> and \<open>WEXITED\<close>.\<close>

definition wait_options :: int where
  "wait_options = 1 OR 4"

text \<open>The first loop.  \<open>chckpid\<close> and \<open>status\<close> are indeterminate, \<open>None\<close>, before the first line; \<open>continue\<close> goes
  to the test of \<open>chckpid\<close>.  \<open>fuel\<close> bounds the rounds.\<close>

datatype 'a loop_end = LoopDone 'a | LoopUndefined | LoopRunning

fun watch_loop :: "c_os \<Rightarrow> int \<Rightarrow> nat \<Rightarrow> int option \<Rightarrow> u32 option \<Rightarrow> u32 option loop_end c_prog" where
  "watch_loop os child 0 chckpid status = exit_with LoopRunning"
| "watch_loop os child (Suc fuel) chckpid status = do {
     r \<leftarrow> call os (Fgets 512);
     if sys_ret r = 0 then
       (case chckpid of
          None \<Rightarrow> exit_with LoopUndefined
        | Some pid \<Rightarrow> if pid = 0 then watch_loop os child fuel chckpid status
            else exit_with (LoopDone status))
     else do {
       printf ''Child process output: %s\<newline>'' [ArgS (line_of r)];
       r \<leftarrow> call os (Waitpid child wait_options);
       let status = Some (wait_status r 0);
       if sys_ret r = 0 then watch_loop os child fuel (Some (sys_ret r)) status
       else exit_with (LoopDone status)
     }
   }"

text \<open>The second loop; \<open>True\<close> when it has ended.\<close>

fun rest_loop :: "c_os \<Rightarrow> nat \<Rightarrow> bool c_prog" where
  "rest_loop os 0 = exit_with False"
| "rest_loop os (Suc fuel) = do {
     r \<leftarrow> call os (Fgets 512);
     if sys_ret r = 0 then do {
       perror ''Read child process's lefted output'' r;
       exit_with True
     }
     else do {
       printf ''Child process lefted output: %s\<newline>'' [ArgS (line_of r)];
       rest_loop os fuel
     }
   }"

definition fgets_report :: "c_os \<Rightarrow> int \<Rightarrow> u32 option \<Rightarrow> outcome c_prog" where
  "fgets_report os fp status =
    (case status of
       None \<Rightarrow> exit_with Undefined
     | Some st \<Rightarrow> do {
         (if WIFEXITED st then printf ''Normally exited\<newline>'' [] else exit_with ());
         (if WIFSIGNALED st then printf ''exited by signal: %d\<newline>'' [ArgI (WTERMSIG st)] else exit_with ());
         call os (Fclose fp);
         printf ''Will exit !!!\<newline>'' [];
         exit_with (Exit 0)
       })"

definition fgets_mode :: "c_os \<Rightarrow> bool \<Rightarrow> int \<Rightarrow> unit c_prog" where
  "fgets_mode os nonblockingFlag rd =
    (if nonblockingFlag then do {
       printf ''Set nonblocking flag\<newline>'' [];
       r \<leftarrow> call os (FcntlGetfl rd);
       call os (FcntlSetfl rd (sint (word_of_int (sys_ret r) OR 0x800 :: u32)));
       exit_with ()
     }
     else printf ''Using blocked fd APIs\<newline>'' [])"

definition fgets_read :: "c_os \<Rightarrow> nat \<Rightarrow> int \<Rightarrow> int \<Rightarrow> outcome c_prog" where
  "fgets_read os fuel child fp = do {
     e \<leftarrow> watch_loop os child fuel None None;
     case e of
       LoopRunning \<Rightarrow> exit_with Running
     | LoopUndefined \<Rightarrow> exit_with Undefined
     | LoopDone status \<Rightarrow> do {
         printf ''Detect child process has exited ...\<newline>'' [];
         done \<leftarrow> rest_loop os fuel;
         if \<not> done then exit_with Running
         else fgets_report os fp status
       }
   }"

definition fgets_parent :: "c_os \<Rightarrow> nat \<Rightarrow> bool \<Rightarrow> int \<Rightarrow> int \<Rightarrow> int \<Rightarrow> outcome c_prog" where
  "fgets_parent os fuel nonblockingFlag child rd wr = do {
     printf ''Parent process continues to run ...\<newline>'' [];
     call os (CClose wr);
     fgets_mode os nonblockingFlag rd;
     fp \<leftarrow> call os (Fdopen rd);
     if sys_ret fp = 0 then do {
       perror ''fdopen pipe fd in failure'' fp;
       exit_with (Exit (- 1))
     }
     else fgets_read os fuel child (sys_ret fp)
   }"

definition fgets_main :: "c_os \<Rightarrow> nat \<Rightarrow> string list \<Rightarrow> outcome c_prog" where
  "fgets_main os fuel argv = do {
     let nonblockingFlag = (length argv > 1);
     r \<leftarrow> call os Pipe;
     if sys_ret r < 0 then do {
       perror ''Create pipe in failure'' r;
       exit_with (Exit (- 1))
     }
     else do {
       child \<leftarrow> call os Fork;
       if sys_ret child = 0 then fgets_child os (pipefds r 1)
       else fgets_parent os fuel nonblockingFlag (sys_ret child) (pipefds r 0) (pipefds r 1)
     }
   }"


subsection \<open>What the child writes into the pipe\<close>

text \<open>
  The \<open>stdout\<close> stream of the C library: text is collected in a buffer and written to the file behind descriptor
  1 when the stream is flushed; a line buffered stream also writes every complete line.  The state follows
  a history from the oldest event on.  The buffer holds at least 1024 bytes, more than the child prints.
\<close>

record stdio =
  line_buffered :: bool
  pending :: string
  fd1 :: int
  written :: "(int \<times> string) list"

definition flush :: "stdio \<Rightarrow> stdio" where
  "flush s = s\<lparr>pending := [], written := written s @ [(fd1 s, pending s)]\<rparr>"

definition flush_lines :: "stdio \<Rightarrow> stdio" where
  "flush_lines s =
    (let t = rev (pending s); tail = rev (takeWhile (\<lambda>c. c \<noteq> CHR ''\<newline>'') t);
         lns = rev (dropWhile (\<lambda>c. c \<noteq> CHR ''\<newline>'') t)
     in s\<lparr>pending := tail, written := written s @ [(fd1 s, lns)]\<rparr>)"

fun stdio_step :: "ccall event \<Rightarrow> stdio \<Rightarrow> stdio" where
  "stdio_step (Printf t []) s =
    (let s = s\<lparr>pending := pending s @ t\<rparr> in if line_buffered s then flush_lines s else s)"
| "stdio_step (Call (Dup2 old new) r) s = (if new = 1 \<and> 0 \<le> sys_ret r then s\<lparr>fd1 := old\<rparr> else s)"
| "stdio_step (Call (Fflush f) r) s = (if f = 1 then flush s else s)"
| "stdio_step _ s = s"

definition stdio_run :: "bool \<Rightarrow> ccall history \<Rightarrow> stdio" where
  "stdio_run lb h = foldr stdio_step h \<lparr>line_buffered = lb, pending = [], fd1 = 1, written = []\<rparr>"

definition text_to :: "int \<Rightarrow> stdio \<Rightarrow> string" where
  "text_to fd s = concat (map snd (filter (\<lambda>(f, t). f = fd) (written s)))"

text \<open>The five lines the child prints, the first three before its output is redirected.\<close>

definition child_lines :: "string list" where
  "child_lines =
    [''Child process must exit when parent process exited\<newline>'',
     ''Child process set self to be the leader of process group\<newline>'',
     ''Redirect the standard out and standard err\<newline>'',
     ''Sleep a while to watch the blocking status of fgets API\<newline>'',
     ''fflush the output streams if any\<newline>'']"

definition child_pipe_text :: "bool \<Rightarrow> string" where
  "child_pipe_text lb = concat (if lb then drop 3 child_lines else child_lines)"

definition whole_line :: "string \<Rightarrow> bool" where
  "whole_line t \<longleftrightarrow> t \<noteq> [] \<and> last t = CHR ''\<newline>''"

lemma stdio_step_line:
  "whole_line t \<Longrightarrow> pending s = [] \<Longrightarrow> line_buffered s \<Longrightarrow>
    stdio_step (Printf t []) s = s\<lparr>written := written s @ [(fd1 s, t)]\<rparr>"
  by (cases t rule: rev_cases) (auto simp: whole_line_def flush_lines_def)

lemma stdio_step_full:
  "\<not> line_buffered s \<Longrightarrow> stdio_step (Printf t []) s = s\<lparr>pending := pending s @ t\<rparr>"
  by simp

lemma child_lines_whole: "list_all whole_line child_lines"
  by (simp add: child_lines_def whole_line_def)

lemma child_history:
  assumes "\<And>h c. 0 \<le> sys_ret (os h c)"
  shows "\<exists>r1 r2 r3 n r4 r5 r6 r7 r8 r9 r10. 0 \<le> sys_ret r5 \<and> final (fgets_child os w) h =
    [Call (ExitNow 0) r10, Call (Fflush 2) r9, Call (Fflush 1) r8, Printf (child_lines ! 4) [], Call (CSleep 10) r7,
     Printf (child_lines ! 3) [], Call (Dup2 w 2) r6, Call (Dup2 w 1) r5, Printf (child_lines ! 2) [],
     Call (Dup2 n 0) r4, Call (Open ''/dev/null'' 0x80002) r3, Call (Setpgid 0 0) r2,
     Printf (child_lines ! 1) [], Call (PrctlDeathsig 15) r1, Printf (child_lines ! 0) []] @ h"
proof -
  have "\<not> sys_ret (os h c) < 0" for h c
    using assms by (simp add: not_less)
  then show ?thesis
    unfolding fgets_child_def child_lines_def
    by (simp add: final_bind assms del: not_less)
qed

lemma child_stdio:
  assumes "\<And>h c. 0 \<le> sys_ret (os h c)" "w \<noteq> 1"
    and "stdio_run lb h = stdio_run lb []"
  shows "text_to w (stdio_run lb (final (fgets_child os w) h)) = child_pipe_text lb"
    "text_to 1 (stdio_run lb (final (fgets_child os w) h)) = (if lb then concat (take 3 child_lines) else [])"
proof -
  obtain a b c d e where l: "child_lines = [a, b, c, d, e]" and
    whole: "whole_line a" "whole_line b" "whole_line c" "whole_line d" "whole_line e"
    using child_lines_whole by (simp add: child_lines_def)
  define s where "s = stdio_run lb (final (fgets_child os w) h)"
  have "written s = (if lb then [(1, a), (1, b), (1, c), (w, d), (w, e), (w, [])] else [(w, a @ b @ c @ d @ e)])"
    using child_history [of os w h, OF assms(1)] assms(3) whole
    by (cases lb) (auto simp: s_def stdio_run_def l flush_def stdio_step_line simp del: stdio_step.simps(1)
       simp: stdio_step_full)
  then show "text_to w s = child_pipe_text lb" "text_to 1 s = (if lb then concat (take 3 child_lines) else [])"
    unfolding s_def [symmetric] using assms(2) by (simp_all add: text_to_def child_pipe_text_def l)
qed


subsection \<open>What the parent reads and shows\<close>

text \<open>\<open>fgets\<close> with a buffer of \<open>n + 1\<close> bytes: up to \<open>n\<close> bytes and never beyond a newline.\<close>

fun take_line :: "nat \<Rightarrow> string \<Rightarrow> string \<times> string" where
  "take_line 0 s = ([], s)"
| "take_line (Suc n) [] = ([], [])"
| "take_line (Suc n) (c # cs) =
    (if c = CHR ''\<newline>'' then ([c], cs) else let (l, rest) = take_line n cs in (c # l, rest))"

lemma take_line_append: "fst (take_line n s) @ snd (take_line n s) = s"
  by (induction n s rule: take_line.induct) (auto simp: split_beta)

lemma take_line_shorter: "0 < n \<Longrightarrow> s \<noteq> [] \<Longrightarrow> length (snd (take_line n s)) < length s"
  using arg_cong [OF take_line_append [of n s], of length]
  by (cases n; cases s) (auto simp: split_beta)

function fgets_lines :: "nat \<Rightarrow> string \<Rightarrow> string list" where
  "fgets_lines n s =
    (if n = 0 \<or> s = [] then [] else fst (take_line n s) # fgets_lines n (snd (take_line n s)))"
  by pat_completeness auto
termination
  by (relation "measure (\<lambda>(n, s). length s)") (auto simp: take_line_shorter)

declare fgets_lines.simps [simp del]

lemma concat_fgets_lines: "0 < n \<Longrightarrow> concat (fgets_lines n s) = s"
proof (induction n s rule: fgets_lines.induct)
  case (1 n s)
  then show ?case
    by (subst fgets_lines.simps) (auto simp: take_line_append)
qed

lemma fgets_lines_Nil: "0 < n \<Longrightarrow> fgets_lines n s = [] \<longleftrightarrow> s = []"
  by (subst fgets_lines.simps) simp

abbreviation reads :: "ccall history \<Rightarrow> nat" where
  "reads \<equiv> made (Fgets 512)"

abbreviation pipe_law :: "c_os \<Rightarrow> string list \<Rightarrow> bool" where
  "pipe_law os \<equiv> delivers os (Fgets 512)"

text \<open>The lines of the child that the parent has shown, the oldest first.\<close>

fun shown :: "ccall history \<Rightarrow> string list" where
  "shown [] = []"
| "shown (Printf f [ArgS l] # h) = shown h @ [l]"
| "shown (_ # h) = shown h"

interpretation rest: line_loop "\<lambda>os n _. rest_loop os n" "Fgets 512" "\<lambda>_. True" "\<lambda>_ _. None" "\<lambda>s _. s" "\<lambda>_. True"
  "\<lambda>_ l. [l]" shown
proof (unfold_locales, goal_cases)
  case (1 os lns h n s)
  then show ?case
    using delivers_line(2) [of os "Fgets 512" lns h] by (simp add: result_bind final_bind perror_def)
next
  case (3 os lns h s n)
  then show ?case
    using delivers_line(1) [of os "Fgets 512" lns h]
    by (intro exI [of _ "Printf ''Child process lefted output: %s\<newline>'' [ArgS (lns ! reads h)] # Call (Fgets 512) (os h (Fgets 512)) # h"])
      (simp add: result_bind final_bind)
qed simp

lemma rest_loop_shows:
  assumes "pipe_law os lns" "length lns < fuel + reads h" "reads h \<le> length lns"
  shows "result (rest_loop os fuel) h \<and> shown (final (rest_loop os fuel) h) = shown h @ drop (reads h) lns"
  using rest.consumes [OF TrueI assms] by (simp add: consume_all)

lemma watch_loop_shows:
  assumes "pipe_law os lns"
    and "\<And>h. reads h = length lns \<Longrightarrow> sys_ret (os h (Waitpid child wait_options)) \<noteq> 0"
  shows "length lns \<le> fuel + reads h \<Longrightarrow> reads h < length lns \<Longrightarrow>
    (\<exists>st. result (watch_loop os child fuel pid s) h = LoopDone (Some st)) \<and>
    (let h' = final (watch_loop os child fuel pid s) h
     in reads h' \<le> length lns \<and> shown h' @ drop (reads h') lns = shown h @ drop (reads h) lns)"
proof (induction fuel arbitrary: h pid s)
  case (Suc fuel)
  let ?h = "Printf ''Child process output: %s\<newline>'' [ArgS (lns ! reads h)] # Call (Fgets 512) (os h (Fgets 512)) # h"
  let ?r = "os ?h (Waitpid child wait_options)"
  have line: "sys_ret (os h (Fgets 512)) \<noteq> 0" "line_of (os h (Fgets 512)) = lns ! reads h"
    using delivers_line(1) [OF assms(1) Suc.prems(2)] by simp_all
  show ?case
  proof (cases "sys_ret ?r = 0")
    case True
    have "reads ?h < length lns"
      using assms(2) [of ?h] Suc.prems(2) True by (auto simp: less_Suc_eq_le intro: le_neq_implies_less)
    then show ?thesis
      using Suc.IH [of "Call (Waitpid child wait_options) ?r # ?h" "Some 0" "Some (wait_status ?r 0)"] Suc.prems True line
      by (simp add: result_bind final_bind Let_def Cons_nth_drop_Suc)
  next
    case False
    with Suc.prems line show ?thesis
      by (simp add: result_bind final_bind Let_def Cons_nth_drop_Suc)
  qed
qed simp


lemma fgets_report_end:
  "result (fgets_report os fp (Some st)) h = Exit 0"
  "shown (final (fgets_report os fp (Some st)) h) = shown h"
  by (simp_all add: fgets_report_def result_bind final_bind)

lemma fgets_mode_history:
  "reads (final (fgets_mode os nb rd) h) = reads h"
  "shown (final (fgets_mode os nb rd) h) = shown h"
  by (simp_all add: fgets_mode_def final_bind)

lemma fgets_read_shows:
  assumes "pipe_law os lns" "lns \<noteq> []" "length lns < fuel"
    and wait: "\<And>h. reads h = length lns \<Longrightarrow> sys_ret (os h (Waitpid child wait_options)) \<noteq> 0"
    and "reads h = 0"
  shows "result (fgets_read os fuel child fp) h = Exit 0"
    "shown (final (fgets_read os fuel child fp) h) = shown h @ lns"
proof -
  obtain st g where watch: "result (watch_loop os child fuel None None) h = LoopDone (Some st)"
      "final (watch_loop os child fuel None None) h = g"
      "reads g \<le> length lns" "shown g @ drop (reads g) lns = shown h @ lns"
    using watch_loop_shows [OF assms(1) wait, of fuel h None None] assms(2,3,5) by (auto simp: Let_def)
  let ?g = "Printf ''Detect child process has exited ...\<newline>'' [] # g"
  have "result (rest_loop os fuel) ?g" "shown (final (rest_loop os fuel) ?g) = shown h @ lns"
    using rest_loop_shows [OF assms(1), of fuel ?g] assms(3) watch(3,4) by simp_all
  then show "result (fgets_read os fuel child fp) h = Exit 0"
      "shown (final (fgets_read os fuel child fp) h) = shown h @ lns"
    using watch(1,2) by (simp_all add: fgets_read_def final_bind result_bind fgets_report_end)
qed

lemma fgets_parent_shows:
  assumes "pipe_law os lns" "lns \<noteq> []" "length lns < fuel"
    and "\<And>h. reads h = length lns \<Longrightarrow> sys_ret (os h (Waitpid child wait_options)) \<noteq> 0"
    and "\<And>h. sys_ret (os h (Fdopen rd)) \<noteq> 0" and "reads h = 0"
  shows "result (fgets_parent os fuel nb child rd wr) h = Exit 0"
    "shown (final (fgets_parent os fuel nb child rd wr) h) = shown h @ lns"
  unfolding fgets_parent_def
  by (simp_all add: final_bind result_bind assms(5,6) fgets_mode_history fgets_read_shows [OF assms(1-4)])

lemma child_writes:
  assumes "\<And>h c. 0 \<le> sys_ret (os h c)" "\<And>h. sys_ret (os h Fork) = 0" "w \<noteq> 1" "\<And>h. pipefds (os h Pipe) 1 = w"
  shows "text_to w (stdio_run lb (final (fgets_main os fuel argv) [])) = child_pipe_text lb"
proof -
  have "\<not> sys_ret (os h Pipe) < 0" for h
    using assms(1) by (simp add: not_less)
  then have "final (fgets_main os fuel argv) [] =
      final (fgets_child os w) [Call Fork (os [Call Pipe (os [] Pipe)] Fork), Call Pipe (os [] Pipe)]"
    by (simp add: fgets_main_def final_bind assms(2) assms(4) [simplified])
  then show ?thesis
    using assms(1,3) by (simp only:) (intro child_stdio, simp_all add: stdio_run_def)
qed

text \<open>C6: the pipeline of the two processes.  When the calls of the child succeed and the parent reads what the
  child wrote, in lines of at most 511 bytes and then the end of the file, and \<open>waitpid\<close> reports something
  by the last line, then the parent ends with 0 and has shown exactly the text of the child, in order: all five
  lines when the stream of the child is fully buffered, those after the redirection when it is line buffered.\<close>

theorem fgets_pipeline:
  assumes child: "\<And>h c. 0 \<le> sys_ret (cos h c)" "\<And>h. sys_ret (cos h Fork) = 0" "w \<noteq> 1"
      "\<And>h. pipefds (cos h Pipe) 1 = w"
    and parent: "pipe_law pos (fgets_lines 511 (text_to w (stdio_run lb (final (fgets_main cos 0 argv) []))))"
      "\<And>h. 0 \<le> sys_ret (pos h Pipe)" "\<And>h. sys_ret (pos h Fork) \<noteq> 0" "\<And>h fd. sys_ret (pos h (Fdopen fd)) \<noteq> 0"
      "\<And>h p. reads h = length (fgets_lines 511 (child_pipe_text lb)) \<Longrightarrow> sys_ret (pos h (Waitpid p wait_options)) \<noteq> 0"
      "length (fgets_lines 511 (child_pipe_text lb)) < fuel"
  shows "result (fgets_main pos fuel argv) [] = Exit 0 \<and>
    concat (shown (final (fgets_main pos fuel argv) [])) = child_pipe_text lb \<and>
    text_to w (stdio_run lb (final (fgets_main cos 0 argv) [])) = child_pipe_text lb"
proof -
  have wrote: "text_to w (stdio_run lb (final (fgets_main cos 0 argv) [])) = child_pipe_text lb"
    using child by (rule child_writes)
  let ?lns = "fgets_lines 511 (child_pipe_text lb)"
  have lns: "pipe_law pos ?lns" "?lns \<noteq> []" "concat ?lns = child_pipe_text lb"
    using parent(1) unfolding wrote
    by (simp_all add: fgets_lines_Nil concat_fgets_lines child_pipe_text_def child_lines_def)
  have go: "result (fgets_parent pos fuel nb child rd wr) h = Exit 0"
      "shown (final (fgets_parent pos fuel nb child rd wr) h) = shown h @ ?lns" if "reads h = 0" for nb child rd wr h
    using fgets_parent_shows [OF lns(1,2) parent(6,5), of rd] parent(4) that by simp_all
  show ?thesis
    using wrote lns(3) parent(2,3) by (simp add: fgets_main_def final_bind result_bind go Let_def not_less [symmetric])
qed


text \<open>An environment for examples: the pipe delivers \<open>lns\<close>, \<open>waitpid\<close> returns \<open>wait\<close>, \<open>fork\<close> returns \<open>pid\<close> and every
  other call 5; the pipe has the descriptors 3 and 4.\<close>

abbreviation os_pipe :: "string list \<Rightarrow> int \<Rightarrow> int \<Rightarrow> c_os" where
  "os_pipe lns wait pid \<equiv> os_lines (Fgets 512) lns (\<lambda>c. case c of Waitpid _ _ \<Rightarrow> wait | Fork \<Rightarrow> pid | _ \<Rightarrow> 5)"

lemma pipefds_os_lines: "c \<noteq> Pipe \<Longrightarrow> pipefds (os_lines c lns rets h Pipe) (Suc 0) = 4"
  by (simp add: os_lines_def pipefds_def word_rcat_def)

theorem fgets_pipeline_witness:
  "let lns = fgets_lines 511 (child_pipe_text True); pos = os_pipe lns (- 1) 7
   in result (fgets_main pos (Suc (length lns)) [''fgets'']) [] = Exit 0 \<and>
     concat (shown (final (fgets_main pos (Suc (length lns)) [''fgets'']) [])) = child_pipe_text True"
proof -
  define lns where "lns = fgets_lines 511 (child_pipe_text True)"
  have nonneg: "0 \<le> sys_ret (os_pipe [] 1 0 h c)" for h c
    by (simp add: os_lines_def split: ccall.splits)
  have wrote: "text_to 4 (stdio_run True (final (fgets_main (os_pipe [] 1 0) 0 [''fgets'']) [])) = child_pipe_text True"
    by (rule child_writes) (simp_all add: os_lines_other nonneg pipefds_os_lines)
  show ?thesis
    using fgets_pipeline [of "os_pipe [] 1 0" 4 "os_pipe lns (- 1) 7" True "[''fgets'']" "Suc (length lns)"]
    by (simp add: nonneg os_lines_other pipefds_os_lines wrote delivers_os_lines Let_def flip: lns_def)
qed

subsection \<open>\<open>waitpid\<close> with \<open>WEXITED\<close>\<close>

text \<open>The manual page of \<open>waitpid\<close>: options other than \<open>WNOHANG\<close>, \<open>WUNTRACED\<close>, \<open>WCONTINUED\<close> and the Linux-specific
  ones are invalid, and the call fails.\<close>

definition waitpid_law :: "c_os \<Rightarrow> bool" where
  "waitpid_law os \<longleftrightarrow>
    (\<forall>h pid opts. opts AND NOT (1 OR 2 OR 8 OR 0x20000000 OR 0x40000000 OR 0x80000000) \<noteq> 0 \<longrightarrow>
      sys_ret (os h (Waitpid pid opts)) = - 1)"

lemma waitpid_rejects: "waitpid_law os \<Longrightarrow> sys_ret (os h (Waitpid pid wait_options)) = - 1"
  unfolding waitpid_law_def wait_options_def by simp

lemma watch_loop_rejected:
  assumes "waitpid_law os"
  shows "result (watch_loop os child (Suc fuel) None None) h =
    (if sys_ret (os h (Fgets 512)) = 0 then LoopUndefined else LoopDone (Some 0))"
  by (simp add: result_bind waitpid_rejects [OF assms] wait_status_def)

text \<open>\<open>fgets\<close> passes \<open>WEXITED\<close>, which \<open>waitpid\<close> does not know.  Whatever the child does, the parent therefore
  takes it for exited after the first line, reports a normal exit when it ends with 0, and never
  reports a signal; when there is no first line it uses an indeterminate variable.\<close>

theorem fgets_waitpid_rejected:
  assumes "waitpid_law os"
  shows "\<exists>g. final (fgets_read os (Suc fuel) child fp) h = g \<and>
    (case result (fgets_read os (Suc fuel) child fp) h of
       Exit code \<Rightarrow> code = 0 \<and> (\<exists>r g'. g = Printf ''Will exit !!!\<newline>'' [] # Call (Fclose fp) r # Printf ''Normally exited\<newline>'' [] # g')
     | Undefined \<Rightarrow> sys_ret (os h (Fgets 512)) = 0
     | Running \<Rightarrow> sys_ret (os h (Fgets 512)) \<noteq> 0) \<and>
    (sys_ret (os h (Fgets 512)) = 0 \<longrightarrow> result (fgets_read os (Suc fuel) child fp) h = Undefined)"
proof -
  have report: "final (fgets_report os fp (Some 0)) g = Printf ''Will exit !!!\<newline>'' [] #
      Call (Fclose fp) (os (Printf ''Normally exited\<newline>'' [] # g) (Fclose fp)) # Printf ''Normally exited\<newline>'' [] # g" for g
    by (simp add: fgets_report_def final_bind WIFEXITED_def WIFSIGNALED_def)
  show ?thesis
    unfolding fgets_read_def
    by (simp add: result_bind final_bind watch_loop_rejected [OF assms] fgets_report_end report del: watch_loop.simps)
qed

theorem fgets_waitpid_rejected_witness:
  "let os = os_pipe [''a''] (- 1) 7
   in waitpid_law os \<and>
     (\<exists>r g'. final (fgets_read os 2 7 5) [] = Printf ''Will exit !!!\<newline>'' [] # Call (Fclose 5) r # Printf ''Normally exited\<newline>'' [] # g')"
proof -
  have law: "waitpid_law (os_pipe [''a''] (- 1) 7)"
    by (simp add: waitpid_law_def os_lines_other)
  have "result (fgets_read (os_pipe [''a''] (- 1) 7) 2 7 5) [] = Exit 0"
    by (intro fgets_read_shows(1) [where lns = "[''a'']"] delivers_os_lines) (simp_all add: os_lines_other)
  with law show ?thesis
    using fgets_waitpid_rejected [OF law, of 1 7 5 "[]"] by (simp add: Let_def numeral_2_eq_2)
qed

subsection \<open>A parent that does not end\<close>

lemma watch_loop_spins:
  assumes "pipe_law os lns"
    and "\<And>h. reads h \<le> length lns \<Longrightarrow> sys_ret (os h (Waitpid child wait_options)) = 0"
  shows "reads h < length lns \<or> pid = Some 0 \<Longrightarrow> result (watch_loop os child fuel pid s) h = LoopRunning"
proof (induction fuel arbitrary: h pid s)
  case (Suc fuel)
  show ?case
  proof (cases "reads h < length lns")
    case True
    then show ?thesis
      using delivers_line(1) [OF assms(1) True] assms(2) by (simp add: result_bind Suc.IH Let_def)
  next
    case False
    then show ?thesis
      using delivers_line(2) [OF assms(1), of h] Suc by (simp add: result_bind)
  qed
qed simp



end
