(* ===== verification/CapTest.thy ===== *)
theory CapTest
  imports Children
begin

text \<open>
  \<open>cap/main.c\<close>: parent and child each try to open a raw SCTP socket; then the child ends and the parent waits for
  a key, or runs as a service.
\<close>

subsection \<open>The usage text\<close>

text \<open>\<open>snprintf\<close> into a buffer of \<open>n\<close> bytes stores at most \<open>n - 1\<close> characters.\<close>

definition snprintf :: "nat \<Rightarrow> string \<Rightarrow> string" where
  "snprintf n s = take (n - 1) s"

text \<open>A conversion \<open>%w.ps\<close> with its argument: at most \<open>p\<close> characters, right-justified in \<open>w\<close> columns.\<close>

definition format_s :: "string \<Rightarrow> string \<Rightarrow> string option" where
  "format_s fmt arg =
    (case fmt of
       [] \<Rightarrow> None
     | c # t \<Rightarrow>
         (case dropWhile is_digit t of
            [] \<Rightarrow> None
          | d # u \<Rightarrow>
              if c = CHR ''%'' \<and> d = CHR ''.'' \<and> dropWhile is_digit u = ''s''
              then let shown = take (nat (digits_value 0 u)) arg
                in Some (replicate (nat (digits_value 0 t) - length shown) CHR '' '' @ shown)
              else None))"

definition usage_indent :: "string \<Rightarrow> string option" where
  "usage_indent argv0 =
    (let szContinueSpaces = replicate (128 - 1) CHR '' '';
         szUsageHeader = snprintf 128 (''Usage: '' @ argv0);
         prefixLen = length szUsageHeader;
         szOptionIndentFormatStr = snprintf 128 (''%'' @ decimal prefixLen @ ''.'' @ decimal prefixLen @ ''s'')
     in map_option (snprintf 128) (format_s szOptionIndentFormatStr szContinueSpaces))"

definition cap_usage :: "string \<Rightarrow> unit c_prog" where
  "cap_usage argv0 =
    (case usage_indent argv0 of
       None \<Rightarrow> exit_with ()
     | Some szOptionIndent \<Rightarrow>
         eprintf ''Usage: %s [-s]\<newline>%s with no option,proc will wait any key before exit\<newline>%s -s indicate proc to run infinitly\<newline>''
           [ArgS argv0, ArgS szOptionIndent, ArgS szOptionIndent])"

subsection \<open>\<open>main\<close>\<close>

text \<open>The options; \<open>None\<close> is the return after the usage text, else \<open>serviceFlag\<close>.\<close>

fun cap_options :: "string \<Rightarrow> optres list \<Rightarrow> int \<Rightarrow> int option c_prog" where
  "cap_options argv0 [] serviceFlag = exit_with (Some serviceFlag)"
| "cap_options argv0 (OptErr # opts) serviceFlag = do { cap_usage argv0; exit_with None }"
| "cap_options argv0 (Opt c optarg # opts) serviceFlag =
    (if c = CHR ''s'' then do {
       printf ''has set -s flag!\<newline>'' [];
       cap_options argv0 opts 1
     }
     else if c = CHR ''a'' then do {
       printf ''has set -a value option with value: %d\<newline>'' [ArgI (atoi optarg)];
       cap_options argv0 opts serviceFlag
     }
     else do { cap_usage argv0; exit_with None })"

text \<open>The endless loop of the service; \<open>fuel\<close> bounds the rounds.\<close>

fun cap_service :: "c_os \<Rightarrow> nat \<Rightarrow> outcome c_prog" where
  "cap_service os 0 = exit_with Running"
| "cap_service os (Suc fuel) = do {
     printf ''Parent is running as service, count: %u ...\<newline>'' [ArgI 0];
     call os (CSleep 1);
     cap_service os fuel
   }"

definition cap_check :: "c_os \<Rightarrow> string \<Rightarrow> unit c_prog" where
  "cap_check os szTips = do {
     r \<leftarrow> call os (CSocket 2 3 132);
     if sys_ret r \<le> 0 then
       perror (snprintf 512 (szTips @ '' check raw socket cap in failure! errorDesc'')) r
     else do {
       eprintf ''%s raw socket supported\<newline>'' [ArgS szTips];
       call os (CClose (sys_ret r));
       exit_with ()
     }
   }"

definition cap_main :: "c_os \<Rightarrow> nat \<Rightarrow> string list \<Rightarrow> outcome c_prog" where
  "cap_main os fuel argv = do {
     parsed \<leftarrow> cap_options (hd argv) (fst (getopt ''s'' (tl argv))) 0;
     case parsed of
       None \<Rightarrow> exit_with (Exit 1)
     | Some serviceFlag \<Rightarrow> do {
         r \<leftarrow> call os Fork;
         let pid = sys_ret r;
         let szTips = (if pid = 0 then ''Child'' else ''Parent'');
         (if pid = 0 then printf ''%s process begin to run ...\<newline>'' [ArgS szTips]
          else printf ''%s process continue to run ...\<newline>'' [ArgS szTips]);
         cap_check os szTips;
         if serviceFlag = 0 then
           (if pid \<noteq> 0 then do {
              call os (CSleep 1);
              printf ''Parent role, enter any key to exit ...\<newline>'' [];
              call os CGetchar;
              exit_with (Exit 0)
            }
            else do {
              printf ''Child will exit!\<newline>'' [];
              exit_with (Exit 0)
            })
         else
           (if pid \<noteq> 0 then cap_service os fuel
            else do {
              printf ''Child will exit, only Parent is running as service!\<newline>'' [];
              exit_with (Exit 0)
            })
       }
   }"

subsection \<open>The indentation\<close>

lemma length_decimal: "n < 1000 \<Longrightarrow> length (decimal n) \<le> 3"
  by (subst decimal.simps, subst decimal.simps, subst decimal.simps) (auto simp: div_mult2_eq [symmetric])

text \<open>The continuation lines of the usage text of \<open>cap\<close> are indented by exactly the length of the header, which
  is cut at 127 characters like the header itself, for every program name; the format built from that length
  is always a valid conversion.\<close>

theorem usage_indent_aligned:
  "usage_indent argv0 = Some (replicate (min 127 (7 + length argv0)) CHR '' '')"
proof -
  define n where "n = min 127 (7 + length argv0)"
  have header: "length (snprintf 128 (''Usage: '' @ argv0)) = n"
    by (simp add: snprintf_def n_def)
  let ?fmt = "''%'' @ decimal n @ ''.'' @ decimal n @ ''s''"
  have "length (decimal n) \<le> 3"
    by (intro length_decimal) (simp add: n_def)
  then have fmt: "snprintf 128 ?fmt = ?fmt"
    by (simp add: snprintf_def)
  have stop: "\<not> is_digit CHR ''.''" "\<not> is_digit CHR ''s''"
    by (simp_all add: is_digit_def)
  have "format_s ?fmt (replicate 127 CHR '' '') = Some (replicate n CHR '' '')"
    by (simp add: format_s_def digits_value_decimal_stop stop n_def)
  then show ?thesis
    unfolding usage_indent_def Let_def header fmt
    by (simp add: snprintf_def n_def)
qed


subsection \<open>How the processes end\<close>

text \<open>What the command line asks for: \<open>None\<close> for an unknown option, else whether to run as a service.\<close>

definition cap_asked :: "string list \<Rightarrow> bool option" where
  "cap_asked argv =
    (let opts = fst (getopt ''s'' (tl argv)) in if OptErr \<in> set opts then None else Some (opts \<noteq> []))"

lemma cap_options_result:
  "\<forall>c a. Opt c a \<in> set opts \<longrightarrow> c = CHR ''s'' \<Longrightarrow>
    result (cap_options argv0 opts flag) h =
      (if OptErr \<in> set opts then None else Some (if opts = [] then flag else 1))"
proof (induction opts arbitrary: flag h)
  case (Cons opt opts)
  then have "\<forall>c a. Opt c a \<in> set opts \<longrightarrow> c = CHR ''s''" "\<And>c a. opt = Opt c a \<Longrightarrow> c = CHR ''s''"
    by auto
  with Cons.IH show ?case
    by (cases opt) (auto simp: result_bind)
qed simp

lemma cap_parsed:
  "result (cap_options (hd argv) (fst (getopt ''s'' (tl argv))) 0) h =
    map_option (\<lambda>b. if b then 1 else 0) (cap_asked argv)"
proof -
  have "c = CHR ''s''" if "wants_arg ''s'' c \<noteq> None" for c
    using that by (auto split: if_splits)
  then have "\<forall>c a. Opt c a \<in> set (fst (getopt ''s'' (tl argv))) \<longrightarrow> c = CHR ''s''"
    using getopt_known by blast
  then show ?thesis
    by (simp add: cap_options_result cap_asked_def Let_def)
qed

definition sleeps :: "ccall history \<Rightarrow> nat" where
  "sleeps h = length (filter (\<lambda>c. case c of CSleep _ \<Rightarrow> True | _ \<Rightarrow> False) (calls h))"

lemma sleeps_simps [simp]:
  "sleeps (Printf f as # h) = sleeps h"
  "sleeps (Eprintf f as # h) = sleeps h"
  "sleeps (Call c r # h) = (case c of CSleep _ \<Rightarrow> 1 | _ \<Rightarrow> 0) + sleeps h"
  by (simp_all add: sleeps_def split: ccall.splits)

lemma cap_service_run:
  "result (cap_service os fuel) h = Running"
  "sleeps (final (cap_service os fuel) h) = fuel + sleeps h"
  by (induction fuel arbitrary: h) (simp_all add: result_bind final_bind)

lemma cap_options_sleeps: "sleeps (final (cap_options argv0 opts flag) h) = sleeps h"
proof (induction opts arbitrary: flag h)
  case (Cons opt opts)
  have "sleeps (final (cap_usage argv0) g) = sleeps g" for g
    by (simp add: cap_usage_def split: option.splits)
  then show ?case
    using Cons by (cases opt) (simp_all add: final_bind)
qed simp

lemma cap_check_sleeps: "sleeps (final (cap_check os tips) h) = sleeps h"
  by (simp add: cap_check_def final_bind perror_def)

text \<open>C36: how the processes of \<open>cap\<close> end, for every command line.  An unknown option gives the exit code 1 without a
  child.  The child always exits with 0.  The parent exits with 0 when no service was asked for; as a service it
  never ends, and sleeps once in every round.  The option \<open>-a\<close> of the source is unknown.\<close>

theorem cap_processes:
  assumes "\<And>h. sys_ret (os h Fork) = pid"
  shows "(cap_asked argv = None \<longrightarrow> result (cap_main os fuel argv) [] = Exit 1 \<and>
      Fork \<notin> set (calls (final (cap_main os fuel argv) []))) \<and>
    (cap_asked argv = Some False \<or> cap_asked argv \<noteq> None \<and> pid = 0 \<longrightarrow> result (cap_main os fuel argv) [] = Exit 0) \<and>
    (cap_asked argv = Some True \<and> pid \<noteq> 0 \<longrightarrow> result (cap_main os fuel argv) [] = Running \<and>
      sleeps (final (cap_main os fuel argv) []) = fuel) \<and>
    cap_asked [name, ''-a'', value] = None"
proof -
  have options: "calls (final (cap_options argv0 opts flag) h) = calls h" for argv0 opts flag h
  proof (induction opts arbitrary: flag h)
    case (Cons opt opts)
    then show ?case
      by (cases opt) (simp_all add: final_bind cap_usage_def split: option.splits)
  qed simp
  have "cap_asked [name, ''-a'', value] = None"
    by (simp add: cap_asked_def split_beta)
  moreover have "sleeps [] = 0"
    by (simp add: sleeps_def)
  ultimately show ?thesis
    by (auto simp: cap_main_def result_bind final_bind cap_parsed assms cap_service_run cap_options_sleeps
        cap_check_sleeps options Let_def)
qed

theorem cap_processes_witness:
  "result (cap_main (os_const 7) 9 [''cap'']) [] = Exit 0 \<and>
   result (cap_main (os_const 7) 9 [''cap'', ''-s'']) [] = Running \<and>
   result (cap_main (os_const 0) 9 [''cap'', ''-s'']) [] = Exit 0 \<and>
   result (cap_main (os_const 7) 9 [''cap'', ''-x'']) [] = Exit 1"
  using cap_processes [of "os_const 7" 7 "[''cap'']" 9] cap_processes [of "os_const 7" 7 "[''cap'', ''-s'']" 9]
    cap_processes [of "os_const 0" 0 "[''cap'', ''-s'']" 9] cap_processes [of "os_const 7" 7 "[''cap'', ''-x'']" 9]
  by (simp add: os_const_def cap_asked_def)

text \<open>The descriptors of the program, as a monitor.\<close>

fun cap_fds :: "ccall \<Rightarrow> sysret \<Rightarrow> int list \<Rightarrow> int list option" where
  "cap_fds (CSocket d t p) r fds = Some (if sys_ret r < 0 then fds else sys_ret r # fds)"
| "cap_fds (CClose fd) r fds = (if fd \<in> set fds then Some (remove1 fd fds) else None)"
| "cap_fds c r fds = Some fds"


fun cap_opens :: "ccall \<Rightarrow> bool" where
  "cap_opens (CSocket d t p) = True"
| "cap_opens c = False"

fun cap_closes :: "ccall \<Rightarrow> int option" where
  "cap_closes (CClose fd) = Some fd"
| "cap_closes c = None"

interpretation cap: fd_monitor cap_fds cap_opens cap_closes "\<lambda>_. None"
proof
  show "cap_opens c \<Longrightarrow> cap_fds c r fds = Some (if sys_ret r < 0 then fds else sys_ret r # fds)" for c r fds
    by (cases c) simp_all
  show "cap_closes c = Some fd \<Longrightarrow> cap_fds c r fds = (if fd \<in> set fds then Some (remove1 fd fds) else None)" for c r fds fd
    by (cases c) simp_all
  show "\<not> cap_opens c \<Longrightarrow> cap_closes c = None \<Longrightarrow> None = None \<Longrightarrow> cap_fds c r fds = Some fds" for c r fds
    by (cases c) simp_all
qed simp

lemmas wp_cap_calls =
  cap.wp_open [of "CSocket d t p" for d t p, simplified]
  cap.wp_close [OF cap_closes.simps(1)]
  cap.wp_other [of Fork, simplified]
  cap.wp_other [of "CSleep n" for n, simplified]
  cap.wp_other [of CGetchar, simplified]

lemma wp_cap_service: "(\<And>x. Q x fds) \<Longrightarrow> wp cap_fds (cap_service os fuel) Q fds"
  by (induction fuel) (auto intro!: wp_rules wp_cap_calls)

lemma wp_cap_options: "(\<And>x. Q x fds) \<Longrightarrow> wp cap_fds (cap_options argv0 opts flag) Q fds"
proof (induction opts arbitrary: flag)
  case (Cons opt opts)
  then show ?case
    by (cases opt) (auto simp: cap_usage_def intro!: wp_rules)
qed (simp add: wp_return)

text \<open>Each process of \<open>cap\<close> closes only a descriptor it has opened, and leaves none open, except descriptor 0:
  the program takes it for a failure.\<close>

theorem cap_descriptors:
  "\<exists>fds. monitor cap_fds [] (final (cap_main os fuel argv) []) = Some fds \<and> set fds \<subseteq> {0}"
proof -
  have "wp cap_fds (cap_main os fuel argv) (\<lambda>_ fds. set fds \<subseteq> {0}) []"
    unfolding cap_main_def cap_check_def
    by (intro wp_rules wp_cap_calls wp_cap_service wp_cap_options) auto
  from wpD [OF this, of "[]" "[]"] show ?thesis
    by simp
qed

end
