(* ===== verification/Segments.thy ===== *)
theory Segments
  imports CIO "HOL-Library.Signed_Division"
begin

text \<open>
  Programs about memory segments: \<open>stack/main.c\<close>, which starts threads with a large array on their stacks, and
  \<open>bss/main.c\<close>, which touches global arrays and then allocates arrays of variable length on the stack.
  That an array does not fit on the stack is an answer of the environment: a negative result of
  \<open>StackArray\<close> is the fault that ends the process.
\<close>

datatype mcall = MFgets nat | PthreadCreate | MSleep int | MGetrlimit | StackArray nat

type_synonym m_os = "mcall os"
type_synonym 'a m_prog = "(mcall, 'a) prog"

subsection \<open>\<open>stack\<close>\<close>

definition STACK_BIG_SIZE :: nat where
  "STACK_BIG_SIZE = 5 * 1024 * 1024"

text \<open>The thread sleeps for ever; \<open>fuel\<close> bounds the rounds.\<close>

fun sleep_loop :: "m_os \<Rightarrow> nat \<Rightarrow> outcome m_prog" where
  "sleep_loop os 0 = exit_with Running"
| "sleep_loop os (Suc fuel) = do { call os (MSleep 1); sleep_loop os fuel }"

definition stack_f :: "m_os \<Rightarrow> nat \<Rightarrow> outcome m_prog" where
  "stack_f os fuel = do {
     r \<leftarrow> call os (StackArray STACK_BIG_SIZE);
     if sys_ret r < 0 then exit_with Undefined else sleep_loop os fuel
   }"

fun stack_loop :: "m_os \<Rightarrow> nat \<Rightarrow> u8 \<Rightarrow> outcome m_prog" where
  "stack_loop os 0 seq = exit_with Running"
| "stack_loop os (Suc fuel) seq = do {
     printf ''Enter any key to create child thread:\<newline>'' [];
     line \<leftarrow> call os (MFgets 256);
     if sys_ret line = 0 then exit_with (Exit (- 1))
     else do {
       printf ''Enter key '%c', so create child thread seq: %u\<newline>\<newline>'' [ArgS (take 1 (line_of line)), ArgI (uint seq)];
       r \<leftarrow> call os PthreadCreate;
       if sys_ret r \<noteq> 0 then do {
         eprintf ''Error when creating thread! rc: %d\<newline>'' [ArgI (sys_ret r)];
         exit_with (Exit (- 1))
       }
       else stack_loop os fuel (seq + 1)
     }
   }"

definition stack_main :: "m_os \<Rightarrow> nat \<Rightarrow> outcome m_prog" where
  "stack_main os fuel = do {
     r \<leftarrow> call os (StackArray STACK_BIG_SIZE);
     if sys_ret r < 0 then exit_with Undefined
     else do {
       printf ''Use big stack var in every thread, so can see the `ulimit -s` setting is for each thread!\<newline>'' [];
       stack_loop os fuel 1
     }
   }"

text \<open>The sequence numbers that were printed, the oldest first.\<close>

fun seqs :: "mcall history \<Rightarrow> int list" where
  "seqs [] = []"
| "seqs (Printf f [ArgS k, ArgI s] # h) = seqs h @ [s]"
| "seqs (_ # h) = seqs h"

abbreviation creates :: "m_os \<Rightarrow> bool" where
  "creates os \<equiv> \<forall>h. sys_ret (os h PthreadCreate) = 0"

abbreviation enter_line :: "mcall event" where
  "enter_line \<equiv> Printf ''Enter any key to create child thread:\<newline>'' []"

lemma stack_loop_eof:
  assumes "delivers os (MFgets 256) lns" "length lns \<le> made (MFgets 256) h"
  shows "result (stack_loop os (Suc n) s) h = Exit (- 1)"
    "final (stack_loop os (Suc n) s) h = Call (MFgets 256) (os (enter_line # h) (MFgets 256)) # enter_line # h"
  using delivers_line(2) [OF assms(1), of "enter_line # h"] assms(2) by (simp_all add: result_bind final_bind)

lemma stack_loop_line:
  assumes "creates os" "delivers os (MFgets 256) lns" "made (MFgets 256) h < length lns"
  shows "\<exists>g. made (MFgets 256) g = Suc (made (MFgets 256) h) \<and> seqs g = seqs h @ [uint s] \<and>
    made PthreadCreate g = Suc (made PthreadCreate h) \<and>
    result (stack_loop os (Suc n) s) h = result (stack_loop os n (s + 1)) g \<and>
    final (stack_loop os (Suc n) s) h = final (stack_loop os n (s + 1)) g"
proof -
  let ?r = "os (enter_line # h) (MFgets 256)"
  let ?g = "Printf ''Enter key '%c', so create child thread seq: %u\<newline>\<newline>'' [ArgS (take 1 (line_of ?r)), ArgI (uint s)] #
    Call (MFgets 256) ?r # enter_line # h"
  show ?thesis
    using delivers_line(1) [OF assms(2), of "enter_line # h"] assms(1,3)
    by (intro exI [of _ "Call PthreadCreate (os ?g PthreadCreate) # ?g"]) (simp add: result_bind final_bind)
qed

interpretation threads: line_loop stack_loop "MFgets 256" creates "\<lambda>_ _. None" "\<lambda>s _. s + 1" "\<lambda>_. Exit (- 1)"
  "\<lambda>s _. [uint s]" seqs
proof (unfold_locales, goal_cases)
  case (1 os lns h n s)
  then show ?case
    by (simp add: stack_loop_eof del: stack_loop.simps)
next
  case (3 os lns h s n)
  then show ?case
    using stack_loop_line [of os lns h s n] by blast
qed simp

interpretation starts: line_loop stack_loop "MFgets 256" creates "\<lambda>_ _. None" "\<lambda>s _. s + 1" "\<lambda>_. Exit (- 1)"
  "\<lambda>_ _. [()]" "\<lambda>h. replicate (made PthreadCreate h) ()"
proof (unfold_locales, goal_cases)
  case (1 os lns h n s)
  then show ?case
    by (simp add: stack_loop_eof del: stack_loop.simps)
next
  case (3 os lns h s n)
  then show ?case
    using stack_loop_line [of os lns h s n] by (force simp: replicate_append_same simp del: stack_loop.simps)
qed simp

lemma consume_seqs:
  "consume (\<lambda>_ _. None) (\<lambda>s _. s + 1) at_end (\<lambda>s _. [uint s]) (s :: u8) lns =
    (at_end (s + of_nat (length lns)), map (\<lambda>i. uint (s + of_nat i)) [0..<length lns])"
proof (induction lns arbitrary: s)
  case (Cons l lns)
  have "map (\<lambda>i. uint (s + of_nat i)) [0..<length (l # lns)] = uint s # map (\<lambda>i. uint (s + 1 + of_nat i)) [0..<length lns]"
    by (simp add: upt_conv_Cons map_Suc_upt [symmetric] add.assoc del: upt_Suc)
  then show ?case
    by (simp add: Cons.IH add.assoc del: upt_Suc)
qed simp

lemma consume_starts:
  "consume (\<lambda>_ _. None) (\<lambda>s _. s + 1) at_end (\<lambda>_ _. [()]) (s :: u8) lns =
    (at_end (s + of_nat (length lns)), replicate (length lns) ())"
  by (induction lns arbitrary: s) (simp_all add: add.assoc)

lemma stack_loop_run:
  assumes "creates os" "delivers os (MFgets 256) lns" "length lns < fuel" "made (MFgets 256) h = 0"
  shows "result (stack_loop os fuel s) h = Exit (- 1)"
    "made PthreadCreate (final (stack_loop os fuel s) h) = made PthreadCreate h + length lns"
    "seqs (final (stack_loop os fuel s) h) = seqs h @ map (\<lambda>i. uint (s + of_nat i)) [0..<length lns]"
  using threads.consumes [OF assms(1,2), of fuel h s] starts.consumes [OF assms(1,2), of fuel h s] assms(3,4)
  by (simp_all add: consume_seqs consume_starts flip: replicate_add)

text \<open>\<open>stack\<close> creates one thread for every line it reads and ends with -1 at the end of its input; the number it
  shows for the \<open>i\<close>-th thread is \<open>i\<close> modulo 256, so that thread 256 is shown as number 0.  A thread never
  ends.\<close>

theorem stack_threads:
  assumes "delivers os (MFgets 256) lns" "\<And>h. sys_ret (os h PthreadCreate) = 0"
    and "\<And>h n. 0 \<le> sys_ret (os h (StackArray n))" "length lns < fuel"
  shows "result (stack_main os fuel) [] = Exit (- 1) \<and>
    made PthreadCreate (final (stack_main os fuel) []) = length lns \<and>
    seqs (final (stack_main os fuel) []) = map (\<lambda>i. int i mod 256) [1..<Suc (length lns)] \<and>
    (\<forall>n h. result (stack_f os n) h = Running)"
proof -
  have stack: "\<not> sys_ret (os h (StackArray n)) < 0" for h n
    using assms(3) by (simp add: not_less)
  have "result (sleep_loop os n) h = Running" for n h
    by (induction n arbitrary: h) (simp_all add: result_bind)
  then have thread: "result (stack_f os n) h = Running" for n h
    by (simp add: stack_f_def result_bind stack)
  have "uint (1 + of_nat i :: u8) = int (Suc i) mod 256" for i
    unfolding of_nat_Suc [symmetric] unsigned_of_nat by (simp add: take_bit_eq_mod zmod_int del: of_nat_Suc)
  then have "map (\<lambda>i. uint (1 + of_nat i :: u8)) [0..<length lns] = map (\<lambda>i. int i mod 256) [1..<Suc (length lns)]"
    by (simp add: map_Suc_upt [symmetric] comp_def del: upt_Suc)
  with thread show ?thesis
    using stack_loop_run [of os lns fuel _ 1] assms(1,2,4)
    by (simp add: stack_main_def result_bind final_bind stack)
qed


theorem stack_threads_witness:
  "let os = os_lines (MFgets 256) [''a'', ''b''] (\<lambda>_. 0)
   in result (stack_main os 3) [] = Exit (- 1) \<and> seqs (final (stack_main os 3) []) = [1, 2]"
  using stack_threads [of "os_lines (MFgets 256) [''a'', ''b''] (\<lambda>_. 0)" "[''a'', ''b'']" 3]
  by (simp add: delivers_os_lines os_lines_other upt_conv_Cons)

subsection \<open>\<open>bss\<close>\<close>

abbreviation (input) data_size :: nat where "data_size \<equiv> 2 * 1024 * 1024"
abbreviation (input) bss_size :: nat where "bss_size \<equiv> 4 * 1024 * 1024"

text \<open>The loop \<open>a[i] = a[i]\<close> over an array of \<open>n\<close> bytes from \<open>i\<close> on; both sizes fit in \<open>unsigned int\<close>.\<close>

function touch :: "nat \<Rightarrow> nat \<Rightarrow> (nat \<Rightarrow> u8) \<Rightarrow> (nat \<Rightarrow> u8)" where
  "touch n i mem = (if i < n then touch n (i + 1) (mem(i := mem i)) else mem)"
  by pat_completeness auto
termination
  by (relation "measure (\<lambda>(n, i, mem). n - i)") auto

declare touch.simps [simp del]

text \<open>The two 64-bit numbers that \<open>getrlimit\<close> stores, as \<open>long\<close>; division truncates.\<close>

definition rlim_long :: "sysret \<Rightarrow> nat \<Rightarrow> int" where
  "rlim_long r i = sint (word_rcat (rev (take 8 (drop (8 * i) (sys_data r)))) :: u64)"

text \<open>The size of the array of variable length for a line: \<open>unsigned int\<close> arithmetic.\<close>

definition vla_size :: "string \<Rightarrow> u32" where
  "vla_size line = word_of_int (atoi line) * (1024 * 1024)"

text \<open>The loop over the sizes: \<open>None\<close> while it is running.\<close>

fun vla_loop :: "m_os \<Rightarrow> nat \<Rightarrow> outcome option m_prog" where
  "vla_loop os 0 = exit_with (Some Running)"
| "vla_loop os (Suc fuel) = do {
     r \<leftarrow> call os (MFgets 256);
     if sys_ret r = 0 then exit_with None
     else if take 1 (line_of r) = ''q'' then exit_with None
     else if vla_size (line_of r) = 0 then exit_with (Some Undefined)
     else do {
       s \<leftarrow> call os (StackArray (unat (vla_size (line_of r))));
       if sys_ret s < 0 then exit_with (Some Undefined)
       else do {
         printf ''Memset the temp buffer, to see the memory uasge\<newline>'' [];
         vla_loop os fuel
       }
     }
   }"

definition bss_limits :: "m_os \<Rightarrow> unit m_prog" where
  "bss_limits os = do {
     r \<leftarrow> call os MGetrlimit;
     if sys_ret r = 0 then do {
       printf ''Current stack size soft limit: %ld bytes, %ld MB\<newline>'' [ArgI (rlim_long r 0), ArgI (rlim_long r 0 sdiv (1024 * 1024))];
       printf ''Current stack size hard limit: %ld bytes, %ld MB\<newline>'' [ArgI (rlim_long r 1), ArgI (rlim_long r 1 sdiv (1024 * 1024))]
     }
     else exit_with ()
   }"

text \<open>\<open>main\<close> with the contents of its two global arrays, which it returns.\<close>

definition bss_main :: "m_os \<Rightarrow> nat \<Rightarrow> (nat \<Rightarrow> u8) \<Rightarrow> (nat \<Rightarrow> u8) \<Rightarrow> (outcome \<times> (nat \<Rightarrow> u8) \<times> (nat \<Rightarrow> u8)) m_prog" where
  "bss_main os fuel g_abBufferAtDataSegment g_abBufferAtBssSegment = do {
     printf ''global variable at dss segment: %zu, at bss segment: %zu, but only in VIRT space\<newline>Enter any key to continue:''
       [ArgI (int data_size), ArgI (int bss_size)];
     call os (MFgets 256);
     printf ''Will access the global memory, to see the RES stat change\<newline>Enter any key to continue:'' [];
     let dseg = touch data_size 0 g_abBufferAtDataSegment;
     let bseg = touch bss_size 0 g_abBufferAtBssSegment;
     call os (MFgets 256);
     bss_limits os;
     printf ''Enter the size factor of statck dynamic array(Unit: MB); q char will exit!\<newline>'' [];
     e \<leftarrow> vla_loop os fuel;
     case e of
       Some res \<Rightarrow> exit_with (res, dseg, bseg)
     | None \<Rightarrow> do {
         printf ''Exit from program!\<newline>'' [];
         exit_with (Exit 0, dseg, bseg)
       }
   }"

lemma touch_same: "touch n i mem = mem"
  by (induction n i mem rule: touch.induct) (subst touch.simps, simp)

text \<open>The size in megabytes counts modulo 4096.\<close>

lemma vla_size_mod: "unat (vla_size line) = nat (atoi line mod 4096) * 2 ^ 20"
proof -
  have "vla_size line = word_of_int (atoi line * 1048576)"
    by (simp add: vla_size_def wi_hom_mult)
  then have "uint (vla_size line) = (atoi line * 1048576) mod 2 ^ 32"
    by (simp only: uint_word_of_int_eq take_bit_eq_mod) simp
  moreover have "(atoi line * 1048576) mod 2 ^ 32 = (atoi line mod 4096) * 1048576"
    using mult_mod_left [of "atoi line" 4096 1048576] by simp
  ultimately have "unat (vla_size line) = nat ((atoi line mod 4096) * 1048576)"
    by (simp only: unat_eq_nat_uint)
  then show ?thesis
    by (simp add: nat_mult_distrib)
qed

lemma vla_size_zero: "vla_size line = 0 \<longleftrightarrow> 4096 dvd atoi line"
  using vla_size_mod [of line] by (auto simp: unat_eq_zero [symmetric] dvd_eq_mod_eq_0)

text \<open>The sizes the program asks for, the oldest first.\<close>

fun arrays :: "mcall list \<Rightarrow> nat list" where
  "arrays [] = []"
| "arrays (StackArray n # cs) = arrays cs @ [n]"
| "arrays (_ # cs) = arrays cs"

definition vla_lines :: "string list \<Rightarrow> string list" where
  "vla_lines lns = takeWhile (\<lambda>l. take 1 l \<noteq> ''q'') lns"

abbreviation stack_fits :: "m_os \<Rightarrow> bool" where
  "stack_fits os \<equiv> \<forall>h n. 0 \<le> sys_ret (os h (StackArray n))"

definition vla_stop :: "string \<Rightarrow> outcome option option" where
  "vla_stop l = (if take 1 l = ''q'' then Some None else if 4096 dvd atoi l then Some (Some Undefined) else None)"

definition vla_emit :: "string \<Rightarrow> nat list" where
  "vla_emit l = (if vla_stop l = None then [nat (atoi l mod 4096) * 2 ^ 20] else [])"

interpretation vlas: line_loop "\<lambda>os n _. vla_loop os n" "MFgets 256" stack_fits "\<lambda>_. vla_stop" "\<lambda>s _. s" "\<lambda>_. None"
  "\<lambda>_. vla_emit" "\<lambda>h. arrays (calls h)"
proof (unfold_locales, goal_cases)
  case (1 os lns h n s)
  then show ?case
    using delivers_line(2) [of os "MFgets 256" lns h] by (simp add: result_bind final_bind)
next
  case (2 os lns h s r n)
  then show ?case
    using delivers_line(1) [of os "MFgets 256" lns h]
    by (auto simp: result_bind final_bind vla_stop_def vla_emit_def vla_size_zero split: if_splits)
next
  case (3 os lns h s n)
  let ?g = "Call (MFgets 256) (os h (MFgets 256)) # h" and ?k = "nat (atoi (lns ! made (MFgets 256) h) mod 4096) * 2 ^ 20"
  have "\<not> sys_ret (os h (StackArray n)) < 0" for h n
    using 3(1) by (simp add: not_less)
  with 3 show ?case
    using delivers_line(1) [of os "MFgets 256" lns h]
    by (intro exI [of _ "Printf ''Memset the temp buffer, to see the memory uasge\<newline>'' [] # Call (StackArray ?k) (os ?g (StackArray ?k)) # ?g"])
      (auto simp: result_bind final_bind vla_stop_def vla_emit_def vla_size_zero vla_size_mod split: if_splits)
qed

lemma consume_vla:
  "consume (\<lambda>_. vla_stop) (\<lambda>s _. s) (\<lambda>_. None) (\<lambda>_. vla_emit) s lns =
    (if \<exists>l\<in>set (vla_lines lns). 4096 dvd atoi l then Some Undefined else None,
     map (\<lambda>l. nat (atoi l mod 4096) * 2 ^ 20) (takeWhile (\<lambda>l. \<not> 4096 dvd atoi l) (vla_lines lns)))"
  by (induction lns) (auto simp: vla_stop_def vla_emit_def vla_lines_def)

lemma bss_limits_calls: "calls (final (bss_limits os) h) = MGetrlimit # calls h"
  by (simp add: bss_limits_def final_bind)

text \<open>\<open>bss\<close> reads two lines, leaves both global arrays as they were, and then asks for an array of \<open>n mod 4096\<close>
  megabytes for every further line with the number \<open>n\<close>, up to a line that begins with \<open>q\<close>: the product wraps at 32
  bits.  It ends with 0, unless a number is a multiple of 4096: then the array has no elements, which C leaves
  undefined.\<close>

theorem bss_arrays:
  assumes "delivers os (MFgets 256) (a # b # lns)" "\<And>h n. 0 \<le> sys_ret (os h (StackArray n))" "length lns < fuel"
  shows "result (bss_main os fuel dseg bseg) [] =
      (if \<exists>l\<in>set (vla_lines lns). 4096 dvd atoi l then Undefined else Exit 0, dseg, bseg) \<and>
    arrays (calls (final (bss_main os fuel dseg bseg) [])) =
      map (\<lambda>l. nat (atoi l mod 4096) * 2 ^ 20) (takeWhile (\<lambda>l. \<not> 4096 dvd atoi l) (vla_lines lns))"
proof -
  have loop: "result (vla_loop os fuel) h = (if \<exists>l\<in>set (vla_lines lns). 4096 dvd atoi l then Some Undefined else None)"
      "arrays (calls (final (vla_loop os fuel) h)) =
        map (\<lambda>l. nat (atoi l mod 4096) * 2 ^ 20) (takeWhile (\<lambda>l. \<not> 4096 dvd atoi l) (vla_lines lns))"
    if "made (MFgets 256) h = 2" "arrays (calls h) = []" for h
    using vlas.consumes [OF _ assms(1), of fuel h] assms(2,3) that by (simp_all add: consume_vla)
  have "made (MFgets 256) (final (bss_limits os) h) = made (MFgets 256) h" for h
    by (simp add: made_def bss_limits_calls)
  then show ?thesis
    by (simp add: bss_main_def result_bind final_bind loop bss_limits_calls touch_same Let_def)
qed


theorem bss_arrays_witness:
  "let os = os_lines (MFgets 256) [''a'', ''b'', ''4097'', ''q'', ''0''] (\<lambda>_. 0)
   in result (bss_main os 4 (\<lambda>_. 0xff) (\<lambda>_. 0)) [] = (Exit 0, (\<lambda>_. 0xff), (\<lambda>_. 0)) \<and>
     arrays (calls (final (bss_main os 4 (\<lambda>_. 0xff) (\<lambda>_. 0)) [])) = [2 ^ 20]"
proof -
  have "atoi ''4097'' = 4097"
    by (simp add: atoi_def to_int32_def is_digit_def)
  then show ?thesis
    using bss_arrays [of "os_lines (MFgets 256) [''a'', ''b'', ''4097'', ''q'', ''0''] (\<lambda>_. 0)" "''a''" "''b''" "[''4097'', ''q'', ''0'']" 4
        "\<lambda>_. 0xff" "\<lambda>_. 0"]
    by (simp add: delivers_os_lines os_lines_other vla_lines_def)
qed

end
