(* ===== verification/Expressions.thy ===== *)
theory Expressions
  imports CIO
begin

text \<open>
  Small programs about expressions and statements: \<open>register/main.c\<close>, \<open>threeopr/main.c\<close>, \<open>warning/main.c\<close>,
  \<open>ifelse/main.c\<close>, \<open>dyna_stack_array/dynaArray.c\<close>, \<open>inline/\<close>, \<open>makefile/\<close> and \<open>string/string_compile_cat.c\<close>.
  They make no system call; an access outside an object and a signed overflow are \<open>None\<close>.
\<close>

unbundle bit_operations_syntax

type_synonym 'a pure_prog = "(unit, 'a) prog"

subsection \<open>\<open>register\<close>\<close>

text \<open>The loop of \<open>f\<close> over the buffer.\<close>

function crc_loop :: "bytes \<Rightarrow> nat \<Rightarrow> nat \<Rightarrow> u32 \<Rightarrow> u32 option" where
  "crc_loop buf n i crc =
    (if i < n then do {
       b \<leftarrow> load8 buf i;
       crc_loop buf n (i + 1) (crc XOR ucast b)
     }
     else Some crc)"
  by pat_completeness auto
termination
  by (relation "measure (\<lambda>(buf, n, i, crc). n - i)") auto

declare crc_loop.simps [simp del]

definition swap_bytes :: "u32 \<Rightarrow> u32" where
  "swap_bytes crc = drop_bit 24 crc OR drop_bit 8 (crc AND 0xFF0000) OR (push_bit 8 crc AND 0xFF0000) OR push_bit 24 crc"

definition register_f :: "bytes \<Rightarrow> nat \<Rightarrow> u32 option pure_prog" where
  "register_f buf n =
    (case crc_loop buf n 0 (NOT 0) of
       None \<Rightarrow> exit_with None
     | Some crc \<Rightarrow> do {
         printf ''These codes will all use registers to calc\<newline>'' [];
         exit_with (Some (swap_bytes (NOT crc)))
       })"

definition register_main :: "bytes \<Rightarrow> outcome pure_prog" where
  "register_main buf = do {
     crc \<leftarrow> register_f buf 16;
     case crc of
       None \<Rightarrow> exit_with Undefined
     | Some v \<Rightarrow> do {
         printf ''crc value: %u\<newline>'' [ArgI (uint v)];
         exit_with (Exit 0)
       }
   }"

text \<open>The bitwise sum of bytes.\<close>

definition xor_sum :: "bytes \<Rightarrow> u8" where
  "xor_sum bs = foldr (XOR) bs 0"

lemma crc_loop_sum:
  "n \<le> length buf \<Longrightarrow> i \<le> n \<Longrightarrow>
    crc_loop buf n i crc = Some (crc XOR ucast (xor_sum (take (n - i) (drop i buf))))"
proof (induction buf n i crc rule: crc_loop.induct)
  case (1 buf n i crc)
  show ?case
  proof (cases "i < n")
    case True
    with 1 have "take (n - i) (drop i buf) = buf ! i # take (n - (i + 1)) (drop (i + 1) buf)"
      by (simp add: Cons_nth_drop_Suc [symmetric] take_Cons')
    then have "ucast (xor_sum (take (n - i) (drop i buf))) =
        (ucast (buf ! i) XOR ucast (xor_sum (take (n - (i + 1)) (drop (i + 1) buf))) :: u32)"
      by (simp add: xor_sum_def unsigned_xor_eq)
    then show ?thesis
      using 1 True by (subst crc_loop.simps) (simp add: load8_def xor.assoc)
  next
    case False
    with 1 show ?thesis
      by (subst crc_loop.simps) (simp add: xor_sum_def)
  qed
qed

lemma crc_loop_outside: "length buf < n \<Longrightarrow> i \<le> length buf \<Longrightarrow> crc_loop buf n i crc = None"
proof (induction buf n i crc rule: crc_loop.induct)
  case (1 buf n i crc)
  then show ?case
    by (subst crc_loop.simps) (auto simp: load8_def)
qed

text \<open>The last expression of \<open>f\<close> exchanges the four bytes.\<close>

lemma swap_bytes_parts:
  "swap_bytes x = drop_bit 24 x OR push_bit 8 (take_bit 8 (drop_bit 16 x)) OR push_bit 16 (take_bit 8 (drop_bit 8 x)) OR
    push_bit 24 (take_bit 8 x)"
proof -
  have mask: "(0xFF0000 :: u32) = push_bit 16 (mask 8)"
    by (simp add: mask_eq_exp_minus_1)
  show ?thesis
    unfolding swap_bytes_def mask
    by (rule bit_word_eqI) (auto simp: bit_simps not_less dest: bit_imp_le_length)
qed

lemma swap_bytes_low: "swap_bytes (ucast b) = push_bit 24 (ucast (b :: u8))"
  unfolding swap_bytes_parts
  by (rule bit_word_eqI) (auto simp: bit_simps not_less dest: bit_imp_le_length)

lemma bit_swap_bytes:
  assumes "j < 4" "i < 8"
  shows "bit (swap_bytes x) (8 * j + i) \<longleftrightarrow> bit x (8 * (3 - j) + i)"
proof -
  consider "j = 0" | "j = 1" | "j = 2" | "j = 3"
    using assms(1) by linarith
  then show ?thesis
    using assms(2) by cases (auto simp: swap_bytes_parts bit_simps dest: bit_imp_le_length)
qed

lemma swap_bytes_swap_bytes: "swap_bytes (swap_bytes x) = x"
proof (rule bit_word_eqI)
  fix n assume "n < LENGTH(32)"
  then have n: "n = 8 * (n div 8) + n mod 8" "n div 8 < 4" "n mod 8 < 8"
    by simp_all
  then show "bit (swap_bytes (swap_bytes x)) n = bit x n"
    using bit_swap_bytes [of "n div 8" "n mod 8" "swap_bytes x"] bit_swap_bytes [of "3 - n div 8" "n mod 8" x]
    by simp
qed

text \<open>\<open>f\<close> of \<open>register\<close> returns the bitwise sum of the first \<open>n\<close> bytes in the high byte of the result and zero below
  it, whatever the bytes; with \<open>n\<close> beyond the buffer it reads outside.  The program prints that value for its
  16 bytes.\<close>

theorem register_f_value:
  "result (register_f buf n) h =
    (if n \<le> length buf then Some (push_bit 24 (ucast (xor_sum (take n buf)))) else None) \<and>
   (length buf = 16 \<longrightarrow> result (register_main buf) [] = Exit 0 \<and>
      hd (final (register_main buf) []) = Printf ''crc value: %u\<newline>'' [ArgI (uint (xor_sum buf) * 2 ^ 24)])"
proof -
  have f: "result (register_f buf n) h =
      (if n \<le> length buf then Some (push_bit 24 (ucast (xor_sum (take n buf)))) else None)" for n h
    using crc_loop_sum [of n buf 0 "NOT 0"] crc_loop_outside [of buf n 0 "NOT 0"]
    by (simp add: register_f_def result_bind swap_bytes_low not_le)
  have "uint (push_bit 24 (ucast b :: u32)) = uint b * 2 ^ 24" for b :: u8
  proof -
    have "uint b < 256" "0 \<le> uint b"
      using uint_lt2p [of b] by simp_all
    then show ?thesis
      unfolding unsigned_push_bit_eq unsigned_ucast_eq by (simp add: push_bit_eq_mult take_bit_eq_mod)
  qed
  then show ?thesis
    by (simp add: f register_main_def result_bind final_bind)
qed

theorem register_f_value_witness:
  "hd (final (register_main [1, 0, 0, 0, 0, 0, 0, 0, 0, 0, 0, 0, 0, 0, 0, 3]) []) = Printf ''crc value: %u\<newline>'' [ArgI 33554432]"
  using register_f_value [of "[1, 0, 0, 0, 0, 0, 0, 0, 0, 0, 0, 0, 0, 0, 0, 3]" 16 "[]"]
  by (simp add: xor_sum_def)


subsection \<open>\<open>threeopr\<close>\<close>

text \<open>The two expressions read \<open>szArr\<close>, whose contents are indeterminate.  \<open>argc\<close> is an \<open>int\<close> and is converted to
  \<open>size_t\<close> in the comparison with \<open>sizeof\<close> and in the conjunction.\<close>

definition threeopr_select :: "bytes \<Rightarrow> int \<Rightarrow> u8 option" where
  "threeopr_select szArr argc =
    (if (word_of_int argc :: u64) < of_nat (length szArr) then load8 szArr (nat argc) else Some 0)"

definition threeopr_mask :: "bytes \<Rightarrow> int \<Rightarrow> u8 option" where
  "threeopr_mask szArr argc = load8 szArr (unat ((word_of_int argc :: u64) AND (of_nat (length szArr) - 1)))"

definition threeopr_main :: "bytes \<Rightarrow> int \<Rightarrow> outcome pure_prog" where
  "threeopr_main szArr argc = do {
     printf ''\<newline>Three opers and bitwise, whose speed is more efficient?\<newline>'' [];
     exit_with (if threeopr_select szArr argc = None \<or> threeopr_mask szArr argc = None then Undefined else Exit 0)
   }"

text \<open>The two ways \<open>threeopr\<close> bounds an index.  For every \<open>int\<close>, negative ones too, neither reads outside the array;
  they read the same element when the number is an index, and else the conditional expression gives 0
  and the masked index wraps around.\<close>

theorem threeopr_agree:
  assumes "length szArr = 256" "- (2 ^ 31) \<le> argc" "argc < 2 ^ 31"
  shows "threeopr_select szArr argc = Some (if 0 \<le> argc \<and> argc < 256 then szArr ! nat argc else 0) \<and>
    threeopr_mask szArr argc = Some (szArr ! nat (argc mod 256)) \<and>
    result (threeopr_main szArr argc) [] = Exit 0"
proof -
  have u: "uint (word_of_int argc :: u64) = argc mod 2 ^ 64"
    by (simp add: uint_word_of_int)
  have in_range: "(word_of_int argc :: u64) < 256 \<longleftrightarrow> 0 \<le> argc \<and> argc < 256"
  proof (cases "0 \<le> argc")
    case True
    then show ?thesis
      using assms by (simp add: word_less_def u mod_pos_pos_trivial)
  next
    case False
    then have "argc mod 2 ^ 64 = argc + 2 ^ 64"
      using assms mod_pos_pos_trivial [of "argc + 2 ^ 64" "2 ^ 64"] by simp
    then show ?thesis
      using False assms by (simp add: word_less_def u)
  qed
  have "(word_of_int argc :: u64) AND 255 = take_bit 8 (word_of_int argc)"
    by (simp add: take_bit_eq_mask mask_eq_exp_minus_1)
  also have "unat \<dots> = nat (argc mod 256)"
    by (simp only: unat_eq_nat_uint unsigned_take_bit_eq u) (simp add: take_bit_eq_mod mod_mod_cancel)
  finally have mask: "unat ((word_of_int argc :: u64) AND 255) = nat (argc mod 256)" .
  have "nat (argc mod 256) < 256"
    by (simp add: nat_less_iff)
  then show ?thesis
    using assms(1) by (simp add: threeopr_select_def threeopr_mask_def threeopr_main_def result_bind in_range mask load8_def nat_less_iff)
qed


theorem threeopr_agree_witness:
  "threeopr_mask (replicate 256 7) (- 1) = Some 7 \<and> threeopr_select (replicate 256 7) (- 1) = Some 0 \<and>
   threeopr_select (replicate 256 7) 3 = threeopr_mask (replicate 256 7) 3"
  using threeopr_agree [of "replicate 256 7" "- 1"] threeopr_agree [of "replicate 256 7" 3] by simp

subsection \<open>\<open>warning\<close>\<close>

definition int_bytes :: "int \<Rightarrow> bytes" where
  "int_bytes n = map (\<lambda>i. ucast (drop_bit (8 * i) (word_of_int n :: u32))) [0..<4]"

text \<open>Whether \<open>memcmp\<close> returns a number other than 0; \<open>None\<close> is a read outside an object.\<close>

definition memcmp_differs :: "bytes \<Rightarrow> bytes \<Rightarrow> nat \<Rightarrow> bool option" where
  "memcmp_differs xs ys n = do {
     us \<leftarrow> load_bytes xs 0 n;
     vs \<leftarrow> load_bytes ys 0 n;
     Some (us \<noteq> vs)
   }"

text \<open>The misplaced parenthesis: the length is the value of \<open>sizeof(a) != 0\<close>.\<close>

definition memcmp_sizeof :: "bytes \<Rightarrow> bytes \<Rightarrow> bool option" where
  "memcmp_sizeof xs ys = memcmp_differs xs ys (nat (c_bool (length xs \<noteq> 0)))"

definition print_if :: "bool option \<Rightarrow> string \<Rightarrow> bool pure_prog" where
  "print_if c t =
    (case c of
       None \<Rightarrow> exit_with False
     | Some b \<Rightarrow> do { (if b then printf t [] else exit_with ()); exit_with True })"

definition warning_main :: "outcome pure_prog" where
  "warning_main = do {
     let a = int_bytes 1;
     let b = int_bytes 2;
     printf ''The third parameter is inlvaid, Can GCC report warning?\<newline>'' [];
     ok1 \<leftarrow> print_if (memcmp_sizeof a b) ''Hello memcmp sizeof(int)\<newline>'';
     let c = replicate 64 0;
     let d = replicate 64 0;
     ok2 \<leftarrow> print_if (memcmp_sizeof c d) ''Hello memcmp sizeof(int[16])\<newline>'';
     let e = replicate 64 0;
     let f = replicate 64 0;
     ok3 \<leftarrow> print_if (memcmp_differs e f (length e)) ''Hello memcmp sizeof(int[16]) with valid parameter\<newline>'';
     if \<not> (ok1 \<and> ok2 \<and> ok3) then exit_with Undefined
     else do {
       printf ''Exit from program!\<newline>'' [];
       exit_with (Exit 0)
     }
   }"

lemma nth_int_bytes: "i < 4 \<Longrightarrow> int_bytes n ! i = ucast (drop_bit (8 * i) (word_of_int n :: u32))"
  by (simp add: int_bytes_def)

lemma int_bytes_word: "int_bytes a = int_bytes b \<Longrightarrow> (word_of_int a :: u32) = word_of_int b"
proof (rule bit_word_eqI)
  fix n assume eq: "int_bytes a = int_bytes b" and "n < LENGTH(32)"
  then have n: "8 * (n div 8) + n mod 8 = n" "n div 8 < 4" "n mod 8 < 8"
    by simp_all
  have "bit (int_bytes a ! (n div 8)) (n mod 8) = bit (int_bytes b ! (n div 8)) (n mod 8)"
    by (simp add: eq)
  then show "bit (word_of_int a :: u32) n = bit (word_of_int b :: u32) n"
    using n by (simp add: nth_int_bytes bit_simps)
qed

lemma int_bytes_inject:
  assumes "- (2 ^ 31) \<le> a" "a < 2 ^ 31" "- (2 ^ 31) \<le> b" "b < 2 ^ 31"
  shows "int_bytes a = int_bytes b \<longleftrightarrow> a = b"
proof
  assume "int_bytes a = int_bytes b"
  then have "a mod 2 ^ 32 = b mod 2 ^ 32"
    using int_bytes_word [of a b] by (simp add: word_of_int_eq_iff take_bit_eq_mod)
  then have "2 ^ 32 dvd a - b"
    by (simp add: mod_eq_dvd_iff)
  moreover have "\<bar>a - b\<bar> < 2 ^ 32"
    using assms by simp
  ultimately show "a = b"
    using dvd_imp_le_int [of "a - b" "2 ^ 32"] by fastforce
qed simp

text \<open>The comparison of \<open>warning\<close> looks at one byte only: it tells two integers apart exactly when they differ modulo
  256, whereas the call with \<open>sizeof\<close> as its length tells any two \<open>int\<close> values apart; the program prints only the
  line for its first two variables.\<close>

theorem warning_one_byte:
  assumes "- (2 ^ 31) \<le> a" "a < 2 ^ 31" "- (2 ^ 31) \<le> b" "b < 2 ^ 31"
  shows "memcmp_sizeof (int_bytes a) (int_bytes b) = Some (a mod 256 \<noteq> b mod 256) \<and>
    memcmp_differs (int_bytes a) (int_bytes b) (length (int_bytes a)) = Some (a \<noteq> b) \<and>
    result warning_main [] = Exit 0 \<and>
    final warning_main [] = map (\<lambda>t. Printf t [])
      [''Exit from program!\<newline>'', ''Hello memcmp sizeof(int)\<newline>'', ''The third parameter is inlvaid, Can GCC report warning?\<newline>'']"
proof -
  have byte: "(ucast (word_of_int n :: u32) :: u8) = word_of_int n" for n
    by (rule bit_word_eqI) (auto simp: bit_simps)
  have low: "(word_of_int a :: u8) = word_of_int b \<longleftrightarrow> a mod 256 = b mod 256"
    by (simp add: word_of_int_eq_iff take_bit_eq_mod)
  have split: "int_bytes n = [ucast (word_of_int n :: u32), ucast (drop_bit 8 (word_of_int n :: u32)),
      ucast (drop_bit 16 (word_of_int n :: u32)), ucast (drop_bit 24 (word_of_int n :: u32))]" for n
    by (simp add: int_bytes_def upt_conv_Cons)
  have "int_bytes a = int_bytes b \<longleftrightarrow> a = b"
    using assms by (rule int_bytes_inject)
  then show ?thesis
    by (simp add: memcmp_sizeof_def memcmp_differs_def load_bytes_def c_bool_def split byte low warning_main_def print_if_def
        result_bind final_bind Let_def)
qed


theorem warning_one_byte_witness:
  "memcmp_sizeof (int_bytes 256) (int_bytes 0) = Some False \<and>
   memcmp_differs (int_bytes 256) (int_bytes 0) (length (int_bytes 256)) = Some True"
  using warning_one_byte [of 256 0] by simp

subsection \<open>\<open>ifelse\<close>\<close>

text \<open>The two arrays of \<open>main\<close>, and the elements that point into them; a null pointer is \<open>None\<close>.\<close>

datatype iov_array = Header | Data

record iovec =
  iov_base :: "iov_array option"
  iov_len :: nat

fun array_size :: "iov_array \<Rightarrow> nat" where
  "array_size Header = 32"
| "array_size Data = 128"

definition iov_valid :: "iovec \<Rightarrow> bool" where
  "iov_valid v = (case iov_base v of None \<Rightarrow> iov_len v = 0 | Some b \<Rightarrow> iov_len v \<le> array_size b)"

definition iovecs_init :: "iovec list" where
  "iovecs_init = [\<lparr>iov_base = Some Header, iov_len = array_size Header\<rparr>, \<lparr>iov_base = None, iov_len = 0\<rparr>]"

text \<open>The branch without \<open>else\<close>, which assigns \<open>iov_num\<close> before, and the branch with \<open>else\<close>.\<close>

definition ifelse_must :: "iov_array option \<Rightarrow> nat \<Rightarrow> iovec list \<Rightarrow> iovec list \<times> int" where
  "ifelse_must pcData dataLen iovecs =
    (let iov_num = 1
     in if pcData \<noteq> None then (iovecs[1 := \<lparr>iov_base = pcData, iov_len = dataLen\<rparr>], 2) else (iovecs, iov_num))"

definition ifelse_jump :: "iov_array option \<Rightarrow> nat \<Rightarrow> iovec list \<Rightarrow> iovec list \<times> int" where
  "ifelse_jump pcData dataLen iovecs =
    (if pcData \<noteq> None then (iovecs[1 := \<lparr>iov_base = Some Header, iov_len = dataLen\<rparr>], 2) else (iovecs, 1))"

definition ifelse_main :: "(iovec list \<times> int \<times> int) pure_prog" where
  "ifelse_main = do {
     let pcData = Some Data;
     let dataLen = array_size Data;
     printf ''There only has must branch code but maybe with an additional assignment!assignment will access memroy,but jump only change register!\<newline>'' [];
     let (iovecs, iov_num) = ifelse_must pcData dataLen iovecs_init;
     printf ''There has no additional assignment but with an specail jump cpu code!\<newline>'' [];
     let (iovecs, iov_num2) = ifelse_jump pcData dataLen iovecs;
     exit_with (iovecs, iov_num, iov_num2)
   }"

text \<open>The two forms of the branch in \<open>ifelse\<close> count the same number of elements for every pointer, and the first
  leaves elements that lie in their arrays.  The second stores the address of \<open>header\<close> with the length
  of \<open>data\<close>: at the end of \<open>main\<close> an element reaches 96 bytes past the array it points to.\<close>

theorem ifelse_iovecs:
  "snd (ifelse_must p n vs) = snd (ifelse_jump p n vs) \<and>
   list_all iov_valid (fst (ifelse_must p (case p of None \<Rightarrow> 0 | Some b \<Rightarrow> array_size b) iovecs_init)) \<and>
   result ifelse_main h =
     ([\<lparr>iov_base = Some Header, iov_len = 32\<rparr>, \<lparr>iov_base = Some Header, iov_len = 32 + 96\<rparr>], 2, 2) \<and>
   \<not> list_all iov_valid (fst (result ifelse_main h))"
  by (auto simp: ifelse_must_def ifelse_jump_def ifelse_main_def iovecs_init_def iov_valid_def result_bind Let_def
      split: option.splits)

subsection \<open>\<open>dynaArray\<close>\<close>

record TRet =
  ret_j :: int
  ret_k :: int
  ret_l :: int
  ret_h :: int

definition set_elem :: "int list \<Rightarrow> nat \<Rightarrow> int \<Rightarrow> int list option" where
  "set_elem a i v = (if i < length a then Some (a[i := v]) else None)"

text \<open>\<open>f\<close> on the contents of its array, which are indeterminate at first; an array of size 0 is undefined.\<close>

definition dyna_f :: "int list \<Rightarrow> u32 \<Rightarrow> (int list \<times> TRet) option" where
  "dyna_f a sz =
    (if sz = 0 \<or> length a \<noteq> unat sz then None
     else do {
       let rc = \<lparr>ret_j = 0, ret_k = 0, ret_l = 0, ret_h = 0\<rparr>;
       a \<leftarrow> set_elem a 0 1;
       a \<leftarrow> set_elem a 1 10;
       a \<leftarrow> set_elem a (unat (sz - 1)) 100;
       Some (a, rc)
     })"

definition dyna_main :: "int list \<Rightarrow> outcome pure_prog" where
  "dyna_main a = do {
     printf ''Hello world !\<newline>'' [];
     case dyna_f a 8 of
       None \<Rightarrow> exit_with Undefined
     | Some _ \<Rightarrow> do {
         printf ''Exit from program !\<newline>'' [];
         exit_with (Exit 0)
       }
   }"

text \<open>\<open>f\<close> of \<open>dynaArray\<close> is defined exactly for sizes from 2 on: with a smaller one it writes outside its array.
  It returns zeros, whatever the array held, and its last store ends the array with 100.\<close>

theorem dyna_f_defined:
  assumes "length a = unat sz"
  shows "(dyna_f a sz \<noteq> None \<longleftrightarrow> 2 \<le> unat sz) \<and>
    (2 \<le> unat sz \<longrightarrow> (\<exists>b. dyna_f a sz = Some (b, \<lparr>ret_j = 0, ret_k = 0, ret_l = 0, ret_h = 0\<rparr>) \<and>
       length b = length a \<and> b ! 0 = 1 \<and> last b = 100 \<and> (\<forall>i. 2 \<le> i \<and> i + 1 < length a \<longrightarrow> b ! i = a ! i)))"
proof -
  have "unat (sz - 1) = length a - 1" if "sz \<noteq> 0"
    using that assms by (simp add: unat_minus_one)
  moreover have "sz = 0 \<longleftrightarrow> a = []"
    using assms by (metis length_0_conv unat_eq_zero)
  ultimately show ?thesis
    unfolding assms [symmetric]
    by (auto simp: dyna_f_def set_elem_def Let_def assms [symmetric] nth_list_update last_list_update)
qed

theorem dyna_f_defined_witness:
  "dyna_f [5] 1 = None \<and>
   (\<exists>b. dyna_f (replicate 8 5) 8 = Some (b, \<lparr>ret_j = 0, ret_k = 0, ret_l = 0, ret_h = 0\<rparr>) \<and> b ! 0 = 1 \<and> last b = 100)"
  using dyna_f_defined [of "[5]" 1] dyna_f_defined [of "replicate 8 5" 8]
  by (cases "dyna_f [5] 1") auto

subsection \<open>\<open>inline\<close>, \<open>makefile\<close> and \<open>string\<close>\<close>

definition int_result :: "int \<Rightarrow> int option" where
  "int_result n = (if - (2 ^ 31) \<le> n \<and> n < 2 ^ 31 then Some n else None)"

definition inline_foo :: "int \<Rightarrow> int option" where
  "inline_foo t = int_result (t + 1)"

definition usefoo :: "int \<Rightarrow> int option" where
  "usefoo c = do { r \<leftarrow> inline_foo c; int_result (c + r) }"

definition inline_main :: "outcome pure_prog" where
  "inline_main =
    (case inline_foo 1 of
       None \<Rightarrow> exit_with Undefined
     | Some r \<Rightarrow> do { printf ''foo result:%d\<newline>'' [ArgI r]; exit_with (Exit 0) })"

text \<open>Where \<open>usefoo\<close> does not overflow.\<close>

lemma usefoo_value:
  "- (2 ^ 31) \<le> c \<Longrightarrow> c < 2 ^ 31 \<Longrightarrow> usefoo c = (if - (2 ^ 30) \<le> c \<and> c < 2 ^ 30 then Some (2 * c + 1) else None)"
  by (auto simp: usefoo_def inline_foo_def int_result_def)

definition makefile_foo :: int where
  "makefile_foo = 100"

definition makefile_main :: "bool \<Rightarrow> outcome pure_prog" where
  "makefile_main DEBUG = do {
     (if DEBUG then printf ''DEBUG VERSION Running ...\<newline>'' [] else exit_with ());
     printf ''foo: %d\<newline>'' [ArgI makefile_foo];
     exit_with (Exit 0)
   }"

definition CASE_NAME :: string where
  "CASE_NAME = ''Show Usage\<newline>''"

definition string_main :: "outcome pure_prog" where
  "string_main = do {
     printf (''Hello world !\<newline>'' @ ''add suffix\<newline>'' @ ''123\<newline>'') [];
     printf (''Test String Macro Expand 1: no suffix string\<newline>'' @ CASE_NAME) [];
     printf (''Test String Macro Expand 2: has suffix string, no need space to split\<newline>'' @ CASE_NAME @
       ''has suffix string when Macro Expand\<newline>'') [];
     printf (''Exit from program !\<newline>'' @ CASE_NAME) [];
     exit_with (Exit 0)
   }"

end
