(* ===== verification/Preprocessor.thy ===== *)
theory Preprocessor
  imports CIO
begin

text \<open>
  The part of the language that \<open>meta/meta.c\<close> and \<open>macro/macro.c\<close> are about.  The preprocessor: object-like and
  function-like macros, variable arguments, \<open>#\<close>, \<open>##\<close> and the GNU form \<open>, ## args\<close>, with the rule that a macro is
  not expanded in its own expansion.  Then a parser and an evaluation for the statements the two
  programs consist of.
\<close>

subsection \<open>Tokens and macros\<close>

datatype tok = Name string | Lit string | Num string | P string

text \<open>A token with the names that are not to be expanded in it.\<close>

type_synonym htok = "tok \<times> string list"

text \<open>The parameters of a function-like macro, the name of its variable arguments if it has them, its body.\<close>

datatype macro = Obj "tok list" | Fn "string list" "string option" "tok list"

type_synonym macros = "string \<rightharpoonup> macro"

fun spelling :: "tok \<Rightarrow> string" where
  "spelling (Name s) = s"
| "spelling (Lit s) = CHR 0x22 # s @ [CHR 0x22]"
| "spelling (Num s) = s"
| "spelling (P s) = s"

text \<open>\<open>#\<close>: the spelling of the argument; the sources apply it to one token, so no blanks arise.\<close>

definition stringize :: "tok list \<Rightarrow> tok" where
  "stringize ts = Lit (concat (map spelling ts))"

definition glue :: "tok \<Rightarrow> tok \<Rightarrow> tok" where
  "glue a b = Name (spelling a @ spelling b)"

text \<open>The actual arguments up to the closing parenthesis, the names hidden in that parenthesis, and the tokens after
  it.  \<open>d\<close> is the depth of inner parentheses, \<open>cur\<close> the argument being read.\<close>

fun actuals :: "nat \<Rightarrow> htok list \<Rightarrow> htok list \<Rightarrow> (htok list list \<times> string list \<times> htok list) option" where
  "actuals d cur [] = None"
| "actuals d cur ((t, hs) # ts) =
    (if t = P '')'' then (if d = 0 then Some ([cur], hs, ts) else actuals (d - 1) (cur @ [(t, hs)]) ts)
     else if t = P ''('' then actuals (d + 1) (cur @ [(t, hs)]) ts
     else if t = P '','' \<and> d = 0 then
       (case actuals 0 [] ts of None \<Rightarrow> None | Some (as, hs', rest) \<Rightarrow> Some (cur # as, hs', rest))
     else actuals d (cur @ [(t, hs)]) ts)"

fun join_args :: "htok list list \<Rightarrow> htok list" where
  "join_args [] = []"
| "join_args [a] = a"
| "join_args (a # b # as) = a @ (P '','', []) # join_args (b # as)"

text \<open>The arguments by the names of the parameters; the variable arguments are joined with commas.\<close>

definition bind_args :: "string list \<Rightarrow> string option \<Rightarrow> htok list list \<Rightarrow> string \<rightharpoonup> htok list" where
  "bind_args ps va as x =
    (if va = Some x then Some (join_args (drop (length ps) as)) else map_of (zip ps as) x)"

definition operand :: "(string \<rightharpoonup> htok list) \<Rightarrow> tok \<Rightarrow> htok list" where
  "operand env t =
    (case t of Name x \<Rightarrow> (case env x of None \<Rightarrow> [(t, [])] | Some a \<Rightarrow> a) | _ \<Rightarrow> [(t, [])])"

definition paste :: "htok list \<Rightarrow> htok list \<Rightarrow> htok list" where
  "paste a b =
    (if a = [] then b else if b = [] then a
     else butlast a @ [(glue (fst (last a)) (fst (hd b)), [])] @ tl b)"

text \<open>The body with the arguments in place: as written, \<open>raw\<close>, next to \<open>#\<close> and \<open>##\<close>, and fully expanded,
  \<open>full\<close>, elsewhere.  \<open>, ## args\<close> is nothing when there are no variable arguments.\<close>

fun subst_body :: "(string \<rightharpoonup> htok list) \<Rightarrow> (string \<rightharpoonup> htok list) \<Rightarrow> string option \<Rightarrow> tok list \<Rightarrow> htok list" where
  "subst_body raw full va [] = []"
| "subst_body raw full va [t] = operand full t"
| "subst_body raw full va [t, u] =
    (if t = P ''#'' then [(stringize (map fst (operand raw u)), [])]
     else operand full t @ subst_body raw full va [u])"
| "subst_body raw full va (t # u # v # b) =
    (if t = P ''#'' then (stringize (map fst (operand raw u)), []) # subst_body raw full va (v # b)
     else if u = P ''##'' then
       (if t = P '','' \<and> v = Name (case va of None \<Rightarrow> [] | Some x \<Rightarrow> x) then
          (if operand raw v = [] then [] else (t, []) # operand raw v)
        else paste (operand raw t) (operand raw v)) @ subst_body raw full va b
     else operand full t @ subst_body raw full va (u # v # b))"

definition hide :: "string list \<Rightarrow> htok list \<Rightarrow> htok list" where
  "hide xs ts = map (\<lambda>(t, hs). (t, xs @ hs)) ts"

text \<open>The expansion.  \<open>fuel\<close> bounds the steps; \<open>None\<close> is a call without closing parenthesis or the end of the fuel.\<close>

fun expand :: "nat \<Rightarrow> macros \<Rightarrow> htok list \<Rightarrow> htok list option" where
  "expand 0 D ts = None"
| "expand (Suc fuel) D [] = Some []"
| "expand (Suc fuel) D ((t, hs) # ts) =
    (case (case t of Name x \<Rightarrow> if x \<in> set hs then None else map_option (Pair x) (D x) | _ \<Rightarrow> None) of
       None \<Rightarrow> map_option (Cons (t, hs)) (expand fuel D ts)
     | Some (x, Obj body) \<Rightarrow> expand fuel D (hide (x # hs) (subst_body Map.empty Map.empty None body) @ ts)
     | Some (x, Fn ps va body) \<Rightarrow>
         (case ts of
            [] \<Rightarrow> Some [(t, hs)]
          | u # rest \<Rightarrow>
              if fst u \<noteq> P ''('' then map_option (Cons (t, hs)) (expand fuel D ts)
              else (case actuals 0 [] rest of
                 None \<Rightarrow> None
               | Some (as, hs', rest) \<Rightarrow>
                   (case those (map (expand fuel D) as) of
                      None \<Rightarrow> None
                    | Some es \<Rightarrow> expand fuel D
                        (hide (x # filter (\<lambda>y. y \<in> set hs') hs)
                          (subst_body (bind_args ps va as) (bind_args ps va es) va body) @ rest)))))"

definition preprocess :: "nat \<Rightarrow> macros \<Rightarrow> tok list \<Rightarrow> tok list option" where
  "preprocess fuel D ts = map_option (map fst) (expand fuel D (map (\<lambda>t. (t, [])) ts))"

subsection \<open>Statements\<close>

text \<open>The statements that the two programs consist of after preprocessing: declarations of an \<open>int\<close> with a constant,
  \<open>printf\<close>, calls without arguments, \<open>if\<close> and \<open>do ... while (0)\<close> with a block, and \<open>return\<close>.  Adjacent string
  literals are one literal.\<close>

datatype expr = Var string | Const int | Str string | Equal expr expr | Not expr

datatype stmt =
    Decl string int | Print string "expr list" | Invoke string | If expr "stmt list" | Do "stmt list" | Return "expr option"

definition eat :: "tok \<Rightarrow> tok list \<Rightarrow> tok list option" where
  "eat t ts = (case ts of [] \<Rightarrow> None | u # us \<Rightarrow> if u = t then Some us else None)"

text \<open>Expressions; \<open>__builtin_expect\<close> has the value of its first argument.\<close>

fun parse_unary :: "nat \<Rightarrow> tok list \<Rightarrow> (expr \<times> tok list) option" and
  parse_expr :: "nat \<Rightarrow> tok list \<Rightarrow> (expr \<times> tok list) option" where
  "parse_unary 0 ts = None"
| "parse_unary (Suc n) ts =
    (case ts of
       Num k # ts \<Rightarrow> Some (Const (digits_value 0 k), ts)
     | Lit l # ts \<Rightarrow> Some (Str l, ts)
     | Name x # ts \<Rightarrow>
         if x = ''__builtin_expect'' then do {
           ts \<leftarrow> eat (P ''('') ts;
           (e, ts) \<leftarrow> parse_expr n ts;
           ts \<leftarrow> eat (P '','') ts;
           (_, ts) \<leftarrow> parse_expr n ts;
           ts \<leftarrow> eat (P '')'') ts;
           Some (e, ts)
         }
         else Some (Var x, ts)
     | P p # ts \<Rightarrow>
         if p = ''!'' then do { (e, ts) \<leftarrow> parse_unary n ts; Some (Not e, ts) }
         else if p = ''('' then do {
           (e, ts) \<leftarrow> parse_expr n ts;
           ts \<leftarrow> eat (P '')'') ts;
           Some (e, ts)
         }
         else None
     | [] \<Rightarrow> None)"
| "parse_expr 0 ts = None"
| "parse_expr (Suc n) ts = do {
     (a, ts) \<leftarrow> parse_unary n ts;
     case eat (P ''=='') ts of
       None \<Rightarrow> Some (a, ts)
     | Some ts \<Rightarrow> do { (b, ts) \<leftarrow> parse_unary n ts; Some (Equal a b, ts) }
   }"

fun parse_literal :: "tok list \<Rightarrow> string \<times> tok list" where
  "parse_literal (Lit l # ts) = (let (m, ts) = parse_literal ts in (l @ m, ts))"
| "parse_literal ts = ([], ts)"

fun parse_args :: "nat \<Rightarrow> tok list \<Rightarrow> (expr list \<times> tok list) option" where
  "parse_args 0 ts = None"
| "parse_args (Suc n) ts =
    (case eat (P '','') ts of
       None \<Rightarrow> do { ts \<leftarrow> eat (P '')'') ts; Some ([], ts) }
     | Some ts \<Rightarrow> do { (e, ts) \<leftarrow> parse_expr n ts; (es, ts) \<leftarrow> parse_args n ts; Some (e # es, ts) })"

text \<open>Statements up to a closing brace or the end.\<close>

fun parse_stmts :: "nat \<Rightarrow> tok list \<Rightarrow> (stmt list \<times> tok list) option" where
  "parse_stmts 0 ts = None"
| "parse_stmts (Suc n) ts =
    (case ts of
       [] \<Rightarrow> Some ([], [])
     | P p # us \<Rightarrow> if p = '';'' then parse_stmts n us else if p = ''}'' then Some ([], ts) else None
     | Name x # us \<Rightarrow> do {
         (s, us) \<leftarrow>
           (if x = ''int'' then
              (case us of Name y # e # Num k # us \<Rightarrow> if e = P ''='' then Some (Decl y (digits_value 0 k), us) else None | _ \<Rightarrow> None)
            else if x = ''printf'' then do {
              us \<leftarrow> eat (P ''('') us;
              let (f, us) = parse_literal us;
              (es, us) \<leftarrow> parse_args n us;
              Some (Print f es, us)
            }
            else if x = ''if'' then do {
              us \<leftarrow> eat (P ''('') us;
              (e, us) \<leftarrow> parse_expr n us;
              us \<leftarrow> eat (P '')'') us;
              us \<leftarrow> eat (P ''{'') us;
              (b, us) \<leftarrow> parse_stmts n us;
              us \<leftarrow> eat (P ''}'') us;
              Some (If e b, us)
            }
            else if x = ''do'' then do {
              us \<leftarrow> eat (P ''{'') us;
              (b, us) \<leftarrow> parse_stmts n us;
              us \<leftarrow> eat (P ''}'') us;
              us \<leftarrow> eat (Name ''while'') us;
              us \<leftarrow> eat (P ''('') us;
              us \<leftarrow> eat (Num ''0'') us;
              us \<leftarrow> eat (P '')'') us;
              Some (Do b, us)
            }
            else if x = ''return'' then
              (case eat (P '';'') us of
                 Some us \<Rightarrow> Some (Return None, us)
               | None \<Rightarrow> do { (e, us) \<leftarrow> parse_expr n us; Some (Return (Some e), us) })
            else do {
              us \<leftarrow> eat (P ''('') us;
              us \<leftarrow> eat (P '')'') us;
              Some (Invoke x, us)
            });
         (ss, us) \<leftarrow> parse_stmts n us;
         Some (s # ss, us)
       }
     | _ \<Rightarrow> None)"

text \<open>Evaluation: the output so far is returned with the value of a \<open>return\<close> that was reached.\<close>

fun eval :: "(string \<rightharpoonup> arg) \<Rightarrow> expr \<Rightarrow> arg option" where
  "eval env (Var x) = env x"
| "eval env (Const n) = Some (ArgI n)"
| "eval env (Str s) = Some (ArgS s)"
| "eval env (Equal a b) = do { x \<leftarrow> eval env a; y \<leftarrow> eval env b; Some (ArgI (c_bool (x = y))) }"
| "eval env (Not a) = do { x \<leftarrow> eval env a; Some (ArgI (c_bool (x = ArgI 0))) }"

datatype ctl = Fall | Ret "arg option"

type_synonym printed = "(string \<times> arg list) list"

text \<open>The functions of a program by their names.  \<open>fuel\<close> bounds the depth; a call of a function binds \<open>__func__\<close>.\<close>

fun exec :: "nat \<Rightarrow> (string \<rightharpoonup> stmt list) \<Rightarrow> (string \<rightharpoonup> arg) \<Rightarrow> stmt list \<Rightarrow> (printed \<times> ctl) option" where
  "exec 0 F env ss = None"
| "exec (Suc n) F env [] = Some ([], Fall)"
| "exec (Suc n) F env (s # ss) =
    (case s of
       Decl x k \<Rightarrow> exec n F (env(x \<mapsto> ArgI k)) ss
     | Print f es \<Rightarrow> do {
         vs \<leftarrow> those (map (eval env) es);
         (out, c) \<leftarrow> exec n F env ss;
         Some ((f, vs) # out, c)
       }
     | Return None \<Rightarrow> Some ([], Ret None)
     | Return (Some e) \<Rightarrow> do { v \<leftarrow> eval env e; Some ([], Ret (Some v)) }
     | Invoke g \<Rightarrow> do {
         body \<leftarrow> F g;
         (out, _) \<leftarrow> exec n F [''__func__'' \<mapsto> ArgS g, ''true'' \<mapsto> ArgI 1, ''false'' \<mapsto> ArgI 0] body;
         (out', c) \<leftarrow> exec n F env ss;
         Some (out @ out', c)
       }
     | If e b \<Rightarrow> do {
         v \<leftarrow> eval env e;
         (out, c) \<leftarrow> exec n F env (if v \<noteq> ArgI 0 then b else []);
         if c = Fall then do { (out', c) \<leftarrow> exec n F env ss; Some (out @ out', c) } else Some (out, c)
       }
     | Do b \<Rightarrow> do {
         (out, c) \<leftarrow> exec n F env b;
         if c = Fall then do { (out', c) \<leftarrow> exec n F env ss; Some (out @ out', c) } else Some (out, c)
       })"

text \<open>A body as it is written: preprocessed, parsed.\<close>

definition body_of :: "macros \<Rightarrow> tok list \<Rightarrow> stmt list option" where
  "body_of D ts = do {
     ts \<leftarrow> preprocess 500 D ts;
     (ss, rest) \<leftarrow> parse_stmts 500 ts;
     if rest = [] then Some ss else None
   }"

end
