(* ===== verification/MacroPrograms.thy ===== *)
theory MacroPrograms
  imports Preprocessor
begin

text \<open>
  \<open>meta/meta.c\<close> and \<open>macro/macro.c\<close>: their macros and functions as tables of tokens, from which the preprocessor
  and the parser make the programs.
\<close>

subsection \<open>The macros of \<open>meta\<close>\<close>

definition meta_macros :: macros where
  "meta_macros = map_of
    [(''EMIT'', Fn [''event''] (Some ''__VA_ARGS__'')
        [Name ''event'', P ''##'', Name ''_handler'', P ''('', Name ''__VA_ARGS__'', P '')'']),
     (''ON'', Fn [''event'', ''handler''] None
        [Name ''void'', Name ''event'', P ''##'', Name ''_handler'', P ''('', P '')'', P ''{'',
         Name ''handler'', P ''('', P '')'', P '';'', P ''}'']),
     (''MACRO'', Fn [] (Some ''__VA_ARGS__'') [Name ''printf'', P ''('', Name ''__VA_ARGS__'', P '')'']),
     (''MACRO1'', Fn [''format_str_para''] (Some ''__VA_ARGS__'')
        [Name ''printf'', P ''('', Name ''format_str_para'', P '','', Name ''__VA_ARGS__'', P '')'']),
     (''MACRO2'', Fn [] None [Name ''printf'', P ''('', Lit ''I'm a macro ...\<newline>'', P '')'']),
     (''MACRO_CALL_MACRO2'', Fn [] None
        [Name ''printf'', P ''('', Lit ''Will use other macro ...\<newline>'', P '')'', P '';'',
         Name ''MACRO2'', P ''('', P '')'']),
     (''MACRO3'', Fn [] None [Name ''printf'', P ''('', Lit ''I'm a macro being called by passed arg ...\<newline>'', P '')'']),
     (''MACRO_CALL_MACRO3_BY_ARG'', Fn [''MACRO_ARG''] None
        [Name ''printf'', P ''('', Lit ''Will use other macro by arg ...\<newline>'', P '')'', P '';'',
         Name ''MACRO_ARG'', P ''('', P '')'']),
     (''MACRO4'', Fn [''value''] None
        [Name ''printf'', P ''('', Lit ''I'm a macro being called by passed arg and with input arg: %d...\<newline>'', P '','',
         Name ''value'', P '')'']),
     (''MACRO_CALL_MACRO_AND_PASSING_ARG'', Fn [''MACRO_ARG'', ''arg_for_macro''] None
        [Name ''printf'', P ''('', Lit ''Will use other macro by arg and passing arg to it ...\<newline>'', P '')'', P '';'',
         Name ''MACRO_ARG'', P ''('', Name ''arg_for_macro'', P '')'']),
     (''MACRO5'', Obj [Num ''123'']),
     (''TOKEN_TO_STR'', Fn [''token''] None [P ''#'', Name ''token'']),
     (''EXPAN_MACRO_ARG_TO_STR'', Fn [''MACRO_ARG''] None [Name ''TOKEN_TO_STR'', P ''('', Name ''MACRO_ARG'', P '')''])]"


text \<open>A statement \<open>macro(args);\<close>.\<close>

fun commas :: "tok list list \<Rightarrow> tok list" where
  "commas [] = []"
| "commas [a] = a"
| "commas (a # b # as) = a @ P '','' # commas (b # as)"

definition call_of :: "string \<Rightarrow> tok list list \<Rightarrow> tok list" where
  "call_of f as = Name f # P ''('' # commas as @ [P '')'']"

definition stmt_of :: "string \<Rightarrow> tok list list \<Rightarrow> tok list" where
  "stmt_of f as = call_of f as @ [P '';'']"

definition meta_main_tokens :: "tok list" where
  "meta_main_tokens =
     stmt_of ''printf'' [[Lit ''hello world meta programming ...\<newline>\<newline>'']] @
     stmt_of ''EMIT'' [[Name ''load'']] @
     stmt_of ''MACRO'' [[Lit ''Hello, world!\<newline>'']] @
     stmt_of ''MACRO1'' [[Lit ''str para: %s, int para: %d\<newline>''], [Lit ''Hello, world!''], [Num ''10'']] @
     stmt_of ''MACRO_CALL_MACRO2'' [] @
     stmt_of ''MACRO_CALL_MACRO3_BY_ARG'' [[Name ''MACRO3'']] @
     stmt_of ''MACRO_CALL_MACRO_AND_PASSING_ARG'' [[Name ''MACRO4''], [Num ''100'']] @
     stmt_of ''printf'' [[Lit ''MACRO5: %d\<newline>''], [Name ''MACRO5'']] @
     stmt_of ''printf'' [[Lit ''MACRO5 to STR: %s\<newline>''], call_of ''TOKEN_TO_STR'' [[Name ''MACRO5'']]] @
     stmt_of ''printf'' [[Lit ''MACRO5 to STR v2: %s\<newline>''], call_of ''EXPAN_MACRO_ARG_TO_STR'' [[Name ''MACRO5'']]] @
     stmt_of ''printf'' [[Lit ''\<newline>will exit!\<newline>'']] @
     [Name ''return'', Num ''0'', P '';'']"

text \<open>The function that \<open>ON(load, my_loaded_handler)\<close> defines: its name and its body.\<close>

definition handler_definition :: "(string \<times> tok list) option" where
  "handler_definition =
    (case preprocess 100 meta_macros (call_of ''ON'' [[Name ''load''], [Name ''my_loaded_handler'']]) of
       Some (_ # Name f # _ # _ # _ # body) \<Rightarrow> Some (f, butlast body)
     | _ \<Rightarrow> None)"

definition meta_functions :: "string \<rightharpoonup> stmt list" where
  "meta_functions f =
    (if f = ''my_loaded_handler'' then body_of meta_macros (stmt_of ''printf'' [[Lit ''Loaded\<newline>'']])
     else case handler_definition of
       Some (g, body) \<Rightarrow> if f = g then body_of meta_macros body else None
     | None \<Rightarrow> None)"

definition meta_main :: "(printed \<times> ctl) option" where
  "meta_main = do { ss \<leftarrow> body_of meta_macros meta_main_tokens; exec 100 meta_functions Map.empty ss }"

subsection \<open>The macros of \<open>macro\<close>\<close>

definition macro_macros :: macros where
  "macro_macros = map_of
    [(''likely'', Fn [''x''] None
        [Name ''__builtin_expect'', P ''('', P ''!'', P ''!'', P ''('', Name ''x'', P '')'', P '','', Num ''1'', P '')'']),
     (''unlikely'', Fn [''x''] None
        [Name ''__builtin_expect'', P ''('', P ''!'', P ''!'', P ''('', Name ''x'', P '')'', P '','', Num ''0'', P '')'']),
     (''PARA_CHECK_RETRUN_GNU'', Fn [''expr'', ''rc'', ''format''] (Some ''args'')
        [Name ''do'', P ''{'',
           Name ''if'', P ''('', Name ''expr'', P '')'', P ''{'',
             Name ''printf'', P ''('', Name ''format'', Lit ''\<newline>'', P '','', P ''##'', Name ''args'', P '')'', P '';'',
           P ''}'',
           Name ''return'', Name ''rc'', P '';'',
         P ''}'', Name ''while'', P ''('', Num ''0'', P '')'']),
     (''PARA_CHECK_NORETRUN_GNU'', Fn [''expr'', ''format''] (Some ''args'')
        [Name ''PARA_CHECK_RETRUN_GNU'', P ''('', Name ''expr'', P '','', P '','', Name ''format'', P '','', P ''##'', Name ''args'', P '')'']),
     (''PARA_CHECK_RETRUN_C99'', Fn [''expr'', ''rc'', ''format''] (Some ''__VA_ARGS__'')
        [Name ''do'', P ''{'',
           Name ''if'', P ''('', Name ''expr'', P '')'', P ''{'',
             Name ''printf'', P ''('', Name ''format'', Lit ''\<newline>'', P '','', P ''##'', Name ''__VA_ARGS__'', P '')'', P '';'',
           P ''}'',
           Name ''return'', Name ''rc'', P '';'',
         P ''}'', Name ''while'', P ''('', Num ''0'', P '')'']),
     (''PARA_CHECK_NORETRUN_C99'', Fn [''expr'', ''format''] (Some ''__VA_ARGS__'')
        [Name ''PARA_CHECK_RETRUN_GNU'', P ''('', Name ''expr'', P '','', P '','', Name ''format'', P '','', P ''##'', Name ''__VA_ARGS__'', P '')''])]"

text \<open>\<open>int b = 0;\<close> and \<open>b == n\<close>.\<close>

definition decl_b :: "tok list" where
  "decl_b = [Name ''int'', Name ''b'', P ''='', Num ''0'', P '';'']"

definition b_is :: "string \<Rightarrow> tok list" where
  "b_is n = [Name ''b'', P ''=='', Num n]"

definition macro_function_tokens :: "string \<rightharpoonup> tok list" where
  "macro_function_tokens = map_of
    [(''f_void_has_no_print_para_ret'', decl_b @
        stmt_of ''PARA_CHECK_NORETRUN_GNU'' [b_is ''1'', [Lit ''hello %s additional para: %d''], [Name ''__func__''], [Name ''b'']] @
        stmt_of ''PARA_CHECK_NORETRUN_GNU'' [b_is ''1'', [Lit ''hello no additional para'']] @
        stmt_of ''PARA_CHECK_NORETRUN_GNU'' [call_of ''likely'' [b_is ''1''], [Lit ''hello %s additional para: %d''], [Name ''__func__''], [Name ''b'']] @
        stmt_of ''PARA_CHECK_NORETRUN_GNU'' [call_of ''unlikely'' [b_is ''1''], [Lit ''hello no additional para'']] @
        stmt_of ''PARA_CHECK_NORETRUN_C99'' [b_is ''1'', [Lit ''hello c99 %s additional para: %d''], [Name ''__func__''], [Name ''b'']] @
        stmt_of ''PARA_CHECK_NORETRUN_C99'' [b_is ''1'', [Lit ''hello c99 no additional para'']] @
        stmt_of ''PARA_CHECK_NORETRUN_C99'' [call_of ''likely'' [b_is ''1''], [Lit ''hello c99 %s additional para: %d''], [Name ''__func__''], [Name ''b'']] @
        stmt_of ''PARA_CHECK_NORETRUN_C99'' [call_of ''unlikely'' [b_is ''1''], [Lit ''hello c99 no additional para'']] @
        stmt_of ''PARA_CHECK_NORETRUN_GNU'' [b_is ''0'', [Lit ''hello no additional para'']]),
     (''f_void_has_print_para_ret'', decl_b @
        stmt_of ''PARA_CHECK_NORETRUN_GNU'' [b_is ''0'', [Lit ''hello %s additional para: %d''], [Name ''__func__''], [Name ''b'']]),
     (''f_void_has_print_para_ret_c99'', decl_b @
        stmt_of ''PARA_CHECK_NORETRUN_C99'' [b_is ''0'', [Lit ''hello c99 %s additional para: %d''], [Name ''__func__''], [Name ''b'']]),
     (''f_bool_has_no_print_para_ret'', decl_b @
        stmt_of ''PARA_CHECK_RETRUN_GNU'' [b_is ''1'', [Name ''true''], [Lit ''hello %s additional para: %d''], [Name ''__func__''], [Name ''b'']] @
        stmt_of ''PARA_CHECK_RETRUN_GNU'' [b_is ''1'', [Name ''false''], [Lit ''hello no additional para'']] @
        stmt_of ''PARA_CHECK_RETRUN_C99'' [b_is ''1'', [Name ''true''], [Lit ''hello c99 %s additional para: %d''], [Name ''__func__''], [Name ''b'']] @
        stmt_of ''PARA_CHECK_RETRUN_C99'' [b_is ''1'', [Name ''false''], [Lit ''hello c99 no additional para'']] @
        stmt_of ''PARA_CHECK_RETRUN_GNU'' [b_is ''0'', [Name ''false''], [Lit ''hello no additional para'']]),
     (''f_bool_has_print_para_ret'', decl_b @
        stmt_of ''PARA_CHECK_RETRUN_GNU'' [b_is ''0'', [Name ''true''], [Lit ''hello %s additional para: %d''], [Name ''__func__''], [Name ''b'']]),
     (''f_bool_has_print_para_ret_c99'', decl_b @
        stmt_of ''PARA_CHECK_RETRUN_C99'' [b_is ''0'', [Name ''true''], [Lit ''hello c99 %s additional para: %d''], [Name ''__func__''], [Name ''b'']])]"

definition macro_functions :: "string \<rightharpoonup> stmt list" where
  "macro_functions f = do { ts \<leftarrow> macro_function_tokens f; body_of macro_macros ts }"

definition macro_main_tokens :: "tok list" where
  "macro_main_tokens =
     stmt_of ''printf'' [[Lit ''hello world ...\<newline>\<newline>'']] @
     stmt_of ''f_void_has_no_print_para_ret'' [] @
     stmt_of ''f_void_has_print_para_ret'' [] @
     stmt_of ''f_void_has_print_para_ret_c99'' [] @
     stmt_of ''printf'' [[Lit ''\<newline>has return code test ...\<newline>\<newline>'']] @
     stmt_of ''f_bool_has_no_print_para_ret'' [] @
     stmt_of ''f_bool_has_print_para_ret'' [] @
     stmt_of ''f_bool_has_print_para_ret_c99'' [] @
     stmt_of ''printf'' [[Lit ''\<newline>will exit!\<newline>'']] @
     [Name ''return'', Num ''0'', P '';'']"

definition macro_main :: "(printed \<times> ctl) option" where
  "macro_main = do { ss \<leftarrow> body_of macro_macros macro_main_tokens; exec 100 macro_functions Map.empty ss }"

definition macro_call :: "string \<Rightarrow> (printed \<times> ctl) option" where
  "macro_call f = do {
     ss \<leftarrow> macro_functions f;
     exec 100 macro_functions [''__func__'' \<mapsto> ArgS f, ''true'' \<mapsto> ArgI 1, ''false'' \<mapsto> ArgI 0] ss
   }"

subsection \<open>What the programs print\<close>

lemma meta_output:
  "meta_main = Some
    ([(''hello world meta programming ...\<newline>\<newline>'', []), (''Loaded\<newline>'', []), (''Hello, world!\<newline>'', []),
      (''str para: %s, int para: %d\<newline>'', [ArgS ''Hello, world!'', ArgI 10]),
      (''Will use other macro ...\<newline>'', []), (''I'm a macro ...\<newline>'', []),
      (''Will use other macro by arg ...\<newline>'', []), (''I'm a macro being called by passed arg ...\<newline>'', []),
      (''Will use other macro by arg and passing arg to it ...\<newline>'', []),
      (''I'm a macro being called by passed arg and with input arg: %d...\<newline>'', [ArgI 100]),
      (''MACRO5: %d\<newline>'', [ArgI 123]), (''MACRO5 to STR: %s\<newline>'', [ArgS ''MACRO5'']),
      (''MACRO5 to STR v2: %s\<newline>'', [ArgS ''123'']), (''\<newline>will exit!\<newline>'', [])],
     Ret (Some (ArgI 0)))"
  by code_simp

text \<open>For every name \<open>x\<close> that is a macro for a number \<open>v\<close>, \<open>TOKEN_TO_STR(x)\<close> of \<open>meta\<close> is the name and
  \<open>EXPAN_MACRO_ARG_TO_STR(x)\<close> the number, both as strings: an argument of \<open>#\<close> is not expanded, and one that passes
  through another macro is.  The program prints both for its \<open>MACRO5\<close> and returns 0.\<close>

theorem meta_stringize:
  assumes "x \<noteq> ''TOKEN_TO_STR''" "x \<noteq> ''EXPAN_MACRO_ARG_TO_STR''"
  shows "preprocess (9 + fuel) (meta_macros(x \<mapsto> Obj [Num v])) (call_of ''TOKEN_TO_STR'' [[Name x]]) = Some [Lit x] \<and>
    preprocess (9 + fuel) (meta_macros(x \<mapsto> Obj [Num v])) (call_of ''EXPAN_MACRO_ARG_TO_STR'' [[Name x]]) = Some [Lit v] \<and>
    (\<exists>out. meta_main = Some (out, Ret (Some (ArgI 0))) \<and>
      {(''MACRO5 to STR: %s\<newline>'', [ArgS ''MACRO5'']), (''MACRO5 to STR v2: %s\<newline>'', [ArgS ''123''])} \<subseteq> set out)"
proof -
  have fuel: "9 + fuel = Suc (Suc (Suc (Suc (Suc (Suc (Suc (Suc (Suc fuel))))))))"
    by simp
  show ?thesis
    unfolding fuel meta_output using assms
    by (simp add: preprocess_def call_of_def meta_macros_def bind_args_def operand_def stringize_def hide_def)
qed

theorem meta_stringize_witness:
  "preprocess 9 (meta_macros(''VERSION'' \<mapsto> Obj [Num ''7''])) (call_of ''TOKEN_TO_STR'' [[Name ''VERSION'']]) = Some [Lit ''VERSION''] \<and>
   preprocess 9 (meta_macros(''VERSION'' \<mapsto> Obj [Num ''7''])) (call_of ''EXPAN_MACRO_ARG_TO_STR'' [[Name ''VERSION'']]) = Some [Lit ''7'']"
  using meta_stringize [of "''VERSION''" 0 "''7''"] by simp

text \<open>What a check of \<open>macro\<close> is after preprocessing, for any constant, message and return value.\<close>

lemma para_check_body:
  "body_of macro_macros (stmt_of ''PARA_CHECK_RETRUN_GNU'' [b_is n, [Num r], [Lit f]]) =
    Some [Do [If (Equal (Var ''b'') (Const (digits_value 0 n))) [Print (f @ ''\<newline>'') []], Return (Some (Const (digits_value 0 r)))]]"
  "body_of macro_macros (stmt_of ''PARA_CHECK_RETRUN_C99'' [b_is n, [Num r], [Lit f]]) =
    Some [Do [If (Equal (Var ''b'') (Const (digits_value 0 n))) [Print (f @ ''\<newline>'') []], Return (Some (Const (digits_value 0 r)))]]"
  by code_simp+

lemma macro_bool_call: "macro_call ''f_bool_has_no_print_para_ret'' = Some ([], Ret (Some (ArgI 1)))"
  by code_simp

lemma macro_print_calls:
  "macro_call ''f_void_has_print_para_ret'' =
    Some ([(''hello %s additional para: %d\<newline>'', [ArgS ''f_void_has_print_para_ret'', ArgI 0])], Ret None)"
  "macro_call ''f_bool_has_print_para_ret_c99'' =
    Some ([(''hello c99 %s additional para: %d\<newline>'', [ArgS ''f_bool_has_print_para_ret_c99'', ArgI 0])], Ret (Some (ArgI 1)))"
  by code_simp+



end
