(* ===== verification/CppPrograms.thy ===== *)
theory CppPrograms
  imports CIO
begin

text \<open>
  The C++ programs of \<open>c++/\<close>.  \<open>tls/main.cpp\<close> is a state machine of two threads with thread-local variables; the
  other three, \<open>enum/main.cpp\<close>, \<open>copyCtor/main.cpp\<close> and \<open>vector/main.cpp\<close>, print one or two lines.
\<close>

subsection \<open>\<open>tls\<close>: state and steps\<close>

text \<open>The thread-local members of \<open>MyClass\<close>, which are zero in a new thread.\<close>

record tls_vars =
  threadLocalVar :: int
  threadLocalPointer :: u64

datatype tid = T1 | T2

datatype item = Endl | Text string | CharItem char | IntItem int | PtrItem u64

text \<open>One step of a thread: an assignment or the insertion of one item into \<open>std::cout\<close>, which threads may
  interleave.\<close>

datatype tls_op = SetVar int | SetPointer u64 | Put item | PutVar | PutPointer

text \<open>\<open>std::hash\<close> of the library is a parameter; its 64-bit value is converted to \<open>int\<close>.\<close>

definition threadFunction :: "(string \<Rightarrow> u64) \<Rightarrow> string \<Rightarrow> tls_op list" where
  "threadFunction hash threadName =
    [SetVar (to_int32 (uint (hash threadName))),
     Put Endl,
     Put (Text ''Thread: ''), Put (Text threadName), Put (Text '', threadLocalVar: ''), PutVar, Put Endl,
     Put (Text ''Thread: ''), Put (Text threadName), Put (Text '', threadLocalPointer: ''), PutPointer, Put Endl,
     SetVar 12345,
     SetPointer 54321]"

fun thread_name :: "tid \<Rightarrow> string" where
  "thread_name T1 = ''Thread1''"
| "thread_name T2 = ''Thread2''"

text \<open>\<open>todo\<close> holds the rest of each started thread, \<open>main_pc\<close> counts the statements of \<open>main\<close> done: two starts, two
  joins and the return.\<close>

record tls_state =
  vars :: "tid \<Rightarrow> tls_vars"
  todo :: "tid \<Rightarrow> tls_op list option"
  main_pc :: nat
  cout :: "(tid \<times> item) list"

definition tls_init :: tls_state where
  "tls_init = \<lparr>vars = (\<lambda>_. \<lparr>threadLocalVar = 0, threadLocalPointer = 0\<rparr>), todo = (\<lambda>_. None), main_pc = 0, cout = []\<rparr>"

fun run_op :: "tid \<Rightarrow> tls_op \<Rightarrow> tls_state \<Rightarrow> tls_state" where
  "run_op t (SetVar n) s = s\<lparr>vars := (vars s)(t := (vars s t)\<lparr>threadLocalVar := n\<rparr>)\<rparr>"
| "run_op t (SetPointer p) s = s\<lparr>vars := (vars s)(t := (vars s t)\<lparr>threadLocalPointer := p\<rparr>)\<rparr>"
| "run_op t (Put i) s = s\<lparr>cout := cout s @ [(t, i)]\<rparr>"
| "run_op t PutVar s = s\<lparr>cout := cout s @ [(t, IntItem (threadLocalVar (vars s t)))]\<rparr>"
| "run_op t PutPointer s = s\<lparr>cout := cout s @ [(t, PtrItem (threadLocalPointer (vars s t)))]\<rparr>"

definition main_thread :: "nat \<Rightarrow> tid" where
  "main_thread pc = (if pc = 0 \<or> pc = 2 then T1 else T2)"

inductive tls_step :: "(string \<Rightarrow> u64) \<Rightarrow> tls_state \<Rightarrow> tls_state \<Rightarrow> bool" for hash where
  Start: "main_pc s < 2 \<Longrightarrow> t = main_thread (main_pc s) \<Longrightarrow>
    tls_step hash s (s\<lparr>todo := (todo s)(t := Some (threadFunction hash (thread_name t))), main_pc := Suc (main_pc s)\<rparr>)"
| Join: "2 \<le> main_pc s \<Longrightarrow> main_pc s < 4 \<Longrightarrow> todo s (main_thread (main_pc s)) = Some [] \<Longrightarrow>
    tls_step hash s (s\<lparr>main_pc := Suc (main_pc s)\<rparr>)"
| Return: "main_pc s = 4 \<Longrightarrow> tls_step hash s (s\<lparr>main_pc := 5\<rparr>)"
| Run: "todo s t = Some (c # cs) \<Longrightarrow> tls_step hash s (run_op t c (s\<lparr>todo := (todo s)(t := Some cs)\<rparr>))"

inductive_cases tls_stepE: "tls_step hash s s'"

subsection \<open>\<open>enum\<close>, \<open>copyCtor\<close> and \<open>vector\<close>\<close>

text \<open>What the other programs insert into \<open>std::cout\<close>, and their result.  An enumeration constant is inserted as its
  number; \<open>push_back\<close> appends to the vector, and an index outside of it would be undefined.\<close>

datatype WEEK = SUN | MON

fun WEEK_value :: "WEEK \<Rightarrow> int" where
  "WEEK_value SUN = 0"
| "WEEK_value MON = 1"

definition enum_main :: "item list \<times> outcome" where
  "enum_main =
    ([Text ''Hello World! Using enum value directly to see whether it exists warning! enum WEEK value:'',
      IntItem (WEEK_value SUN), Endl], Exit 0)"

record A_object =
  A_i :: int

definition A_new :: A_object where
  "A_new = \<lparr>A_i = 0\<rparr>"

definition A_copy :: "A_object \<Rightarrow> A_object" where
  "A_copy a = \<lparr>A_i = A_i a\<rparr>"

definition getField :: "A_object \<Rightarrow> int" where
  "getField a = A_i a"

definition copyCtor_main :: "item list \<times> outcome" where
  "copyCtor_main =
    (let a = A_new
     in ([Text ''Hello World! Copy Constructor can use private field directly!'', Endl,
          Text ''Construct A instance, filed value: '', IntItem (getField a), Endl], Exit 0))"

definition vector_main :: "item list \<times> outcome" where
  "vector_main =
    (let v = [] @ [CHR ''a'']
     in if 0 < length v
        then ([Text ''Hello World! no-implicit-templates ,item: '', CharItem (v ! 0), Endl], Exit 0)
        else ([], Undefined))"

text \<open>They end with 0 after one line, or two, which shows the first constant, the member that the constructor set, also
  in a copy, and the character that was appended.\<close>

lemma small_programs:
  "snd enum_main = Exit 0 \<and> IntItem 0 \<in> set (fst enum_main)"
  "snd copyCtor_main = Exit 0 \<and> getField (A_copy a) = getField a \<and> IntItem (getField (A_copy A_new)) \<in> set (fst copyCtor_main)"
  "snd vector_main = Exit 0 \<and> CharItem (CHR ''a'') \<in> set (fst vector_main)"
  by (simp_all add: enum_main_def copyCtor_main_def vector_main_def getField_def A_copy_def A_new_def Let_def)

subsection \<open>\<open>tls\<close>: isolation\<close>

text \<open>What one thread writes when it runs alone from some values of its variables.\<close>

fun alone :: "tls_vars \<Rightarrow> tls_op list \<Rightarrow> item list" where
  "alone v [] = []"
| "alone v (SetVar n # cs) = alone (v\<lparr>threadLocalVar := n\<rparr>) cs"
| "alone v (SetPointer p # cs) = alone (v\<lparr>threadLocalPointer := p\<rparr>) cs"
| "alone v (Put i # cs) = i # alone v cs"
| "alone v (PutVar # cs) = IntItem (threadLocalVar v) # alone v cs"
| "alone v (PutPointer # cs) = PtrItem (threadLocalPointer v) # alone v cs"

definition written_by :: "tid \<Rightarrow> tls_state \<Rightarrow> item list" where
  "written_by t s = map snd (filter (\<lambda>(u, i). u = t) (cout s))"

definition full_output :: "(string \<Rightarrow> u64) \<Rightarrow> tid \<Rightarrow> item list" where
  "full_output hash t = alone \<lparr>threadLocalVar = 0, threadLocalPointer = 0\<rparr> (threadFunction hash (thread_name t))"

text \<open>The invariant: what a thread has written and what it would write alone from its present variables make its full
  output; before it starts its variables are zero.  \<open>main\<close> has started the threads before it joins them.\<close>

definition thread_inv :: "(string \<Rightarrow> u64) \<Rightarrow> tls_state \<Rightarrow> tid \<Rightarrow> bool" where
  "thread_inv hash s t =
    (case todo s t of
       None \<Rightarrow> written_by t s = [] \<and> vars s t = \<lparr>threadLocalVar = 0, threadLocalPointer = 0\<rparr>
     | Some cs \<Rightarrow> written_by t s @ alone (vars s t) cs = full_output hash t)"

definition main_inv :: "tls_state \<Rightarrow> bool" where
  "main_inv s \<longleftrightarrow>
    (todo s T1 = None \<longleftrightarrow> main_pc s = 0) \<and> (todo s T2 = None \<longleftrightarrow> main_pc s \<le> 1) \<and>
    (3 \<le> main_pc s \<longrightarrow> todo s T1 = Some []) \<and> (4 \<le> main_pc s \<longrightarrow> todo s T2 = Some [])"

lemma run_op_simps [simp]:
  "u \<noteq> t \<Longrightarrow> written_by u (run_op t c s) = written_by u s" "u \<noteq> t \<Longrightarrow> vars (run_op t c s) u = vars s u"
  "todo (run_op t c s) = todo s" "main_pc (run_op t c s) = main_pc s"
  by (cases c; auto simp: written_by_def)+

lemma run_op_alone:
  "written_by t (run_op t c s) @ alone (vars (run_op t c s) t) cs = written_by t s @ alone (vars s t) (c # cs)"
  by (cases c) (simp_all add: written_by_def)

lemma written_by_updates [simp]:
  "written_by t (s\<lparr>todo := d\<rparr>) = written_by t s" "written_by t (s\<lparr>main_pc := n\<rparr>) = written_by t s"
  by (simp_all add: written_by_def)

lemma main_inv_step:
  assumes "tls_step hash s s'" "main_inv s"
  shows "main_inv s'"
  using assms(1)
proof cases
  case (Run t c cs)
  then show ?thesis
    using assms(2) by (cases t) (auto simp: main_inv_def)
qed (use assms(2) in \<open>auto simp: main_inv_def main_thread_def split: if_splits\<close>)

lemma thread_inv_step:
  assumes "tls_step hash s s'" "thread_inv hash s u" "main_inv s"
  shows "thread_inv hash s' u"
  using assms(1)
proof cases
  case (Start t)
  then show ?thesis
    using assms(2,3) by (auto simp: thread_inv_def main_inv_def main_thread_def full_output_def less_Suc_eq numeral_eq_Suc
      split: if_splits option.splits)
next
  case (Run t c cs)
  then show ?thesis
    using assms(2) run_op_alone [of t c "s\<lparr>todo := (todo s)(t := Some cs)\<rparr>" cs]
    by (cases "u = t") (auto simp: thread_inv_def split: option.splits)
qed (use assms(2) in \<open>auto simp: thread_inv_def split: option.splits\<close>)

lemma tls_reachable:
  assumes "(tls_step hash)\<^sup>*\<^sup>* tls_init s"
  shows "main_inv s \<and> thread_inv hash s t"
  using assms
proof (induction rule: rtranclp_induct)
  case base
  show ?case
    by (simp add: main_inv_def thread_inv_def tls_init_def written_by_def)
next
  case (step s s')
  then show ?case
    using main_inv_step thread_inv_step by blast
qed

lemma full_output_value:
  "full_output hash t = [Endl,
     Text ''Thread: '', Text (thread_name t), Text '', threadLocalVar: '', IntItem (to_int32 (uint (hash (thread_name t)))), Endl,
     Text ''Thread: '', Text (thread_name t), Text '', threadLocalPointer: '', PtrItem 0, Endl]"
  by (simp add: full_output_def threadFunction_def)

text \<open>The steps left: every step lowers this number.\<close>

definition tls_left :: "tls_state \<Rightarrow> nat" where
  "tls_left s = (\<Sum>t\<in>{T1, T2}. case todo s t of None \<Rightarrow> 15 | Some cs \<Rightarrow> length cs) + (5 - main_pc s)"

lemma tls_step_left:
  assumes "tls_step hash s s'" "main_inv s"
  shows "tls_left s' < tls_left s"
  using assms(1)
proof cases
  case (Start t)
  then show ?thesis
    using assms(2) by (auto simp: tls_left_def main_inv_def main_thread_def threadFunction_def split: if_splits)
next
  case (Run t c cs)
  then show ?thesis
    by (cases t) (simp_all add: tls_left_def)
qed (use assms(2) in \<open>simp_all add: tls_left_def\<close>)

lemma tls_progress:
  assumes "main_inv s" "main_pc s < 5"
  shows "\<exists>s'. tls_step hash s s'"
proof -
  consider "main_pc s < 2" | "main_pc s = 2" | "main_pc s = 3" | "main_pc s = 4"
    using assms(2) by linarith
  then show ?thesis
  proof cases
    case 2
    then have "todo s T1 \<noteq> None"
      using assms(1) by (simp add: main_inv_def)
    then obtain cs where "todo s T1 = Some cs"
      by blast
    then show ?thesis
      using 2 tls_step.Run [of s T1] tls_step.Join [of s] by (cases cs) (auto simp: main_thread_def)
  next
    case 3
    then have "todo s T2 \<noteq> None"
      using assms(1) by (simp add: main_inv_def)
    then obtain cs where "todo s T2 = Some cs"
      by blast
    then show ?thesis
      using 3 tls_step.Run [of s T2] tls_step.Join [of s] by (cases cs) (auto simp: main_thread_def)
  qed (use tls_step.Start tls_step.Return in blast)+
qed

text \<open>C21: the threads of \<open>tls\<close> do not disturb each other, in any interleaving: what a thread has written is always the
  beginning of its own text, which shows the hash of its own name and a null pointer, although both threads set the
  variables to other values at their end.  No interleaving is longer than 35 steps, none gets stuck before
  \<open>main\<close> has returned, and then both texts are complete.\<close>

theorem tls_isolated:
  assumes "(tls_step hash ^^ n) tls_init s"
  shows "n \<le> 35 \<and> (main_pc s < 5 \<longrightarrow> (\<exists>s'. tls_step hash s s')) \<and>
    (\<exists>rest. written_by t s @ rest = [Endl,
      Text ''Thread: '', Text (thread_name t), Text '', threadLocalVar: '', IntItem (to_int32 (uint (hash (thread_name t)))), Endl,
      Text ''Thread: '', Text (thread_name t), Text '', threadLocalPointer: '', PtrItem 0, Endl] \<and>
      (main_pc s = 5 \<longrightarrow> rest = []))"
proof -
  have "tls_left s + n \<le> 35 \<and> (tls_step hash)\<^sup>*\<^sup>* tls_init s"
    using assms
  proof (induction n arbitrary: s)
    case (Suc n)
    then obtain s0 where s0: "(tls_step hash ^^ n) tls_init s0" "tls_step hash s0 s"
      by auto
    then show ?case
      using Suc.IH [OF s0(1)] tls_step_left [OF s0(2)] tls_reachable [of hash s0] by (auto intro: rtranclp.rtrancl_into_rtrancl)
  qed (simp add: tls_left_def tls_init_def)
  moreover have "\<exists>rest. written_by t s @ rest = full_output hash t \<and> (main_pc s = 5 \<longrightarrow> rest = [])" if "(tls_step hash)\<^sup>*\<^sup>* tls_init s"
    using tls_reachable [OF that, of t]
    by (cases t; cases "todo s t") (auto simp: thread_inv_def main_inv_def)
  ultimately show ?thesis
    using tls_reachable [of hash s t] tls_progress [of s hash] by (simp add: full_output_value)
qed

theorem tls_isolated_witness:
  "written_by T1 tls_init = [] \<and> (\<exists>s'. tls_step (\<lambda>_. 0) tls_init s')"
  using tls_isolated [where hash = "\<lambda>_. 0" and n = 0 and s = tls_init and t = T1] by (simp add: tls_init_def written_by_def)

end
