(* ===== verification/AcePrograms.thy ===== *)
theory AcePrograms
  imports CIO
begin

text \<open>
  The programs of \<open>ace/\<close>, which are built on the ACE framework.  The framework is not part of the repository: its
  functions are calls, which the environment answers.  \<open>ACE_DEBUG\<close> is recorded like \<open>printf\<close>, with its format and its
  arguments.  \<open>signal/main.cpp\<close> has two threads that fault, \<open>udpdgram/iovec.cpp\<close> sends and receives a datagram with
  two buffers, and \<open>macros/macros.cpp\<close> reports the configuration of ACE.
\<close>

datatype ace_call =
    RegisterHandler int | ScheduleTimer int | ThreadSelf | Spawn int | ThreadExit | OsSleep int
  | StackTrace int | Backtrace int | BacktraceSymbols int | SymbolAt int nat | Free int
  | EventLoopDone | RunEventLoop
  | OpenDgram int | LocalAddr | EnableNonblock | SendV "string list" int string | RecvV "nat list" | LastError | LocalTo

type_synonym ace_os = "ace_call os"
type_synonym 'a ace_prog = "(ace_call, 'a) prog"

text \<open>The loop of both \<open>main\<close> functions around the event loop; \<open>True\<close> when it has ended.\<close>

fun reactor_loop :: "ace_os \<Rightarrow> nat \<Rightarrow> bool ace_prog" where
  "reactor_loop os 0 = exit_with False"
| "reactor_loop os (Suc fuel) = do {
     r \<leftarrow> call os EventLoopDone;
     if sys_ret r \<noteq> 0 then exit_with True
     else do {
       call os RunEventLoop;
       reactor_loop os fuel
     }
   }"

subsection \<open>\<open>signal\<close>\<close>

text \<open>How the function of a thread ends: it returns, the thread exits, or a signal without a handler kills the
  process.\<close>

datatype thread_end = Returned | Exited | Killed int

definition ace_self :: "ace_os \<Rightarrow> arg ace_prog" where
  "ace_self os = do { r \<leftarrow> call os ThreadSelf; exit_with (ArgI (sys_ret r)) }"

definition handle_timeout :: "ace_os \<Rightarrow> int ace_prog" where
  "handle_timeout os = do {
     st \<leftarrow> call os (StackTrace (- 2));
     self \<leftarrow> ace_self os;
     printf ''%D %M %P | %t thead id: %u timer out ...\<newline>%s'' [self, ArgS (line_of st)];
     exit_with 0
   }"

text \<open>The loop over the symbols; \<open>SymbolAt s j\<close> reads the string that the element \<open>j\<close> of the array at \<open>s\<close> points to.\<close>

fun print_symbols :: "ace_os \<Rightarrow> int \<Rightarrow> nat \<Rightarrow> nat \<Rightarrow> unit ace_prog" where
  "print_symbols os s j 0 = exit_with ()"
| "print_symbols os s j (Suc n) = do {
     r \<leftarrow> call os (SymbolAt s j);
     printf ''%s\<newline>'' [ArgS (line_of r)];
     print_symbols os s (Suc j) n
   }"

text \<open>\<open>dumpStackUseBacktrace\<close>; \<open>False\<close> when the thread has exited in it.\<close>

definition dumpStackUseBacktrace :: "ace_os \<Rightarrow> bool ace_prog" where
  "dumpStackUseBacktrace os = do {
     nptrs \<leftarrow> call os (Backtrace 100);
     self \<leftarrow> ace_self os;
     printf ''%D %M %P | %t thead id: %u backtrace() returned %d addresses ...\<newline>\<newline>'' [self, ArgI (sys_ret nptrs)];
     strings \<leftarrow> call os (BacktraceSymbols (sys_ret nptrs));
     if sys_ret strings = 0 then do {
       call os ThreadExit;
       exit_with False
     }
     else do {
       print_symbols os (sys_ret strings) 0 (nat (sys_ret nptrs));
       call os (Free (sys_ret strings));
       exit_with True
     }
   }"

text \<open>The handler ends its thread on both paths.\<close>

definition handle_signal :: "ace_os \<Rightarrow> int \<Rightarrow> thread_end ace_prog" where
  "handle_signal os signum = do {
     self \<leftarrow> ace_self os;
     printf ''%D %M %P | %t thead id: %u recv signal : %d ...\<newline>'' [self, ArgI signum];
     alive \<leftarrow> dumpStackUseBacktrace os;
     if \<not> alive then exit_with Exited
     else do {
       self \<leftarrow> ace_self os;
       printf ''\<newline>%D %M %P | %t thead id: %u exit from signal handler ...\<newline>'' [self];
       call os ThreadExit;
       exit_with Exited
     }
   }"

text \<open>A faulting instruction raises its signal in the thread: the handler runs when one is registered, and otherwise
  the default action kills the process.\<close>

fun registered :: "int \<Rightarrow> ace_call history \<Rightarrow> bool" where
  "registered sig [] = False"
| "registered sig (Call (RegisterHandler n) r # h) = (n = sig \<and> sys_ret r \<noteq> - 1 \<or> registered sig h)"
| "registered sig (_ # h) = registered sig h"

definition raise_fault :: "ace_os \<Rightarrow> int \<Rightarrow> thread_end ace_prog" where
  "raise_fault os sig = do {
     h \<leftarrow> State_Monad.get;
     if registered sig h then handle_signal os sig else exit_with (Killed sig)
   }"

text \<open>A division by zero, and a load from the address zero.\<close>

definition produceFPEException :: "ace_os \<Rightarrow> thread_end ace_prog" where
  "produceFPEException os = do {
     self \<leftarrow> ace_self os;
     printf ''%D %M %P | %t child thead id: %u,  %s begin to run ...\<newline>'' [self, ArgS ''produceFPEException''];
     let j = (0 :: int);
     if j = 0 then raise_fault os 8 else exit_with Returned
   }"

definition produceSigSEGVException :: "ace_os \<Rightarrow> thread_end ace_prog" where
  "produceSigSEGVException os = do {
     self \<leftarrow> ace_self os;
     printf ''%D %M %P | %t child thead id: %u,  %s begin to run ...\<newline>'' [self, ArgS ''produceSigSEGVException''];
     raise_fault os 11
   }"

definition childThreadFunc :: "ace_os \<Rightarrow> int \<Rightarrow> thread_end ace_prog" where
  "childThreadFunc os arg = do {
     let para = to_int32 arg;
     self \<leftarrow> ace_self os;
     printf ''%D %M %P | %t child thead id: %u, para: %d begin to run ...\<newline>'' [self, ArgI para];
     if para = 0 then produceFPEException os else produceSigSEGVException os
   }"

text \<open>\<open>main\<close> up to its event loop, and the whole of it.\<close>

definition ace_signal_start :: "ace_os \<Rightarrow> unit ace_prog" where
  "ace_signal_start os = do {
     call os (RegisterHandler 8);
     call os (RegisterHandler 11);
     call os (ScheduleTimer 5);
     self \<leftarrow> ace_self os;
     printf ''%D %M %P | %t hello world for ACE , thead id: %u ...\<newline>'' [self];
     call os (Spawn 0);
     call os (OsSleep 1);
     call os (Spawn 1);
     exit_with ()
   }"

definition ace_signal_main :: "ace_os \<Rightarrow> nat \<Rightarrow> outcome ace_prog" where
  "ace_signal_main os fuel = do {
     ace_signal_start os;
     ended \<leftarrow> reactor_loop os fuel;
     if \<not> ended then exit_with Running
     else do {
       printf ''%D %M %P | %t shutting down server logging daemon\<newline>'' [];
       exit_with (Exit 0)
     }
   }"

subsection \<open>\<open>udpdgram\<close>\<close>

text \<open>A receive with several buffers stores the bytes of the datagram in them one after the other.\<close>

fun scatter :: "bytes list \<Rightarrow> bytes \<Rightarrow> bytes list" where
  "scatter [] data = []"
| "scatter (b # bs) data = (take (length b) data @ drop (length data) b) # scatter bs (drop (length b) data)"

text \<open>The string that \<open>%s\<close> prints; \<open>None\<close> when it runs over the end of the buffer.\<close>

definition string_in :: "bytes \<Rightarrow> string option" where
  "string_in b = (if 0 \<in> set b then Some (map (\<lambda>x. char_of (unat x)) (takeWhile (\<lambda>x. x \<noteq> 0) b)) else None)"

definition iov :: "string list" where
  "iov = [''hello world 1'', ''hello world 2'']"

text \<open>\<open>main\<close> after the receive: what it reports, or \<open>None\<close> when that is undefined.\<close>

definition iovec_report :: "ace_os \<Rightarrow> sysret \<Rightarrow> unit option ace_prog" where
  "iovec_report os r =
    (if sys_ret r < 0 then do {
       e \<leftarrow> call os LastError;
       printf ''%D %M %P udp recv in failure ! errno: %d --> %s\<newline>'' [ArgI (sys_ret e), ArgErr (sys_ret e)];
       exit_with (Some ())
     }
     else (case scatter [replicate 256 0, replicate 256 0] (sys_data r) of
       [buf0, buf1] \<Rightarrow> do {
         l \<leftarrow> call os LocalTo;
         case (string_in buf0, string_in buf1) of
           (Some s0, Some s1) \<Rightarrow> do {
             printf ''%D %M %P udp recv %d byte iovec to address: %s, port: %u ; iov_len0: %u,  iov_len1: %u ...\<newline>recvmsg0: %s, recvmsg1: %s\<newline>''
               [ArgI (sys_ret r), ArgS (line_of l), ArgI (sys_ret l), ArgI 256, ArgI 256, ArgS s0, ArgS s1];
             printf ''%D %M %P udp recv iovec only a pkg and fill the buffer in sequnce ...\<newline>'' [];
             exit_with (Some ())
           }
         | _ \<Rightarrow> exit_with None
       }
     | _ \<Rightarrow> exit_with None))"

definition iovec_send :: "ace_os \<Rightarrow> sysret ace_prog" where
  "iovec_send os = do {
     self \<leftarrow> ace_self os;
     printf ''%D %M %P | %t hello world for ACE , thead id: %u ...\<newline>'' [self];
     call os (OpenDgram 12701);
     l \<leftarrow> call os LocalAddr;
     printf ''%D %M %P udp bind address: %s, port: %u ...\<newline>'' [ArgS (line_of l), ArgI (sys_ret l)];
     call os EnableNonblock;
     printf ''%D %M %P udp send iov_len0: %u,  iov_len1: %u ...\<newline>'' [ArgI (int (length (iov ! 0))), ArgI (int (length (iov ! 1)))];
     r \<leftarrow> call os (SendV iov (sys_ret l) ''127.0.0.1'');
     printf ''%D %M %P udp send %d bytes, but only one pkg ...\<newline>'' [ArgI (sys_ret r)];
     call os (OsSleep 1);
     call os (RecvV [256, 256])
   }"

definition iovec_main :: "ace_os \<Rightarrow> nat \<Rightarrow> outcome ace_prog" where
  "iovec_main os fuel = do {
     r \<leftarrow> iovec_send os;
     x \<leftarrow> iovec_report os r;
     case x of
       None \<Rightarrow> exit_with Undefined
     | Some _ \<Rightarrow> do {
         ended \<leftarrow> reactor_loop os fuel;
         if \<not> ended then exit_with Running
         else do {
           printf ''%D %M %P shutting down server logging daemon\<newline>'' [];
           exit_with (Exit 0)
         }
       }
   }"

subsection \<open>\<open>macros\<close>\<close>

text \<open>The two macros of the configuration are parameters.  The first format asks for an argument that is not given.\<close>

definition macros_main :: "bool \<Rightarrow> bool \<Rightarrow> outcome ace_prog" where
  "macros_main ACE_INLINE ACE_HAS_REACTOR_NOTIFICATION_QUEUE = do {
     printf ''%D %M %P hello world for ACE , thead id: %u ...\<newline>'' [];
     (if ACE_INLINE
      then printf ''%D %M %P ACE's app compiling __ACE_INLINE__ macro is configured!\<newline>'' []
      else printf ''%D %M %P ACE's app compiling __ACE_INLINE__ macro is not configured!\<newline>'' []);
     (if ACE_HAS_REACTOR_NOTIFICATION_QUEUE
      then printf ''%D %M %P ACE's app compiling ACE_HAS_REACTOR_NOTIFICATION_QUEUE macro is configured!\<newline>'' []
      else printf ''%D %M %P ACE's app compiling ACE_HAS_REACTOR_NOTIFICATION_QUEUE macro is not configured!\<newline>'' []);
     exit_with (Exit 0)
   }"

subsection \<open>Properties of \<open>signal\<close>\<close>

text \<open>
  The discipline of a thread of \<open>signal\<close>: it frees only an array of symbols that it holds, does not change the
  handlers, and calls nothing after it has exited.  The state is the list of the arrays held and whether the thread has exited.
\<close>

fun thread_step :: "ace_call \<Rightarrow> sysret \<Rightarrow> int list \<times> bool \<Rightarrow> (int list \<times> bool) option" where
  "thread_step c r (held, True) = None"
| "thread_step (BacktraceSymbols n) r (held, False) = Some (if sys_ret r = 0 then held else sys_ret r # held, False)"
| "thread_step (Free s) r (held, False) = (if s \<in> set held then Some (remove1 s held, False) else None)"
| "thread_step ThreadExit r (held, False) = Some (held, True)"
| "thread_step (RegisterHandler n) r (held, False) = None"
| "thread_step c r (held, False) = Some (held, False)"

text \<open>From any history, the program adds calls that lead the automaton \<open>step\<close> from the state \<open>s\<close> to one with \<open>Q\<close>.\<close>

definition adds ::
    "(ace_call \<Rightarrow> sysret \<Rightarrow> 's \<Rightarrow> 's option) \<Rightarrow> 'a ace_prog \<Rightarrow> 's \<Rightarrow> ('a \<Rightarrow> 's \<Rightarrow> bool) \<Rightarrow> bool" where
  "adds step p s Q \<longleftrightarrow>
    (\<forall>h. \<exists>new t. call_log (final p h) = call_log h @ new \<and> run_steps step new s = Some t \<and> Q (result p h) t)"

lemma adds_bind:
  assumes "adds step p s (\<lambda>x t. adds step (f x) t Q)"
  shows "adds step (State_Monad.bind p f) s Q"
  unfolding adds_def final_bind result_bind
proof
  fix h
  from assms obtain new t where new: "call_log (final p h) = call_log h @ new" "run_steps step new s = Some t"
      "adds step (f (result p h)) t Q"
    unfolding adds_def by blast
  from new(3) obtain more u where "call_log (final (f (result p h)) (final p h)) = call_log (final p h) @ more"
      "run_steps step more t = Some u" "Q (result (f (result p h)) (final p h)) u"
    unfolding adds_def by blast
  with new(1,2) show "\<exists>new t. call_log (final (f (result p h)) (final p h)) = call_log h @ new \<and>
      run_steps step new s = Some t \<and> Q (result (f (result p h)) (final p h)) t"
    by (intro exI [of _ "new @ more"] exI [of _ u]) (simp add: run_steps_append)
qed

lemma adds_return: "Q x s \<Longrightarrow> adds step (exit_with x) s Q"
  by (simp add: adds_def)

lemma adds_printf: "Q () s \<Longrightarrow> adds step (printf f as) s Q"
  by (simp add: adds_def)

lemma adds_call:
  assumes "\<And>r. \<exists>t. step c r s = Some t \<and> Q r t"
  shows "adds step (call os c) s Q"
  unfolding adds_def
proof
  fix h
  from assms [of "os h c"] obtain t where "step c (os h c) s = Some t" "Q (os h c) t"
    by blast
  then show "\<exists>new t. call_log (final (call os c) h) = call_log h @ new \<and> run_steps step new s = Some t \<and> Q (result (call os c) h) t"
    by (intro exI [of _ "[(c, os h c)]"] exI [of _ t]) simp
qed

lemma adds_if:
  "(b \<Longrightarrow> adds step p s Q) \<Longrightarrow> (\<not> b \<Longrightarrow> adds step q s Q) \<Longrightarrow> adds step (if b then p else q) s Q"
  by simp

lemmas adds_basic = adds_bind adds_return adds_printf adds_call adds_if

lemma thread_self: "(\<And>x. Q x (held, False)) \<Longrightarrow> adds thread_step (ace_self os) (held, False) Q"
  unfolding ace_self_def by (auto intro!: adds_basic)

lemma thread_symbols: "Q () (held, False) \<Longrightarrow> adds thread_step (print_symbols os s j n) (held, False) Q"
  by (induction n arbitrary: j) (auto intro!: adds_basic)

lemma thread_handler:
  "adds thread_step (handle_signal os sig) ([], False) (\<lambda>x t. x = Exited \<and> t = ([], True))"
  unfolding handle_signal_def dumpStackUseBacktrace_def
  by (auto intro!: adds_basic thread_self thread_symbols)

lemma get_simps [simp]: "final State_Monad.get h = h" "result State_Monad.get h = h"
  by (simp_all add: final_def result_def State_Monad.get_def)

lemma thread_fault:
  "\<exists>new. call_log (final (raise_fault os sig) h) = call_log h @ new \<and>
    run_steps thread_step new ([], False) = Some ([], registered sig h) \<and>
    result (raise_fault os sig) h = (if registered sig h then Exited else Killed sig)"
proof (cases "registered sig h")
  case True
  have "\<exists>new t. call_log (final (handle_signal os sig) h) = call_log h @ new \<and> run_steps thread_step new ([], False) = Some t \<and>
      result (handle_signal os sig) h = Exited \<and> t = ([], True)"
    using thread_handler [of os sig] unfolding adds_def by blast
  with True show ?thesis
    by (auto simp: raise_fault_def final_bind result_bind)
qed (simp add: raise_fault_def final_bind result_bind)

text \<open>A child thread reaches its fault after two calls.\<close>

lemma child_fault:
  "\<exists>g a b. call_log g = call_log h @ [(ThreadSelf, a), (ThreadSelf, b)] \<and> (\<forall>sig. registered sig g = registered sig h) \<and>
    final (childThreadFunc os arg) h = final (raise_fault os (if to_int32 arg = 0 then 8 else 11)) g \<and>
    result (childThreadFunc os arg) h = result (raise_fault os (if to_int32 arg = 0 then 8 else 11)) g"
  by (auto simp: childThreadFunc_def produceFPEException_def produceSigSEGVException_def ace_self_def final_bind result_bind Let_def
      intro!: exI [of _ "Printf _ _ # Call ThreadSelf _ # Printf _ _ # Call ThreadSelf _ # h"])

lemma registered_start:
  assumes "\<forall>n. RegisterHandler n \<notin> set (calls out)"
  shows "registered sig (out @ h) = registered sig h"
  using assms by (induction sig out rule: registered.induct) auto

text \<open>C25: a fault in a thread of \<open>signal\<close> ends only this thread.  After \<open>main\<close> has registered its handlers, whatever
  the other threads have called since, a child thread that divides by zero (argument 0) or loads from the null pointer (any
  other argument, as a 32-bit number) exits in the handler, holds no array of symbols then and calls nothing more; it never
  returns to the faulting instruction.  Only when the registration, whose result \<open>main\<close> ignores, has failed the signal kills
  the process.\<close>

theorem ace_fault_ends_thread:
  fixes os :: ace_os
  defines "r8 \<equiv> os [] (RegisterHandler 8)"
  defines "r11 \<equiv> os [Call (RegisterHandler 8) r8] (RegisterHandler 11)"
  assumes "\<forall>n. RegisterHandler n \<notin> set (calls out)" and h: "h = out @ final (ace_signal_start os) []"
  shows "\<exists>new. call_log (final (childThreadFunc os arg) h) = call_log h @ new \<and>
    (if sys_ret (if to_int32 arg = 0 then r8 else r11) \<noteq> - 1
     then result (childThreadFunc os arg) h = Exited \<and> run_steps thread_step new ([], False) = Some ([], True)
     else result (childThreadFunc os arg) h = Killed (if to_int32 arg = 0 then 8 else 11) \<and>
       run_steps thread_step new ([], False) = Some ([], False))"
proof -
  let ?sig = "if to_int32 arg = 0 then 8 else 11 :: int"
  have reg: "registered ?sig h \<longleftrightarrow> sys_ret (if to_int32 arg = 0 then r8 else r11) \<noteq> - 1"
    by (simp add: h registered_start [OF assms(3)] ace_signal_start_def ace_self_def final_bind result_bind r8_def r11_def)
  obtain g a b where g: "call_log g = call_log h @ [(ThreadSelf, a), (ThreadSelf, b)]" "registered ?sig g = registered ?sig h"
      "final (childThreadFunc os arg) h = final (raise_fault os ?sig) g"
      "result (childThreadFunc os arg) h = result (raise_fault os ?sig) g"
    using child_fault [of h os arg] by blast
  from thread_fault [of os ?sig g] obtain new where new: "call_log (final (raise_fault os ?sig) g) = call_log g @ new"
      "run_steps thread_step new ([], False) = Some ([], registered ?sig g)"
      "result (raise_fault os ?sig) g = (if registered ?sig g then Exited else Killed ?sig)"
    by blast
  show ?thesis
    using new(2,3) by (intro exI [of _ "[(ThreadSelf, a), (ThreadSelf, b)] @ new"]) (simp add: g new(1) reg)
qed

theorem ace_fault_ends_thread_witness:
  "result (childThreadFunc (os_const 1) 0) (final (ace_signal_start (os_const 1)) []) = Exited \<and>
   result (childThreadFunc (os_const (- 1)) 1) (final (ace_signal_start (os_const (- 1))) []) = Killed 11"
  using ace_fault_ends_thread [of "[]" _ "os_const 1" 0] ace_fault_ends_thread [of "[]" _ "os_const (- 1)" 1]
  by (auto simp: os_const_def to_int32_def)

text \<open>The loop around the event loop ends as soon as the event loop is done.\<close>

lemma reactor_loop_ends:
  assumes "\<And>g. made RunEventLoop g = n \<Longrightarrow> sys_ret (os g EventLoopDone) \<noteq> 0"
  shows "made RunEventLoop h \<le> n \<Longrightarrow> n < fuel + made RunEventLoop h \<Longrightarrow> result (reactor_loop os fuel) h"
proof (induction fuel arbitrary: h)
  case (Suc fuel)
  then show ?case
    using assms [of h] by (cases "made RunEventLoop h = n") (auto simp: result_bind)
qed simp

lemma extends_reactor_loop [extends_rules]: "extends (reactor_loop os fuel)"
  by (induction fuel) (auto intro!: extends_rules)

subsection \<open>Properties of \<open>udpdgram\<close>\<close>

lemma scatter_two:
  "length data \<le> n \<Longrightarrow> scatter [replicate n 0, replicate m 0] data = [data @ replicate (n - length data) 0, replicate m 0]"
  "n \<le> length data \<Longrightarrow> length data \<le> n + m \<Longrightarrow>
    scatter [replicate n 0, replicate m 0] data = [take n data, drop n data @ replicate (n + m - length data) 0]"
  by simp_all

lemma string_in_simps:
  "0 \<notin> set data \<Longrightarrow> 0 < n \<Longrightarrow> string_in (data @ replicate n 0) = Some (map (\<lambda>x. char_of (unat x)) data)"
  "0 \<notin> set data \<Longrightarrow> string_in data = None"
  "0 < n \<Longrightarrow> string_in (replicate n 0) = Some []"
  by (auto simp: string_in_def takeWhile_append takeWhile_replicate)

text \<open>The report of a received datagram with its text in the first buffer.\<close>

definition one_message :: "sysret \<Rightarrow> sysret \<Rightarrow> ace_call event" where
  "one_message r l =
    Printf ''%D %M %P udp recv %d byte iovec to address: %s, port: %u ; iov_len0: %u,  iov_len1: %u ...\<newline>recvmsg0: %s, recvmsg1: %s\<newline>''
      [ArgI (sys_ret r), ArgS (line_of l), ArgI (sys_ret l), ArgI 256, ArgI 256, ArgS (line_of r), ArgS '''']"

lemma iovec_report_text:
  assumes "0 \<le> sys_ret r" "0 \<notin> set (sys_data r)"
  shows "length (sys_data r) < 256 \<Longrightarrow>
      result (iovec_report os r) h = Some () \<and> (\<exists>l. one_message r l \<in> set (final (iovec_report os r) h))"
    and "256 \<le> length (sys_data r) \<Longrightarrow> length (sys_data r) \<le> 512 \<Longrightarrow> result (iovec_report os r) h = None"
proof -
  assume n: "length (sys_data r) < 256"
  let ?l = "os h LocalTo"
  have "scatter [replicate 256 0, replicate 256 0] (sys_data r) =
      [sys_data r @ replicate (256 - length (sys_data r)) 0, replicate 256 0]"
    using n by (intro scatter_two(1)) simp
  moreover have "string_in (sys_data r @ replicate (256 - length (sys_data r)) 0) = Some (line_of r)"
    using string_in_simps(1) [OF assms(2)] n by (simp add: line_of_def)
  moreover have "string_in (replicate 256 0) = Some []"
    by (rule string_in_simps(3)) simp
  ultimately have "result (iovec_report os r) h = Some ()" "one_message r ?l \<in> set (final (iovec_report os r) h)"
    using assms(1) unfolding one_message_def by (simp_all add: iovec_report_def final_bind result_bind del: scatter.simps)
  then show "result (iovec_report os r) h = Some () \<and> (\<exists>l. one_message r l \<in> set (final (iovec_report os r) h))"
    by blast
next
  assume n: "256 \<le> length (sys_data r)" "length (sys_data r) \<le> 512"
  have "string_in (take 256 (sys_data r)) = None"
    using assms(2) by (intro string_in_simps(2)) (auto dest: in_set_takeD)
  then show "result (iovec_report os r) h = None"
    using assms(1) scatter_two(2) [of 256 "sys_data r" 256] n by (simp add: iovec_report_def result_bind del: scatter.simps)
qed

text \<open>C38: \<open>udpdgram\<close> receives a datagram in two buffers of 256 bytes, which are filled one after the other.  A text of fewer
  than 256 bytes is shown whole as the first message and the second one is empty; so the two parts of the program's own
  datagram come back as one message.  A text of 256 bytes or more leaves no zero byte in the first buffer, and printing it
  as a string is undefined.\<close>

theorem iovec_fills_in_sequence:
  fixes os :: ace_os
  defines "r \<equiv> result (iovec_send os) []"
  assumes "0 \<le> sys_ret r" "0 \<notin> set (sys_data r)" "length (sys_data r) \<le> 512"
  shows "if length (sys_data r) < 256
    then result (iovec_main os fuel) [] \<noteq> Undefined \<and> (\<exists>l. one_message r l \<in> set (final (iovec_main os fuel) []))
    else result (iovec_main os fuel) [] = Undefined"
proof (cases "length (sys_data r) < 256")
  case True
  let ?h = "final (iovec_report os r) (final (iovec_send os) [])"
  obtain l where report: "result (iovec_report os r) (final (iovec_send os) []) = Some ()" "one_message r l \<in> set ?h"
    using iovec_report_text(1) [OF assms(2,3) True] by blast
  have "one_message r l \<in> set (final (iovec_main os fuel) [])"
    using report extends_reactor_loop [of os fuel] unfolding extends_def
    by (auto simp: iovec_main_def final_bind r_def [symmetric]) (metis Un_iff set_append)+
  then show ?thesis
    using True report by (auto simp: iovec_main_def result_bind r_def [symmetric])
next
  case False
  then show ?thesis
    using iovec_report_text(2) [OF assms(2,3) _ assms(4)] by (simp add: iovec_main_def result_bind r_def [symmetric])
qed

text \<open>An environment for examples, which delivers one datagram.\<close>

definition os_datagram :: "string \<Rightarrow> ace_os" where
  "os_datagram msg h c =
    (if c = RecvV [256, 256] then \<lparr>sys_ret = int (length msg), sys_errno = 0, sys_data = map of_char msg, sys_addr = []\<rparr>
     else os_const 1 h c)"

lemma iovec_send_datagram: "result (iovec_send (os_datagram msg)) [] =
    \<lparr>sys_ret = int (length msg), sys_errno = 0, sys_data = map of_char msg, sys_addr = []\<rparr>"
  by (simp add: iovec_send_def ace_self_def result_bind final_bind os_datagram_def)

theorem iovec_fills_in_sequence_witness:
  "(\<exists>l. one_message \<lparr>sys_ret = 26, sys_errno = 0, sys_data = map of_char ''hello world 1hello world 2'', sys_addr = []\<rparr> l
     \<in> set (final (iovec_main (os_datagram (concat iov)) 3) [])) \<and>
   result (iovec_main (os_datagram (replicate 256 (CHR ''x''))) 3) [] = Undefined"
  using iovec_fills_in_sequence [of "os_datagram (concat iov)" 3]
    iovec_fills_in_sequence [of "os_datagram (replicate 256 (CHR ''x''))" 3]
  by (simp add: iovec_send_datagram iov_def)

end
