(* ===== verification/Spec2Isabelle.thy ===== *)
theory Spec2Isabelle
  imports SerialNumber Headers SocketPrograms ScatteredSend RouteReport BitField Signals SftpListing SftpStatus
    LibsshApi LibsshConstants LibsshBuild Processes Timing CapTest Segments Expressions MacroPrograms CppPrograms AcePrograms
begin

text \<open>
  Verification of the C and C++ programs of studyTips.

  The repository collects small C programs under \<^verbatim>\<open>src/c\<close>, each about one mechanism of Linux or of
  the language, and one shared header, \<^verbatim>\<open>src/c/common/header.h\<close>, with the packed IPv4, IPv6 and UDP headers
  and their checksum routines.  The raw socket programs include that header; the other programs stand
  alone.  All of them are built for x86-64 Linux, so host integers are little-endian.

  \<^bold>\<open>Theories and the code they model.\<close>

    \<^item> \<open>CPrelude\<close>: words of the C integer types, byte buffers with partial loads and stores (\<open>None\<close> is an
      access outside the buffer), byte order conversions, layouts of packed structures.
    \<^item> \<open>SerialNumber\<close>: \<^verbatim>\<open>tsn/main.c\<close>, the eight serial number comparisons and the asserts of \<open>main\<close>.
    \<^item> \<open>Checksum\<close>: \<open>csum\<close> and \<open>Checksum\<close> of \<^verbatim>\<open>common/header.h\<close>, loops included.
    \<^item> \<open>Headers\<close>: the packed headers and the five functions of \<^verbatim>\<open>common/header.h\<close> that fill in a checksum;
      they read and write one packet buffer, so that pointers into it alias as in the code.
    \<^item> \<open>RawPackets\<close>: the packet buffers that \<open>sendV6\<close>, \<open>sendV4\<close> (\<^verbatim>\<open>raw6/rawudp.c\<close>) prepare.
    \<^item> \<open>CIO\<close>: programs with system calls.  A program is a \<open>State_Monad\<close> computation on the history of its
      calls and outputs.  The operating system is an argument \<open>os\<close> that answers each call from the history,
      so a statement for every \<open>os\<close> holds for every behaviour of the kernel.  Also \<open>getopt\<close> and \<open>atoi\<close>.
    \<^item> \<open>SocketCalls\<close>: addresses, socket calls and the discipline of descriptors.
    \<^item> \<open>RawSockets\<close>, \<open>RawPrograms\<close>, \<open>SocketPrograms\<close>: \<open>main\<close> of \<^verbatim>\<open>raw6/rawudp.c\<close>, \<^verbatim>\<open>raw6/rawall.c\<close>,
      \<^verbatim>\<open>raw6/server.c\<close>, \<^verbatim>\<open>raw6/flowlabel.c\<close>, \<^verbatim>\<open>raw4/rawbind.c\<close>, \<^verbatim>\<open>sockbuf/main.c\<close>, \<^verbatim>\<open>sctp/main.c\<close>
      and \<^verbatim>\<open>udpSendData/main.c\<close>.  \<open>ScatteredSend\<close>: what \<open>rawudp\<close> sends with the option \<open>-v\<close>.
    \<^item> \<open>Netlink\<close>: \<^verbatim>\<open>netlink/getroute.c\<close>, the request, the walks over messages and attributes, \<open>main\<close>.
      \<open>RouteReport\<close>: an encoder for the answers of the kernel, and what the program shows for an encoded answer.
    \<^item> \<open>BitField\<close>: \<^verbatim>\<open>bits/bitincr.c\<close>.
    \<^item> \<open>Signals\<close>: \<^verbatim>\<open>signal/main.c\<close> as a state machine of two threads and of signal delivery.
    \<^item> \<open>Sftp\<close>: \<^verbatim>\<open>libssh2/sftpdir.c\<close> on top of libssh2, whose functions are calls.
      \<open>SftpListing\<close>: the listing on its standard output.  \<open>SftpStatus\<close>: how it ends.  \<open>LibsshApi\<close>: the functions that \<^verbatim>\<open>libssh2/libssh2.h\<close>,
      \<^verbatim>\<open>libssh2/libssh2_sftp.h\<close> and \<^verbatim>\<open>libssh2/libssh2_publickey.h\<close> declare, with the types of their parameters, and the
      macros that call them.  \<open>LibsshModes\<close>: the modes of files, the type masks of known hosts, the
      version and the codes of errors in these headers.
    \<^item> \<open>Conditionals\<close>: definitions, inclusions and conditional groups of the C preprocessor.  \<open>LibsshFiles\<close>: the four headers of
      libssh2, with \<^verbatim>\<open>libssh2/libssh2_config.h\<close>, and the directives of \<^verbatim>\<open>libssh2/sftpdir.c\<close> as files for it, with the branches
      for every system.  \<open>LibsshTypes\<close>: the types of \<^verbatim>\<open>libssh2/libssh2.h\<close> in every environment.  \<open>LibsshBuild\<close>: what the
      compiler sees of \<^verbatim>\<open>libssh2/sftpdir.c\<close> on Linux.  \<open>LibsshConstants\<close>: the constants of \<open>LibsshModes\<close> are the values of
      the macros in these files.
    \<^item> \<open>Processes\<close>: \<^verbatim>\<open>ambient/main.c\<close>, \<^verbatim>\<open>filefds/main.c\<close>, \<^verbatim>\<open>malloc/main.c\<close>, \<^verbatim>\<open>sched/sched.c\<close> and
      \<^verbatim>\<open>setrlimit/main.c\<close>.
    \<^item> \<open>Layout\<close>: \<^verbatim>\<open>struct/main.c\<close>, \<^verbatim>\<open>aligned/main.c\<close> and \<^verbatim>\<open>void/voidptr.c\<close>.
      \<open>Doubles\<close>: the type \<open>double\<close> of C, a rational with the rounding of IEEE 754 to 53 bits, an infinity or no number; the range of the
      exponent is left out.  \<open>Timing\<close>: \<open>getDiff\<close> and \<open>main\<close> of \<^verbatim>\<open>aligned/main.c\<close> with their times and percentages.
    \<^item> \<open>Children\<close>: \<^verbatim>\<open>fgets/main.c\<close> in both processes, with the buffered output stream of the child as an
      interpretation of its history.  \<open>CapTest\<close>: \<^verbatim>\<open>cap/main.c\<close> in both processes.
    \<^item> \<open>Segments\<close>: \<^verbatim>\<open>stack/main.c\<close> and \<^verbatim>\<open>bss/main.c\<close>.
    \<^item> \<open>Expressions\<close>: \<^verbatim>\<open>register\<close>, \<^verbatim>\<open>threeopr\<close>, \<^verbatim>\<open>warning\<close>, \<^verbatim>\<open>ifelse\<close>, \<^verbatim>\<open>dyna_stack_array\<close>,
      \<^verbatim>\<open>inline\<close>, \<^verbatim>\<open>makefile\<close> and \<^verbatim>\<open>string\<close>.
    \<^item> \<open>Preprocessor\<close> and \<open>MacroPrograms\<close>: \<^verbatim>\<open>meta/meta.c\<close> and \<^verbatim>\<open>macro/macro.c\<close>.  Their macros and functions are
      token tables; the programs are what the preprocessor and a parser for the statements used make of them.
    \<^item> \<open>CppPrograms\<close>: \<^verbatim>\<open>c++/tls/main.cpp\<close> as a state machine of two threads, and the other programs of
      \<^verbatim>\<open>c++\<close>.  \<open>AcePrograms\<close>: \<^verbatim>\<open>signal/main.cpp\<close>, \<^verbatim>\<open>udpdgram/iovec.cpp\<close> and \<^verbatim>\<open>macros/macros.cpp\<close> of
      \<^verbatim>\<open>ace\<close>, on top of the ACE framework, whose functions are calls.
    \<^item> this theory: how the raw sender and the raw receiver work together.

  \<^bold>\<open>Interfaces.\<close>  Each contract that several pieces of code share is a locale, interpreted on the code:

    \<^item> \<open>serial_number\<close>: a comparison is the sign of the wrapped difference; its lemmas are RFC 1982.
      Interpreted for both widths and for both versions of the code.
    \<^item> \<open>fold_loop\<close>: the end-around carry loop keeps the residue modulo 65535; interpreted for the loops
      of \<open>Checksum\<close> and \<open>csum\<close>.
    \<^item> \<open>udp_checksummer\<close>: how the UDP checksum is computed over a pseudo header; interpreted for IPv4 and
      IPv6, and from it follows what a receiver computes.
    \<^item> \<open>scatter_send\<close>: what the second computation of the checksum leaves and why a receiver rejects what is sent; interpreted for
      both families.
    \<^item> \<open>tlv\<close>: a walk over length-prefixed records stays in its region and visits disjoint records;
      interpreted for netlink messages and route attributes.  \<open>tlv_codec\<close> extends it with an encoder: the walk over
      encoded records finds them all, in their order; interpreted for both again.
    \<^item> \<open>counter_loop\<close>: a loop that increments a bit field; interpreted for both loops of \<^verbatim>\<open>bits/bitincr.c\<close>.
    \<^item> \<open>fd_monitor\<close>: the discipline of open descriptors for any set of calls; interpreted for the socket calls
      and for \<open>cap\<close>.
    \<^item> \<open>line_loop\<close>: a loop that reads a line in each round refines a function on the list of lines; interpreted for
      the second loop of \<open>fgets\<close> and for the loops of \<open>stack\<close> and \<open>bss\<close>.

  \<^bold>\<open>What is shown.\<close>  \<open>Checksum\<close> refines the one's complement sum of RFC 1071 exactly for lengths up to 131074 bytes, and
  \<open>csum\<close> agrees with it there; the headers they leave are accepted by a receiver, and the functions of the header write nothing
  but their fields.  The packets of the raw programs have the
  fields and the checksum they should have, with the exact lengths up to which the buffer suffices.
  Safety of call sequences is stated with monitors: a monitor folds the history into a state and
  fails at a forbidden call.  \<open>sock_step\<close> follows the open descriptors, the monitor of \<open>Sftp\<close> the
  objects of libssh2, the one of \<open>Processes\<close> the capabilities.  The predicate \<open>wp\<close> of \<open>CIO\<close>
  with the rules \<open>wp_rules\<close> derives such properties along the program text, for every \<open>os\<close>.  Functional
  results on runs are exact equations for the logged calls.  For \<open>Signals\<close> the properties are
  invariants by rule induction over \<open>sig_step\<close>: they hold in every interleaving, and so does the isolation of the
  thread-local variables of \<open>tls\<close>, over \<open>tls_step\<close>.  Several theorems show
  where the code departs from what it means to do (a datagram no receiver accepts, a length that is
  not updated, sockets left open, an argument that is ignored, a race on a thread identifier, an option of
  \<open>waitpid\<close> that is always rejected, a check that returns although it holds no error, a received text that is printed without
  its end).
  Round trips: \<open>getroute\<close> shows every route of an answer that is encoded as the kernel does it, with the last attribute of each
  type; \<open>sftpdir\<close> shows the texts of all entries in their order, and an error of the server ends the listing like its end, and its outcome
  is decided by a single call; the times of
  \<open>aligned\<close> are exact to the microsecond although they are computed in floating point.  Every macro of the libssh2 headers and
  every call of the library by \<open>sftpdir\<close> is a call of a declared function with an argument of the declared type for each parameter.
  The headers of libssh2 define each of their basic types once on every system, except for one combination of compilers; on
  Linux every function is declared once although the headers include each other, and the format of 64-bit numbers is completed
  only where the system headers leave it open.
  The composed results join two programs: the parent of \<open>fgets\<close> shows what its child wrote, and \<open>server\<close>
  reports what \<open>rawudp\<close> sent.

  \<^bold>\<open>Loops and bounds.\<close>  Loops that end are total functions with a measure: the loops over buffers, the walks of
  \<open>Netlink\<close> (the rest of the region shrinks), the 16-bit loops of \<open>rawall\<close> and \<open>udpSendData\<close>, the
  \<open>2 ^ 32 - 1\<close> rounds of \<open>bitincr\<close>, which are computed by a lemma and not by evaluation.  Loops whose end depends on
  the environment have fuel and return \<open>Running\<close> when it is used up: \<open>server\<close> (shown to end within one
  round more than the packets received before a failure), the directory loops of \<open>sftpdir\<close> and
  \<open>filefds\<close>, the wait for a key of \<open>malloc\<close>, the wait for a signal of \<open>sched\<close>, the loops over input lines of
  \<open>fgets\<close>, \<open>stack\<close> and \<open>bss\<close> (one round more than there are lines is enough) the event loops of the ACE programs and the endless loops of
  \<open>cap\<close> and \<open>stack\<close>, which are shown to be running for every fuel.  The preprocessor and the parser have 500
  steps for the body of a function; each body of the two programs is evaluated within them.  Inclusions have a depth: \<open>None\<close> is a
  deeper one, and two levels are shown to be enough for \<open>sftpdir.c\<close>.

  \<^bold>\<open>Environment.\<close>  The kernel, libc's address and name functions, libssh2, libcap-ng and ACE are arguments.
  The contents of uninitialised buffers are arguments too.  An access outside an object, or a use of
  an indeterminate value the code cannot avoid, gives the outcome \<open>Undefined\<close>.

  \<^bold>\<open>Not modelled.\<close>  \<open>main\<close> of \<^verbatim>\<open>filefds/main.c\<close>, which does not compile; what the lines for Windows do when they run; the text of error messages of the
  library; the linkage of inline functions; blanks between the tokens of a stringized argument, which the programs do not
  produce; what the functions of libssh2 do, whose bodies are not in the repository; the overflow of
  a \<open>double\<close>, which no value of the programs reaches; the instantiation of templates; and everything in Java, Python
  or shell.
\<close>

section \<open>The sender and the receiver\<close>

text \<open>The datagram that a run of \<open>rawudp\<close> sends.\<close>

lemma rawudp_datagram:
  assumes "ip_flag a = IPTYPE_V6" "\<not> iovec_flag a"
    and "length (sin6_addr (from6 a)) = 16" "length (sin6_addr (to6 a)) = 16" "unat (u16ContentLen a) \<le> 4048"
    and sent: "SendTo fd d to \<in> set (calls (final (rawudp_run os s a) []))"
  shows "length d = 8 + unat (u16ContentLen a) \<and> plain_datagram (u16ContentLen a) d"
proof -
  have "SendTo fd d to \<in> set (map fst (call_log (final (rawudp_run os s a) [])))"
    using sent by (simp only: map_fst_call_log set_rev)
  from bound_run_sent [OF rawudp_v6_one_datagram [OF assms(1-5), of os s] this] show ?thesis
    by auto
qed

text \<open>C5: the two programs together.  When the datagram that \<open>rawudp\<close> sends over IPv6 arrives at \<open>server\<close>, without an
  IP header and from the source address of the sender, as the kernel delivers it to a raw socket, then the server
  reports that address, the full length, and the ports 12760 and 22760 of the sender in the columns for packets without an IP
  header, in whatever state of its loop it is.\<close>

theorem rawudp_reaches_server:
  assumes "ip_flag a = IPTYPE_V6" "\<not> iovec_flag a"
    and "length (sin6_addr (from6 a)) = 16" "length (sin6_addr (to6 a)) = 16" "unat (u16ContentLen a) \<le> 4048"
    and "SendTo fd d to \<in> set (calls (final (rawudp_run os s a) []))"
    and "os' h (RecvFrom fd' 4096 0) = \<lparr>sys_ret = int (length d), sys_errno = 0, sys_data = d, sys_addr = in6_bytes (from6 a)\<rparr>"
    and "length m = 4096" "length (sin6_addr f) = 16"
  shows "\<exists>tm p q. Printf server_report
      [ArgS tm, ArgS (ntop6 lc (sin6_addr (from6 a))), ArgI (8 + int (unat (u16ContentLen a))), ArgI no, p, q,
       ArgI 12760, ArgI 22760] \<in> set (final (server_loop os' lc fd' (Suc fuel) no m f) h)"
proof -
  have d: "length d = 8 + unat (u16ContentLen a)" "be_words (take 6 d) = [12760, 22760, 8 + unat (u16ContentLen a)]"
    using rawudp_datagram [OF assms(1-6)] by (simp_all add: plain_datagram_def)
  have "sin6_addr (stored_in6 (os' h (RecvFrom fd' 4096 0)) f) = sin6_addr (from6 a)"
    using assms(3,7,9) by (intro stored_in6_addr) simp_all
  then show ?thesis
    using server_round_shows [of os' h fd' d, OF _ _ d(2), of m lc f no fuel] assms(5,7,8) d(1) by simp
qed

theorem rawudp_reaches_server_witness:
  "\<exists>d tm p q. length d = 2057 \<and>
    Printf server_report
      [ArgS tm, ArgS (ntop6 libc_none (replicate 16 0)), ArgI 2057, ArgI 0, p, q, ArgI 12760, ArgI 22760]
      \<in> set (final (server_loop (\<lambda>h c. \<lparr>sys_ret = 2057, sys_errno = 0, sys_data = d,
          sys_addr = in6_bytes (zero_in6\<lparr>sin6_family := AF_INET6\<rparr>)\<rparr>) libc_none 5 1 0 (replicate 4096 0) zero_in6) [])"
proof -
  define a where "a = rawudp_defaults libc_none"
  have a: "ip_flag a = IPTYPE_V6" "\<not> iovec_flag a" "sin6_addr (from6 a) = replicate 16 0"
      "sin6_addr (to6 a) = replicate 16 0" "u16ContentLen a = 2049" "from6 a = zero_in6\<lparr>sin6_family := AF_INET6\<rparr>"
    by (simp_all add: a_def rawudp_defaults_def zero_in6_def inet_pton_def libc_none_def)
  obtain m where m: "build_v6 abPktInfo_init (replicate 16 0) (replicate 16 0) 2049 = Some m" "length m = 4096"
    using build_v6_valid [of abPktInfo_init "replicate 16 0" "replicate 16 0" 2049] by auto
  then obtain d where load: "load_bytes m 40 2057 = Some d"
    by (simp add: load_bytes_def)
  then have sent: "SendTo 3 d (SA6 ((to6 a)\<lparr>sin6_port := 0\<rparr>)) \<in> set (calls (final (rawudp_run (os_const 3) [] a) []))"
    using m(1) a by (simp add: rawudp_run_def sendV6_def final_bind result_bind os_const_def report_send_def
      unat_req_len c_layout Let_def)
  have "length d = 2057"
    using load by (auto simp: load_bytes_def split: if_splits)
  then show ?thesis
    using rawudp_reaches_server [OF a(1,2) _ _ _ sent, of
      "\<lambda>h c. \<lparr>sys_ret = 2057, sys_errno = 0, sys_data = d, sys_addr = in6_bytes (zero_in6\<lparr>sin6_family := AF_INET6\<rparr>)\<rparr>"
      "[]" 5 "replicate 4096 0" zero_in6 libc_none 0 0] a
    by (intro exI [of _ d]) (simp add: zero_in6_def)
qed

end
